(* ===== verification/Prelude.thy ===== *)
theory Prelude
  imports Main "HOL-Library.Word"
begin

text \<open>
  Shared vocabulary of the development: machine integer types, the outcome type of
  fallible and possibly non-terminating C code, ordered hash tables, C strings, and the
  generic lemmas on lists, words and tables that the component theories use.
\<close>

unbundle bit_operations_syntax

section \<open>Machine integers\<close>

type_synonym u8 = "8 word"
type_synonym u32 = "32 word"
type_synonym u64 = "64 word"
type_synonym zend_long = "64 word"

named_theorems table_simps \<open>look-up after every hash table operation\<close>
named_theorems wire_simps \<open>round trips and sizes of the wire primitives\<close>
named_theorems outcome_simps \<open>how outcomes combine\<close>

section \<open>Outcomes\<close>

text \<open>
  A C function that returns \<open>SUCCESS\<close> or \<open>FAILURE\<close> and may loop forever yields
  \<open>Ok\<close> with its results, \<open>Fail\<close> with the reason, or \<open>Diverge\<close> when the fuel given
  to its loops ran out.
\<close>

datatype ('e, 'a) outcome = Ok 'a | Fail 'e | Diverge

primrec obind :: "('e, 'a) outcome \<Rightarrow> ('a \<Rightarrow> ('e, 'b) outcome) \<Rightarrow> ('e, 'b) outcome" where
  "obind (Ok x) f = f x"
| "obind (Fail e) f = Fail e"
| "obind Diverge f = Diverge"

section \<open>C strings\<close>

text \<open>
  A PHP string is a byte string with an explicit length; a C function handed its
  \<open>char *\<close> sees the bytes before the first NUL only.
\<close>

definition cstr :: "string \<Rightarrow> string" where
  "cstr s = takeWhile (\<lambda>c. c \<noteq> CHR 0x00) s"

section \<open>Hash tables\<close>

text \<open>
  A Zend \<open>HashTable\<close> is an insertion-ordered dictionary: updating a present key keeps
  its position, a new key goes to the end.
\<close>

type_synonym ('k, 'v) htable = "('k \<times> 'v) list"

definition ht_find :: "('k, 'v) htable \<Rightarrow> 'k \<Rightarrow> 'v option" where
  "ht_find t k = map_of t k"

fun ht_update :: "('k, 'v) htable \<Rightarrow> 'k \<Rightarrow> 'v \<Rightarrow> ('k, 'v) htable" where
  "ht_update [] k v = [(k, v)]"
| "ht_update ((k', v') # t) k v =
     (if k' = k then (k, v) # t else (k', v') # ht_update t k v)"

definition ht_exists :: "('k, 'v) htable \<Rightarrow> 'k \<Rightarrow> bool" where
  "ht_exists t k = (ht_find t k \<noteq> None)"

definition ht_add :: "('k, 'v) htable \<Rightarrow> 'k \<Rightarrow> 'v \<Rightarrow> ('k, 'v) htable option" where
  "ht_add t k v = (if ht_exists t k then None else Some (t @ [(k, v)]))"

section \<open>Lemmas on machine integers\<close>

lemma unat_u8_less [simp]: "unat (w :: u8) < 256"
  using unsigned_less [of w, where ?'a = nat] by simp

lemma unat_u32_less [simp]: "unat (w :: u32) < 4294967296"
  using unsigned_less [of w, where ?'a = nat] by simp

lemma unat_u64_less [simp]: "unat (w :: u64) < 18446744073709551616"
  using unsigned_less [of w, where ?'a = nat] by simp

lemma bit_above:
  fixes x :: "'a::len word"
  assumes "x < 2 ^ k" "k < LENGTH('a)" "k \<le> n"
  shows "\<not> bit x n"
proof -
  have "unat (of_nat (2 ^ k) :: 'a word) = 2 ^ k"
    using assms(2) unfolding unat_of_nat by (intro mod_less) simp
  then have "unat x < 2 ^ k"
    using assms(1) by (simp add: word_less_nat_alt)
  also have "(2 :: nat) ^ k \<le> 2 ^ n" using assms(3) by simp
  finally have "\<not> bit (unat x) n" by (simp add: bit_iff_odd)
  then show ?thesis by (simp add: bit_unsigned_iff)
qed

section \<open>Lemmas on outcomes\<close>

lemma obind_eq_Ok [outcome_simps]:
  "obind x f = Ok y \<longleftrightarrow> (\<exists>a. x = Ok a \<and> f a = Ok y)"
  by (cases x) auto

lemma obind_assoc: "obind (obind x f) g = obind x (\<lambda>a. obind (f a) g)"
  by (cases x) auto

section \<open>Lemmas on tables\<close>

lemma ht_find_Nil [simp]: "ht_find [] k = None"
  by (simp add: ht_find_def)

lemma ht_find_Cons [simp]:
  "ht_find ((k', v) # t) k = (if k' = k then Some v else ht_find t k)"
  by (simp add: ht_find_def)

lemma ht_find_append:
  "ht_find (t @ u) k = (case ht_find t k of None \<Rightarrow> ht_find u k | Some v \<Rightarrow> Some v)"
  by (induction t) auto

lemma ht_find_update [table_simps]:
  "ht_find (ht_update t k v) k' = (if k' = k then Some v else ht_find t k')"
  by (induction t k v rule: ht_update.induct) auto

lemma ht_exists_update [table_simps]:
  "ht_exists (ht_update t k v) k' \<longleftrightarrow> k' = k \<or> ht_exists t k'"
  by (auto simp: ht_exists_def ht_find_update)

lemma ht_find_None_iff: "ht_find t k = None \<longleftrightarrow> k \<notin> fst ` set t"
  by (simp add: ht_find_def map_of_eq_None_iff)

lemma ht_add_Some_iff:
  "ht_add t k v = Some t' \<longleftrightarrow> ht_find t k = None \<and> t' = t @ [(k, v)]"
  by (auto simp: ht_add_def ht_exists_def)

lemma ht_find_add [table_simps]:
  "ht_add t k v = Some t' \<Longrightarrow> ht_find t' k' = (if k' = k then Some v else ht_find t k')"
  by (auto simp: ht_add_Some_iff ht_find_append split: option.split)

lemma distinct_keys_update [table_simps]:
  "distinct (map fst t) \<Longrightarrow> distinct (map fst (ht_update t k v))"
proof (induction t k v rule: ht_update.induct)
  case (2 k' v' t k v)
  have "fst ` set (ht_update t k v) = insert k (fst ` set t)"
    by (induction t k v rule: ht_update.induct) auto
  with 2 show ?case by auto
qed simp

section \<open>C string lemmas\<close>

lemma cstr_idem [simp]: "cstr (cstr s) = cstr s"
  by (simp add: cstr_def)

lemma cstr_no_nul: "CHR 0x00 \<notin> set (cstr s)"
  by (induction s) (auto simp: cstr_def)

lemma cstr_id: "CHR 0x00 \<notin> set s \<Longrightarrow> cstr s = s"
  unfolding cstr_def by (subst takeWhile_eq_all_conv) auto

section \<open>Step systems\<close>

text \<open>
  A component whose state only changes through its operations: what its initial states
  satisfy and every step keeps, every reachable state satisfies.
\<close>

locale step_system =
  fixes start :: "'s \<Rightarrow> bool"
    and step :: "'s \<Rightarrow> 's \<Rightarrow> bool"
    and inv :: "'s \<Rightarrow> bool"
  assumes start_inv: "start s \<Longrightarrow> inv s"
    and step_inv: "inv s \<Longrightarrow> step s t \<Longrightarrow> inv t"
begin

lemma steps_inv: "step\<^sup>*\<^sup>* s t \<Longrightarrow> inv s \<Longrightarrow> inv t"
  by (induction rule: rtranclp_induct) (blast intro: step_inv)+

lemma reachable_inv: "start s \<Longrightarrow> step\<^sup>*\<^sup>* s t \<Longrightarrow> inv t"
  by (blast intro: steps_inv start_inv)

end

end
