(* ===== verification/Zend.thy ===== *)
theory Zend
  imports Prelude
begin

text \<open>
  PHP values and the part of the Zend engine the extension calls.  Values are the cases
  of the engine's \<open>zval\<close>; arrays and property tables are ordered tables.  Engine functions
  whose code is not part of the repository are the fields of a record that every
  definition using them takes as an argument.
\<close>

section \<open>Values\<close>

datatype hkey = HStr string | HIdx u64

datatype zval =
    Z_Undef
  | Z_Null
  | Z_False
  | Z_True
  | Z_Long zend_long
  | Z_Double u64  \<comment> \<open>the IEEE bit pattern\<close>
  | Z_String string
  | Z_Array "(hkey \<times> zval) list"
  | Z_Object "(string \<times> zval) list"
  | Z_Resource zend_long
  | Z_Freed  \<comment> \<open>a counted value whose storage has been released\<close>

type_synonym php_array = "(hkey, zval) htable"

fun is_string :: "zval \<Rightarrow> bool" where
  "is_string (Z_String s) = True"
| "is_string v = False"

text \<open>\<^verbatim>\<open>Z_STR_P\<close>, only read after the type test.\<close>

fun z_str :: "zval \<Rightarrow> string" where
  "z_str (Z_String s) = s"
| "z_str v = []"

fun is_array :: "zval \<Rightarrow> bool" where
  "is_array (Z_Array t) = True"
| "is_array v = False"

fun is_object :: "zval \<Rightarrow> bool" where
  "is_object (Z_Object t) = True"
| "is_object v = False"

text \<open>\<^verbatim>\<open>zval_ptr_dtor\<close> on the last reference of a value: scalars have no storage.\<close>

definition refcounted :: "zval \<Rightarrow> bool" where
  "refcounted v \<longleftrightarrow>
     (case v of Z_String s \<Rightarrow> True | Z_Array t \<Rightarrow> True | Z_Object t \<Rightarrow> True | Z_Resource r \<Rightarrow> True
      | Z_Freed \<Rightarrow> True | _ \<Rightarrow> False)"

text \<open>\<^verbatim>\<open>zend_hash_str_find\<close> on a PHP array.\<close>

definition arr_find :: "php_array \<Rightarrow> string \<Rightarrow> zval option" where
  "arr_find t k = ht_find t (HStr k)"

text \<open>\<^verbatim>\<open>add_next_index_zval\<close>: the next free integer key.\<close>

fun next_index :: "php_array \<Rightarrow> u64 \<Rightarrow> u64" where
  "next_index [] n = n"
| "next_index ((HIdx i, v) # t) n = next_index t (if n \<le> i then i + 1 else n)"
| "next_index ((HStr s, v) # t) n = next_index t n"

definition arr_push :: "php_array \<Rightarrow> zval \<Rightarrow> php_array" where
  "arr_push t v = t @ [(HIdx (next_index t 0), v)]"

section \<open>The engine\<close>

record php_url =
  url_scheme :: "string option"
  url_host :: "string option"

record zend_api =
  zval_get_long :: "zval \<Rightarrow> zend_long"
  zval_get_double :: "zval \<Rightarrow> u64"
  zend_is_true :: "zval \<Rightarrow> bool"
  zend_is_callable :: "zval \<Rightarrow> bool"
  zend_read_property :: "zval \<Rightarrow> string \<Rightarrow> zval"
  memory_limit :: u64
  php_trim :: "string \<Rightarrow> string"
  php_url_parse_ex :: "string \<Rightarrow> php_url option"
  zend_string_h :: "string \<Rightarrow> u64"  \<comment> \<open>the hash word of a \<^verbatim>\<open>zend_string\<close>\<close>
  zend_atol :: "string \<Rightarrow> zend_long"
  zend_ini_parse_bool :: "string \<Rightarrow> bool"
  zend_strtod :: "string \<Rightarrow> u64"
  vcwd_access_ok :: "string \<Rightarrow> bool"

end
