(* ===== verification/Memory.thy ===== *)
theory Memory
  imports Prelude
begin

text \<open>
  The flat address space the decoder's pointers live in.  A pointer is a 64-bit
  address; reading an address outside the storage of the buffer is a fault.  Pointer
  arithmetic wraps at the top of the address space, as it does on the machine.
\<close>

type_synonym memory = "u64 \<Rightarrow> u8 option"

text \<open>
  The storage of a PHP string at address \<open>base\<close>: its bytes, then the NUL byte that
  the engine puts behind every string.
\<close>

definition string_storage :: "u64 \<Rightarrow> u8 list \<Rightarrow> memory" where
  "string_storage base bs a =
     (let i = unat (a - base) in
      if i < length bs then Some (bs ! i) else if i = length bs then Some 0 else None)"

text \<open>\<open>holds_at m p bs\<close>: the bytes \<open>bs\<close> stand at \<open>p\<close> and end below the top of the address space.\<close>

definition holds_at :: "memory \<Rightarrow> u64 \<Rightarrow> u8 list \<Rightarrow> bool" where
  "holds_at m p bs \<longleftrightarrow>
     unat p + length bs < 2 ^ 64 \<and> (\<forall>i < length bs. m (p + of_nat i) = Some (bs ! i))"

definition ptr_add :: "u64 \<Rightarrow> nat \<Rightarrow> u64" where
  "ptr_add p n = p + of_nat n"

section \<open>Addresses\<close>

lemma ptr_add_0 [simp]: "ptr_add p 0 = p"
  by (simp add: ptr_add_def)

lemma ptr_add_add [simp]: "ptr_add (ptr_add p m) n = ptr_add p (m + n)"
  by (simp add: ptr_add_def add.assoc)

lemma ptr_add_1: "p + 1 = ptr_add p 1"
  by (simp add: ptr_add_def)

lemma unat_ptr_add: "unat p + n < 2 ^ 64 \<Longrightarrow> unat (ptr_add p n) = unat p + n"
  unfolding ptr_add_def by (simp add: unat_word_ariths unat_of_nat take_bit_eq_mod)

lemma ptr_add_less_iff:
  assumes "unat p + m < 2 ^ 64" and "unat p + n < 2 ^ 64"
  shows "ptr_add p m < ptr_add p n \<longleftrightarrow> m < n"
  using assms by (simp add: word_less_nat_alt unat_ptr_add)

lemma ptr_add_le_iff:
  assumes "unat p + m < 2 ^ 64" and "unat p + n < 2 ^ 64"
  shows "ptr_add p m \<le> ptr_add p n \<longleftrightarrow> m \<le> n"
  using assms by (simp add: word_le_nat_alt unat_ptr_add)

lemma ptr_add_inj:
  assumes "unat p + m < 2 ^ 64" and "unat p + n < 2 ^ 64"
  shows "ptr_add p m = ptr_add p n \<longleftrightarrow> m = n"
  using assms by (metis unat_ptr_add add_left_cancel)

section \<open>Bytes in memory\<close>

lemma holds_at_Nil [simp]: "holds_at m p [] \<longleftrightarrow> True"
  by (simp add: holds_at_def)

lemma holds_at_Cons:
  "holds_at m p (b # bs) \<longleftrightarrow>
     unat p + Suc (length bs) < 2 ^ 64 \<and> m p = Some b \<and> holds_at m (ptr_add p 1) bs"
proof -
  have "(\<forall>i < Suc (length bs). m (p + of_nat i) = Some ((b # bs) ! i)) \<longleftrightarrow>
        m p = Some b \<and> (\<forall>i < length bs. m (ptr_add p 1 + of_nat i) = Some (bs ! i))"
    by (auto simp: less_Suc_eq_0_disj ptr_add_def add.assoc)
  moreover have "unat p + Suc (length bs) < 2 ^ 64 \<Longrightarrow> unat (ptr_add p 1) = unat p + 1"
    by (rule unat_ptr_add) simp
  ultimately show ?thesis
    by (auto simp: holds_at_def)
qed

lemma holds_at_append:
  "holds_at m p (xs @ ys) \<longleftrightarrow>
     unat p + length xs + length ys < 2 ^ 64 \<and> holds_at m p xs \<and> holds_at m (ptr_add p (length xs)) ys"
proof (induction xs arbitrary: p)
  case Nil
  then show ?case by (auto simp: holds_at_def)
next
  case (Cons x xs)
  have "unat p + Suc (length xs) + length ys < 2 ^ 64 \<Longrightarrow> unat (ptr_add p 1) = unat p + 1"
    by (rule unat_ptr_add) simp
  then show ?case
    by (auto simp: holds_at_Cons Cons.IH add.assoc)
qed

lemma holds_at_bound: "holds_at m p bs \<Longrightarrow> unat p + length bs < 2 ^ 64"
  by (simp add: holds_at_def)

lemma holds_at_string_storage:
  assumes "unat base + length bs + 1 < 2 ^ 64"
  shows "holds_at (string_storage base bs) base (bs @ [0])"
proof -
  have "string_storage base bs (base + of_nat i) = Some ((bs @ [0]) ! i)" if "i < Suc (length bs)" for i
  proof -
    have "unat (of_nat i :: u64) = i"
      using that assms by (simp add: unat_of_nat take_bit_eq_mod)
    then show ?thesis
      using that by (auto simp: string_storage_def nth_append)
  qed
  then show ?thesis
    using assms by (auto simp: holds_at_def)
qed

lemma string_storage_None:
  assumes "unat base + length bs + 1 < 2 ^ 64" and "unat a < unat base \<or> unat base + length bs < unat a"
  shows "string_storage base bs a = None"
proof -
  have "length bs < unat (a - base)"
    using assms unat_u64_less [of a] unat_u64_less [of base]
    by (auto simp: unat_sub_if_size word_size word_le_nat_alt)
  then show ?thesis by (simp add: string_storage_def)
qed

end
