(* ===== verification/IIBIN_Wire.thy ===== *)
theory IIBIN_Wire
  imports Memory
begin

text \<open>
  The wire primitives of the IIBIN serializer, the inline functions of
  \<^verbatim>\<open>extension/include/iibin/iibin_internal.h\<close>: base-128 varints, little-endian fixed
  32- and 64-bit integers and the zigzag maps.  Encoders append to a byte buffer,
  decoders read from memory between a position and an end pointer.  Each decoder is
  shown to refine a parser over byte lists, and each parser to invert its encoder.
\<close>

datatype wire_fail =
    Short  \<comment> \<open>the C function returned 0\<close>
  | Fault  \<comment> \<open>it read outside the storage of the buffer\<close>

section \<open>Encoders\<close>

function encode_varint_loop :: "nat \<Rightarrow> u64 \<Rightarrow> u8 list \<Rightarrow> u8 list" where
  "encode_varint_loop i value temp_buf =
     (let b = ucast (value AND 0x7F) :: u8;
          value = drop_bit 7 value;
          b = (if value > 0 then b OR 0x80 else b);
          temp_buf = temp_buf @ [b];
          i = Suc i
      in if value > 0 \<and> i < 10 then encode_varint_loop i value temp_buf else temp_buf)"
  by pat_completeness auto
termination
  by (relation "measure (\<lambda>(i, _, _). 10 - i)") auto

declare encode_varint_loop.simps [simp del]

definition quicpro_proto_encode_varint :: "u8 list \<Rightarrow> u64 \<Rightarrow> u8 list" where
  "quicpro_proto_encode_varint buf value = buf @ encode_varint_loop 0 value []"

definition quicpro_proto_encode_fixed32 :: "u8 list \<Rightarrow> u32 \<Rightarrow> u8 list" where
  "quicpro_proto_encode_fixed32 buf value =
     buf @ [ucast value, ucast (drop_bit 8 value), ucast (drop_bit 16 value),
            ucast (drop_bit 24 value)]"

definition quicpro_proto_encode_fixed64 :: "u8 list \<Rightarrow> u64 \<Rightarrow> u8 list" where
  "quicpro_proto_encode_fixed64 buf value =
     buf @ [ucast value, ucast (drop_bit 8 value), ucast (drop_bit 16 value),
            ucast (drop_bit 24 value), ucast (drop_bit 32 value), ucast (drop_bit 40 value),
            ucast (drop_bit 48 value), ucast (drop_bit 56 value)]"

definition quicpro_proto_zigzag_encode32 :: "u32 \<Rightarrow> u32" where
  "quicpro_proto_zigzag_encode32 n = push_bit 1 n XOR signed_drop_bit 31 n"

definition quicpro_proto_zigzag_decode32 :: "u32 \<Rightarrow> u32" where
  "quicpro_proto_zigzag_decode32 n = drop_bit 1 n XOR (- (n AND 1))"

definition quicpro_proto_zigzag_encode64 :: "u64 \<Rightarrow> u64" where
  "quicpro_proto_zigzag_encode64 n = push_bit 1 n XOR signed_drop_bit 63 n"

definition quicpro_proto_zigzag_decode64 :: "u64 \<Rightarrow> u64" where
  "quicpro_proto_zigzag_decode64 n = drop_bit 1 n XOR (- (n AND 1))"

section \<open>Decoders\<close>

text \<open>
  A decoder takes the memory, the current position and the end of the buffer; on success
  it gives the value and the advanced position.  The first argument of the loop is the
  number of iterations left of the ten the C loop makes.
\<close>

fun decode_varint_loop ::
  "nat \<Rightarrow> memory \<Rightarrow> u64 \<Rightarrow> u64 \<Rightarrow> nat \<Rightarrow> u64 \<Rightarrow> wire_fail + u64 \<times> u64" where
  "decode_varint_loop 0 m p buf_end shift result = Inl Short"
| "decode_varint_loop (Suc n) m p buf_end shift result =
     (if p \<ge> buf_end then Inl Short
      else case m p of
        None \<Rightarrow> Inl Fault
      | Some b \<Rightarrow>
          (let result = result OR push_bit shift (ucast (b AND 0x7F)) in
           if b AND 0x80 = 0 then Inr (result, p + 1)
           else decode_varint_loop n m (p + 1) buf_end (shift + 7) result))"

definition quicpro_proto_decode_varint :: "memory \<Rightarrow> u64 \<Rightarrow> u64 \<Rightarrow> wire_fail + u64 \<times> u64" where
  "quicpro_proto_decode_varint m p buf_end = decode_varint_loop 10 m p buf_end 0 0"

fun load_bytes :: "memory \<Rightarrow> u64 \<Rightarrow> nat \<Rightarrow> u8 list option" where
  "load_bytes m p 0 = Some []"
| "load_bytes m p (Suc n) =
     (case m p of
        None \<Rightarrow> None
      | Some b \<Rightarrow> map_option (\<lambda>bs. b # bs) (load_bytes m (p + 1) n))"

definition quicpro_proto_decode_fixed32 :: "memory \<Rightarrow> u64 \<Rightarrow> u64 \<Rightarrow> wire_fail + u32 \<times> u64" where
  "quicpro_proto_decode_fixed32 m p buf_end =
     (if p + 4 > buf_end then Inl Short
      else case load_bytes m p 4 of
        None \<Rightarrow> Inl Fault
      | Some b \<Rightarrow>
          Inr (ucast (b ! 0) OR push_bit 8 (ucast (b ! 1)) OR push_bit 16 (ucast (b ! 2)) OR
               push_bit 24 (ucast (b ! 3)), p + 4))"

definition quicpro_proto_decode_fixed64 :: "memory \<Rightarrow> u64 \<Rightarrow> u64 \<Rightarrow> wire_fail + u64 \<times> u64" where
  "quicpro_proto_decode_fixed64 m p buf_end =
     (if p + 8 > buf_end then Inl Short
      else case load_bytes m p 8 of
        None \<Rightarrow> Inl Fault
      | Some b \<Rightarrow>
          Inr (ucast (b ! 0) OR push_bit 8 (ucast (b ! 1)) OR push_bit 16 (ucast (b ! 2)) OR
               push_bit 24 (ucast (b ! 3)) OR push_bit 32 (ucast (b ! 4)) OR
               push_bit 40 (ucast (b ! 5)) OR push_bit 48 (ucast (b ! 6)) OR
               push_bit 56 (ucast (b ! 7)), p + 8))"

section \<open>Reference codec over byte lists\<close>

text \<open>Base-128 digits, least significant first; the fuel is the number of bytes allowed.\<close>

fun varint_bytes :: "nat \<Rightarrow> u64 \<Rightarrow> u8 list" where
  "varint_bytes 0 v = []"
| "varint_bytes (Suc n) v =
     (if drop_bit 7 v = 0 then [ucast (v AND 0x7F)]
      else (ucast (v AND 0x7F) OR 0x80) # varint_bytes n (drop_bit 7 v))"

fun varint_parse :: "nat \<Rightarrow> u8 list \<Rightarrow> (u64 \<times> u8 list) option" where
  "varint_parse 0 bs = None"
| "varint_parse (Suc n) [] = None"
| "varint_parse (Suc n) (b # bs) =
     (if b AND 0x80 = 0 then Some (ucast (b AND 0x7F), bs)
      else map_option (\<lambda>(v, r). (ucast (b AND 0x7F) OR push_bit 7 v, r)) (varint_parse n bs))"

text \<open>Little-endian integers of \<open>n\<close> bytes.\<close>

fun le_bytes :: "nat \<Rightarrow> 'a::len word \<Rightarrow> u8 list" where
  "le_bytes 0 v = []"
| "le_bytes (Suc n) v = ucast v # le_bytes n (drop_bit 8 v)"

fun le_parse :: "nat \<Rightarrow> u8 list \<Rightarrow> ('a::len word \<times> u8 list) option" where
  "le_parse 0 bs = Some (0, bs)"
| "le_parse (Suc n) [] = None"
| "le_parse (Suc n) (b # bs) =
     map_option (\<lambda>(v, r). (ucast b OR push_bit 8 v, r)) (le_parse n bs)"

text \<open>A sequence of items read until the bytes run out.\<close>

fun parse_seq :: "(u8 list \<Rightarrow> ('v \<times> u8 list) option) \<Rightarrow> nat \<Rightarrow> u8 list \<Rightarrow> 'v list option" where
  "parse_seq p n [] = Some []"
| "parse_seq p 0 (b # bs) = None"
| "parse_seq p (Suc n) (b # bs) =
     (case p (b # bs) of
        None \<Rightarrow> None
      | Some (v, r) \<Rightarrow> map_option (\<lambda>vs. v # vs) (parse_seq p n r))"

section \<open>Interface of a codec\<close>

locale wire_codec =
  fixes enc :: "'v \<Rightarrow> u8 list"
    and parse :: "u8 list \<Rightarrow> ('v \<times> u8 list) option"
  assumes parse_enc: "parse (enc v @ r) = Some (v, r)"
    and enc_nonempty: "enc v \<noteq> []"
begin

lemma parse_seq_concat:
  "length vs \<le> n \<Longrightarrow> parse_seq parse n (concat (map enc vs)) = Some vs"
proof (induction vs arbitrary: n)
  case Nil
  then show ?case by simp
next
  case (Cons v vs)
  then obtain k where n: "n = Suc k" and k: "length vs \<le> k"
    by (cases n) auto
  obtain b bs where e: "enc v = b # bs"
    using enc_nonempty [of v] by (cases "enc v") auto
  show ?case
    using Cons.IH [OF k] parse_enc [of v "concat (map enc vs)"] by (simp add: n e)
qed

lemma enc_inj: "enc v = enc w \<Longrightarrow> v = w"
  using parse_enc [of v "[]"] parse_enc [of w "[]"] by simp

end

section \<open>Varints\<close>

lemma and_7F [simp]: "(v :: 'a::len word) AND 0x7F = take_bit 7 v"
  by (simp add: take_bit_eq_mask mask_eq_exp_minus_1)

lemma and_80_eq_0 [simp]: "(b :: u8) AND 0x80 = 0 \<longleftrightarrow> \<not> bit b 7"
  using and_exp_eq_0_iff_not_bit [of b 7] by simp

lemma bit_or_80 [simp]: "bit ((b :: u8) OR 0x80) n \<longleftrightarrow> n = 7 \<or> bit b n"
proof -
  have "bit (0x80 :: u8) n \<longleftrightarrow> n = 7"
    using bit_exp_iff [of 7 n, where ?'a = "8 word"] by (auto simp: possible_bit_def)
  then show ?thesis by (auto simp: bit_or_iff)
qed

lemma digit_low: "ucast (take_bit 7 (ucast (take_bit 7 v) :: u8)) = take_bit 7 (v :: u64)"
  by (rule bit_word_eqI) (auto simp: bit_simps)

lemma take_7_or_rest: "take_bit 7 v OR push_bit 7 (drop_bit 7 v) = (v :: u64)"
proof (rule bit_word_eqI)
  fix n :: nat
  show "bit (take_bit 7 v OR push_bit 7 (drop_bit 7 v)) n \<longleftrightarrow> bit v n"
    by (cases "n < 7") (auto simp: bit_simps dest: bit_imp_le_length)
qed

lemma drop_7_zero: "drop_bit 7 v = 0 \<Longrightarrow> take_bit 7 v = (v :: u64)"
  using take_7_or_rest [of v] by simp

lemma drop_7_not_bit: "drop_bit 7 v = 0 \<Longrightarrow> \<not> bit (v :: u64) 7"
  using drop_7_zero [of v] bit_take_bit_iff [of 7 v 7] by simp

lemma drop_7_bound:
  assumes "unat v < 2 ^ (7 * Suc n)" shows "unat (drop_bit 7 (v :: u64)) < 2 ^ (7 * n)"
proof -
  have "unat (drop_bit 7 v) = unat v div 2 ^ 7"
    by (simp only: unat_drop_bit_eq drop_bit_eq_div [where ?'a = nat])
  also have "\<dots> < 2 ^ (7 * n)"
    using assms by (simp add: less_mult_imp_div_less power_add)
  finally show ?thesis .
qed

lemma varint_parse_bytes:
  "unat v < 2 ^ (7 * n) \<Longrightarrow> 0 < n \<Longrightarrow> varint_parse n (varint_bytes n v @ r) = Some (v, r)"
proof (induction n arbitrary: v)
  case 0
  then show ?case by simp
next
  case (Suc n)
  show ?case
  proof (cases "drop_bit 7 v = 0")
    case True
    with digit_low [of v] drop_7_zero [OF True] show ?thesis
      by (simp add: bit_simps drop_7_not_bit)
  next
    case False
    have "n \<noteq> 0"
    proof
      assume "n = 0"
      then have "unat (drop_bit 7 v) < 1" using drop_7_bound [OF Suc.prems(1)] by simp
      with False show False by (simp add: unat_eq_0)
    qed
    with False drop_7_bound [OF Suc.prems(1)] Suc.IH show ?thesis
      by (simp add: bit_simps digit_low take_7_or_rest)
  qed
qed

lemma encode_varint_loop_bytes:
  "i + n = 10 \<Longrightarrow> 0 < n \<Longrightarrow> encode_varint_loop i v t = t @ varint_bytes n v"
proof (induction n arbitrary: i v t)
  case 0
  then show ?case by simp
next
  case (Suc n)
  show ?case
  proof (cases "n = 0")
    case True
    with Suc.prems have "i = 9" by simp
    then show ?thesis using True
      by (simp add: encode_varint_loop.simps [of 9] Let_def word_neq_0_conv)
  next
    case False
    with Suc.prems have "Suc i + n = 10" "Suc i < 10" by simp_all
    with False Suc.IH [of "Suc i"] show ?thesis
      by (simp add: encode_varint_loop.simps [of i] Let_def word_neq_0_conv)
  qed
qed

lemma encode_varint_eq: "quicpro_proto_encode_varint buf v = buf @ varint_bytes 10 v"
  by (simp add: quicpro_proto_encode_varint_def encode_varint_loop_bytes)

lemma varint_parse_enc: "varint_parse 10 (varint_bytes 10 v @ r) = Some (v, r)"
proof (rule varint_parse_bytes)
  show "unat v < 2 ^ (7 * 10)" by (rule less_trans [OF unat_u64_less]) simp
qed simp

lemma length_varint_bytes: "length (varint_bytes n v) \<le> n"
  by (induction n v rule: varint_bytes.induct) auto

lemma varint_bytes_nonempty: "0 < n \<Longrightarrow> varint_bytes n v \<noteq> []"
  by (cases n) auto

interpretation varint: wire_codec "varint_bytes 10" "varint_parse 10"
  by unfold_locales (simp_all add: varint_parse_enc varint_bytes_nonempty)

lemma varint_parse_consumes:
  "varint_parse n bs = Some (v, r) \<Longrightarrow> \<exists>u. bs = u @ r \<and> u \<noteq> [] \<and> length u \<le> n"
proof (induction n bs arbitrary: v rule: varint_parse.induct)
  case (3 n b bs)
  show ?case
  proof (cases "bit b 7")
    case False
    with 3 show ?thesis by (intro exI [of _ "[b]"]) auto
  next
    case True
    with 3 obtain w where "varint_parse n bs = Some (w, r)"
      by auto
    with 3 True obtain u where "bs = u @ r" "length u \<le> n"
      by auto
    then show ?thesis by (intro exI [of _ "b # u"]) auto
  qed
qed auto

lemma push_bit_or: "push_bit n (a OR b) = push_bit n a OR push_bit n (b :: u64)"
  by (rule bit_word_eqI) (auto simp: bit_simps)

lemma decode_varint_loop_refines:
  assumes "holds_at m p bs" and "buf_end = ptr_add p (length bs)"
  shows "decode_varint_loop n m p buf_end shift result =
    (case varint_parse n bs of
       None \<Rightarrow> Inl Short
     | Some (v, r) \<Rightarrow> Inr (result OR push_bit shift v, ptr_add p (length bs - length r)))"
  using assms
proof (induction n bs arbitrary: p shift result rule: varint_parse.induct)
  case (1 bs)
  then show ?case by simp
next
  case (2 n)
  then show ?case by simp
next
  case (3 n b bs)
  from 3(2) have b: "m p = Some b" and rest: "holds_at m (ptr_add p 1) bs"
    and bound: "unat p + Suc (length bs) < 2 ^ 64"
    by (auto simp: holds_at_Cons)
  have end': "buf_end = ptr_add (ptr_add p 1) (length bs)"
    using 3(3) by simp
  have lt: "p < buf_end"
    using bound 3(3) by (simp add: word_less_nat_alt unat_ptr_add)
  show ?case
  proof (cases "bit b 7")
    case False
    with b lt show ?thesis by (simp add: not_le ptr_add_1)
  next
    case True
    have IH: "decode_varint_loop n m (ptr_add p 1) buf_end (shift + 7) res =
      (case varint_parse n bs of
         None \<Rightarrow> Inl Short
       | Some (v, r) \<Rightarrow> Inr (res OR push_bit (shift + 7) v, ptr_add (ptr_add p 1) (length bs - length r)))" for res
      using 3(1) [OF _ rest end'] True by simp
    have len: "length r \<le> length bs" if "varint_parse n bs = Some (v, r)" for v r
      using varint_parse_consumes [OF that] by auto
    show ?thesis
      using b lt True IH
      by (auto simp: not_le ptr_add_1 push_bit_or or.assoc Suc_diff_le dest: len split: option.split)
  qed
qed

lemma decode_varint_refines:
  assumes "holds_at m p bs" and "buf_end = ptr_add p (length bs)"
  shows "quicpro_proto_decode_varint m p buf_end =
    (case varint_parse 10 bs of
       None \<Rightarrow> Inl Short
     | Some (v, r) \<Rightarrow> Inr (v, ptr_add p (length bs - length r)))"
  using decode_varint_loop_refines [OF assms, of 10 0 0]
  by (simp add: quicpro_proto_decode_varint_def split: option.split)

section \<open>Fixed width integers\<close>

lemma le_step: "ucast (ucast v :: u8) OR push_bit 8 (take_bit n (drop_bit 8 v)) = take_bit (8 + n) (v :: 'a::len word)"
proof (rule bit_word_eqI)
  fix k :: nat
  show "bit (ucast (ucast v :: u8) OR push_bit 8 (take_bit n (drop_bit 8 v))) k \<longleftrightarrow> bit (take_bit (8 + n) v) k"
    by (cases "k < 8") (auto simp: bit_simps dest: bit_imp_le_length)
qed

lemma le_parse_bytes: "le_parse n (le_bytes n v @ r) = Some (take_bit (8 * n) v, r)"
  by (induction n arbitrary: v) (simp_all add: le_step)

lemma length_le_bytes [simp]: "length (le_bytes n v) = n"
  by (induction n arbitrary: v) auto

lemma le_parse_short: "length bs < n \<Longrightarrow> le_parse n bs = None"
  by (induction n bs rule: le_parse.induct) auto

lemma take_bit_full: "LENGTH('a) \<le> n \<Longrightarrow> take_bit n (v :: 'a::len word) = v"
  by (rule bit_word_eqI) (auto simp: bit_simps)

lemma le_bytes_numeral: "le_bytes (numeral k) v = ucast v # le_bytes (pred_numeral k) (drop_bit 8 v)"
  by (simp add: numeral_eq_Suc)

lemma le_parse_numeral:
  "le_parse (numeral k) (b # bs) = map_option (\<lambda>(v, r). (ucast b OR push_bit 8 v, r)) (le_parse (pred_numeral k) bs)"
  by (simp add: numeral_eq_Suc)

lemma le_bytes_4: "le_bytes 4 v = [ucast v, ucast (drop_bit 8 v), ucast (drop_bit 16 v), ucast (drop_bit 24 v)]"
  by (simp add: le_bytes_numeral drop_bit_drop_bit)

lemma le_bytes_8: "le_bytes 8 v = [ucast v, ucast (drop_bit 8 v), ucast (drop_bit 16 v), ucast (drop_bit 24 v),
     ucast (drop_bit 32 v), ucast (drop_bit 40 v), ucast (drop_bit 48 v), ucast (drop_bit 56 v)]"
  by (simp add: le_bytes_numeral drop_bit_drop_bit)

lemma le_bytes_eq_Nil [simp]: "le_bytes n v = [] \<longleftrightarrow> n = 0"
  by (cases n) auto

lemma load_bytes_holds: "holds_at m p (bs @ r) \<Longrightarrow> n = length bs \<Longrightarrow> load_bytes m p n = Some bs"
  by (induction bs arbitrary: p n) (auto simp: holds_at_Cons ptr_add_1)

lemma encode_fixed32_eq: "quicpro_proto_encode_fixed32 buf v = buf @ le_bytes 4 v"
  by (simp add: quicpro_proto_encode_fixed32_def le_bytes_4)

lemma encode_fixed64_eq: "quicpro_proto_encode_fixed64 buf v = buf @ le_bytes 8 v"
  by (simp add: quicpro_proto_encode_fixed64_def le_bytes_8)

interpretation fixed32: wire_codec "le_bytes 4 :: u32 \<Rightarrow> u8 list" "le_parse 4"
  by unfold_locales (simp_all add: le_parse_bytes take_bit_full)

interpretation fixed64: wire_codec "le_bytes 8 :: u64 \<Rightarrow> u8 list" "le_parse 8"
  by unfold_locales (simp_all add: le_parse_bytes take_bit_full)

lemma push_bit_or32: "push_bit n (a OR b) = push_bit n a OR push_bit n (b :: u32)"
  by (rule bit_word_eqI) (auto simp: bit_simps)

lemma list_of_4: "4 \<le> length bs \<Longrightarrow> \<exists>a b c d r. bs = a # b # c # d # r"
  by (cases bs; cases "tl bs"; cases "tl (tl bs)"; cases "tl (tl (tl bs))") auto

lemma ptr_add_numeral: "p + numeral k = ptr_add p (numeral k)"
  by (simp add: ptr_add_def)

lemma decode_fixed32_refines:
  assumes "holds_at m p bs" and "buf_end = ptr_add p (length bs)" and "unat p + length bs + 4 < 2 ^ 64"
  shows "quicpro_proto_decode_fixed32 m p buf_end =
    (case le_parse 4 bs of
       None \<Rightarrow> Inl Short
     | Some (v, r) \<Rightarrow> Inr (v, ptr_add p (length bs - length r)))"
proof -
  have guard: "p + 4 > buf_end \<longleftrightarrow> length bs < 4"
    using assms(2,3) by (simp add: ptr_add_numeral ptr_add_less_iff)
  show ?thesis
  proof (cases "length bs < 4")
    case True
    with guard show ?thesis by (simp add: quicpro_proto_decode_fixed32_def le_parse_short)
  next
    case False
    then obtain a b c d r where bs: "bs = [a, b, c, d] @ r"
      using list_of_4 [of bs] by auto
    have "load_bytes m p 4 = Some [a, b, c, d]"
      using load_bytes_holds [of m p "[a, b, c, d]" r 4] assms(1) bs by simp
    moreover have "le_parse 4 bs = Some (ucast a OR push_bit 8 (ucast b) OR push_bit 16 (ucast c) OR
               push_bit 24 (ucast d) :: u32, r)"
      by (simp add: bs le_parse_numeral push_bit_or32 or.assoc)
    ultimately show ?thesis
      using False guard by (simp add: quicpro_proto_decode_fixed32_def bs ptr_add_numeral)
  qed
qed

lemma list_of_8:
  assumes "8 \<le> length bs"
  shows "\<exists>a b c d e f g h r. bs = a # b # c # d # e # f # g # h # r"
proof -
  obtain a b c d r where "bs = a # b # c # d # r"
    using assms list_of_4 [of bs] by auto
  moreover from this assms obtain e f g h r' where "r = e # f # g # h # r'"
    using list_of_4 [of r] by auto
  ultimately show ?thesis by blast
qed

lemma decode_fixed64_refines:
  assumes "holds_at m p bs" and "buf_end = ptr_add p (length bs)" and "unat p + length bs + 8 < 2 ^ 64"
  shows "quicpro_proto_decode_fixed64 m p buf_end =
    (case le_parse 8 bs of
       None \<Rightarrow> Inl Short
     | Some (v, r) \<Rightarrow> Inr (v, ptr_add p (length bs - length r)))"
proof -
  have guard: "p + 8 > buf_end \<longleftrightarrow> length bs < 8"
    using assms(2,3) by (simp add: ptr_add_numeral ptr_add_less_iff)
  show ?thesis
  proof (cases "length bs < 8")
    case True
    with guard show ?thesis by (simp add: quicpro_proto_decode_fixed64_def le_parse_short)
  next
    case False
    then obtain a b c d e f g h r where bs: "bs = [a, b, c, d, e, f, g, h] @ r"
      using list_of_8 [of bs] by auto
    have "load_bytes m p 8 = Some [a, b, c, d, e, f, g, h]"
      using load_bytes_holds [of m p "[a, b, c, d, e, f, g, h]" r 8] assms(1) bs by simp
    moreover have "le_parse 8 bs = Some (ucast a OR push_bit 8 (ucast b) OR push_bit 16 (ucast c) OR
               push_bit 24 (ucast d) OR push_bit 32 (ucast e) OR push_bit 40 (ucast f) OR
               push_bit 48 (ucast g) OR push_bit 56 (ucast h) :: u64, r)"
      by (simp add: bs le_parse_numeral push_bit_or or.assoc)
    ultimately show ?thesis
      using False guard by (simp add: quicpro_proto_decode_fixed64_def bs ptr_add_numeral)
  qed
qed

lemma le_parse_consumes:
  fixes v :: "'a::len word"
  shows "le_parse n bs = Some (v, r) \<Longrightarrow> \<exists>u. bs = u @ r \<and> length u = n"
proof (induction n bs arbitrary: v rule: le_parse.induct)
  case (3 n b bs)
  then obtain w :: "'a word" where "le_parse n bs = Some (w, r)"
    by auto
  with 3 obtain u where "bs = u @ r" "length u = n"
    by auto
  then show ?case by (intro exI [of _ "b # u"]) auto
qed auto

section \<open>Zigzag\<close>

lemma and_1_neg: "- ((n :: 'a::len word) AND 1) = (if bit n 0 then - 1 else 0)"
  by (simp add: and_one_eq mod_2_eq_odd bit_0)

lemma bit_zigzag_encode32:
  "bit (quicpro_proto_zigzag_encode32 n) k \<longleftrightarrow> k < 32 \<and> ((0 < k \<and> bit n (k - 1)) \<noteq> bit n 31)"
  unfolding quicpro_proto_zigzag_encode32_def bit_xor_iff bit_push_bit_iff bit_signed_drop_bit_iff
  by (cases k) (auto simp: possible_bit_def dest: bit_imp_le_length)

lemma bit_zigzag_decode32:
  "bit (quicpro_proto_zigzag_decode32 n) k \<longleftrightarrow> k < 32 \<and> bit n (Suc k) \<noteq> bit n 0"
  unfolding quicpro_proto_zigzag_decode32_def bit_xor_iff and_1_neg
  by (auto simp: bit_simps dest: bit_imp_le_length)

lemma zigzag32: "quicpro_proto_zigzag_decode32 (quicpro_proto_zigzag_encode32 n) = n"
proof (rule bit_word_eqI)
  fix k assume "k < LENGTH(32)"
  then show "bit (quicpro_proto_zigzag_decode32 (quicpro_proto_zigzag_encode32 n)) k = bit n k"
    by (cases "k = 31") (auto simp: bit_zigzag_decode32 bit_zigzag_encode32)
qed

lemma bit_zigzag_encode64:
  "bit (quicpro_proto_zigzag_encode64 n) k \<longleftrightarrow> k < 64 \<and> ((0 < k \<and> bit n (k - 1)) \<noteq> bit n 63)"
  unfolding quicpro_proto_zigzag_encode64_def bit_xor_iff bit_push_bit_iff bit_signed_drop_bit_iff
  by (cases k) (auto simp: possible_bit_def dest: bit_imp_le_length)

lemma bit_zigzag_decode64:
  "bit (quicpro_proto_zigzag_decode64 n) k \<longleftrightarrow> k < 64 \<and> bit n (Suc k) \<noteq> bit n 0"
  unfolding quicpro_proto_zigzag_decode64_def bit_xor_iff and_1_neg
  by (auto simp: bit_simps dest: bit_imp_le_length)

lemma zigzag64: "quicpro_proto_zigzag_decode64 (quicpro_proto_zigzag_encode64 n) = n"
proof (rule bit_word_eqI)
  fix k assume "k < LENGTH(64)"
  then show "bit (quicpro_proto_zigzag_decode64 (quicpro_proto_zigzag_encode64 n)) k = bit n k"
    by (cases "k = 63") (auto simp: bit_zigzag_decode64 bit_zigzag_encode64)
qed

lemma zigzag32_inv: "quicpro_proto_zigzag_encode32 (quicpro_proto_zigzag_decode32 n) = n"
proof (rule bit_word_eqI)
  fix k assume "k < LENGTH(32)"
  then show "bit (quicpro_proto_zigzag_encode32 (quicpro_proto_zigzag_decode32 n)) k = bit n k"
    by (cases "k = 0") (auto simp: bit_zigzag_decode32 bit_zigzag_encode32 dest: bit_imp_le_length)
qed

lemma zigzag64_inv: "quicpro_proto_zigzag_encode64 (quicpro_proto_zigzag_decode64 n) = n"
proof (rule bit_word_eqI)
  fix k assume "k < LENGTH(64)"
  then show "bit (quicpro_proto_zigzag_encode64 (quicpro_proto_zigzag_decode64 n)) k = bit n k"
    by (cases "k = 0") (auto simp: bit_zigzag_decode64 bit_zigzag_encode64 dest: bit_imp_le_length)
qed

section \<open>Properties\<close>

text \<open>
  a 64-bit integer written as a varint takes one to ten bytes and is read back exactly, with
  the pointer behind its last byte, whatever follows it in the buffer.
\<close>

theorem varint_round_trip:
  assumes "holds_at m p (quicpro_proto_encode_varint [] v @ rest)"
    and "buf_end = ptr_add p (length (quicpro_proto_encode_varint [] v @ rest))"
  shows "quicpro_proto_decode_varint m p buf_end = Inr (v, ptr_add p (length (quicpro_proto_encode_varint [] v))) \<and>
    quicpro_proto_encode_varint [] v \<noteq> [] \<and> length (quicpro_proto_encode_varint [] v) \<le> 10"
  using decode_varint_refines [OF assms] length_varint_bytes [of 10 v] varint_bytes_nonempty [of 10 v]
  by (simp add: encode_varint_eq varint_parse_enc del: varint_bytes.simps)

theorem varint_round_trip_witness:
  "quicpro_proto_decode_varint (string_storage 4096 [172, 2, 9]) 4096 4099 = Inr (300, 4098)"
proof -
  have enc: "quicpro_proto_encode_varint [] 300 = [172, 2]" by code_simp
  have "holds_at (string_storage 4096 [172, 2, 9]) 4096 ([172, 2, 9] @ [0])"
    by (rule holds_at_string_storage) simp
  then have "holds_at (string_storage 4096 [172, 2, 9]) 4096 (quicpro_proto_encode_varint [] 300 @ [9])"
    by (simp add: enc holds_at_Cons)
  from varint_round_trip [OF this, of 4099] show ?thesis
    by (simp add: enc ptr_add_def)
qed

text \<open>
  C30: on arbitrary bytes the varint decoder never reads outside the buffer: it agrees with the
  parser on byte lists, failing exactly when no terminating byte comes within ten bytes and
  the end, and otherwise consuming between one and ten bytes.
\<close>

theorem decode_varint_exact:
  assumes "holds_at m p bs" and "buf_end = ptr_add p (length bs)"
  shows "quicpro_proto_decode_varint m p buf_end =
      (case varint_parse 10 bs of
         None \<Rightarrow> Inl Short
       | Some (v, r) \<Rightarrow> Inr (v, ptr_add p (length bs - length r))) \<and>
    (case varint_parse 10 bs of
       None \<Rightarrow> True | Some (v, r) \<Rightarrow> \<exists>u. bs = u @ r \<and> u \<noteq> [] \<and> length u \<le> 10)"
  using decode_varint_refines [OF assms] varint_parse_consumes [of 10 bs] by (simp split: option.split)

theorem decode_varint_exact_witness:
  "quicpro_proto_decode_varint (string_storage 4096 [255, 255]) 4096 4098 = Inl Short"
proof -
  have "holds_at (string_storage 4096 [255, 255]) 4096 ([255, 255] @ [0])"
    by (rule holds_at_string_storage) simp
  then have "holds_at (string_storage 4096 [255, 255]) 4096 [255, 255]" by (simp add: holds_at_Cons)
  moreover have "varint_parse 10 [255, 255] = None" by code_simp
  ultimately show ?thesis
    using decode_varint_exact [of "string_storage 4096 [255, 255]" 4096 "[255, 255]" 4098]
    by (simp add: ptr_add_def)
qed

text \<open>
  fixed-width integers of 32 and 64 bits are read back exactly from what is written for them.
\<close>

theorem fixed_round_trip:
  assumes "holds_at m p (quicpro_proto_encode_fixed32 [] v @ quicpro_proto_encode_fixed64 [] w)"
    and "unat p + 20 < 2 ^ 64"
  shows "quicpro_proto_decode_fixed32 m p (ptr_add p 12) = Inr (v, ptr_add p 4) \<and>
    quicpro_proto_decode_fixed64 m (ptr_add p 4) (ptr_add p 12) = Inr (w, ptr_add p 12)"
proof
  have bs: "quicpro_proto_encode_fixed32 [] v @ quicpro_proto_encode_fixed64 [] w = le_bytes 4 v @ le_bytes 8 w"
    by (simp add: encode_fixed32_eq encode_fixed64_eq)
  have len: "length (le_bytes 4 v) = 4" "length (le_bytes 8 w) = 8" by (simp_all add: length_le_bytes)
  show "quicpro_proto_decode_fixed32 m p (ptr_add p 12) = Inr (v, ptr_add p 4)"
    using decode_fixed32_refines [of m p "le_bytes 4 v @ le_bytes 8 w" "ptr_add p 12"] assms len
    by (simp add: bs fixed32.parse_enc)
  have "holds_at m (ptr_add p 4) (le_bytes 8 w @ [])" "unat (ptr_add p 4) = unat p + 4"
    using assms len unfolding bs by (simp_all add: holds_at_append unat_ptr_add)
  then show "quicpro_proto_decode_fixed64 m (ptr_add p 4) (ptr_add p 12) = Inr (w, ptr_add p 12)"
    using decode_fixed64_refines [of m "ptr_add p 4" "le_bytes 8 w @ []" "ptr_add p 12"] assms(2) len fixed64.parse_enc [of w "[]"]
    by simp
qed

theorem fixed_round_trip_witness:
  "quicpro_proto_decode_fixed32 (string_storage 4096 [1, 2, 3, 4, 8, 7, 6, 5, 4, 3, 2, 1]) 4096 4108 =
     Inr (0x04030201, 4100)"
proof -
  let ?bs = "[1, 2, 3, 4, 8, 7, 6, 5, 4, 3, 2, 1]"
  have enc: "quicpro_proto_encode_fixed32 [] 0x04030201 @ quicpro_proto_encode_fixed64 [] 0x0102030405060708 = ?bs"
    by code_simp
  have "holds_at (string_storage 4096 ?bs) 4096 (?bs @ [0])"
    by (rule holds_at_string_storage) simp
  then have "holds_at (string_storage 4096 ?bs) 4096
      (quicpro_proto_encode_fixed32 [] 0x04030201 @ quicpro_proto_encode_fixed64 [] 0x0102030405060708)"
    unfolding enc by (simp add: holds_at_Cons)
  from fixed_round_trip [OF this] show ?thesis by (simp add: ptr_add_def)
qed

text \<open>the zigzag maps of both widths are bijections, each the inverse of the other.\<close>

theorem zigzag_bijective:
  "quicpro_proto_zigzag_decode32 (quicpro_proto_zigzag_encode32 a) = a \<and>
   quicpro_proto_zigzag_encode32 (quicpro_proto_zigzag_decode32 b) = b \<and>
   quicpro_proto_zigzag_decode64 (quicpro_proto_zigzag_encode64 c) = c \<and>
   quicpro_proto_zigzag_encode64 (quicpro_proto_zigzag_decode64 d) = d"
  by (simp add: zigzag32 zigzag64 zigzag32_inv zigzag64_inv)

end
