(* ===== verification/IIBIN_Schema.thy ===== *)
theory IIBIN_Schema
  imports Zend IIBIN_Wire "HOL-Library.Sublist"
begin

text \<open>
  Schemas and enums of the IIBIN serializer and the two global registries that hold
  them: \<^verbatim>\<open>extension/src/iibin/iibin_schema.c\<close>, with the structures of
  \<^verbatim>\<open>iibin_internal.h\<close> and the look-up functions of \<^verbatim>\<open>iibin_registry.c\<close>.
\<close>

section \<open>Structures\<close>

datatype field_type =
    TYPE_UNKNOWN | TYPE_DOUBLE | TYPE_FLOAT | TYPE_INT64 | TYPE_UINT64 | TYPE_INT32
  | TYPE_UINT32 | TYPE_SINT32 | TYPE_SINT64 | TYPE_FIXED64 | TYPE_SFIXED64 | TYPE_FIXED32
  | TYPE_SFIXED32 | TYPE_BOOL | TYPE_STRING | TYPE_BYTES | TYPE_MESSAGE | TYPE_ENUM

primrec field_type_num :: "field_type \<Rightarrow> nat" where
  "field_type_num TYPE_UNKNOWN = 0"
| "field_type_num TYPE_DOUBLE = 1"
| "field_type_num TYPE_FLOAT = 2"
| "field_type_num TYPE_INT64 = 3"
| "field_type_num TYPE_UINT64 = 4"
| "field_type_num TYPE_INT32 = 5"
| "field_type_num TYPE_UINT32 = 6"
| "field_type_num TYPE_SINT32 = 7"
| "field_type_num TYPE_SINT64 = 8"
| "field_type_num TYPE_FIXED64 = 9"
| "field_type_num TYPE_SFIXED64 = 10"
| "field_type_num TYPE_FIXED32 = 11"
| "field_type_num TYPE_SFIXED32 = 12"
| "field_type_num TYPE_BOOL = 13"
| "field_type_num TYPE_STRING = 14"
| "field_type_num TYPE_BYTES = 15"
| "field_type_num TYPE_MESSAGE = 16"
| "field_type_num TYPE_ENUM = 17"

lemma field_type_num_inj: "field_type_num a = field_type_num b \<Longrightarrow> a = b"
  by (cases a; cases b) simp_all

text \<open>The constants of the C enum compare by their number.\<close>

instantiation field_type :: linorder
begin

definition less_eq_field_type :: "field_type \<Rightarrow> field_type \<Rightarrow> bool" where
  "less_eq_field_type a b \<longleftrightarrow> field_type_num a \<le> field_type_num b"

definition less_field_type :: "field_type \<Rightarrow> field_type \<Rightarrow> bool" where
  "less_field_type a b \<longleftrightarrow> field_type_num a < field_type_num b"

instance
  by standard
    (auto simp: less_eq_field_type_def less_field_type_def intro: field_type_num_inj)

end

definition WIRETYPE_VARINT :: u32 where "WIRETYPE_VARINT = 0"
definition WIRETYPE_FIXED64 :: u32 where "WIRETYPE_FIXED64 = 1"
definition WIRETYPE_LENGTH_DELIM :: u32 where "WIRETYPE_LENGTH_DELIM = 2"
definition WIRETYPE_FIXED32 :: u32 where "WIRETYPE_FIXED32 = 5"

definition FLAG_OPTIONAL :: u8 where "FLAG_OPTIONAL = 0x01"
definition FLAG_REQUIRED :: u8 where "FLAG_REQUIRED = 0x02"
definition FLAG_REPEATED :: u8 where "FLAG_REPEATED = 0x04"
definition FLAG_PACKED :: u8 where "FLAG_PACKED = 0x08"

record field_def =
  name_in_php :: string
  tag :: u32
  ftype :: field_type
  flags :: u8
  json_name :: "string option"
  is_deprecated :: bool
  message_type_name_if_nested :: "string option"
  enum_type_name_if_enum :: "string option"
  default_value_zval :: zval
  wire_type :: u32

record compiled_schema =
  schema_name :: string
  fields_by_tag :: "(u64, field_def) htable"
  fields_by_name :: "(string, field_def) htable"
  ordered_fields :: "field_def list"
  num_fields :: nat

record enum_value_def =
  ev_name :: string
  ev_number :: u32

record compiled_enum =
  enum_name :: string
  values_by_name :: "(string, enum_value_def) htable"
  names_by_value :: "(u64, string) htable"

record iibin_registry =
  schema_registry :: "(string, compiled_schema) htable"
  enum_registry :: "(string, compiled_enum) htable"
  registries_initialized :: bool

section \<open>Errors\<close>

datatype schema_error =
    E_Null_enum  \<comment> \<open>a null enum definition would be dereferenced\<close>
  | E_Not_initialized
  | E_Already_defined string
  | E_Enum_invalid string
  | E_Enum_duplicate_name string string
  | E_Enum_duplicate_number string u32
  | E_Registry_add string
  | E_Field_invalid string
  | E_Field_tag string string
  | E_Field_type string string
  | E_Field_type_unparseable string string
  | E_Field_type_name_missing
  | E_Field_type_unknown string string string
  | E_Field_no_wire_type string string
  | E_Field_default_enum string string string
  | E_Duplicate_tag string u32

section \<open>Registry lifecycle and look-up\<close>

definition empty_registry :: iibin_registry where
  "empty_registry = \<lparr>schema_registry = [], enum_registry = [], registries_initialized = False\<rparr>"

definition quicpro_iibin_registries_init :: "iibin_registry \<Rightarrow> iibin_registry" where
  "quicpro_iibin_registries_init reg =
     (if registries_initialized reg then reg
      else \<lparr>schema_registry = [], enum_registry = [], registries_initialized = True\<rparr>)"

definition quicpro_iibin_registries_shutdown :: "iibin_registry \<Rightarrow> iibin_registry" where
  "quicpro_iibin_registries_shutdown reg =
     (if registries_initialized reg
      then \<lparr>schema_registry = [], enum_registry = [], registries_initialized = False\<rparr>
      else reg)"

definition get_compiled_iibin_schema_internal :: "iibin_registry \<Rightarrow> string \<Rightarrow> compiled_schema option" where
  "get_compiled_iibin_schema_internal reg name =
     (if \<not> registries_initialized reg then None else ht_find (schema_registry reg) (cstr name))"

definition get_compiled_iibin_enum_internal :: "iibin_registry \<Rightarrow> string \<Rightarrow> compiled_enum option" where
  "get_compiled_iibin_enum_internal reg name =
     (if \<not> registries_initialized reg then None else ht_find (enum_registry reg) (cstr name))"

text \<open>The variants of \<^verbatim>\<open>iibin_registry.c\<close>, which do not consult the initialization flag.\<close>

definition get_compiled_schema_locked :: "iibin_registry \<Rightarrow> string \<Rightarrow> compiled_schema option" where
  "get_compiled_schema_locked reg name = ht_find (schema_registry reg) (cstr name)"

definition get_compiled_enum_locked :: "iibin_registry \<Rightarrow> string \<Rightarrow> compiled_enum option" where
  "get_compiled_enum_locked reg name = ht_find (enum_registry reg) (cstr name)"

definition registries_init_locked :: "iibin_registry \<Rightarrow> iibin_registry" where
  "registries_init_locked reg =
     \<lparr>schema_registry = [], enum_registry = [], registries_initialized = True\<rparr>"

definition registries_shutdown_locked :: "iibin_registry \<Rightarrow> iibin_registry" where
  "registries_shutdown_locked reg =
     (if \<not> registries_initialized reg then reg
      else \<lparr>schema_registry = [], enum_registry = [], registries_initialized = False\<rparr>)"

section \<open>Field types\<close>

definition strncmp_eq :: "string \<Rightarrow> string \<Rightarrow> nat \<Rightarrow> bool" where
  "strncmp_eq a b n \<longleftrightarrow> take n (cstr a @ [CHR 0x00]) = take n (cstr b @ [CHR 0x00])"

definition parse_php_field_type_details ::
  "string \<Rightarrow> (field_type \<times> bool \<times> string option) option" where
  "parse_php_field_type_details type_str =
     (if length type_str = 0 then None
      else
        let is_repeated = strncmp_eq type_str ''repeated_'' 9;
            v = (if is_repeated then drop 9 type_str else type_str);
            n = (if is_repeated then length type_str - 9 else length type_str)
        in
        if is_repeated \<and> n = 0 then None
        else if strncmp_eq v ''double'' n then Some (TYPE_DOUBLE, is_repeated, None)
        else if strncmp_eq v ''float'' n then Some (TYPE_FLOAT, is_repeated, None)
        else if strncmp_eq v ''int64'' n then Some (TYPE_INT64, is_repeated, None)
        else if strncmp_eq v ''uint64'' n then Some (TYPE_UINT64, is_repeated, None)
        else if strncmp_eq v ''int32'' n then Some (TYPE_INT32, is_repeated, None)
        else if strncmp_eq v ''uint32'' n then Some (TYPE_UINT32, is_repeated, None)
        else if strncmp_eq v ''sint32'' n then Some (TYPE_SINT32, is_repeated, None)
        else if strncmp_eq v ''sint64'' n then Some (TYPE_SINT64, is_repeated, None)
        else if strncmp_eq v ''fixed64'' n then Some (TYPE_FIXED64, is_repeated, None)
        else if strncmp_eq v ''sfixed64'' n then Some (TYPE_SFIXED64, is_repeated, None)
        else if strncmp_eq v ''fixed32'' n then Some (TYPE_FIXED32, is_repeated, None)
        else if strncmp_eq v ''sfixed32'' n then Some (TYPE_SFIXED32, is_repeated, None)
        else if strncmp_eq v ''bool'' n then Some (TYPE_BOOL, is_repeated, None)
        else if strncmp_eq v ''string'' n then Some (TYPE_STRING, is_repeated, None)
        else if strncmp_eq v ''bytes'' n then Some (TYPE_BYTES, is_repeated, None)
        else Some (TYPE_UNKNOWN, is_repeated, Some (take n v)))"

definition calculate_field_wire_type :: "field_type \<Rightarrow> bool \<Rightarrow> u32" where
  "calculate_field_wire_type t is_packed_repeated_field =
     (if is_packed_repeated_field then WIRETYPE_LENGTH_DELIM
      else case t of
        TYPE_INT32 \<Rightarrow> WIRETYPE_VARINT | TYPE_UINT32 \<Rightarrow> WIRETYPE_VARINT
      | TYPE_SINT32 \<Rightarrow> WIRETYPE_VARINT | TYPE_INT64 \<Rightarrow> WIRETYPE_VARINT
      | TYPE_UINT64 \<Rightarrow> WIRETYPE_VARINT | TYPE_SINT64 \<Rightarrow> WIRETYPE_VARINT
      | TYPE_BOOL \<Rightarrow> WIRETYPE_VARINT | TYPE_ENUM \<Rightarrow> WIRETYPE_VARINT
      | TYPE_FIXED64 \<Rightarrow> WIRETYPE_FIXED64 | TYPE_SFIXED64 \<Rightarrow> WIRETYPE_FIXED64
      | TYPE_DOUBLE \<Rightarrow> WIRETYPE_FIXED64
      | TYPE_STRING \<Rightarrow> WIRETYPE_LENGTH_DELIM | TYPE_BYTES \<Rightarrow> WIRETYPE_LENGTH_DELIM
      | TYPE_MESSAGE \<Rightarrow> WIRETYPE_LENGTH_DELIM
      | TYPE_FIXED32 \<Rightarrow> WIRETYPE_FIXED32 | TYPE_SFIXED32 \<Rightarrow> WIRETYPE_FIXED32
      | TYPE_FLOAT \<Rightarrow> WIRETYPE_FIXED32
      | TYPE_UNKNOWN \<Rightarrow> - 1)"


section \<open>Field options\<close>

definition new_field_def :: field_def where
  "new_field_def = \<lparr>name_in_php = [], tag = 0, ftype = TYPE_UNKNOWN, flags = 0, json_name = None,
     is_deprecated = False, message_type_name_if_nested = None, enum_type_name_if_enum = None,
     default_value_zval = Z_Undef, wire_type = 0\<rparr>"

definition parse_field_tag :: "string \<Rightarrow> string \<Rightarrow> php_array \<Rightarrow> field_def \<Rightarrow> schema_error + field_def" where
  "parse_field_tag schema field opts f =
     (case arr_find opts ''tag'' of
        Some (Z_Long l) \<Rightarrow>
          if l \<le>s 0 then Inl (E_Field_tag schema field) else Inr (f\<lparr>tag := ucast l\<rparr>)
      | _ \<Rightarrow> Inl (E_Field_tag schema field))"

definition resolve_field_type ::
  "iibin_registry \<Rightarrow> string \<Rightarrow> string \<Rightarrow> php_array \<Rightarrow> field_def \<Rightarrow> schema_error + field_def" where
  "resolve_field_type reg schema field opts f =
     (case arr_find opts ''type'' of
        Some (Z_String s) \<Rightarrow>
          (case parse_php_field_type_details s of
             None \<Rightarrow> Inl (E_Field_type_unparseable schema field)
           | Some (t, is_repeated, ref_name) \<Rightarrow>
               let f = f\<lparr>ftype := t, flags := (if is_repeated then flags f OR FLAG_REPEATED else flags f)\<rparr> in
               if t = TYPE_UNKNOWN then
                 (case ref_name of
                    None \<Rightarrow> Inl E_Field_type_name_missing
                  | Some n \<Rightarrow>
                      if get_compiled_iibin_schema_internal reg n \<noteq> None
                      then Inr (f\<lparr>ftype := TYPE_MESSAGE, message_type_name_if_nested := Some n\<rparr>)
                      else if get_compiled_iibin_enum_internal reg n \<noteq> None
                      then Inr (f\<lparr>ftype := TYPE_ENUM, enum_type_name_if_enum := Some n\<rparr>)
                      else Inl (E_Field_type_unknown schema field n))
               else Inr f)
      | _ \<Rightarrow> Inl (E_Field_type schema field))"

definition is_packable :: "field_type \<Rightarrow> bool" where
  "is_packable t \<longleftrightarrow> (TYPE_DOUBLE \<le> t \<and> t \<le> TYPE_BOOL) \<or> t = TYPE_ENUM"

definition set_presence_flag :: "zend_api \<Rightarrow> php_array \<Rightarrow> field_def \<Rightarrow> field_def" where
  "set_presence_flag Z opts f =
     (case arr_find opts ''required'' of
        Some v \<Rightarrow> if zend_is_true Z v then f\<lparr>flags := flags f OR FLAG_REQUIRED\<rparr>
                  else f\<lparr>flags := flags f OR FLAG_OPTIONAL\<rparr>
      | None \<Rightarrow> f\<lparr>flags := flags f OR FLAG_OPTIONAL\<rparr>)"

definition set_packed_flag :: "zend_api \<Rightarrow> php_array \<Rightarrow> field_def \<Rightarrow> field_def" where
  "set_packed_flag Z opts f =
     (if flags f AND FLAG_REPEATED \<noteq> 0 \<and> is_packable (ftype f) \<and>
         (case arr_find opts ''packed'' of Some v \<Rightarrow> zend_is_true Z v | None \<Rightarrow> True)
      then f\<lparr>flags := flags f OR FLAG_PACKED\<rparr> else f)"

definition set_field_wire_type :: "string \<Rightarrow> string \<Rightarrow> field_def \<Rightarrow> schema_error + field_def" where
  "set_field_wire_type schema field f =
     (let w = calculate_field_wire_type (ftype f) (flags f AND FLAG_PACKED \<noteq> 0) in
      if w = - 1 then Inl (E_Field_no_wire_type schema field) else Inr (f\<lparr>wire_type := w\<rparr>))"

definition set_field_default ::
  "iibin_registry \<Rightarrow> string \<Rightarrow> string \<Rightarrow> php_array \<Rightarrow> field_def \<Rightarrow> schema_error + field_def" where
  "set_field_default reg schema field opts f =
     (case arr_find opts ''default'' of
        None \<Rightarrow> Inr f
      | Some v \<Rightarrow>
          if ftype f = TYPE_ENUM \<and> is_string v then
            (case Option.bind (enum_type_name_if_enum f) (get_compiled_iibin_enum_internal reg) of
               None \<Rightarrow> Inl E_Null_enum
             | Some e \<Rightarrow>
                 (case ht_find (values_by_name e) (z_str v) of
                    None \<Rightarrow> Inl (E_Field_default_enum schema field (z_str v))
                  | Some ev \<Rightarrow> Inr (f\<lparr>default_value_zval := Z_Long (scast (ev_number ev))\<rparr>)))
          else Inr (f\<lparr>default_value_zval := v\<rparr>))"

definition set_field_annotations :: "zend_api \<Rightarrow> php_array \<Rightarrow> field_def \<Rightarrow> field_def" where
  "set_field_annotations Z opts f =
     (let f = (case arr_find opts ''json_name'' of Some (Z_String s) \<Rightarrow> f\<lparr>json_name := Some s\<rparr> | _ \<Rightarrow> f)
      in case arr_find opts ''deprecated'' of
           Some v \<Rightarrow> if zend_is_true Z v then f\<lparr>is_deprecated := True\<rparr> else f
         | None \<Rightarrow> f)"

definition parse_php_field_options ::
  "zend_api \<Rightarrow> iibin_registry \<Rightarrow> string \<Rightarrow> string \<Rightarrow> php_array \<Rightarrow> schema_error + field_def" where
  "parse_php_field_options Z reg schema field opts =
     (case parse_field_tag schema field opts (new_field_def\<lparr>name_in_php := cstr field\<rparr>) of
        Inl e \<Rightarrow> Inl e
      | Inr f \<Rightarrow>
     (case resolve_field_type reg schema field opts f of
        Inl e \<Rightarrow> Inl e
      | Inr f \<Rightarrow>
     (case set_field_wire_type schema field (set_packed_flag Z opts (set_presence_flag Z opts f)) of
        Inl e \<Rightarrow> Inl e
      | Inr f \<Rightarrow>
     (case set_field_default reg schema field opts f of
        Inl e \<Rightarrow> Inl e
      | Inr f \<Rightarrow> Inr (set_field_annotations Z opts f)))))"

section \<open>Defining enums\<close>

primrec define_enum_values :: "string \<Rightarrow> php_array \<Rightarrow> compiled_enum \<Rightarrow> schema_error + compiled_enum" where
  "define_enum_values name [] e = Inr e"
| "define_enum_values name (kv # rest) e =
     (case kv of
        (HStr k, Z_Long n) \<Rightarrow>
          (let num = (ucast n :: u32) in
           if ht_exists (values_by_name e) k then Inl (E_Enum_duplicate_name name k)
           else if ht_exists (names_by_value e) (scast num) then Inl (E_Enum_duplicate_number name num)
           else define_enum_values name rest
                  (e\<lparr>values_by_name := ht_update (values_by_name e) k \<lparr>ev_name = k, ev_number = num\<rparr>,
                     names_by_value := ht_update (names_by_value e) (scast num) (cstr k)\<rparr>))
      | _ \<Rightarrow> Inl (E_Enum_invalid name))"

definition name_defined :: "iibin_registry \<Rightarrow> string \<Rightarrow> bool" where
  "name_defined reg name \<longleftrightarrow>
     get_compiled_iibin_schema_internal reg name \<noteq> None \<or> get_compiled_iibin_enum_internal reg name \<noteq> None"

definition quicpro_iibin_define_enum ::
  "string \<Rightarrow> php_array \<Rightarrow> iibin_registry \<Rightarrow> (schema_error + unit) \<times> iibin_registry" where
  "quicpro_iibin_define_enum name vals reg =
     (if \<not> registries_initialized reg then (Inl E_Not_initialized, reg)
      else if name_defined reg name then (Inl (E_Already_defined name), reg)
      else case define_enum_values name vals
                  \<lparr>enum_name = name, values_by_name = [], names_by_value = []\<rparr> of
        Inl err \<Rightarrow> (Inl err, reg)
      | Inr e \<Rightarrow>
          (case ht_add (enum_registry reg) name e of
             None \<Rightarrow> (Inl (E_Registry_add name), reg)
           | Some r \<Rightarrow> (Inr (), reg\<lparr>enum_registry := r\<rparr>)))"

section \<open>Defining schemas\<close>

definition add_field :: "field_def \<Rightarrow> compiled_schema \<Rightarrow> compiled_schema" where
  "add_field f sch = sch\<lparr>fields_by_tag := ht_update (fields_by_tag sch) (ucast (tag f)) f,
     fields_by_name := ht_update (fields_by_name sch) (cstr (name_in_php f)) f,
     ordered_fields := ordered_fields sch @ [f], num_fields := num_fields sch + 1\<rparr>"

primrec define_schema_fields ::
  "zend_api \<Rightarrow> iibin_registry \<Rightarrow> string \<Rightarrow> php_array \<Rightarrow> compiled_schema \<Rightarrow> schema_error + compiled_schema" where
  "define_schema_fields Z reg name [] sch = Inr sch"
| "define_schema_fields Z reg name (kv # rest) sch =
     (case kv of
        (HStr fname, Z_Array opts) \<Rightarrow>
          (case parse_php_field_options Z reg name fname opts of
             Inl err \<Rightarrow> Inl err
           | Inr f \<Rightarrow>
               if ht_exists (fields_by_tag sch) (ucast (tag f)) then Inl (E_Duplicate_tag name (tag f))
               else define_schema_fields Z reg name rest (add_field f sch))
      | _ \<Rightarrow> Inl (E_Field_invalid name))"

definition compare_field_defs_by_tag :: "field_def \<Rightarrow> field_def \<Rightarrow> int" where
  "compare_field_defs_by_tag a b = (if tag a < tag b then - 1 else if tag b < tag a then 1 else 0)"

text \<open>The C library's \<^verbatim>\<open>qsort\<close> as insertion by the comparison function.\<close>

primrec qsort_insert :: "('a \<Rightarrow> 'a \<Rightarrow> int) \<Rightarrow> 'a \<Rightarrow> 'a list \<Rightarrow> 'a list" where
  "qsort_insert cmp x [] = [x]"
| "qsort_insert cmp x (y # ys) = (if cmp x y \<le> 0 then x # y # ys else y # qsort_insert cmp x ys)"

definition qsort :: "('a \<Rightarrow> 'a \<Rightarrow> int) \<Rightarrow> 'a list \<Rightarrow> 'a list" where
  "qsort cmp xs = foldr (qsort_insert cmp) xs []"

definition quicpro_iibin_define_schema ::
  "zend_api \<Rightarrow> string \<Rightarrow> php_array \<Rightarrow> iibin_registry \<Rightarrow> (schema_error + unit) \<times> iibin_registry" where
  "quicpro_iibin_define_schema Z name defs reg =
     (if \<not> registries_initialized reg then (Inl E_Not_initialized, reg)
      else if name_defined reg name then (Inl (E_Already_defined name), reg)
      else case define_schema_fields Z reg name defs
                  \<lparr>schema_name = name, fields_by_tag = [], fields_by_name = [], ordered_fields = [],
                    num_fields = 0\<rparr> of
        Inl err \<Rightarrow> (Inl err, reg)
      | Inr sch \<Rightarrow>
          (let sch = (if 1 < num_fields sch
                      then sch\<lparr>ordered_fields := qsort compare_field_defs_by_tag (ordered_fields sch)\<rparr>
                      else sch)
           in case ht_add (schema_registry reg) name sch of
                None \<Rightarrow> (Inl (E_Registry_add name), reg)
              | Some r \<Rightarrow> (Inr (), reg\<lparr>schema_registry := r\<rparr>)))"

section \<open>Well-formed registries\<close>

definition field_wf :: "iibin_registry \<Rightarrow> field_def \<Rightarrow> bool" where
  "field_wf reg f \<longleftrightarrow>
     ftype f \<noteq> TYPE_UNKNOWN \<and>
     wire_type f = calculate_field_wire_type (ftype f) (flags f AND FLAG_PACKED \<noteq> 0) \<and>
     (flags f AND FLAG_PACKED \<noteq> 0 \<longrightarrow> flags f AND FLAG_REPEATED \<noteq> 0 \<and> is_packable (ftype f)) \<and>
     (flags f AND FLAG_REQUIRED \<noteq> 0) \<noteq> (flags f AND FLAG_OPTIONAL \<noteq> 0) \<and>
     (ftype f = TYPE_MESSAGE \<longleftrightarrow> message_type_name_if_nested f \<noteq> None) \<and>
     (ftype f = TYPE_ENUM \<longleftrightarrow> enum_type_name_if_enum f \<noteq> None) \<and>
     (case enum_type_name_if_enum f of
        None \<Rightarrow> True | Some n \<Rightarrow> ht_exists (enum_registry reg) (cstr n))"

definition type_resolved :: "iibin_registry \<Rightarrow> field_def \<Rightarrow> bool" where
  "type_resolved reg f \<longleftrightarrow>
     ftype f \<noteq> TYPE_UNKNOWN \<and>
     (ftype f = TYPE_MESSAGE \<longleftrightarrow> message_type_name_if_nested f \<noteq> None) \<and>
     (ftype f = TYPE_ENUM \<longleftrightarrow> enum_type_name_if_enum f \<noteq> None) \<and>
     (\<forall>n. enum_type_name_if_enum f = Some n \<longrightarrow> ht_exists (enum_registry reg) (cstr n)) \<and>
     (\<forall>n. message_type_name_if_nested f = Some n \<longrightarrow> ht_exists (schema_registry reg) (cstr n))"

definition message_refs :: "compiled_schema \<Rightarrow> string set" where
  "message_refs sch = {cstr n | f n. f \<in> set (ordered_fields sch) \<and> message_type_name_if_nested f = Some n}"

definition schema_tables_wf :: "compiled_schema \<Rightarrow> bool" where
  "schema_tables_wf sch \<longleftrightarrow>
     num_fields sch = length (ordered_fields sch) \<and>
     (\<forall>k f. ht_find (fields_by_tag sch) k = Some f \<longleftrightarrow>
        f \<in> set (ordered_fields sch) \<and> k = ucast (tag f)) \<and>
     (\<forall>k f. ht_find (fields_by_name sch) k = Some f \<longrightarrow>
        f \<in> set (ordered_fields sch) \<and> k = name_in_php f) \<and>
     (\<forall>f \<in> set (ordered_fields sch). ht_exists (fields_by_name sch) (name_in_php f))"

definition schema_wf :: "iibin_registry \<Rightarrow> compiled_schema \<Rightarrow> bool" where
  "schema_wf reg sch \<longleftrightarrow>
     schema_tables_wf sch \<and>
     sorted_wrt (<) (map tag (ordered_fields sch)) \<and>
     (\<forall>f \<in> set (ordered_fields sch). field_wf reg f)"

definition loop_inv :: "iibin_registry \<Rightarrow> compiled_schema \<Rightarrow> bool" where
  "loop_inv reg sch \<longleftrightarrow>
     schema_tables_wf sch \<and> distinct (map tag (ordered_fields sch)) \<and>
     (\<forall>f \<in> set (ordered_fields sch). field_wf reg f \<and> type_resolved reg f)"

definition enum_wf :: "compiled_enum \<Rightarrow> bool" where
  "enum_wf e \<longleftrightarrow>
     (\<forall>k v. ht_find (values_by_name e) k = Some v \<longrightarrow>
        ev_name v = k \<and> ht_find (names_by_value e) (scast (ev_number v)) = Some (cstr k)) \<and>
     (\<forall>n s. ht_find (names_by_value e) n = Some s \<longrightarrow>
        (\<exists>k v. ht_find (values_by_name e) k = Some v \<and> s = cstr k \<and> n = scast (ev_number v)))"

text \<open>A schema only refers to schemas defined before it.\<close>

primrec refs_before :: "string set \<Rightarrow> (string, compiled_schema) htable \<Rightarrow> bool" where
  "refs_before D [] \<longleftrightarrow> True"
| "refs_before D (ns # t) \<longleftrightarrow> message_refs (snd ns) \<subseteq> D \<and> refs_before (insert (fst ns) D) t"

definition registry_wf :: "iibin_registry \<Rightarrow> bool" where
  "registry_wf reg \<longleftrightarrow>
     (\<not> registries_initialized reg \<longrightarrow> schema_registry reg = [] \<and> enum_registry reg = []) \<and>
     distinct (map fst (schema_registry reg)) \<and> distinct (map fst (enum_registry reg)) \<and>
     (\<forall>(n, sch) \<in> set (schema_registry reg). schema_wf reg sch) \<and>
     (\<forall>(n, e) \<in> set (enum_registry reg). enum_wf e) \<and>
     refs_before {} (schema_registry reg) \<and>
     (\<forall>n. cstr n = n \<longrightarrow> \<not> (ht_exists (schema_registry reg) n \<and> ht_exists (enum_registry reg) n))"

section \<open>What a definition means\<close>

definition parsed_fields :: "zend_api \<Rightarrow> iibin_registry \<Rightarrow> string \<Rightarrow> php_array \<Rightarrow> field_def set" where
  "parsed_fields Z reg name defs =
     {f. \<exists>k opts. (HStr k, Z_Array opts) \<in> set defs \<and> parse_php_field_options Z reg name k opts = Inr f}"

definition primitive_types :: "(string \<times> field_type) list" where
  "primitive_types =
     [(''double'', TYPE_DOUBLE), (''float'', TYPE_FLOAT), (''int64'', TYPE_INT64),
      (''uint64'', TYPE_UINT64), (''int32'', TYPE_INT32), (''uint32'', TYPE_UINT32),
      (''sint32'', TYPE_SINT32), (''sint64'', TYPE_SINT64), (''fixed64'', TYPE_FIXED64),
      (''sfixed64'', TYPE_SFIXED64), (''fixed32'', TYPE_FIXED32), (''sfixed32'', TYPE_SFIXED32),
      (''bool'', TYPE_BOOL), (''string'', TYPE_STRING), (''bytes'', TYPE_BYTES)]"

text \<open>An engine for examples: the documented truth and conversion of scalars.\<close>

definition example_api :: zend_api where
  "example_api = \<lparr>zval_get_long = (\<lambda>v. case v of Z_Long l \<Rightarrow> l | Z_True \<Rightarrow> 1 | _ \<Rightarrow> 0),
     zval_get_double = (\<lambda>v. case v of Z_Double d \<Rightarrow> d | _ \<Rightarrow> 0),
     zend_is_true = (\<lambda>v. case v of Z_True \<Rightarrow> True | Z_Long l \<Rightarrow> l \<noteq> 0 | _ \<Rightarrow> False),
     zend_is_callable = (\<lambda>v. case v of Z_String s \<Rightarrow> s \<noteq> [] | _ \<Rightarrow> False),
     zend_read_property = (\<lambda>v k. case v of Z_Object t \<Rightarrow> (case map_of t k of Some x \<Rightarrow> x | None \<Rightarrow> Z_Null) | _ \<Rightarrow> Z_Null),
     memory_limit = 134217728, php_trim = (\<lambda>s. s), php_url_parse_ex = (\<lambda>s. None),
     zend_string_h = (\<lambda>s. 0), zend_atol = (\<lambda>s. 0), zend_ini_parse_bool = (\<lambda>s. s = ''1''), zend_strtod = (\<lambda>s. 0),
     vcwd_access_ok = (\<lambda>s. True)\<rparr>"

definition example_point :: php_array where
  "example_point =
     [(HStr ''y'', Z_Array [(HStr ''tag'', Z_Long 2), (HStr ''type'', Z_String ''sint32'')]),
      (HStr ''x'', Z_Array [(HStr ''tag'', Z_Long 1), (HStr ''type'', Z_String ''int32''),
         (HStr ''required'', Z_True)]),
      (HStr ''zs'', Z_Array [(HStr ''tag'', Z_Long 3), (HStr ''type'', Z_String ''repeated_sint32'')])]"

definition example_registry :: iibin_registry where
  "example_registry =
     snd (quicpro_iibin_define_schema example_api ''Point'' example_point
       (quicpro_iibin_registries_init empty_registry))"

section \<open>Reachable registries\<close>

inductive registry_step :: "zend_api \<Rightarrow> iibin_registry \<Rightarrow> iibin_registry \<Rightarrow> bool" for Z where
  init: "registry_step Z reg (quicpro_iibin_registries_init reg)"
| shutdown: "registry_step Z reg (quicpro_iibin_registries_shutdown reg)"
| define_enum: "registry_step Z reg (snd (quicpro_iibin_define_enum name vals reg))"
| define_schema: "registry_step Z reg (snd (quicpro_iibin_define_schema Z name defs reg))"

section \<open>Field lemmas\<close>

lemma calculate_wire_type_cases:
  "calculate_field_wire_type t p = (- 1 :: u32) \<longleftrightarrow> \<not> p \<and> t = TYPE_UNKNOWN"
  by (cases t) (simp_all add: calculate_field_wire_type_def WIRETYPE_VARINT_def
      WIRETYPE_FIXED64_def WIRETYPE_LENGTH_DELIM_def WIRETYPE_FIXED32_def)

lemmas flag_defs = FLAG_OPTIONAL_def FLAG_REQUIRED_def FLAG_REPEATED_def FLAG_PACKED_def

lemma flag_bits:
  fixes x :: u8
  shows "x AND FLAG_OPTIONAL \<noteq> 0 \<longleftrightarrow> bit x 0" "x AND FLAG_REQUIRED \<noteq> 0 \<longleftrightarrow> bit x 1"
    "x AND FLAG_REPEATED \<noteq> 0 \<longleftrightarrow> bit x 2" "x AND FLAG_PACKED \<noteq> 0 \<longleftrightarrow> bit x 3"
  using and_exp_eq_0_iff_not_bit [of x 0] and_exp_eq_0_iff_not_bit [of x 1]
    and_exp_eq_0_iff_not_bit [of x 2] and_exp_eq_0_iff_not_bit [of x 3]
  by (simp_all add: flag_defs)

lemma parse_type_result:
  assumes "parse_php_field_type_details s = Some (t, r, ref)"
  shows "t \<noteq> TYPE_MESSAGE \<and> t \<noteq> TYPE_ENUM \<and> (t = TYPE_UNKNOWN \<longleftrightarrow> ref \<noteq> None)"
  using assms unfolding parse_php_field_type_details_def Let_def
  by (auto split: if_split_asm)

lemma resolve_type_resolved:
  assumes "resolve_field_type reg schema field opts f = Inr g"
    and "message_type_name_if_nested f = None" "enum_type_name_if_enum f = None" "flags f = 0"
  shows "type_resolved reg g \<and> name_in_php g = name_in_php f \<and> (flags g = 0 \<or> flags g = FLAG_REPEATED)"
  using assms
  by (auto simp: resolve_field_type_def type_resolved_def Let_def ht_exists_def
      get_compiled_iibin_schema_internal_def get_compiled_iibin_enum_internal_def
      dest!: parse_type_result split: option.splits zval.splits if_splits)

lemma set_default_frame:
  "set_field_default reg schema field opts f = Inr g \<Longrightarrow> \<exists>v. g = f\<lparr>default_value_zval := v\<rparr>"
  by (auto simp: set_field_default_def intro: exI [of _ "default_value_zval g"]
      split: option.splits if_splits)

lemma set_annotations_frame:
  "\<exists>j d. set_field_annotations Z opts f = f\<lparr>json_name := j, is_deprecated := d\<rparr>"
proof -
  have "\<exists>j. (case arr_find opts ''json_name'' of Some (Z_String s) \<Rightarrow> f\<lparr>json_name := Some s\<rparr> | _ \<Rightarrow> f)
      = f\<lparr>json_name := j\<rparr>" (is "\<exists>j. ?g = _")
    by (cases "arr_find opts ''json_name''") (auto split: zval.split intro: exI [of _ "json_name f"])
  then obtain j where "?g = f\<lparr>json_name := j\<rparr>" ..
  then show ?thesis
    unfolding set_field_annotations_def Let_def
    by (intro exI [of _ j] exI [of _ "is_deprecated (set_field_annotations Z opts f)"])
      (simp add: set_field_annotations_def Let_def split: option.split)
qed

lemma presence_flags:
  "\<exists>x. set_presence_flag Z opts f = f\<lparr>flags := flags f OR x\<rparr> \<and> (x = FLAG_REQUIRED \<or> x = FLAG_OPTIONAL)"
  by (auto simp: set_presence_flag_def split: option.split)

lemma packed_flags:
  "\<exists>y. set_packed_flag Z opts f = f\<lparr>flags := y\<rparr> \<and>
     (y = flags f \<or> y = flags f OR FLAG_PACKED \<and> bit (flags f) 2 \<and> is_packable (ftype f))"
proof (cases "flags f AND FLAG_REPEATED \<noteq> 0 \<and> is_packable (ftype f) \<and>
         (case arr_find opts ''packed'' of Some v \<Rightarrow> zend_is_true Z v | None \<Rightarrow> True)")
  case True
  then show ?thesis
    unfolding set_packed_flag_def flag_bits by (intro exI [of _ "flags f OR FLAG_PACKED"]) simp
next
  case False
  then show ?thesis
    unfolding set_packed_flag_def by (intro exI [of _ "flags f"]) (simp only: if_False, simp)
qed

lemma presence_bits:
  fixes x z :: u8
  assumes "z = 0 \<or> z = FLAG_REPEATED" "x = FLAG_REQUIRED \<or> x = FLAG_OPTIONAL"
  shows "\<not> bit (z OR x) 3" "bit (z OR x) 1 \<noteq> bit (z OR x) 0"
  using assms by (auto simp: flag_defs bit_or_iff)

lemma packed_bit: "bit (y OR FLAG_PACKED) n \<longleftrightarrow> bit y n \<or> n = 3"
  using bit_exp_iff [where ?'a = "8 word", of 3 n] by (auto simp: flag_defs bit_or_iff)

lemma wire_type_wf:
  assumes "set_field_wire_type schema field (set_packed_flag Z opts (set_presence_flag Z opts f)) = Inr g"
    and f: "type_resolved reg f" "flags f = 0 \<or> flags f = FLAG_REPEATED"
  shows "field_wf reg g \<and> type_resolved reg g \<and> name_in_php g = name_in_php f"
proof -
  obtain x where x: "set_presence_flag Z opts f = f\<lparr>flags := flags f OR x\<rparr>"
    "x = FLAG_REQUIRED \<or> x = FLAG_OPTIONAL"
    using presence_flags by blast
  obtain y where y: "set_packed_flag Z opts (f\<lparr>flags := flags f OR x\<rparr>) = f\<lparr>flags := y\<rparr>"
    "y = flags f OR x \<or> y = (flags f OR x) OR FLAG_PACKED \<and> bit (flags f OR x) 2 \<and> is_packable (ftype f)"
    using packed_flags [of Z opts "f\<lparr>flags := flags f OR x\<rparr>"] by auto
  have bits: "bit y 3 \<longrightarrow> bit y 2 \<and> is_packable (ftype f)" "bit y 1 \<noteq> bit y 0"
    using y(2) presence_bits [OF f(2) x(2)] by (auto simp: packed_bit)
  have g: "g = f\<lparr>flags := y, wire_type := calculate_field_wire_type (ftype f) (y AND FLAG_PACKED \<noteq> 0)\<rparr>"
    using assms(1) x(1) y(1) by (simp add: set_field_wire_type_def Let_def split: if_splits)
  show ?thesis
    using f(1) bits unfolding g field_wf_def type_resolved_def flag_bits
    by (simp split: option.split)
qed

lemma parse_tag_frame:
  "parse_field_tag schema field opts f = Inr g \<Longrightarrow> \<exists>t. g = f\<lparr>tag := t\<rparr>"
  unfolding parse_field_tag_def by (auto split: option.splits zval.splits if_splits)

lemma field_options_wf:
  assumes "parse_php_field_options Z reg schema field opts = Inr f"
  shows "field_wf reg f \<and> type_resolved reg f \<and> name_in_php f = cstr field"
proof -
  from assms obtain f1 f2 f3 g where
    tag: "parse_field_tag schema field opts (new_field_def\<lparr>name_in_php := cstr field\<rparr>) = Inr f1" and
    res: "resolve_field_type reg schema field opts f1 = Inr f2" and
    wt: "set_field_wire_type schema field (set_packed_flag Z opts (set_presence_flag Z opts f2)) = Inr f3" and
    def: "set_field_default reg schema field opts f3 = Inr g" and f: "f = set_field_annotations Z opts g"
    unfolding parse_php_field_options_def by (auto split: sum.splits)
  obtain t v j d where frames: "f1 = new_field_def\<lparr>name_in_php := cstr field, tag := t\<rparr>"
    "f = f3\<lparr>default_value_zval := v, json_name := j, is_deprecated := d\<rparr>"
    using parse_tag_frame [OF tag] set_default_frame [OF def] set_annotations_frame [of Z opts g] f
    by blast
  have "type_resolved reg f2 \<and> name_in_php f2 = cstr field \<and> (flags f2 = 0 \<or> flags f2 = FLAG_REPEATED)"
    using resolve_type_resolved [OF res] by (simp add: frames(1) new_field_def_def)
  with wire_type_wf [OF wt, of reg] have "field_wf reg f3 \<and> type_resolved reg f3 \<and> name_in_php f3 = cstr field"
    by simp
  then show ?thesis
    unfolding frames(2) field_wf_def type_resolved_def by simp
qed

section \<open>Schema lemmas\<close>

lemma ucast_tag_eq [simp]: "(ucast (a :: u32) :: u64) = ucast b \<longleftrightarrow> a = b"
proof
  assume "(ucast a :: u64) = ucast b"
  then have "unat (ucast a :: u64) = unat (ucast b :: u64)" by simp
  then show "a = b" 
    by (simp add: unsigned_ucast_eq take_bit_nat_eq_self [OF less_trans [OF unat_u32_less]]
      unsigned_word_eqI)
qed simp

lemma add_field_inv:
  assumes "loop_inv reg sch" "field_wf reg f" "type_resolved reg f" "cstr (name_in_php f) = name_in_php f"
    and "\<not> ht_exists (fields_by_tag sch) (ucast (tag f))"
  shows "loop_inv reg (add_field f sch)"
proof -
  have "tag f \<notin> tag ` set (ordered_fields sch)"
    using assms(1,5) by (force simp: loop_inv_def schema_tables_wf_def ht_exists_def)
  then show ?thesis
    using assms unfolding loop_inv_def schema_tables_wf_def add_field_def
    by (auto simp: ht_find_update ht_exists_update)
qed

lemma define_fields_inv:
  "define_schema_fields Z reg name defs sch = Inr sch' \<Longrightarrow> loop_inv reg sch \<Longrightarrow> loop_inv reg sch'"
proof (induction defs arbitrary: sch)
  case (Cons kv defs)
  obtain k v where kv: "kv = (k, v)" by (cases kv)
  show ?case
  proof (cases k)
    case (HStr fname)
    with Cons.prems(1) kv obtain opts where v: "v = Z_Array opts"
      by (cases v) simp_all
    with Cons.prems(1) kv HStr obtain f where
      f: "parse_php_field_options Z reg name fname opts = Inr f"
        "\<not> ht_exists (fields_by_tag sch) (ucast (tag f))"
        "define_schema_fields Z reg name defs (add_field f sch) = Inr sch'"
      by (auto split: sum.splits if_splits)
    then show ?thesis
      using Cons.IH Cons.prems(2) add_field_inv field_options_wf [OF f(1)] by simp
  next
    case (HIdx i)
    with Cons.prems(1) kv show ?thesis by simp
  qed
qed simp

lemma set_qsort_insert [simp]: "set (qsort_insert cmp x xs) = insert x (set xs)"
  by (induction xs) auto

lemma set_qsort [simp]: "set (qsort cmp xs) = set xs"
  by (induction xs) (simp_all add: qsort_def)

lemma length_qsort_insert [simp]: "length (qsort_insert cmp x xs) = Suc (length xs)"
  by (induction xs) auto

lemma length_qsort [simp]: "length (qsort cmp xs) = length xs"
  by (induction xs) (simp_all add: qsort_def)

lemma sorted_qsort_insert:
  assumes "sorted_wrt (\<lambda>a b. tag a < tag b) xs" "tag x \<notin> tag ` set xs"
  shows "sorted_wrt (\<lambda>a b. tag a < tag b) (qsort_insert compare_field_defs_by_tag x xs)"
  using assms
  by (induction xs) (auto simp: compare_field_defs_by_tag_def split: if_splits)

lemma sorted_qsort:
  "distinct (map tag xs) \<Longrightarrow> sorted_wrt (\<lambda>a b. tag a < tag b) (qsort compare_field_defs_by_tag xs)"
proof (induction xs)
  case (Cons x xs)
  then have "tag x \<notin> tag ` set (qsort compare_field_defs_by_tag xs)" by simp
  with Cons show ?case
    unfolding qsort_def by (simp add: sorted_qsort_insert del: set_qsort)
qed (simp add: qsort_def)

lemma qsort_small: "length xs \<le> 1 \<Longrightarrow> qsort cmp xs = xs"
  by (cases xs) (auto simp: qsort_def)

lemma define_fields_set:
  "define_schema_fields Z reg name defs sch = Inr sch' \<Longrightarrow>
   set (ordered_fields sch') = set (ordered_fields sch) \<union> parsed_fields Z reg name defs \<and>
   length (ordered_fields sch') = length (ordered_fields sch) + length defs \<and>
   schema_name sch' = schema_name sch"
proof (induction defs arbitrary: sch)
  case (Cons kv defs)
  then obtain k opts where kv: "kv = (HStr k, Z_Array opts)"
    by (cases kv; cases "fst kv"; cases "snd kv") simp_all
  with Cons.prems obtain f where f: "parse_php_field_options Z reg name k opts = Inr f"
    and rest: "define_schema_fields Z reg name defs (add_field f sch) = Inr sch'"
    by (auto split: sum.splits if_splits)
  have "parsed_fields Z reg name (kv # defs) = insert f (parsed_fields Z reg name defs)"
    using f by (auto simp: parsed_fields_def kv)
  with Cons.IH [OF rest] show ?case by (simp add: add_field_def)
qed (simp add: parsed_fields_def)

lemma new_schema_wf:
  assumes "define_schema_fields Z reg name defs
      \<lparr>schema_name = name, fields_by_tag = [], fields_by_name = [], ordered_fields = [], num_fields = 0\<rparr>
    = Inr sch"
  shows "schema_wf reg (sch\<lparr>ordered_fields := qsort compare_field_defs_by_tag (ordered_fields sch)\<rparr>)"
    and "message_refs (sch\<lparr>ordered_fields := qsort compare_field_defs_by_tag (ordered_fields sch)\<rparr>)
      \<subseteq> fst ` set (schema_registry reg)"
proof -
  have inv: "loop_inv reg sch"
    using define_fields_inv [OF assms] by (simp add: loop_inv_def schema_tables_wf_def)
  then show "schema_wf reg (sch\<lparr>ordered_fields := qsort compare_field_defs_by_tag (ordered_fields sch)\<rparr>)"
    using sorted_qsort [of "ordered_fields sch"]
    by (simp add: loop_inv_def schema_wf_def schema_tables_wf_def sorted_wrt_map)
  show "message_refs (sch\<lparr>ordered_fields := qsort compare_field_defs_by_tag (ordered_fields sch)\<rparr>)
      \<subseteq> fst ` set (schema_registry reg)"
  proof
    fix k
    assume "k \<in> message_refs (sch\<lparr>ordered_fields := qsort compare_field_defs_by_tag (ordered_fields sch)\<rparr>)"
    then obtain f n where "f \<in> set (ordered_fields sch)" "message_type_name_if_nested f = Some n" "k = cstr n"
      by (auto simp: message_refs_def)
    with inv have "ht_exists (schema_registry reg) k"
      by (auto simp: loop_inv_def type_resolved_def)
    then show "k \<in> fst ` set (schema_registry reg)"
      by (simp add: ht_exists_def ht_find_None_iff)
  qed
qed

text \<open>The two branches of the sort agree, so a successful definition adds the sorted schema.\<close>

lemma define_schema_cases:
  obtains (error) err where "quicpro_iibin_define_schema Z name defs reg = (Inl err, reg)"
  | (added) sch where "quicpro_iibin_define_schema Z name defs reg =
        (Inr (), reg\<lparr>schema_registry := schema_registry reg @ [(name, sch)]\<rparr>)"
      "registries_initialized reg" "\<not> name_defined reg name" "ht_find (schema_registry reg) name = None"
      "schema_wf reg sch" "message_refs sch \<subseteq> fst ` set (schema_registry reg)"
      "set (ordered_fields sch) = parsed_fields Z reg name defs" "num_fields sch = length defs"
      "schema_name sch = name"
proof -
  define s0 where "s0 = \<lparr>schema_name = name, fields_by_tag = [], fields_by_name = [],
    ordered_fields = [], num_fields = 0\<rparr>"
  show thesis
  proof (cases "\<not> registries_initialized reg \<or> name_defined reg name")
    case True
    then show thesis
      by (cases "registries_initialized reg") (auto intro: error simp: quicpro_iibin_define_schema_def)
  next
    case False
    show thesis
    proof (cases "define_schema_fields Z reg name defs s0")
      case (Inl err)
      with False show thesis by (intro error) (auto simp: quicpro_iibin_define_schema_def s0_def)
    next
      case (Inr sch)
      let ?sch = "sch\<lparr>ordered_fields := qsort compare_field_defs_by_tag (ordered_fields sch)\<rparr>"
      have inv: "loop_inv reg sch"
        using define_fields_inv [OF Inr] by (simp add: loop_inv_def schema_tables_wf_def s0_def)
      then have "(if 1 < num_fields sch then ?sch else sch) = ?sch"
        by (simp add: loop_inv_def schema_tables_wf_def qsort_small)
      with False Inr have eq: "quicpro_iibin_define_schema Z name defs reg =
          (case ht_add (schema_registry reg) name ?sch of
             None \<Rightarrow> (Inl (E_Registry_add name), reg)
           | Some r \<Rightarrow> (Inr (), reg\<lparr>schema_registry := r\<rparr>))"
        by (simp add: quicpro_iibin_define_schema_def s0_def)
      note wf = new_schema_wf [OF Inr [unfolded s0_def]]
      have stored: "set (ordered_fields ?sch) = parsed_fields Z reg name defs"
        "num_fields ?sch = length defs" "schema_name ?sch = name"
        using define_fields_set [OF Inr] inv by (simp_all add: s0_def loop_inv_def schema_tables_wf_def)
      show thesis
      proof (cases "ht_add (schema_registry reg) name ?sch")
        case None
        with eq show thesis by (intro error) simp
      next
        case (Some r)
        note r = Some [unfolded ht_add_Some_iff]
        show thesis
          by (rule added [of ?sch]) (use eq Some r False wf stored in simp_all)
      qed
    qed
  qed
qed

section \<open>Enum lemmas\<close>

lemma enum_wf_add:
  assumes wf: "enum_wf e" and fresh: "\<not> ht_exists (values_by_name e) k"
    "\<not> ht_exists (names_by_value e) (scast num)"
  shows "enum_wf (e\<lparr>values_by_name := ht_update (values_by_name e) k \<lparr>ev_name = k, ev_number = num\<rparr>,
     names_by_value := ht_update (names_by_value e) (scast num) (cstr k)\<rparr>)"
proof -
  have old: "ht_find (names_by_value e) (scast (ev_number v)) = Some (cstr j) \<and> ev_name v = j \<and> scast (ev_number v) \<noteq> (scast num :: u64)"
    if "ht_find (values_by_name e) j = Some v" for j v
    using wf fresh that unfolding enum_wf_def ht_exists_def by (metis option.distinct(1))
  have new: "\<exists>j v. j \<noteq> k \<and> ht_find (values_by_name e) j = Some v \<and> s = cstr j \<and> n = scast (ev_number v)"
    if "ht_find (names_by_value e) n = Some s" for n s
    using wf fresh that unfolding enum_wf_def ht_exists_def by (metis option.distinct(1))
  show ?thesis
    unfolding enum_wf_def using old new by (simp add: ht_find_update) metis
qed

lemma define_enum_values_wf:
  "define_enum_values name vals e = Inr e' \<Longrightarrow> enum_wf e \<Longrightarrow> enum_wf e'"
proof (induction vals arbitrary: e)
  case (Cons kv vals)
  obtain k n where kv: "kv = (HStr k, Z_Long n)"
    using Cons.prems(1) by (cases "fst kv"; cases "snd kv"; cases kv) simp_all
  define num where "num = (ucast n :: u32)"
  let ?e = "e\<lparr>values_by_name := ht_update (values_by_name e) k \<lparr>ev_name = k, ev_number = num\<rparr>,
     names_by_value := ht_update (names_by_value e) (scast num) (cstr k)\<rparr>"
  from Cons.prems(1) kv have fresh: "\<not> ht_exists (values_by_name e) k"
    "\<not> ht_exists (names_by_value e) (scast num)"
    and rest: "define_enum_values name vals ?e = Inr e'"
    by (simp_all add: num_def Let_def split: if_splits)
  have "enum_wf ?e"
    using Cons.prems(2) fresh by (rule enum_wf_add)
  with Cons.IH rest show ?case .
qed simp

lemma define_enum_cases:
  obtains (error) err where "quicpro_iibin_define_enum name vals reg = (Inl err, reg)"
  | (added) e where "quicpro_iibin_define_enum name vals reg =
        (Inr (), reg\<lparr>enum_registry := enum_registry reg @ [(name, e)]\<rparr>)"
      "registries_initialized reg" "\<not> name_defined reg name" "ht_find (enum_registry reg) name = None"
      "enum_wf e"
proof (cases "\<not> registries_initialized reg \<or> name_defined reg name")
  case True
  then show thesis
    by (cases "registries_initialized reg") (auto intro: error simp: quicpro_iibin_define_enum_def)
next
  case False
  let ?e0 = "\<lparr>enum_name = name, values_by_name = [], names_by_value = []\<rparr>"
  show thesis
  proof (cases "define_enum_values name vals ?e0")
    case (Inl err)
    with False show thesis by (intro error) (auto simp: quicpro_iibin_define_enum_def)
  next
    case (Inr e)
    then have "enum_wf e" by (rule define_enum_values_wf) (simp add: enum_wf_def)
    show thesis
    proof (cases "ht_add (enum_registry reg) name e")
      case None
      with False Inr show thesis by (intro error) (auto simp: quicpro_iibin_define_enum_def)
    next
      case (Some r)
      note fresh = Some [unfolded ht_add_Some_iff]
      from Some False Inr \<open>enum_wf e\<close> fresh show thesis
        by (intro added [of e]) (auto simp: quicpro_iibin_define_enum_def)
    qed
  qed
qed

section \<open>Preservation\<close>

lemma refs_before_append:
  "refs_before D (t @ [(n, sch)]) \<longleftrightarrow> refs_before D t \<and> message_refs sch \<subseteq> D \<union> fst ` set t"
  by (induction t arbitrary: D) auto

lemma field_wf_mono:
  assumes "field_wf reg f" "\<And>n. ht_exists (enum_registry reg) n \<Longrightarrow> ht_exists (enum_registry reg') n"
  shows "field_wf reg' f"
  using assms unfolding field_wf_def by (auto split: option.splits)

lemma schema_wf_mono:
  assumes "schema_wf reg sch" "\<And>n. ht_exists (enum_registry reg) n \<Longrightarrow> ht_exists (enum_registry reg') n"
  shows "schema_wf reg' sch"
  using assms field_wf_mono unfolding schema_wf_def by blast

lemma ht_exists_append: "ht_exists (t @ u) k \<longleftrightarrow> ht_exists t k \<or> ht_exists u k"
  by (simp add: ht_exists_def ht_find_append split: option.split)

lemma registry_wf_add_schema:
  assumes "registry_wf reg" "registries_initialized reg" "\<not> name_defined reg name"
    "ht_find (schema_registry reg) name = None" "schema_wf reg sch"
    "message_refs sch \<subseteq> fst ` set (schema_registry reg)"
  shows "registry_wf (reg\<lparr>schema_registry := schema_registry reg @ [(name, sch)]\<rparr>)"
proof -
  have "schema_wf (reg\<lparr>schema_registry := schema_registry reg @ [(name, sch)]\<rparr>) s" if "schema_wf reg s" for s
    using that by (rule schema_wf_mono) simp
  moreover have "\<not> ht_exists (enum_registry reg) name" if "cstr name = name"
    using assms(2,3) that by (simp add: name_defined_def get_compiled_iibin_enum_internal_def ht_exists_def)
  ultimately show ?thesis
    using assms unfolding registry_wf_def
    by (auto simp: refs_before_append ht_exists_append ht_find_None_iff ht_exists_def split: if_splits)
qed

lemma registry_wf_add_enum:
  assumes "registry_wf reg" "registries_initialized reg" "\<not> name_defined reg name"
    "ht_find (enum_registry reg) name = None" "enum_wf e"
  shows "registry_wf (reg\<lparr>enum_registry := enum_registry reg @ [(name, e)]\<rparr>)"
proof -
  have "schema_wf (reg\<lparr>enum_registry := enum_registry reg @ [(name, e)]\<rparr>) s" if "schema_wf reg s" for s
    using that by (rule schema_wf_mono) (simp add: ht_exists_append)
  moreover have "\<not> ht_exists (schema_registry reg) name" if "cstr name = name"
    using assms(2,3) that by (simp add: name_defined_def get_compiled_iibin_schema_internal_def ht_exists_def)
  ultimately show ?thesis
    using assms unfolding registry_wf_def
    by (auto simp: ht_exists_append ht_find_None_iff ht_exists_def split: if_splits)
qed

lemma empty_registries_wf:
  "registry_wf \<lparr>schema_registry = [], enum_registry = [], registries_initialized = b\<rparr>"
  by (simp add: registry_wf_def ht_exists_def)

interpretation registry: step_system "\<lambda>reg. reg = empty_registry" "registry_step Z" registry_wf for Z
proof
  fix reg reg'
  assume wf: "registry_wf reg" and "registry_step Z reg reg'"
  from this(2) show "registry_wf reg'"
  proof cases
    case init
    then show ?thesis using wf empty_registries_wf by (simp add: quicpro_iibin_registries_init_def)
  next
    case shutdown
    then show ?thesis using wf empty_registries_wf by (simp add: quicpro_iibin_registries_shutdown_def)
  next
    case (define_enum name vals)
    then show ?thesis
      by (cases rule: define_enum_cases [of name vals reg]) (simp_all add: wf registry_wf_add_enum)
  next
    case (define_schema name defs)
    then show ?thesis
      by (cases rule: define_schema_cases [of Z name defs reg]) (simp_all add: wf registry_wf_add_schema)
  qed
qed (simp add: empty_registry_def empty_registries_wf)


lemma strncmp_prefix:
  assumes "CHR 0x00 \<notin> set v" "CHR 0x00 \<notin> set kw"
  shows "strncmp_eq v kw (length v) \<longleftrightarrow> prefix v kw"
proof -
  have "take (length v) (kw @ [CHR 0x00]) = v \<longleftrightarrow> prefix v kw"
  proof (cases "length v \<le> length kw")
    case True
    then show ?thesis by (auto simp: prefix_def) (metis append_take_drop_id)
  next
    case False
    then have "take (length v) (kw @ [CHR 0x00]) = kw @ [CHR 0x00]" by simp
    with False assms(1) show ?thesis
      by (metis in_set_conv_decomp prefix_length_le)
  qed
  with assms show ?thesis by (auto simp: strncmp_eq_def cstr_id)
qed

lemma take_append_prefix:
  assumes "c \<notin> set kw"
  shows "take (length kw) (v @ [c]) = kw \<longleftrightarrow> prefix kw v"
proof (cases "length kw \<le> length v")
  case True
  then show ?thesis by (auto simp: prefix_def) (metis append_take_drop_id)
next
  case False
  then have "take (length kw) (v @ [c]) = v @ [c]" by simp
  with False assms show ?thesis by (metis in_set_conv_decomp prefix_length_le)
qed

lemma strncmp_repeated:
  assumes "CHR 0x00 \<notin> set v"
  shows "strncmp_eq v ''repeated_'' 9 \<longleftrightarrow> prefix ''repeated_'' v"
proof -
  have "take (length ''repeated_'') (v @ [CHR 0x00]) = ''repeated_'' \<longleftrightarrow> prefix ''repeated_'' v"
    by (rule take_append_prefix) simp
  moreover have "length ''repeated_'' = 9" "take 9 (cstr ''repeated_'' @ [CHR 0x00]) = ''repeated_''"
    by (simp_all add: cstr_id)
  ultimately show ?thesis
    unfolding strncmp_eq_def cstr_id [OF assms] by (simp only:)
qed

lemma example_registry_wf: "registry_wf example_registry"
  unfolding example_registry_def
  by (rule registry.reachable_inv [where Z = example_api, OF refl])
    (blast intro: rtranclp.intros registry_step.init registry_step.define_schema)

section \<open>Properties\<close>

text \<open>
  C3: every registry reachable from the module's start through initialisation, shutdown and any
  sequence of enum and schema definitions, failing ones included, is well formed: tables agree
  with the sorted field list, tags are distinct, wire types are those of the field types,
  no NUL-free name denotes both a schema and an enum, and every message or enum type a field
  refers to is defined, a message type before the schema that uses it.
\<close>

theorem registry_invariant:
  "(registry_step Z)\<^sup>*\<^sup>* empty_registry reg \<Longrightarrow> registry_wf reg"
  by (rule registry.reachable_inv [OF refl])

theorem registry_invariant_witness:
  "registry_wf (snd (quicpro_iibin_define_schema example_api ''Point'' example_point
     (quicpro_iibin_registries_init empty_registry))) \<and>
   fst (quicpro_iibin_define_schema example_api ''Point'' example_point
     (quicpro_iibin_registries_init empty_registry)) = Inr ()"
proof
  show "registry_wf (snd (quicpro_iibin_define_schema example_api ''Point'' example_point
      (quicpro_iibin_registries_init empty_registry)))"
    by (rule registry_invariant [of example_api])
      (blast intro: rtranclp.intros registry_step.init registry_step.define_schema)
qed code_simp

text \<open>
  a successful schema definition stores, under a name without NUL bytes, a schema with
  exactly the fields parsed from the definition array, sorted by tag; every other name keeps
  its meaning, and a failing definition changes nothing.
\<close>

theorem define_schema_stores:
  assumes "CHR 0x00 \<notin> set name"
  shows "case quicpro_iibin_define_schema Z name defs reg of
      (Inl e, reg') \<Rightarrow> reg' = reg
    | (Inr _, reg') \<Rightarrow>
        enum_registry reg' = enum_registry reg \<and>
        (\<exists>sch. get_compiled_iibin_schema_internal reg' name = Some sch \<and> schema_name sch = name \<and>
           set (ordered_fields sch) = parsed_fields Z reg name defs \<and>
           num_fields sch = length defs \<and> sorted_wrt (<) (map tag (ordered_fields sch))) \<and>
        (\<forall>n. cstr n = name \<or>
           get_compiled_iibin_schema_internal reg' n = get_compiled_iibin_schema_internal reg n)"
proof (cases rule: define_schema_cases [of Z name defs reg])
  case (added sch)
  then show ?thesis
    using assms
    by (auto simp: get_compiled_iibin_schema_internal_def ht_find_append cstr_id schema_wf_def
        split: option.split)
qed simp

theorem define_schema_stores_witness:
  "get_compiled_iibin_schema_internal
     (snd (quicpro_iibin_define_schema example_api ''Point'' example_point
       (quicpro_iibin_registries_init empty_registry))) ''Point'' \<noteq> None"
proof -
  have "fst (quicpro_iibin_define_schema example_api ''Point'' example_point
      (quicpro_iibin_registries_init empty_registry)) = Inr ()"
    by code_simp
  then show ?thesis
    using define_schema_stores [where Z = example_api and name = "''Point''" and
        defs = example_point and reg = "quicpro_iibin_registries_init empty_registry"]
    by (auto split: prod.splits sum.splits)
qed

text \<open>
  a type string without NUL bytes and without the ``repeated_'' prefix is taken for the
  first primitive type whose keyword it is a prefix of; only a string that is a prefix of no
  keyword names a message or enum type.
\<close>

theorem type_string_prefix:
  assumes "CHR 0x00 \<notin> set s" "s \<noteq> []" "\<not> prefix ''repeated_'' s"
  shows "parse_php_field_type_details s =
     Some (case find (\<lambda>(kw, t). prefix s kw) primitive_types of
             Some (kw, t) \<Rightarrow> (t, False, None)
           | None \<Rightarrow> (TYPE_UNKNOWN, False, Some s))"
  using assms
  by (simp add: parse_php_field_type_details_def primitive_types_def strncmp_prefix strncmp_repeated)

theorem type_string_prefix_witness:
  "parse_php_field_type_details ''f'' = Some (TYPE_FLOAT, False, None) \<and>
   parse_php_field_type_details ''Point'' = Some (TYPE_UNKNOWN, False, Some ''Point'')"
  using type_string_prefix [of "''f''"] type_string_prefix [of "''Point''"]
  by (simp add: primitive_types_def)

text \<open>Every keyword denotes its own type.\<close>

theorem type_keywords:
  "map (\<lambda>(kw, t). parse_php_field_type_details kw) primitive_types =
   map (\<lambda>(kw, t). Some (t, False, None)) primitive_types"
  by code_simp




end
