(* ===== verification/Float_Bits.thy ===== *)
theory Float_Bits
  imports Prelude
begin

text \<open>
  The C conversions between \<open>float\<close> and \<open>double\<close> on their IEEE bit patterns: narrowing rounds
  to nearest, ties to even, and widening is exact.  A NaN keeps the upper part of its
  payload and becomes quiet, as the x86-64 conversion instructions do it.
\<close>

definition round_half_even :: "int \<Rightarrow> nat \<Rightarrow> int" where
  "round_half_even n k =
     (let q = drop_bit k n; r = take_bit k n; half = 2 ^ (k - 1) in
      if 0 < k \<and> (half < r \<or> half = r \<and> odd q) then q + 1 else q)"

definition f64_to_f32 :: "u64 \<Rightarrow> u32" where
  "f64_to_f32 d =
     (let s = (if bit d 63 then 0x80000000 else 0 :: u32);
          e = uint (take_bit 11 (drop_bit 52 d));
          m = uint (take_bit 52 d)
      in if e = 2047 then
           (if m = 0 then s OR 0x7F800000 else s OR 0x7FC00000 OR word_of_int (drop_bit 29 m))
         else if e = 0 then s
         else if 1150 < e then s OR 0x7F800000
         else if 897 \<le> e then s OR word_of_int ((e - 897) * 2 ^ 23 + round_half_even (2 ^ 52 + m) 29)
         else s OR word_of_int (round_half_even (2 ^ 52 + m) (nat (926 - e))))"

text \<open>The position of the leading one of a subnormal significand.\<close>

fun top_bit :: "nat \<Rightarrow> u32 \<Rightarrow> nat" where
  "top_bit 0 m = 0"
| "top_bit (Suc k) m = (if bit m (Suc k) then Suc k else top_bit k m)"

definition f32_to_f64 :: "u32 \<Rightarrow> u64" where
  "f32_to_f64 f =
     (let s = (if bit f 31 then 0x8000000000000000 else 0 :: u64);
          e = uint (take_bit 8 (drop_bit 23 f));
          m = uint (take_bit 23 f)
      in if e = 255 then
           (if m = 0 then s OR 0x7FF0000000000000 else s OR 0x7FF8000000000000 OR word_of_int (push_bit 29 m))
         else if e = 0 then
           (if m = 0 then s
            else let k = top_bit 22 (take_bit 23 f) in
              s OR word_of_int ((int k + 874) * 2 ^ 52 + (m - 2 ^ k) * 2 ^ (52 - k)))
         else s OR word_of_int ((e + 896) * 2 ^ 52 + m * 2 ^ 29))"

end
