(* ===== verification/IIBIN_Encode.thy ===== *)
theory IIBIN_Encode
  imports IIBIN_Schema Float_Bits
begin

text \<open>
  The encoder of \<^verbatim>\<open>extension/src/iibin/iibin_encoding.c\<close>.  A \<open>smart_str\<close> is the list of the
  bytes appended to it.  The recursion through nested messages is bounded by fuel; one unit
  is spent per nested schema, and a well-formed registry needs no more units than it has
  schemas.
\<close>

section \<open>Errors\<close>

datatype codec_error =
    E_Silent  \<comment> \<open>FAILURE with no exception raised\<close>
  | E_Fault  \<comment> \<open>access outside the storage of an object, or to freed storage\<close>
  | E_Alloc  \<comment> \<open>the engine refuses an allocation and ends the request\<close>
  | E_Schema_undefined string
  | E_Expects_integer string
  | E_Expects_float string
  | E_Expects_bool string
  | E_Enum_undefined string
  | E_Enum_not_member string string
  | E_Enum_expects_int_or_string string
  | E_Expects_string string
  | E_Expects_message string
  | E_Nested_undefined string
  | E_Unknown_type string
  | E_Required_missing string u32
  | E_Repeated_expects_array string
  | E_Data_expects_array string
  | E_Wire_type_mismatch string
  | E_Malformed_key string
  | E_Skip_failed u32 string
  | E_Packed_too_long
  | E_Required_not_found string u32

type_synonym 'a codec = "(codec_error, 'a) outcome"

definition byte_of_char :: "char \<Rightarrow> u8" where
  "byte_of_char c = word_of_int (of_char c)"

definition char_of_byte :: "u8 \<Rightarrow> char" where
  "char_of_byte b = char_of (uint b)"

definition bytes_of :: "string \<Rightarrow> u8 list" where
  "bytes_of s = map byte_of_char s"

definition string_of :: "u8 list \<Rightarrow> string" where
  "string_of bs = map char_of_byte bs"

section \<open>One value\<close>

definition field_key :: "field_def \<Rightarrow> u64" where
  "field_key f = ucast (push_bit 3 (tag f) OR wire_type f)"

text \<open>The type tests before the value is written.\<close>

definition check_value_type :: "field_def \<Rightarrow> zval \<Rightarrow> codec_error option" where
  "check_value_type f v =
     (if ftype f \<in> {TYPE_INT32, TYPE_UINT32, TYPE_SINT32, TYPE_INT64, TYPE_UINT64, TYPE_SINT64,
                    TYPE_FIXED32, TYPE_SFIXED32, TYPE_FIXED64, TYPE_SFIXED64}
      then (case v of Z_Long l \<Rightarrow> None | _ \<Rightarrow> Some (E_Expects_integer (name_in_php f)))
      else if ftype f \<in> {TYPE_FLOAT, TYPE_DOUBLE}
      then (case v of Z_Double d \<Rightarrow> None | Z_Long l \<Rightarrow> None | _ \<Rightarrow> Some (E_Expects_float (name_in_php f)))
      else if ftype f = TYPE_BOOL
      then (case v of Z_True \<Rightarrow> None | Z_False \<Rightarrow> None | _ \<Rightarrow> Some (E_Expects_bool (name_in_php f)))
      else None)"

text \<open>\<^verbatim>\<open>Z_LVAL_P\<close>, only read after the type test.\<close>

fun z_lval :: "zval \<Rightarrow> zend_long" where
  "z_lval (Z_Long l) = l"
| "z_lval v = 0"

definition encode_enum_value :: "iibin_registry \<Rightarrow> u8 list \<Rightarrow> field_def \<Rightarrow> zval \<Rightarrow> u8 list codec" where
  "encode_enum_value reg buf f v =
     (case v of
        Z_Long l \<Rightarrow> Ok (quicpro_proto_encode_varint buf (scast (ucast l :: u32)))
      | Z_String s \<Rightarrow>
          (case map_option (get_compiled_iibin_enum_internal reg) (enum_type_name_if_enum f) of
             None \<Rightarrow> Fail E_Fault
           | Some None \<Rightarrow> Fail (E_Enum_undefined (name_in_php f))
           | Some (Some e) \<Rightarrow>
               (case ht_find (values_by_name e) s of
                  None \<Rightarrow> Fail (E_Enum_not_member s (name_in_php f))
                | Some ev \<Rightarrow> Ok (quicpro_proto_encode_varint buf (scast (ev_number ev)))))
      | _ \<Rightarrow> Fail (E_Enum_expects_int_or_string (name_in_php f)))"

definition encode_single_field_value ::
  "zend_api \<Rightarrow> iibin_registry \<Rightarrow> (u8 list \<Rightarrow> compiled_schema \<Rightarrow> zval \<Rightarrow> u8 list codec) \<Rightarrow>
   u8 list \<Rightarrow> field_def \<Rightarrow> zval \<Rightarrow> u8 list codec" where
  "encode_single_field_value Z reg encode_nested buf f v =
     (let buf = quicpro_proto_encode_varint buf (field_key f) in
      case check_value_type f v of
        Some e \<Rightarrow> Fail e
      | None \<Rightarrow>
     (case ftype f of
        TYPE_INT32 \<Rightarrow> Ok (quicpro_proto_encode_varint buf (z_lval v))
      | TYPE_SINT32 \<Rightarrow>
          Ok (quicpro_proto_encode_varint buf (ucast (quicpro_proto_zigzag_encode32 (ucast (z_lval v)))))
      | TYPE_INT64 \<Rightarrow> Ok (quicpro_proto_encode_varint buf (z_lval v))
      | TYPE_SINT64 \<Rightarrow> Ok (quicpro_proto_encode_varint buf (quicpro_proto_zigzag_encode64 (z_lval v)))
      | TYPE_UINT32 \<Rightarrow> Ok (quicpro_proto_encode_varint buf (z_lval v))
      | TYPE_UINT64 \<Rightarrow> Ok (quicpro_proto_encode_varint buf (z_lval v))
      | TYPE_BOOL \<Rightarrow> Ok (quicpro_proto_encode_varint buf (if v = Z_True then 1 else 0))
      | TYPE_ENUM \<Rightarrow> encode_enum_value reg buf f v
      | TYPE_FLOAT \<Rightarrow> Ok (quicpro_proto_encode_fixed32 buf (f64_to_f32 (zval_get_double Z v)))
      | TYPE_FIXED32 \<Rightarrow> Ok (quicpro_proto_encode_fixed32 buf (ucast (z_lval v)))
      | TYPE_SFIXED32 \<Rightarrow> Ok (quicpro_proto_encode_fixed32 buf (ucast (z_lval v)))
      | TYPE_DOUBLE \<Rightarrow> Ok (quicpro_proto_encode_fixed64 buf (zval_get_double Z v))
      | TYPE_FIXED64 \<Rightarrow> Ok (quicpro_proto_encode_fixed64 buf (z_lval v))
      | TYPE_SFIXED64 \<Rightarrow> Ok (quicpro_proto_encode_fixed64 buf (z_lval v))
      | TYPE_MESSAGE \<Rightarrow>
          (if \<not> is_array v \<and> \<not> is_object v then Fail (E_Expects_message (name_in_php f))
           else case map_option (get_compiled_iibin_schema_internal reg) (message_type_name_if_nested f) of
             None \<Rightarrow> Fail E_Fault
           | Some None \<Rightarrow> Fail (E_Nested_undefined (name_in_php f))
           | Some (Some nested_schema) \<Rightarrow>
               obind (encode_nested [] nested_schema v) (\<lambda>nested_buf.
                 Ok (quicpro_proto_encode_varint buf (of_nat (length nested_buf)) @ nested_buf)))
      | TYPE_UNKNOWN \<Rightarrow> Fail (E_Unknown_type (name_in_php f))
      | _ \<Rightarrow>
          (if \<not> is_string v then Fail (E_Expects_string (name_in_php f))
           else Ok (quicpro_proto_encode_varint buf (of_nat (length (z_str v))) @ bytes_of (z_str v)))))"

section \<open>Repeated fields\<close>

definition encode_packed_item :: "zend_api \<Rightarrow> field_def \<Rightarrow> u8 list \<Rightarrow> zval \<Rightarrow> u8 list" where
  "encode_packed_item Z f packed_buf item =
     (if ftype f \<in> {TYPE_INT32, TYPE_INT64, TYPE_UINT32, TYPE_UINT64, TYPE_BOOL, TYPE_ENUM}
      then quicpro_proto_encode_varint packed_buf (zval_get_long Z item)
      else if ftype f = TYPE_SINT32
      then quicpro_proto_encode_varint packed_buf
             (ucast (quicpro_proto_zigzag_encode32 (ucast (zval_get_long Z item))))
      else if ftype f = TYPE_SINT64
      then quicpro_proto_encode_varint packed_buf (quicpro_proto_zigzag_encode64 (zval_get_long Z item))
      else if ftype f \<in> {TYPE_FIXED32, TYPE_SFIXED32}
      then quicpro_proto_encode_fixed32 packed_buf (ucast (zval_get_long Z item))
      else if ftype f = TYPE_FLOAT
      then quicpro_proto_encode_fixed32 packed_buf (f64_to_f32 (zval_get_double Z item))
      else if ftype f \<in> {TYPE_FIXED64, TYPE_SFIXED64}
      then quicpro_proto_encode_fixed64 packed_buf (zval_get_long Z item)
      else if ftype f = TYPE_DOUBLE
      then quicpro_proto_encode_fixed64 packed_buf (zval_get_double Z item)
      else packed_buf)"

definition encode_packed_repeated_field :: "zend_api \<Rightarrow> u8 list \<Rightarrow> field_def \<Rightarrow> php_array \<Rightarrow> u8 list" where
  "encode_packed_repeated_field Z buf f items =
     (let packed_buf = foldl (encode_packed_item Z f) [] (map snd items) in
      if packed_buf = [] then buf
      else quicpro_proto_encode_varint
             (quicpro_proto_encode_varint buf (ucast (push_bit 3 (tag f) OR WIRETYPE_LENGTH_DELIM)))
             (of_nat (length packed_buf)) @ packed_buf)"

fun encode_items :: "(u8 list \<Rightarrow> zval \<Rightarrow> u8 list codec) \<Rightarrow> u8 list \<Rightarrow> zval list \<Rightarrow> u8 list codec" where
  "encode_items enc buf [] = Ok buf"
| "encode_items enc buf (v # vs) = obind (enc buf v) (\<lambda>buf. encode_items enc buf vs)"

fun z_arrval :: "zval \<Rightarrow> php_array" where
  "z_arrval (Z_Array t) = t"
| "z_arrval v = []"

definition encode_field_internal ::
  "zend_api \<Rightarrow> iibin_registry \<Rightarrow> (u8 list \<Rightarrow> compiled_schema \<Rightarrow> zval \<Rightarrow> u8 list codec) \<Rightarrow>
   u8 list \<Rightarrow> field_def \<Rightarrow> zval option \<Rightarrow> u8 list codec" where
  "encode_field_internal Z reg encode_nested buf f value =
     (if value = None \<or> value = Some Z_Null \<or> value = Some Z_Undef then
        (if flags f AND FLAG_REQUIRED \<noteq> 0 then Fail (E_Required_missing (name_in_php f) (tag f)) else Ok buf)
      else
        let v = the value in
        if flags f AND FLAG_REPEATED \<noteq> 0 then
          (if \<not> is_array v then Fail (E_Repeated_expects_array (name_in_php f))
           else if z_arrval v = [] then Ok buf
           else if flags f AND FLAG_PACKED \<noteq> 0 then Ok (encode_packed_repeated_field Z buf f (z_arrval v))
           else encode_items (\<lambda>buf. encode_single_field_value Z reg encode_nested buf f) buf
                  (map snd (z_arrval v)))
        else encode_single_field_value Z reg encode_nested buf f v)"

section \<open>Messages\<close>

definition message_value :: "zend_api \<Rightarrow> zval \<Rightarrow> string \<Rightarrow> zval option" where
  "message_value Z data name =
     (case data of
        Z_Array t \<Rightarrow> arr_find t name
      | _ \<Rightarrow> Some (zend_read_property Z data name))"

fun encode_fields ::
  "(u8 list \<Rightarrow> field_def \<Rightarrow> zval option \<Rightarrow> u8 list codec) \<Rightarrow> zend_api \<Rightarrow> zval \<Rightarrow> u8 list \<Rightarrow>
   field_def list \<Rightarrow> u8 list codec" where
  "encode_fields enc Z data buf [] = Ok buf"
| "encode_fields enc Z data buf (f # fs) =
     obind (enc buf f (message_value Z data (name_in_php f))) (\<lambda>buf. encode_fields enc Z data buf fs)"

primrec encode_message_internal ::
  "nat \<Rightarrow> zend_api \<Rightarrow> iibin_registry \<Rightarrow> u8 list \<Rightarrow> compiled_schema \<Rightarrow> zval \<Rightarrow> u8 list codec" where
  "encode_message_internal 0 Z reg buf schema data = Diverge"
| "encode_message_internal (Suc n) Z reg buf schema data =
     (if \<not> is_array data \<and> \<not> is_object data then Fail (E_Data_expects_array (schema_name schema))
      else encode_fields (encode_field_internal Z reg (encode_message_internal n Z reg)) Z data buf
             (take (num_fields schema) (ordered_fields schema)))"

definition quicpro_iibin_encode :: "nat \<Rightarrow> zend_api \<Rightarrow> iibin_registry \<Rightarrow> string \<Rightarrow> zval \<Rightarrow> string codec" where
  "quicpro_iibin_encode n Z reg name data =
     (case get_compiled_iibin_schema_internal reg name of
        None \<Rightarrow> Fail (E_Schema_undefined name)
      | Some schema \<Rightarrow>
          obind (encode_message_internal n Z reg [] schema data) (\<lambda>buf. Ok (string_of buf)))"

end
