(* ===== verification/IIBIN_Decode.thy ===== *)
theory IIBIN_Decode
  imports IIBIN_Encode
begin

text \<open>
  The decoder of \<^verbatim>\<open>extension/src/iibin/iibin_decoding.c\<close>, over the byte memory of the process
  with pointers as 64-bit words, so that the pointer comparisons of the source keep their
  wrap-around.  One unit of fuel is spent per iteration of the field loop, per item of a
  packed field and per nested message.  The test of the undeclared \<^verbatim>\<open>is_object\<close> in the field
  loop is read as the test of the result's type.
\<close>

section \<open>Skipping unknown fields\<close>

definition wire_result :: "wire_fail + 'a \<Rightarrow> codec_error \<Rightarrow> 'a codec" where
  "wire_result r e = (case r of Inl Short \<Rightarrow> Fail e | Inl Fault \<Rightarrow> Fail E_Fault | Inr x \<Rightarrow> Ok x)"

definition skip_field :: "memory \<Rightarrow> u64 \<Rightarrow> u64 \<Rightarrow> u32 \<Rightarrow> codec_error \<Rightarrow> u64 codec" where
  "skip_field m p buf_end wt err =
     (if wt = WIRETYPE_VARINT then
        obind (wire_result (quicpro_proto_decode_varint m p buf_end) err) (\<lambda>(v, p). Ok p)
      else if wt = WIRETYPE_FIXED64 then (if p + 8 > buf_end then Fail err else Ok (p + 8))
      else if wt = WIRETYPE_LENGTH_DELIM then
        obind (wire_result (quicpro_proto_decode_varint m p buf_end) err) (\<lambda>(len, p).
          if p + len > buf_end then Fail err else Ok (p + len))
      else if wt = WIRETYPE_FIXED32 then (if p + 4 > buf_end then Fail err else Ok (p + 4))
      else Fail err)"

section \<open>One value\<close>

text \<open>
  The bounds test \<^verbatim>\<open>*buf_ptr + len > *buf_end\<close> of the length-delimited types, which compares
  the pointer with the byte stored at the end of the buffer.
\<close>

definition length_test :: "memory \<Rightarrow> u64 \<Rightarrow> u64 \<Rightarrow> u64 \<Rightarrow> unit codec" where
  "length_test m p buf_end len =
     (case m buf_end of
        None \<Rightarrow> Fail E_Fault
      | Some b \<Rightarrow> if p + len > ucast b then Fail E_Silent else Ok ())"

text \<open>\<^verbatim>\<open>ZVAL_STRINGL\<close>: the allocation, then the copy.\<close>

definition zval_stringl :: "zend_api \<Rightarrow> memory \<Rightarrow> u64 \<Rightarrow> u64 \<Rightarrow> zval codec" where
  "zval_stringl Z m p len =
     (if len > memory_limit Z then Fail E_Alloc
      else case load_bytes m p (unat len) of
        None \<Rightarrow> Fail E_Fault
      | Some bs \<Rightarrow> Ok (Z_String (string_of bs)))"

definition decode_scalar :: "memory \<Rightarrow> u64 \<Rightarrow> u64 \<Rightarrow> field_type \<Rightarrow> (u64 \<times> zval) codec" where
  "decode_scalar m p buf_end t =
     (let varint = wire_result (quicpro_proto_decode_varint m p buf_end) E_Silent;
          fixed32 = wire_result (quicpro_proto_decode_fixed32 m p buf_end) E_Silent;
          fixed64 = wire_result (quicpro_proto_decode_fixed64 m p buf_end) E_Silent
      in case t of
        TYPE_INT32 \<Rightarrow> obind varint (\<lambda>(v, p). Ok (p, Z_Long (scast (ucast v :: u32))))
      | TYPE_ENUM \<Rightarrow> obind varint (\<lambda>(v, p). Ok (p, Z_Long (scast (ucast v :: u32))))
      | TYPE_SINT32 \<Rightarrow>
          obind varint (\<lambda>(v, p). Ok (p, Z_Long (scast (quicpro_proto_zigzag_decode32 (ucast v)))))
      | TYPE_INT64 \<Rightarrow> obind varint (\<lambda>(v, p). Ok (p, Z_Long v))
      | TYPE_SINT64 \<Rightarrow> obind varint (\<lambda>(v, p). Ok (p, Z_Long (quicpro_proto_zigzag_decode64 v)))
      | TYPE_UINT32 \<Rightarrow> obind varint (\<lambda>(v, p). Ok (p, Z_Long v))
      | TYPE_UINT64 \<Rightarrow> obind varint (\<lambda>(v, p). Ok (p, Z_Long v))
      | TYPE_BOOL \<Rightarrow> obind varint (\<lambda>(v, p). Ok (p, if v \<noteq> 0 then Z_True else Z_False))
      | TYPE_FLOAT \<Rightarrow> obind fixed32 (\<lambda>(v, p). Ok (p, Z_Double (f32_to_f64 v)))
      | TYPE_FIXED32 \<Rightarrow> obind fixed32 (\<lambda>(v, p). Ok (p, Z_Long (ucast v)))
      | TYPE_SFIXED32 \<Rightarrow> obind fixed32 (\<lambda>(v, p). Ok (p, Z_Long (scast v)))
      | TYPE_DOUBLE \<Rightarrow> obind fixed64 (\<lambda>(v, p). Ok (p, Z_Double v))
      | TYPE_FIXED64 \<Rightarrow> obind fixed64 (\<lambda>(v, p). Ok (p, Z_Long v))
      | TYPE_SFIXED64 \<Rightarrow> obind fixed64 (\<lambda>(v, p). Ok (p, Z_Long v))
      | _ \<Rightarrow> Fail E_Silent)"

definition new_message :: "bool \<Rightarrow> zval" where
  "new_message as_object = (if as_object then Z_Object [] else Z_Array [])"

definition decode_value_to_zval ::
  "zend_api \<Rightarrow> iibin_registry \<Rightarrow> memory \<Rightarrow> (u64 \<Rightarrow> u64 \<Rightarrow> compiled_schema \<Rightarrow> zval \<Rightarrow> (u64 \<times> zval) codec) \<Rightarrow>
   u64 \<Rightarrow> u64 \<Rightarrow> field_def \<Rightarrow> u32 \<Rightarrow> bool \<Rightarrow> (u64 \<times> zval) codec" where
  "decode_value_to_zval Z reg m decode_nested p buf_end f wt as_object =
     (if wt \<noteq> wire_type f \<and> flags f AND FLAG_PACKED = 0 then Fail (E_Wire_type_mismatch (name_in_php f))
      else if ftype f = TYPE_STRING \<or> ftype f = TYPE_BYTES then
        obind (wire_result (quicpro_proto_decode_varint m p buf_end) E_Silent) (\<lambda>(len, p).
        obind (length_test m p buf_end len) (\<lambda>_.
        obind (zval_stringl Z m p len) (\<lambda>v. Ok (p + len, v))))
      else if ftype f = TYPE_MESSAGE then
        obind (wire_result (quicpro_proto_decode_varint m p buf_end) E_Silent) (\<lambda>(len, p).
        obind (length_test m p buf_end len) (\<lambda>_.
          case map_option (get_compiled_iibin_schema_internal reg) (message_type_name_if_nested f) of
            None \<Rightarrow> Fail E_Fault
          | Some None \<Rightarrow> Fail (E_Nested_undefined (name_in_php f))
          | Some (Some nested_schema) \<Rightarrow>
              obind (decode_nested p (p + len) nested_schema (new_message as_object)) (\<lambda>(p', v).
                Ok (p + len, v))))
      else decode_scalar m p buf_end (ftype f))"

section \<open>Storing decoded values\<close>

text \<open>
  Writing a field of the result.  An array takes over the reference it is given, so the
  \<^verbatim>\<open>zval_ptr_dtor\<close> that follows the store releases what the array still refers to; writing
  a property of an object takes a reference of its own.
\<close>

definition owned_by_array :: "zval \<Rightarrow> zval" where
  "owned_by_array v = (if refcounted v then Z_Freed else v)"

fun msg_find :: "zval \<Rightarrow> string \<Rightarrow> zval option" where
  "msg_find (Z_Object t) k = ht_find t k"
| "msg_find (Z_Array t) k = arr_find t k"
| "msg_find v k = None"

fun msg_update :: "zval \<Rightarrow> string \<Rightarrow> zval \<Rightarrow> zval" where
  "msg_update (Z_Object t) k v = Z_Object (ht_update t k v)"
| "msg_update (Z_Array t) k v = Z_Array (ht_update t (HStr k) v)"
| "msg_update r k v = r"

definition store_then_release :: "zval \<Rightarrow> string \<Rightarrow> zval \<Rightarrow> zval" where
  "store_then_release ret k v =
     (if is_object ret then msg_update ret k v else msg_update ret k (owned_by_array v))"

text \<open>\<^verbatim>\<open>add_next_index_zval\<close> on a value found in the result.\<close>

definition push_item :: "zval \<Rightarrow> zval \<Rightarrow> zval codec" where
  "push_item arr v = (case arr of Z_Array t \<Rightarrow> Ok (Z_Array (arr_push t v)) | _ \<Rightarrow> Fail E_Fault)"

definition store_value :: "zval \<Rightarrow> field_def \<Rightarrow> zval \<Rightarrow> zval codec" where
  "store_value ret f v =
     (let k = name_in_php f in
      if flags f AND FLAG_REPEATED \<noteq> 0 then
        (case msg_find ret k of
           None \<Rightarrow> Ok (store_then_release ret k (Z_Array (arr_push [] v)))
         | Some sub \<Rightarrow> obind (push_item sub v) (\<lambda>sub. Ok (msg_update ret k sub)))
      else Ok (store_then_release ret k v))"

section \<open>Messages\<close>

text \<open>The items of a packed field, appended to the array already in the result.\<close>

primrec decode_packed_items ::
  "nat \<Rightarrow> (u64 \<Rightarrow> (u64 \<times> zval) codec) \<Rightarrow> u64 \<Rightarrow> u64 \<Rightarrow> zval \<Rightarrow> (u64 \<times> zval) codec" where
  "decode_packed_items 0 dec p packed_end sub = Diverge"
| "decode_packed_items (Suc n) dec p packed_end sub =
     (if p < packed_end then
        obind (dec p) (\<lambda>(p, v).
        obind (push_item sub v) (\<lambda>sub. decode_packed_items n dec p packed_end sub))
      else Ok (p, sub))"

definition decode_packed_field ::
  "nat \<Rightarrow> zend_api \<Rightarrow> iibin_registry \<Rightarrow> memory \<Rightarrow> (u64 \<Rightarrow> u64 \<Rightarrow> compiled_schema \<Rightarrow> zval \<Rightarrow> (u64 \<times> zval) codec) \<Rightarrow>
   u64 \<Rightarrow> u64 \<Rightarrow> field_def \<Rightarrow> zval \<Rightarrow> bool \<Rightarrow> (u64 \<times> zval) codec" where
  "decode_packed_field n Z reg m decode_nested p buf_end f ret as_object =
     obind (wire_result (quicpro_proto_decode_varint m p buf_end) E_Silent) (\<lambda>(len, p).
       if p + len > buf_end then Fail E_Packed_too_long
       else
         let packed_end = p + len;
             dec = (\<lambda>p. decode_value_to_zval Z reg m decode_nested p packed_end f (wire_type f) as_object)
         in case ret of
           Z_Array t \<Rightarrow>
             (let sub = (case arr_find t (name_in_php f) of None \<Rightarrow> Z_Array [] | Some sub \<Rightarrow> sub)
              in obind (decode_packed_items n dec p packed_end sub) (\<lambda>(p, sub).
                   Ok (p, Z_Array (ht_update t (HStr (name_in_php f)) sub))))
         | _ \<Rightarrow> Fail E_Fault)"

primrec decode_message_internal ::
  "nat \<Rightarrow> zend_api \<Rightarrow> iibin_registry \<Rightarrow> memory \<Rightarrow> bool \<Rightarrow> u64 \<Rightarrow> u64 \<Rightarrow> compiled_schema \<Rightarrow> zval \<Rightarrow>
   (u64 \<times> zval) codec" where
  "decode_message_internal 0 Z reg m as_object p buf_end schema ret = Diverge"
| "decode_message_internal (Suc n) Z reg m as_object p buf_end schema ret =
     (if p < buf_end then
        obind (wire_result (quicpro_proto_decode_varint m p buf_end) (E_Malformed_key (schema_name schema)))
          (\<lambda>(key, p).
        let tag = ucast (drop_bit 3 key) :: u32;
            wt = ucast (key AND 7) :: u32
        in
        if tag = 0 then decode_message_internal n Z reg m as_object p buf_end schema ret
        else case ht_find (fields_by_tag schema) (ucast tag) of
          None \<Rightarrow>
            obind (skip_field m p buf_end wt (E_Skip_failed tag (schema_name schema))) (\<lambda>p.
              decode_message_internal n Z reg m as_object p buf_end schema ret)
        | Some f \<Rightarrow>
            let nested = decode_message_internal n Z reg m as_object in
            if flags f AND FLAG_PACKED \<noteq> 0 \<and> wt = WIRETYPE_LENGTH_DELIM then
              obind (decode_packed_field n Z reg m nested p buf_end f ret as_object) (\<lambda>(p, ret).
                decode_message_internal n Z reg m as_object p buf_end schema ret)
            else
              obind (decode_value_to_zval Z reg m nested p buf_end f wt as_object) (\<lambda>(p, v).
              obind (store_value ret f v) (\<lambda>ret.
                decode_message_internal n Z reg m as_object p buf_end schema ret)))
      else Ok (p, ret))"

section \<open>Defaults and required fields\<close>

fun populate_fields :: "field_def list \<Rightarrow> zval \<Rightarrow> zval codec" where
  "populate_fields [] ret = Ok ret"
| "populate_fields (f # fs) ret =
     (if msg_find ret (name_in_php f) \<noteq> None then populate_fields fs ret
      else if flags f AND FLAG_REQUIRED \<noteq> 0 then Fail (E_Required_not_found (name_in_php f) (tag f))
      else if default_value_zval f \<noteq> Z_Undef
      then populate_fields fs (msg_update ret (name_in_php f) (default_value_zval f))
      else populate_fields fs ret)"

definition populate_default_values_and_check_required :: "compiled_schema \<Rightarrow> zval \<Rightarrow> zval codec" where
  "populate_default_values_and_check_required schema ret =
     populate_fields (take (num_fields schema) (ordered_fields schema)) ret"

section \<open>The PHP function\<close>

text \<open>
  The bytes of the argument stand at \<open>base\<close>.  The result carries whether the exception about
  unconsumed bytes is pending.
\<close>

definition quicpro_iibin_decode ::
  "nat \<Rightarrow> zend_api \<Rightarrow> iibin_registry \<Rightarrow> u64 \<Rightarrow> string \<Rightarrow> string \<Rightarrow> bool \<Rightarrow> (bool \<times> zval) codec" where
  "quicpro_iibin_decode n Z reg base name binary as_object =
     (case get_compiled_iibin_schema_internal reg name of
        None \<Rightarrow> Fail (E_Schema_undefined name)
      | Some schema \<Rightarrow>
          (let m = string_storage base (bytes_of binary);
               buf_end = ptr_add base (length binary)
           in obind (decode_message_internal n Z reg m as_object base buf_end schema (new_message as_object))
                (\<lambda>(p, ret). obind (populate_default_values_and_check_required schema ret)
                  (\<lambda>ret. Ok (p \<noteq> buf_end, ret)))))"

end
