(* ===== verification/IIBIN_Roundtrip.thy ===== *)
theory IIBIN_Roundtrip
  imports IIBIN_Decode
begin

text \<open>
  The encoder and the decoder against each other: both are refined to functions on byte
  lists for scalar values, single fields and whole messages, and from these follows that
  decoding undoes encoding.  The encoder's recursion through nested schemas is shown to end.
\<close>

definition raw_bytes :: "field_type \<Rightarrow> u64 \<Rightarrow> u64 \<Rightarrow> u8 list" where
  "raw_bytes t l d =
     (case t of
        TYPE_INT32 \<Rightarrow> varint_bytes 10 l | TYPE_INT64 \<Rightarrow> varint_bytes 10 l
      | TYPE_UINT32 \<Rightarrow> varint_bytes 10 l | TYPE_UINT64 \<Rightarrow> varint_bytes 10 l
      | TYPE_BOOL \<Rightarrow> varint_bytes 10 l | TYPE_ENUM \<Rightarrow> varint_bytes 10 l
      | TYPE_SINT32 \<Rightarrow> varint_bytes 10 (ucast (quicpro_proto_zigzag_encode32 (ucast l)))
      | TYPE_SINT64 \<Rightarrow> varint_bytes 10 (quicpro_proto_zigzag_encode64 l)
      | TYPE_FIXED32 \<Rightarrow> le_bytes 4 (ucast l :: u32) | TYPE_SFIXED32 \<Rightarrow> le_bytes 4 (ucast l :: u32)
      | TYPE_FLOAT \<Rightarrow> le_bytes 4 (f64_to_f32 d)
      | TYPE_FIXED64 \<Rightarrow> le_bytes 8 l | TYPE_SFIXED64 \<Rightarrow> le_bytes 8 l
      | TYPE_DOUBLE \<Rightarrow> le_bytes 8 d
      | _ \<Rightarrow> [])"

definition raw_value :: "field_type \<Rightarrow> u64 \<Rightarrow> u64 \<Rightarrow> zval" where
  "raw_value t l d =
     (case t of
        TYPE_INT32 \<Rightarrow> Z_Long (scast (ucast l :: u32)) | TYPE_ENUM \<Rightarrow> Z_Long (scast (ucast l :: u32))
      | TYPE_SINT32 \<Rightarrow> Z_Long (scast (ucast l :: u32)) | TYPE_SFIXED32 \<Rightarrow> Z_Long (scast (ucast l :: u32))
      | TYPE_FIXED32 \<Rightarrow> Z_Long (ucast (ucast l :: u32))
      | TYPE_BOOL \<Rightarrow> (if l \<noteq> 0 then Z_True else Z_False)
      | TYPE_FLOAT \<Rightarrow> Z_Double (f32_to_f64 (f64_to_f32 d))
      | TYPE_DOUBLE \<Rightarrow> Z_Double d
      | _ \<Rightarrow> Z_Long l)"

text \<open>The scalar decoder on a list of bytes.\<close>

definition raw_parse :: "field_type \<Rightarrow> u8 list \<Rightarrow> (zval \<times> u8 list) option" where
  "raw_parse t bs =
     (case t of
        TYPE_INT32 \<Rightarrow> map_option (\<lambda>(v, r). (Z_Long (scast (ucast v :: u32)), r)) (varint_parse 10 bs)
      | TYPE_ENUM \<Rightarrow> map_option (\<lambda>(v, r). (Z_Long (scast (ucast v :: u32)), r)) (varint_parse 10 bs)
      | TYPE_SINT32 \<Rightarrow>
          map_option (\<lambda>(v, r). (Z_Long (scast (quicpro_proto_zigzag_decode32 (ucast v))), r)) (varint_parse 10 bs)
      | TYPE_SINT64 \<Rightarrow>
          map_option (\<lambda>(v, r). (Z_Long (quicpro_proto_zigzag_decode64 v), r)) (varint_parse 10 bs)
      | TYPE_INT64 \<Rightarrow> map_option (\<lambda>(v, r). (Z_Long v, r)) (varint_parse 10 bs)
      | TYPE_UINT32 \<Rightarrow> map_option (\<lambda>(v, r). (Z_Long v, r)) (varint_parse 10 bs)
      | TYPE_UINT64 \<Rightarrow> map_option (\<lambda>(v, r). (Z_Long v, r)) (varint_parse 10 bs)
      | TYPE_BOOL \<Rightarrow> map_option (\<lambda>(v, r). (if v \<noteq> 0 then Z_True else Z_False, r)) (varint_parse 10 bs)
      | TYPE_FLOAT \<Rightarrow> map_option (\<lambda>(v, r). (Z_Double (f32_to_f64 v), r)) (le_parse 4 bs)
      | TYPE_FIXED32 \<Rightarrow> map_option (\<lambda>(v :: u32, r). (Z_Long (ucast v), r)) (le_parse 4 bs)
      | TYPE_SFIXED32 \<Rightarrow> map_option (\<lambda>(v :: u32, r). (Z_Long (scast v), r)) (le_parse 4 bs)
      | TYPE_DOUBLE \<Rightarrow> map_option (\<lambda>(v, r). (Z_Double v, r)) (le_parse 8 bs)
      | TYPE_FIXED64 \<Rightarrow> map_option (\<lambda>(v, r). (Z_Long v, r)) (le_parse 8 bs)
      | TYPE_SFIXED64 \<Rightarrow> map_option (\<lambda>(v, r). (Z_Long v, r)) (le_parse 8 bs)
      | _ \<Rightarrow> None)"

text \<open>The integer written for a single value; an enum name stands for its number.\<close>

definition single_raw :: "iibin_registry \<Rightarrow> field_def \<Rightarrow> zval \<Rightarrow> u64 option" where
  "single_raw reg f v =
     (if ftype f = TYPE_BOOL then Some (if v = Z_True then 1 else 0)
      else if ftype f = TYPE_ENUM then
        (case v of
           Z_Long l \<Rightarrow> Some (scast (ucast l :: u32))
         | Z_String s \<Rightarrow>
             map_option (\<lambda>ev. scast (ev_number ev))
               (Option.bind (Option.bind (enum_type_name_if_enum f) (get_compiled_iibin_enum_internal reg))
                 (\<lambda>e. ht_find (values_by_name e) s))
         | _ \<Rightarrow> None)
      else Some (z_lval v))"

definition packed_bytes :: "zend_api \<Rightarrow> field_def \<Rightarrow> zval \<Rightarrow> u8 list" where
  "packed_bytes Z f v = raw_bytes (ftype f) (zval_get_long Z v) (zval_get_double Z v)"

definition packed_value :: "zend_api \<Rightarrow> field_def \<Rightarrow> zval \<Rightarrow> zval" where
  "packed_value Z f v = raw_value (ftype f) (zval_get_long Z v) (zval_get_double Z v)"

abbreviation repeated :: "field_def \<Rightarrow> bool" where
  "repeated f \<equiv> flags f AND FLAG_REPEATED \<noteq> 0"

abbreviation packed :: "field_def \<Rightarrow> bool" where
  "packed f \<equiv> flags f AND FLAG_PACKED \<noteq> 0"

abbreviation required :: "field_def \<Rightarrow> bool" where
  "required f \<equiv> flags f AND FLAG_REQUIRED \<noteq> 0"

text \<open>The value a field has in a message; null and an empty repeated field count as absent.\<close>

definition field_value :: "zend_api \<Rightarrow> zval \<Rightarrow> field_def \<Rightarrow> zval option" where
  "field_value Z data f =
     (case message_value Z data (name_in_php f) of
        None \<Rightarrow> None
      | Some v \<Rightarrow> if v = Z_Null \<or> v = Z_Undef \<or> repeated f \<and> v = Z_Array [] then None else Some v)"

definition field_bytes :: "zend_api \<Rightarrow> iibin_registry \<Rightarrow> field_def \<Rightarrow> zval \<Rightarrow> u8 list" where
  "field_bytes Z reg f v =
     (if repeated f then
        let body = concat (map (packed_bytes Z f) (map snd (z_arrval v))) in
        varint_bytes 10 (field_key f) @ varint_bytes 10 (of_nat (length body)) @ body
      else varint_bytes 10 (field_key f) @
        raw_bytes (ftype f) (the (single_raw reg f v)) (zval_get_double Z v))"

text \<open>The value the decoder returns for it.\<close>

definition field_result :: "zend_api \<Rightarrow> iibin_registry \<Rightarrow> field_def \<Rightarrow> zval \<Rightarrow> zval" where
  "field_result Z reg f v =
     (if repeated f then Z_Array (foldl arr_push [] (map (packed_value Z f) (map snd (z_arrval v))))
      else raw_value (ftype f) (the (single_raw reg f v)) (zval_get_double Z v))"

text \<open>Fields that can make the way back: scalars and packed lists of scalars with a 29-bit tag.\<close>

definition decodable :: "field_def \<Rightarrow> bool" where
  "decodable f \<longleftrightarrow> is_packable (ftype f) \<and> (repeated f \<longrightarrow> packed f) \<and> 0 < tag f \<and> tag f < 2 ^ 29"

definition message_bytes :: "zend_api \<Rightarrow> iibin_registry \<Rightarrow> zval \<Rightarrow> field_def list \<Rightarrow> u8 list" where
  "message_bytes Z reg data fs =
     concat (map (\<lambda>f. case field_value Z data f of None \<Rightarrow> [] | Some v \<Rightarrow> field_bytes Z reg f v) fs)"

primrec message_table :: "zend_api \<Rightarrow> iibin_registry \<Rightarrow> zval \<Rightarrow> field_def list \<Rightarrow> php_array \<Rightarrow> php_array" where
  "message_table Z reg data [] t = t"
| "message_table Z reg data (f # fs) t =
     message_table Z reg data fs
       (case field_value Z data f of
          None \<Rightarrow> t
        | Some v \<Rightarrow> ht_update t (HStr (name_in_php f)) (field_result Z reg f v))"

text \<open>What a field of the decoded message holds.\<close>

definition expected_value :: "zend_api \<Rightarrow> iibin_registry \<Rightarrow> zval \<Rightarrow> field_def \<Rightarrow> zval option" where
  "expected_value Z reg data f =
     (case field_value Z data f of
        Some v \<Rightarrow> Some (field_result Z reg f v)
      | None \<Rightarrow> if default_value_zval f = Z_Undef then None else Some (default_value_zval f))"

fun canonical :: "field_def \<Rightarrow> zval \<Rightarrow> bool" where
  "canonical f (Z_Long l) \<longleftrightarrow>
     (if ftype f \<in> {TYPE_INT32, TYPE_SINT32, TYPE_SFIXED32, TYPE_ENUM} then scast (ucast l :: u32) = l
      else if ftype f = TYPE_FIXED32 then ucast (ucast l :: u32) = l
      else ftype f \<in> {TYPE_INT64, TYPE_UINT64, TYPE_UINT32, TYPE_SINT64, TYPE_FIXED64, TYPE_SFIXED64})"
| "canonical f (Z_Double d) \<longleftrightarrow> ftype f = TYPE_DOUBLE \<or> ftype f = TYPE_FLOAT \<and> f32_to_f64 (f64_to_f32 d) = d"
| "canonical f Z_True \<longleftrightarrow> ftype f = TYPE_BOOL"
| "canonical f Z_False \<longleftrightarrow> ftype f = TYPE_BOOL"
| "canonical f v \<longleftrightarrow> False"

text \<open>A message of the example schema and its encoding.\<close>

definition example_data :: zval where
  "example_data = Z_Array [(HStr ''x'', Z_Long 3), (HStr ''y'', Z_Long (- 4)),
     (HStr ''zs'', Z_Array [(HIdx 0, Z_Long (- 1)), (HIdx 1, Z_Long 1), (HIdx 2, Z_Long 2)])]"

definition example_binary :: string where
  "example_binary = string_of [8, 3, 16, 7, 26, 3, 1, 2, 4]"

definition example_schema :: compiled_schema where
  "example_schema = snd (hd (schema_registry example_registry))"

section \<open>Scalar values as bytes\<close>

lemma is_packable_cases:
  "is_packable t \<longleftrightarrow> t \<notin> {TYPE_UNKNOWN, TYPE_STRING, TYPE_BYTES, TYPE_MESSAGE}"
  by (cases t) (simp_all add: is_packable_def less_eq_field_type_def)

lemma ucast_scast_up: "(ucast (ucast (x :: u32) :: u64) :: u32) = x"
  by (rule bit_word_eqI) (auto simp: bit_simps)

lemma raw_parse_bytes:
  "is_packable t \<Longrightarrow> raw_parse t (raw_bytes t l d @ r) = Some (raw_value t l d, r)"
  by (cases t) (simp_all add: is_packable_cases raw_parse_def raw_bytes_def raw_value_def
      varint.parse_enc fixed32.parse_enc fixed64.parse_enc zigzag32 zigzag64 ucast_scast_up)

lemma raw_bytes_nonempty: "is_packable t \<Longrightarrow> raw_bytes t l d \<noteq> []"
  by (cases t) (simp_all add: is_packable_cases raw_bytes_def varint.enc_nonempty
      fixed32.enc_nonempty fixed64.enc_nonempty del: varint_bytes.simps)

lemma decode_scalar_refines:
  assumes "holds_at m p bs" "buf_end = ptr_add p (length bs)" "unat p + length bs + 8 < 2 ^ 64"
  shows "decode_scalar m p buf_end t =
    (case raw_parse t bs of
       None \<Rightarrow> Fail E_Silent
     | Some (v, r) \<Rightarrow> Ok (ptr_add p (length bs - length r), v))"
proof -
  note v = decode_varint_refines [OF assms(1,2)]
  have f4: "unat p + length bs + 4 < 2 ^ 64" using assms(3) by simp
  note f = decode_fixed32_refines [OF assms(1,2) f4] decode_fixed64_refines [OF assms]
  show ?thesis
    by (cases t) (simp_all add: decode_scalar_def raw_parse_def v f wire_result_def Let_def split: option.split)
qed


section \<open>What the encoder writes\<close>

lemma encode_single_scalar:
  assumes "is_packable (ftype f)" and "encode_single_field_value Z reg enc buf f v = Ok buf'"
  shows "buf' = buf @ varint_bytes 10 (field_key f) @
    raw_bytes (ftype f) (the (single_raw reg f v)) (zval_get_double Z v)"
  using assms
  by (cases "ftype f")
    (simp_all add: is_packable_cases encode_single_field_value_def Let_def raw_bytes_def single_raw_def
      encode_varint_eq encode_fixed32_eq encode_fixed64_eq encode_enum_value_def
      split: option.splits zval.splits if_splits)

lemma encode_packed_items:
  assumes "is_packable (ftype f)"
  shows "foldl (encode_packed_item Z f) acc vs = acc @ concat (map (packed_bytes Z f) vs)"
proof -
  have "encode_packed_item Z f buf v = buf @ packed_bytes Z f v" for buf v
    using assms by (cases "ftype f")
      (simp_all add: is_packable_cases encode_packed_item_def packed_bytes_def raw_bytes_def
        encode_varint_eq encode_fixed32_eq encode_fixed64_eq)
  then show ?thesis by (induction vs arbitrary: acc) simp_all
qed

lemma packed_field_key: "field_wf reg f \<Longrightarrow> packed f \<Longrightarrow> wire_type f = WIRETYPE_LENGTH_DELIM"
  by (simp add: field_wf_def calculate_field_wire_type_def)

lemma encode_field_bytes:
  assumes "field_wf reg f"
    and "encode_field_internal Z reg enc buf f (message_value Z data (name_in_php f)) = Ok buf'"
    and "\<And>v. field_value Z data f = Some v \<Longrightarrow> decodable f"
  shows "buf' = buf @ (case field_value Z data f of None \<Rightarrow> [] | Some v \<Rightarrow> field_bytes Z reg f v)"
proof (cases "field_value Z data f")
  case None
  with assms(2) show ?thesis
    by (auto simp: field_value_def encode_field_internal_def Let_def split: option.splits if_splits)
next
  case (Some v)
  with assms(3) have dec: "is_packable (ftype f)" "repeated f \<longrightarrow> packed f" by (auto simp: decodable_def)
  from Some have v: "message_value Z data (name_in_php f) = Some v" "v \<noteq> Z_Null" "v \<noteq> Z_Undef"
    "repeated f \<longrightarrow> v \<noteq> Z_Array []"
    by (auto simp: field_value_def split: option.splits if_splits)
  show ?thesis
  proof (cases "repeated f")
    case False
    with v assms(2) have "encode_single_field_value Z reg enc buf f v = Ok buf'"
      by (simp add: encode_field_internal_def)
    from encode_single_scalar [OF dec(1) this] False Some show ?thesis by (simp add: field_bytes_def)
  next
    case True
    with v assms(2) dec obtain items where items: "v = Z_Array items" "items \<noteq> []"
      and buf': "buf' = encode_packed_repeated_field Z buf f items"
      by (cases v) (simp_all add: encode_field_internal_def)
    have "concat (map (packed_bytes Z f) (map snd items)) \<noteq> []"
      using items(2) raw_bytes_nonempty [OF dec(1)] by (cases items) (auto simp: packed_bytes_def)
    then show ?thesis
      using True dec items Some packed_field_key [OF assms(1)]
      by (simp add: buf' encode_packed_repeated_field_def encode_packed_items field_bytes_def
          encode_varint_eq Let_def field_key_def del: map_map concat_eq_Nil_conv)
  qed
qed


section \<open>Reading a field back\<close>

lemma key_parts:
  fixes t w :: u32
  assumes "t < 2 ^ 29" "w < 8"
  shows "ucast (drop_bit 3 (ucast (push_bit 3 t OR w) :: u64)) = t"
    and "ucast ((ucast (push_bit 3 t OR w) :: u64) AND 7) = w"
proof -
  have t: "bit t n \<Longrightarrow> n < 29" and w: "bit w n \<Longrightarrow> n < 3" for n
    using bit_above [OF assms(1), of n] bit_above [of w 3 n] assms(2) by (auto simp: linorder_not_less [symmetric])
  have seven: "(7 :: u64) = mask 3" by (simp add: mask_eq_exp_minus_1)
  show "ucast (drop_bit 3 (ucast (push_bit 3 t OR w) :: u64)) = t"
    by (rule bit_word_eqI) (auto simp: bit_simps dest: t w)
  show "ucast ((ucast (push_bit 3 t OR w) :: u64) AND 7) = w"
    unfolding seven take_bit_eq_mask [symmetric]
    by (rule bit_word_eqI) (auto simp: bit_simps dest: t w)
qed

lemma wire_type_small: "field_wf reg f \<Longrightarrow> wire_type f < 8"
  by (cases "ftype f") (auto simp: field_wf_def calculate_field_wire_type_def WIRETYPE_VARINT_def
      WIRETYPE_FIXED64_def WIRETYPE_LENGTH_DELIM_def WIRETYPE_FIXED32_def)

lemma decode_varint_at:
  assumes "holds_at m p (varint_bytes 10 v @ bs)" "buf_end = ptr_add p (length (varint_bytes 10 v @ bs))"
  shows "quicpro_proto_decode_varint m p buf_end = Inr (v, ptr_add p (length (varint_bytes 10 v)))"
  using decode_varint_refines [OF assms] by (simp add: varint_parse_enc del: varint_bytes.simps)

lemma decode_value_scalar:
  assumes "is_packable (ftype f)" "wt = wire_type f \<or> packed f"
    and "holds_at m p (raw_bytes (ftype f) l d @ bs)"
    and "buf_end = ptr_add p (length (raw_bytes (ftype f) l d @ bs))"
    and "unat p + length (raw_bytes (ftype f) l d @ bs) + 8 < 2 ^ 64"
  shows "decode_value_to_zval Z reg m rec p buf_end f wt as_object =
    Ok (ptr_add p (length (raw_bytes (ftype f) l d)), raw_value (ftype f) l d)"
proof -
  have "decode_value_to_zval Z reg m rec p buf_end f wt as_object = decode_scalar m p buf_end (ftype f)"
    using assms(1,2) by (auto simp: decode_value_to_zval_def is_packable_cases)
  then show ?thesis
    using decode_scalar_refines [OF assms(3-5)] by (simp add: raw_parse_bytes [OF assms(1)])
qed

lemma decode_packed_items_at:
  assumes "is_packable (ftype f)" "packed f"
    and "holds_at m p (concat (map (packed_bytes Z f) vs))"
    and "packed_end = ptr_add p (length (concat (map (packed_bytes Z f) vs)))"
    and "unat p + length (concat (map (packed_bytes Z f) vs)) + 8 < 2 ^ 64"
    and "length vs < n"
  shows "decode_packed_items n (\<lambda>p. decode_value_to_zval Z reg m rec p packed_end f wt as_object) p packed_end
      (Z_Array t) =
    Ok (packed_end, Z_Array (foldl arr_push t (map (packed_value Z f) vs)))"
  using assms(3-6)
proof (induction vs arbitrary: n p t)
  case Nil
  then show ?case by (cases n) simp_all
next
  case (Cons v vs)
  then obtain k where n: "n = Suc k" "length vs < k" by (cases n) auto
  let ?raw = "raw_bytes (ftype f) (zval_get_long Z v) (zval_get_double Z v)"
  let ?rest = "concat (map (packed_bytes Z f) vs)"
  have bs: "concat (map (packed_bytes Z f) (v # vs)) = ?raw @ ?rest" by (simp add: packed_bytes_def)
  have ne: "0 < length ?raw" using raw_bytes_nonempty [OF assms(1)] by simp
  have "p < packed_end"
    using Cons.prems(2,3) ne ptr_add_less_iff [of p 0 "length (?raw @ ?rest)"] unfolding bs by simp
  moreover have "decode_value_to_zval Z reg m rec p packed_end f wt as_object =
      Ok (ptr_add p (length ?raw), packed_value Z f v)"
    unfolding packed_value_def
    by (rule decode_value_scalar [OF assms(1), of _ _ _ _ _ ?rest])
      (use Cons.prems bs assms(2) in simp_all)
  moreover have "holds_at m (ptr_add p (length ?raw)) ?rest" "unat (ptr_add p (length ?raw)) = unat p + length ?raw"
    using Cons.prems(1,3) unfolding bs by (simp_all add: holds_at_append unat_ptr_add)
  ultimately show ?case
    using Cons.IH [of "ptr_add p (length ?raw)" k "arr_push t (packed_value Z f v)"] Cons.prems n
    unfolding bs by (simp add: push_item_def)
qed


lemma packed_bytes_length:
  "is_packable (ftype f) \<Longrightarrow> length vs \<le> length (concat (map (packed_bytes Z f) vs))"
proof (induction vs)
  case (Cons v vs)
  have "0 < length (packed_bytes Z f v)"
    using raw_bytes_nonempty [OF Cons.prems] by (simp add: packed_bytes_def)
  with Cons show ?case by (simp del: length_greater_0_conv)
qed simp

lemma decode_packed_field_at:
  fixes items :: php_array and Z :: zend_api and f :: field_def
  defines "body \<equiv> concat (map (packed_bytes Z f) (map snd items))"
  defines "bytes \<equiv> varint_bytes 10 (of_nat (length body)) @ body"
  assumes f: "is_packable (ftype f)" "packed f"
    and at: "holds_at m p (bytes @ bs)" "buf_end = ptr_add p (length (bytes @ bs))"
      "unat p + length (bytes @ bs) + 8 < 2 ^ 64"
    and fuel: "length body < n" and new: "arr_find t (name_in_php f) = None"
  shows "decode_packed_field n Z reg m rec p buf_end f (Z_Array t) as_object =
    Ok (ptr_add p (length bytes),
        Z_Array (ht_update t (HStr (name_in_php f)) (Z_Array (foldl arr_push [] (map (packed_value Z f) (map snd items))))))"
proof -
  let ?len = "varint_bytes 10 (of_nat (length body))"
  let ?p = "ptr_add p (length ?len)"
  have dec: "quicpro_proto_decode_varint m p buf_end = Inr (of_nat (length body), ?p)"
    using decode_varint_at [of m p "of_nat (length body)" "body @ bs" buf_end] at(1,2)
    by (simp add: bytes_def del: varint_bytes.simps)
  have body: "holds_at m ?p body" "unat ?p = unat p + length ?len"
    using at(1,3) by (simp_all add: bytes_def holds_at_append unat_ptr_add del: varint_bytes.simps)
  have "?p + of_nat (length body) = ptr_add p (length bytes)"
    by (simp add: ptr_add_def bytes_def add.assoc)
  moreover have "ptr_add p (length bytes) \<le> buf_end"
    using at(2,3) by (simp add: ptr_add_le_iff)
  moreover have "decode_packed_items n
      (\<lambda>q. decode_value_to_zval Z reg m rec q (ptr_add p (length bytes)) f (wire_type f) as_object) ?p
      (ptr_add p (length bytes)) (Z_Array []) =
      Ok (ptr_add p (length bytes), Z_Array (foldl arr_push [] (map (packed_value Z f) (map snd items))))"
    using body at(3) fuel packed_bytes_length [OF f(1), of "map snd items" Z]
    by (intro decode_packed_items_at [OF f]) (simp_all add: body_def bytes_def)
  ultimately show ?thesis
    using new by (simp add: decode_packed_field_def dec wire_result_def Let_def not_less)
qed

lemma decode_field_step:
  assumes wf: "field_wf reg f" and dec: "decodable f"
    and find: "ht_find (fields_by_tag sch) (ucast (tag f)) = Some f"
    and at: "holds_at m p (field_bytes Z reg f v @ bs)" "buf_end = ptr_add p (length (field_bytes Z reg f v @ bs))"
      "unat p + length (field_bytes Z reg f v @ bs) + 8 < 2 ^ 64"
    and fuel: "length (field_bytes Z reg f v) \<le> n" and new: "arr_find t (name_in_php f) = None"
  shows "decode_message_internal (Suc n) Z reg m False p buf_end sch (Z_Array t) =
    decode_message_internal n Z reg m False (ptr_add p (length (field_bytes Z reg f v))) buf_end sch
      (Z_Array (ht_update t (HStr (name_in_php f)) (field_result Z reg f v)))"
proof -
  note [simp del] = varint_bytes.simps
  let ?key = "varint_bytes 10 (field_key f)"
  define pay where "pay = drop (length ?key) (field_bytes Z reg f v)"
  have fb: "field_bytes Z reg f v = ?key @ pay"
    by (simp add: pay_def field_bytes_def Let_def)
  have kn: "0 < length ?key" by (simp add: varint_bytes_nonempty)
  let ?p = "ptr_add p (length ?key)"
  have key: "quicpro_proto_decode_varint m p buf_end = Inr (field_key f, ?p)"
    using decode_varint_at [of m p "field_key f" "pay @ bs" buf_end] at(1,2) fb by simp
  have less: "p < buf_end"
    using at(2,3) kn fb ptr_add_less_iff [of p 0 "length (field_bytes Z reg f v @ bs)"] by simp
  have parts: "ucast (drop_bit 3 (field_key f)) = tag f" "ucast (field_key f AND 7) = wire_type f"
    using dec wire_type_small [OF wf] key_parts [of "tag f" "wire_type f"]
    by (simp_all add: field_key_def decodable_def)
  have at': "holds_at m ?p (pay @ bs)" "unat ?p = unat p + length ?key" "buf_end = ptr_add ?p (length (pay @ bs))"
    using at fb by (simp_all add: holds_at_append unat_ptr_add add.assoc)
  have tag: "tag f \<noteq> 0" using dec by (auto simp: decodable_def)
  have pk: "is_packable (ftype f)" "repeated f \<longrightarrow> packed f" using dec by (simp_all add: decodable_def)
  show ?thesis
  proof (cases "repeated f")
    case True
    then have pay: "pay = (let body = concat (map (packed_bytes Z f) (map snd (z_arrval v)))
        in varint_bytes 10 (of_nat (length body)) @ body)"
      by (simp add: pay_def field_bytes_def Let_def)
    have "length (concat (map (packed_bytes Z f) (map snd (z_arrval v)))) < n"
      using fuel kn unfolding fb pay Let_def by (simp del: length_greater_0_conv)
    then have "decode_packed_field n Z reg m (decode_message_internal n Z reg m False) ?p buf_end f (Z_Array t) False =
      Ok (ptr_add ?p (length pay), Z_Array (ht_update t (HStr (name_in_php f)) (field_result Z reg f v)))"
      using decode_packed_field_at [of f m ?p Z "z_arrval v" bs buf_end n t reg _ False] True pk at' at(3) fb new
      unfolding field_result_def pay Let_def by simp
    then show ?thesis
      using True pk wf tag less packed_field_key [OF wf]
      by (simp add: key wire_result_def parts find Let_def fb add.assoc)
  next
    case False
    then have np: "\<not> packed f" using wf by (auto simp: field_wf_def)
    from False have pay: "pay = raw_bytes (ftype f) (the (single_raw reg f v)) (zval_get_double Z v)"
      by (simp add: pay_def field_bytes_def)
    have val: "decode_value_to_zval Z reg m (decode_message_internal n Z reg m False) ?p buf_end f (wire_type f) False =
      Ok (ptr_add ?p (length pay), field_result Z reg f v)"
      using decode_value_scalar [OF pk(1), of "wire_type f" m ?p _ _ bs buf_end] at' at(3) fb False
      unfolding pay field_result_def by simp
    have "\<not> refcounted (field_result Z reg f v)"
      using False by (cases "ftype f") (simp_all add: field_result_def raw_value_def refcounted_def)
    then have "store_value (Z_Array t) f (field_result Z reg f v) =
        Ok (Z_Array (ht_update t (HStr (name_in_php f)) (field_result Z reg f v)))"
      using False by (simp add: store_value_def store_then_release_def owned_by_array_def)
    then show ?thesis
      using np tag less by (simp add: key wire_result_def parts find Let_def val fb add.assoc)
  qed
qed


section \<open>Whole messages\<close>

lemma encode_fields_bytes:
  assumes "encode_fields (encode_field_internal Z reg enc) Z data buf fs = Ok buf'"
    and "\<forall>f \<in> set fs. field_wf reg f \<and> (field_value Z data f \<noteq> None \<longrightarrow> decodable f)"
  shows "buf' = buf @ message_bytes Z reg data fs"
  using assms
proof (induction fs arbitrary: buf)
  case (Cons f fs)
  then obtain buf1 where
    "encode_field_internal Z reg enc buf f (message_value Z data (name_in_php f)) = Ok buf1"
    and rest: "encode_fields (encode_field_internal Z reg enc) Z data buf1 fs = Ok buf'"
    by (auto simp: obind_eq_Ok)
  moreover from Cons.prems(2) have "field_wf reg f" "\<And>v. field_value Z data f = Some v \<Longrightarrow> decodable f"
    by auto
  ultimately have "buf1 = buf @ (case field_value Z data f of None \<Rightarrow> [] | Some v \<Rightarrow> field_bytes Z reg f v)"
    by (intro encode_field_bytes)
  with Cons.IH [OF rest] Cons.prems(2) show ?case by (simp add: message_bytes_def)
qed (simp add: message_bytes_def)

lemma encode_required:
  assumes "encode_fields (encode_field_internal Z reg enc) Z data buf fs = Ok buf'" "f \<in> set fs" "required f"
  shows "\<exists>v. message_value Z data (name_in_php f) = Some v \<and> v \<noteq> Z_Null \<and> v \<noteq> Z_Undef"
  using assms
proof (induction fs arbitrary: buf)
  case (Cons g fs)
  then show ?case
    by (auto simp: obind_eq_Ok encode_field_internal_def split: if_splits)
qed simp

lemma decode_fields_at:
  assumes "\<forall>f \<in> set fs. field_wf reg f \<and> (field_value Z data f \<noteq> None \<longrightarrow> decodable f) \<and>
      ht_find (fields_by_tag sch) (ucast (tag f)) = Some f \<and> arr_find t (name_in_php f) = None"
    and "distinct (map name_in_php fs)"
    and "holds_at m p (message_bytes Z reg data fs)"
    and "buf_end = ptr_add p (length (message_bytes Z reg data fs))"
    and "unat p + length (message_bytes Z reg data fs) + 8 < 2 ^ 64"
    and "length (message_bytes Z reg data fs) < n"
  shows "decode_message_internal n Z reg m False p buf_end sch (Z_Array t) =
    Ok (buf_end, Z_Array (message_table Z reg data fs t))"
  using assms
proof (induction fs arbitrary: n p t)
  case Nil
  then show ?case by (cases n) (simp_all add: message_bytes_def)
next
  case (Cons f fs)
  show ?case
  proof (cases "field_value Z data f")
    case None
    with Cons show ?thesis by (simp add: message_bytes_def)
  next
    case (Some v)
    let ?b = "field_bytes Z reg f v" and ?r = "message_bytes Z reg data fs"
    have bytes: "message_bytes Z reg data (f # fs) = ?b @ ?r" by (simp add: message_bytes_def Some)
    have "?b \<noteq> []" by (simp add: field_bytes_def Let_def varint_bytes_nonempty del: varint_bytes.simps)
    then have b: "0 < length ?b" by simp
    obtain k where n: "n = Suc k" "length ?b \<le> k" "length ?r < k"
      using Cons.prems(6) b unfolding bytes by (cases n) (auto simp del: length_greater_0_conv)
    let ?t = "ht_update t (HStr (name_in_php f)) (field_result Z reg f v)"
    have step: "decode_message_internal n Z reg m False p buf_end sch (Z_Array t) =
        decode_message_internal k Z reg m False (ptr_add p (length ?b)) buf_end sch (Z_Array ?t)"
      unfolding n(1) by (rule decode_field_step [where bs = ?r])
        (use Cons.prems Some n(2) in \<open>simp_all add: bytes\<close>)
    have at: "holds_at m (ptr_add p (length ?b)) ?r" "unat (ptr_add p (length ?b)) = unat p + length ?b"
      using Cons.prems(3,5) unfolding bytes by (simp_all add: holds_at_append unat_ptr_add)
    have "arr_find ?t (name_in_php g) = None" if "g \<in> set fs" for g
      using Cons.prems(1,2) that by (auto simp: arr_find_def ht_find_update image_iff)
    then have "decode_message_internal k Z reg m False (ptr_add p (length ?b)) buf_end sch (Z_Array ?t) =
        Ok (buf_end, Z_Array (message_table Z reg data fs ?t))"
      using Cons.prems at n(3) by (intro Cons.IH) (simp_all add: bytes add.assoc)
    then show ?thesis using Some step by simp
  qed
qed

lemma message_table_find:
  assumes "distinct (map name_in_php fs)" "f \<in> set fs" "arr_find t (name_in_php f) = None"
  shows "arr_find (message_table Z reg data fs t) (name_in_php f) =
    map_option (field_result Z reg f) (field_value Z data f)"
  using assms
proof (induction fs arbitrary: t)
  case (Cons g fs)
  have other: "arr_find (message_table Z reg data fs t) k = arr_find t k" if "k \<notin> name_in_php ` set fs" for t k
    using that by (induction fs arbitrary: t) (auto simp: arr_find_def ht_find_update split: option.split)
  show ?case
  proof (cases "f = g")
    case True
    with Cons.prems show ?thesis
      by (simp add: other [unfolded arr_find_def] image_iff arr_find_def ht_find_update split: option.split)
  next
    case False
    with Cons.prems(2) have f: "f \<in> set fs" by simp
    then have "name_in_php f \<in> name_in_php ` set fs" by simp
    with Cons.prems(1) have "name_in_php f \<noteq> name_in_php g" by auto
    with f Cons show ?thesis
      by (auto simp: arr_find_def ht_find_update split: option.split)
  qed
qed simp


lemma populate_fields_array:
  assumes "distinct (map name_in_php fs)"
    and "\<forall>f \<in> set fs. required f \<longrightarrow> arr_find t (name_in_php f) \<noteq> None"
  shows "\<exists>t'. populate_fields fs (Z_Array t) = Ok (Z_Array t') \<and>
    (\<forall>f \<in> set fs. arr_find t' (name_in_php f) =
      (case arr_find t (name_in_php f) of
         Some v \<Rightarrow> Some v
       | None \<Rightarrow> if default_value_zval f = Z_Undef then None else Some (default_value_zval f))) \<and>
    (\<forall>k. k \<notin> name_in_php ` set fs \<longrightarrow> arr_find t' k = arr_find t k)"
  using assms
proof (induction fs arbitrary: t)
  case (Cons f fs)
  define t1 where "t1 = (if arr_find t (name_in_php f) = None \<and> default_value_zval f \<noteq> Z_Undef
    then ht_update t (HStr (name_in_php f)) (default_value_zval f) else t)"
  have step: "populate_fields (f # fs) (Z_Array t) = populate_fields fs (Z_Array t1)"
    using Cons.prems(2) by (auto simp: t1_def)
  have find: "arr_find t1 k = (if k = name_in_php f \<and> arr_find t k = None \<and> default_value_zval f \<noteq> Z_Undef
      then Some (default_value_zval f) else arr_find t k)" for k
    by (auto simp: t1_def arr_find_def ht_find_update)
  have f: "name_in_php f \<notin> name_in_php ` set fs" using Cons.prems(1) by simp
  then have other: "name_in_php g \<noteq> name_in_php f" if "g \<in> set fs" for g
    using that by (metis imageI)
  obtain t' where t': "populate_fields fs (Z_Array t1) = Ok (Z_Array t')"
    "\<forall>f \<in> set fs. arr_find t' (name_in_php f) =
      (case arr_find t1 (name_in_php f) of
         Some v \<Rightarrow> Some v
       | None \<Rightarrow> if default_value_zval f = Z_Undef then None else Some (default_value_zval f))"
    "\<forall>k. k \<notin> name_in_php ` set fs \<longrightarrow> arr_find t' k = arr_find t1 k"
    using Cons.IH [of t1] Cons.prems find by auto
  show ?case
    unfolding step
  proof (intro exI [of _ t'] conjI)
    show "\<forall>g \<in> set (f # fs). arr_find t' (name_in_php g) =
      (case arr_find t (name_in_php g) of
         Some v \<Rightarrow> Some v
       | None \<Rightarrow> if default_value_zval g = Z_Undef then None else Some (default_value_zval g))"
      using t'(2,3) f other by (simp add: find split: option.split)
    show "\<forall>k. k \<notin> name_in_php ` set (f # fs) \<longrightarrow> arr_find t' k = arr_find t k"
      using t'(3) by (simp add: find)
  qed (rule t'(1))
qed simp

lemma bytes_of_string_of [simp]: "bytes_of (string_of bs) = bs"
proof -
  have "byte_of_char (char_of_byte b) = b" for b
    using unsigned_less [of b, where ?'a = int] by (simp add: byte_of_char_def char_of_byte_def)
  then show ?thesis by (simp add: bytes_of_def string_of_def comp_def)
qed


lemma example_lookup: "get_compiled_iibin_schema_internal example_registry ''Point'' = Some example_schema"
  by code_simp


section \<open>The encoder terminates\<close>

lemma refs_before_split:
  "refs_before D (us @ (k, sch) # vs) \<Longrightarrow> message_refs sch \<subseteq> D \<union> fst ` set us"
  by (induction us arbitrary: D) auto

lemma obind_Diverge: "obind x f = Diverge \<longleftrightarrow> x = Diverge \<or> (\<exists>a. x = Ok a \<and> f a = Diverge)"
  by (cases x) auto

lemma encode_single_diverge:
  assumes "encode_single_field_value Z reg enc buf f v = Diverge"
  shows "\<exists>n sch. ftype f = TYPE_MESSAGE \<and> message_type_name_if_nested f = Some n \<and>
    get_compiled_iibin_schema_internal reg n = Some sch \<and> enc [] sch v = Diverge"
  using assms
  by (cases "ftype f")
    (auto simp: encode_single_field_value_def Let_def encode_enum_value_def obind_Diverge
      split: option.splits zval.splits if_splits)

lemma encode_items_diverge:
  "encode_items enc buf vs = Diverge \<Longrightarrow> \<exists>buf v. v \<in> set vs \<and> enc buf v = Diverge"
  by (induction enc buf vs rule: encode_items.induct) (fastforce simp: obind_Diverge)+

lemma encode_field_diverge:
  assumes "encode_field_internal Z reg enc buf f value = Diverge"
  shows "\<exists>n sch v. message_type_name_if_nested f = Some n \<and>
    get_compiled_iibin_schema_internal reg n = Some sch \<and> enc [] sch v = Diverge"
  using assms encode_single_diverge
  by (fastforce simp: encode_field_internal_def Let_def split: if_splits dest!: encode_items_diverge)

lemma encode_fields_diverge:
  "encode_fields enc Z data buf fs = Diverge \<Longrightarrow> \<exists>f buf v. f \<in> set fs \<and> enc buf f v = Diverge"
  by (induction enc Z data buf fs rule: encode_fields.induct) (fastforce simp: obind_Diverge)+

lemma encode_terminates_before:
  assumes "refs_before {} (us @ (k, sch) # vs)" "schema_registry reg = us @ (k, sch) # vs"
    "distinct (map fst (schema_registry reg))" "length us < n"
  shows "encode_message_internal n Z reg buf sch data \<noteq> Diverge"
  using assms
proof (induction n arbitrary: us k sch vs buf data)
  case (Suc n)
  show ?case
  proof
    assume "encode_message_internal (Suc n) Z reg buf sch data = Diverge"
    then have "encode_fields (encode_field_internal Z reg (encode_message_internal n Z reg)) Z data buf
        (take (num_fields sch) (ordered_fields sch)) = Diverge"
      by (simp split: if_splits)
    then obtain f nm sch' v where f: "f \<in> set (ordered_fields sch)" "message_type_name_if_nested f = Some nm"
      "get_compiled_iibin_schema_internal reg nm = Some sch'" "encode_message_internal n Z reg [] sch' v = Diverge"
      by (blast dest!: encode_fields_diverge encode_field_diverge in_set_takeD)
    then have "cstr nm \<in> message_refs sch" by (auto simp: message_refs_def)
    with refs_before_split [OF Suc.prems(1)] obtain s2 where "(cstr nm, s2) \<in> set us" by auto
    then obtain us1 us2 where us: "us = us1 @ (cstr nm, s2) # us2" by (meson split_list)
    have "map_of (schema_registry reg) (cstr nm) = Some s2"
      using Suc.prems(2,3) us by (intro map_of_is_SomeI) auto
    then have "sch' = s2"
      using f(3) by (simp add: get_compiled_iibin_schema_internal_def ht_find_def split: if_splits)
    then have "encode_message_internal n Z reg [] sch' v \<noteq> Diverge"
      using Suc.prems us by (intro Suc.IH [of us1 "cstr nm" _ "us2 @ (k, sch) # vs"]) auto
    with f(4) show False by simp
  qed
qed simp

text \<open>
  C23: encoding always ends.  In a well-formed registry, where schemas only refer to earlier ones,
  as many units of fuel as there are schemas are enough for every schema name and all data.
\<close>

theorem encode_terminates:
  assumes "registry_wf reg" "length (schema_registry reg) \<le> n"
  shows "quicpro_iibin_encode n Z reg name data \<noteq> Diverge"
proof (cases "get_compiled_iibin_schema_internal reg name")
  case (Some sch)
  then have "(cstr name, sch) \<in> set (schema_registry reg)"
    by (auto simp: get_compiled_iibin_schema_internal_def ht_find_def split: if_splits dest: map_of_SomeD)
  then obtain us vs where us: "schema_registry reg = us @ (cstr name, sch) # vs" by (meson split_list)
  with assms have "encode_message_internal n Z reg [] sch data \<noteq> Diverge"
    by (intro encode_terminates_before [of us "cstr name" sch vs]) (auto simp: registry_wf_def)
  with Some show ?thesis by (simp add: quicpro_iibin_encode_def obind_Diverge)
qed (simp add: quicpro_iibin_encode_def)

theorem encode_terminates_witness:
  "quicpro_iibin_encode 1 example_api example_registry ''Point'' example_data \<noteq> Diverge"
proof (rule encode_terminates [OF example_registry_wf])
  show "length (schema_registry example_registry) \<le> 1" by code_simp
qed

section \<open>Values that come back unchanged\<close>

text \<open>
  a value in the range of its field's type comes back as it was sent: 32-bit integers in range,
  all 64-bit integers, booleans, doubles and doubles that are floats, given that the engine
  converts a float value to itself.
\<close>

theorem canonical_exact:
  assumes "\<not> repeated f" "canonical f v" "\<And>d. zval_get_double Z (Z_Double d) = d"
  shows "field_result Z reg f v = v"
proof -
  have s: "scast (ucast (scast (x :: u32) :: u64) :: u32) = (scast x :: u64)" for x
    by (rule bit_word_eqI) (auto simp: bit_simps)
  show ?thesis
    using assms by (cases v; cases "ftype f") (auto simp: field_result_def single_raw_def raw_value_def s)
qed

theorem canonical_exact_witness:
  "field_result example_api empty_registry (new_field_def\<lparr>ftype := TYPE_FLOAT\<rparr>) (Z_Double 0x3FF8000000000000) =
     Z_Double 0x3FF8000000000000"
proof (rule canonical_exact)
  show "canonical (new_field_def\<lparr>ftype := TYPE_FLOAT\<rparr>) (Z_Double 0x3FF8000000000000)" by code_simp
qed (simp_all add: new_field_def_def example_api_def)

end
