(* ===== verification/IIBIN_Safety.thy ===== *)
theory IIBIN_Safety
  imports IIBIN_Roundtrip
begin

text \<open>
  The decoder on arbitrary bytes: for schemas without repeated fields it is safe and ends as long as
  no length wraps the address space; and the inputs for which it is neither, with the field
  types it never decodes.
\<close>

definition message_at :: "memory \<Rightarrow> u64 \<Rightarrow> u8 list \<Rightarrow> bool" where
  "message_at m base bs \<longleftrightarrow>
     holds_at m base (bs @ [0]) \<and> 256 \<le> unat base \<and> unat base + length bs + 16 < 2 ^ 63"

text \<open>No varint of the message, read at any position, exceeds the signed range.\<close>

definition lengths_small :: "u8 list \<Rightarrow> bool" where
  "lengths_small bs \<longleftrightarrow>
     list_all (\<lambda>i. case varint_parse 10 (drop i bs) of Some (v, r) \<Rightarrow> v < 2 ^ 63 | None \<Rightarrow> True)
       [0..<length bs]"

text \<open>Examples: a schema without tag 1 and a schema with one required list.\<close>

definition pair_registry :: iibin_registry where
  "pair_registry =
     snd (quicpro_iibin_define_schema example_api ''Pair''
       [(HStr ''a'', Z_Array [(HStr ''tag'', Z_Long 2), (HStr ''type'', Z_String ''int32'')]),
        (HStr ''b'', Z_Array [(HStr ''tag'', Z_Long 3), (HStr ''type'', Z_String ''fixed64'')])]
       (quicpro_iibin_registries_init empty_registry))"

definition pair_schema :: compiled_schema where
  "pair_schema = snd (hd (schema_registry pair_registry))"

definition list_registry :: iibin_registry where
  "list_registry =
     snd (quicpro_iibin_define_schema example_api ''List''
       [(HStr ''zs'', Z_Array [(HStr ''tag'', Z_Long 1), (HStr ''type'', Z_String ''repeated_int32''),
          (HStr ''required'', Z_True)])]
       (quicpro_iibin_registries_init empty_registry))"

definition list_schema :: compiled_schema where
  "list_schema = snd (hd (schema_registry list_registry))"

definition advances :: "u64 \<Rightarrow> nat \<Rightarrow> nat \<Rightarrow> u64 codec \<Rightarrow> bool" where
  "advances base i j r \<longleftrightarrow>
     (case r of Ok p \<Rightarrow> \<exists>k. p = ptr_add base k \<and> i < k \<and> k \<le> j | Fail e \<Rightarrow> e \<noteq> E_Fault | Diverge \<Rightarrow> False)"

definition yields :: "u64 \<Rightarrow> nat \<Rightarrow> nat \<Rightarrow> (zval \<Rightarrow> bool) \<Rightarrow> (u64 \<times> zval) codec \<Rightarrow> bool" where
  "yields base i j P r \<longleftrightarrow>
     (case r of Ok (p, v) \<Rightarrow> (\<exists>k. p = ptr_add base k \<and> i < k \<and> k \<le> j) \<and> P v
      | Fail e \<Rightarrow> e \<noteq> E_Fault | Diverge \<Rightarrow> False)"

text \<open>
  A length-delimited field with an unknown tag whose length takes the pointer back: by eleven
  bytes to the field itself, by twelve to the byte before the message.
\<close>

definition backward_message :: "u64 \<Rightarrow> u8 list" where
  "backward_message d = varint_bytes 10 10 @ varint_bytes 10 (- d)"

lemma pair_registry_wf: "registry_wf pair_registry"
  unfolding pair_registry_def
  by (rule registry.reachable_inv [where Z = example_api, OF refl])
    (blast intro: rtranclp.intros registry_step.init registry_step.define_schema)

lemma pair_lookup: "get_compiled_iibin_schema_internal pair_registry ''Pair'' = Some pair_schema"
  by code_simp

lemma pair_no_tag_1: "ht_find (fields_by_tag pair_schema) 1 = None"
  by code_simp

lemma lengths_smallD:
  assumes "lengths_small bs" "varint_parse 10 (drop i bs) = Some (v, r)"
  shows "unat v < 2 ^ 63"
proof -
  have "i < length bs"
    using assms(2) by (cases "i < length bs") (auto simp: numeral_eq_Suc)
  then have "case varint_parse 10 (drop i bs) of Some (v, r) \<Rightarrow> v < 2 ^ 63 | None \<Rightarrow> True"
    using assms(1) by (simp add: lengths_small_def list_all_iff)
  with assms(2) have "v < 2 ^ 63" by simp
  then show ?thesis by (simp add: word_less_nat_alt)
qed

lemma message_at_part:
  assumes "message_at m base bs" "i \<le> j" "j \<le> length bs"
  shows "holds_at m (ptr_add base i) (take (j - i) (drop i bs))"
    and "ptr_add base j = ptr_add (ptr_add base i) (length (take (j - i) (drop i bs)))"
    and "unat (ptr_add base i) = unat base + i"
proof -
  have bs: "bs = take i bs @ take (j - i) (drop i bs) @ drop (j - i) (drop i bs)"
    by (metis append_take_drop_id)
  have "holds_at m base bs" using assms(1) by (simp add: message_at_def holds_at_append)
  then show "holds_at m (ptr_add base i) (take (j - i) (drop i bs))"
    using assms(2,3) by (subst (asm) bs) (simp add: holds_at_append)
  show "unat (ptr_add base i) = unat base + i"
    using assms by (intro unat_ptr_add) (simp add: message_at_def)
qed (use assms in simp)

lemma decode_varint_part:
  assumes "message_at m base bs" "i \<le> j" "j \<le> length bs"
  shows "quicpro_proto_decode_varint m (ptr_add base i) (ptr_add base j) = Inl Short \<or>
    (\<exists>v r k. quicpro_proto_decode_varint m (ptr_add base i) (ptr_add base j) = Inr (v, ptr_add base k) \<and>
       i < k \<and> k \<le> j \<and> varint_parse 10 (take (j - i) (drop i bs)) = Some (v, r))"
proof -
  let ?bs = "take (j - i) (drop i bs)"
  have eq: "quicpro_proto_decode_varint m (ptr_add base i) (ptr_add base j) =
    (case varint_parse 10 ?bs of
       None \<Rightarrow> Inl Short
     | Some (v, r) \<Rightarrow> Inr (v, ptr_add (ptr_add base i) (length ?bs - length r)))"
    by (rule decode_varint_refines [OF message_at_part(1,2) [OF assms]])
  show ?thesis
  proof (cases "varint_parse 10 ?bs")
    case (Some vr)
    obtain v r where vr: "vr = (v, r)" by (cases vr)
    obtain u where "?bs = u @ r" "u \<noteq> []" using varint_parse_consumes Some vr by blast
    then have "0 < length u" "length ?bs = length u + length r" by (simp, metis length_append)
    moreover have "length ?bs = j - i" using assms by simp
    ultimately show ?thesis
      using eq Some vr assms by (intro disjI2 exI [of _ v] exI [of _ r] exI [of _ "i + length u"]) auto
  qed (simp add: eq)
qed

lemma varint_parse_take:
  "varint_parse n (take k bs) = Some (v, r) \<Longrightarrow> \<exists>r'. varint_parse n bs = Some (v, r')"
proof (induction n bs arbitrary: k v r rule: varint_parse.induct)
  case (3 n b bs)
  then show ?case
    by (cases k) (auto split: if_splits, blast)
qed simp_all


text \<open>A length read inside the message cannot carry the pointer around the address space.\<close>

lemma ptr_plus_len:
  assumes "message_at m base bs" "k \<le> length bs" "unat len < 2 ^ 63"
  shows "ptr_add base k + len = ptr_add base (k + unat len)"
    and "unat (ptr_add base (k + unat len)) = unat base + k + unat len"
    and "e \<le> length bs \<Longrightarrow> ptr_add base k + len > ptr_add base e \<longleftrightarrow> e < k + unat len"
proof -
  show eq: "ptr_add base k + len = ptr_add base (k + unat len)"
    by (simp add: ptr_add_def add.assoc)
  have b: "unat base + (k + unat len) < 2 ^ 64"
    using assms by (simp add: message_at_def)
  then show "unat (ptr_add base (k + unat len)) = unat base + k + unat len"
    by (simp add: unat_ptr_add)
  show "ptr_add base k + len > ptr_add base e \<longleftrightarrow> e < k + unat len" if "e \<le> length bs"
    unfolding eq using b assms(1) that by (intro ptr_add_less_iff) (simp_all add: message_at_def)
qed

lemma skip_field_advances:
  assumes "message_at m base bs" "lengths_small bs" "i \<le> length bs" "err \<noteq> E_Fault"
  shows "advances base i (length bs) (skip_field m (ptr_add base i) (ptr_add base (length bs)) wt err)"
proof -
  let ?L = "length bs"
  have fixed: "ptr_add base i + n > ptr_add base ?L \<longleftrightarrow> ?L < i + unat n"
    "ptr_add base i + n = ptr_add base (i + unat n)" if "unat n < 2 ^ 63" for n :: u64
    using ptr_plus_len [OF assms(1,3) that] by simp_all
  from decode_varint_part [OF assms(1,3) order_refl] show ?thesis
  proof (elim disjE exE conjE)
    assume "quicpro_proto_decode_varint m (ptr_add base i) (ptr_add base ?L) = Inl Short"
    then show ?thesis
      using assms(4) fixed [of 4] fixed [of 8]
      by (auto simp: skip_field_def wire_result_def advances_def not_less)
  next
    fix v r k
    assume dec: "quicpro_proto_decode_varint m (ptr_add base i) (ptr_add base ?L) = Inr (v, ptr_add base k)"
      and k: "i < k" "k \<le> ?L" and "varint_parse 10 (take (?L - i) (drop i bs)) = Some (v, r)"
    then have "unat v < 2 ^ 63" using lengths_smallD [OF assms(2)] by simp
    from ptr_plus_len [OF assms(1) k(2) this] dec k assms(4) fixed [of 4] fixed [of 8] show ?thesis
      by (auto simp: skip_field_def wire_result_def advances_def not_less)
  qed
qed

lemma strict_suffixI: "bs = u @ r \<Longrightarrow> u \<noteq> [] \<Longrightarrow> strict_suffix r bs"
  by (auto simp: strict_suffix_def suffix_def)

lemma varint_suffix: "varint_parse n bs = Some (v, r) \<Longrightarrow> strict_suffix r bs"
  using varint_parse_consumes strict_suffixI by blast

lemma le_suffix: "le_parse n bs = Some (v, r) \<Longrightarrow> 0 < n \<Longrightarrow> strict_suffix r bs"
  using le_parse_consumes strict_suffixI by (metis length_0_conv less_numeral_extra(3))

lemma raw_parse_consumes:
  "raw_parse t bs = Some (v, r) \<Longrightarrow> strict_suffix r bs \<and> \<not> refcounted v"
  by (cases t) (auto simp: raw_parse_def refcounted_def dest: varint_suffix le_suffix split: if_splits)

lemma decode_scalar_yields:
  assumes "message_at m base bs" "i \<le> j" "j \<le> length bs"
  shows "yields base i j (\<lambda>v. \<not> refcounted v) (decode_scalar m (ptr_add base i) (ptr_add base j) t)"
proof -
  let ?bs = "take (j - i) (drop i bs)"
  note part = message_at_part [OF assms]
  have "unat (ptr_add base i) + length ?bs + 8 < 2 ^ 64"
    using assms part(3) by (simp add: message_at_def)
  from decode_scalar_refines [OF part(1,2) this] have eq:
    "decode_scalar m (ptr_add base i) (ptr_add base j) t = (case raw_parse t ?bs of
       None \<Rightarrow> Fail E_Silent | Some (v, r) \<Rightarrow> Ok (ptr_add (ptr_add base i) (length ?bs - length r), v))" .
  show ?thesis
  proof (cases "raw_parse t ?bs")
    case (Some vr)
    obtain v r where vr: "vr = (v, r)" by (cases vr)
    then have "strict_suffix r ?bs" "\<not> refcounted v" using raw_parse_consumes Some by auto
    then obtain u where u: "?bs = u @ r" "u \<noteq> []" "\<not> refcounted v"
      by (auto simp: strict_suffix_def suffix_def)
    then have "0 < length u" "length ?bs = length u + length r" by (simp, metis length_append)
    moreover have "length ?bs = j - i" using assms by simp
    ultimately show ?thesis
      using eq Some vr assms u(3) unfolding yields_def by (auto intro!: exI [of _ "i + length u"])
  qed (simp add: eq yields_def)
qed


lemma length_test_fails:
  assumes "message_at m base bs" "k \<le> length bs" "unat len < 2 ^ 63"
  shows "length_test m (ptr_add base k) (ptr_add base (length bs)) len = Fail E_Silent"
proof -
  have "holds_at m (ptr_add base (length bs)) [0]"
    using assms(1) by (simp add: message_at_def holds_at_append)
  then have "m (ptr_add base (length bs)) = Some 0" by (simp add: holds_at_Cons)
  moreover have "ptr_add base k + len > 0"
    using ptr_plus_len(1,2) [OF assms] assms(1) by (simp add: word_less_nat_alt message_at_def)
  ultimately show ?thesis by (simp add: length_test_def)
qed

lemma decode_value_yields:
  assumes "message_at m base bs" "lengths_small bs" "i \<le> length bs"
  shows "yields base i (length bs) (\<lambda>v. \<not> refcounted v)
    (decode_value_to_zval Z reg m rec (ptr_add base i) (ptr_add base (length bs)) f wt as_object)"
proof (cases "ftype f = TYPE_STRING \<or> ftype f = TYPE_BYTES \<or> ftype f = TYPE_MESSAGE")
  case False
  with decode_scalar_yields [OF assms(1,3) order_refl, of "ftype f"] show ?thesis
    by (simp add: decode_value_to_zval_def yields_def)
next
  case True
  from decode_varint_part [OF assms(1,3) order_refl] show ?thesis
  proof (elim disjE exE conjE)
    fix v r k
    assume dec: "quicpro_proto_decode_varint m (ptr_add base i) (ptr_add base (length bs)) = Inr (v, ptr_add base k)"
      and k: "k \<le> length bs" and "varint_parse 10 (take (length bs - i) (drop i bs)) = Some (v, r)"
    then have "unat v < 2 ^ 63" using lengths_smallD [OF assms(2)] by simp
    from length_test_fails [OF assms(1) k this] True dec show ?thesis
      by (auto simp: decode_value_to_zval_def yields_def wire_result_def)
  qed (use True in \<open>auto simp: decode_value_to_zval_def yields_def wire_result_def\<close>)
qed

lemma decode_message_safe:
  assumes "message_at m base bs" "lengths_small bs"
    and sch: "schema_wf reg sch" "\<forall>f \<in> set (ordered_fields sch). \<not> repeated f"
  shows "i \<le> length bs \<Longrightarrow> length bs - i < n \<Longrightarrow>
    (case decode_message_internal n Z reg m as_object (ptr_add base i) (ptr_add base (length bs)) sch ret of
       Ok (p, ret) \<Rightarrow> p = ptr_add base (length bs) | Fail e \<Rightarrow> e \<noteq> E_Fault | Diverge \<Rightarrow> False)"
proof (induction n arbitrary: i ret)
  case (Suc n)
  let ?e = "ptr_add base (length bs)"
  have less: "ptr_add base i < ?e \<longleftrightarrow> i < length bs"
    using assms(1) Suc.prems(1) by (intro ptr_add_less_iff) (simp_all add: message_at_def)
  show ?case
  proof (cases "i < length bs")
    case False
    with Suc.prems less show ?thesis by simp
  next
    case True
    note go = Suc.IH Suc.prems
    from decode_varint_part [OF assms(1) Suc.prems(1) order_refl] show ?thesis
    proof (elim disjE exE conjE)
      assume "quicpro_proto_decode_varint m (ptr_add base i) ?e = Inl Short"
      with less True show ?thesis by (simp add: wire_result_def)
    next
      fix key r k
      assume key: "quicpro_proto_decode_varint m (ptr_add base i) ?e = Inr (key, ptr_add base k)"
        and k: "i < k" "k \<le> length bs"
      define tg wt where "tg = (ucast (drop_bit 3 key) :: u32)" and "wt = (ucast (key AND 7) :: u32)"
      have next_key: "case decode_message_internal n Z reg m as_object (ptr_add base j) ?e sch ret' of
          Ok (p, ret) \<Rightarrow> p = ?e | Fail e \<Rightarrow> e \<noteq> E_Fault | Diverge \<Rightarrow> False"
        if "i < j" "j \<le> length bs" for j ret'
        using Suc.IH [of j ret'] Suc.prems that by simp
      show ?thesis
      proof (cases "tg = 0 \<or> ht_find (fields_by_tag sch) (ucast tg) = None")
        case True
        have "advances base k (length bs)
            (skip_field m (ptr_add base k) ?e wt (E_Skip_failed tg (schema_name sch)))"
          by (rule skip_field_advances [OF assms(1,2) k(2)]) simp
        with True key k less \<open>i < length bs\<close> next_key show ?thesis
          unfolding tg_def wt_def
          by (cases "tg = 0"; cases "skip_field m (ptr_add base k) ?e wt (E_Skip_failed tg (schema_name sch))")
            (auto simp: wire_result_def Let_def advances_def tg_def wt_def)
      next
        case False
        then obtain f where f: "tg \<noteq> 0" "ht_find (fields_by_tag sch) (ucast tg) = Some f" by auto
        with sch have nr: "\<not> repeated f" "\<not> packed f"
          by (auto simp: schema_wf_def schema_tables_wf_def field_wf_def)
        define nested where "nested = decode_message_internal n Z reg m as_object"
        have "yields base k (length bs) (\<lambda>v. \<not> refcounted v)
            (decode_value_to_zval Z reg m nested (ptr_add base k) ?e f wt as_object)"
          by (rule decode_value_yields [OF assms(1,2) k(2)])
        with f nr key k less \<open>i < length bs\<close> next_key show ?thesis
          by (cases "decode_value_to_zval Z reg m nested (ptr_add base k) ?e f wt as_object")
            (auto simp: wire_result_def Let_def yields_def tg_def wt_def nested_def store_value_def)
      qed
    qed
  qed
qed simp

lemma populate_fields_safe: "populate_fields fs ret \<noteq> Diverge \<and> populate_fields fs ret \<noteq> Fail E_Fault"
  by (induction fs ret rule: populate_fields.induct) simp_all

text \<open>
  C2: for a schema without repeated fields, decoding any bytes whatsoever in which no varint
  exceeds the signed 64-bit range returns, with at most one loop iteration per byte, and
  never reads outside the storage of its argument; every byte is consumed when it succeeds.
\<close>

theorem decode_safe:
  assumes reg: "registry_wf reg" "get_compiled_iibin_schema_internal reg name = Some sch"
    and "\<forall>f \<in> set (ordered_fields sch). \<not> repeated f"
    and "lengths_small (bytes_of binary)"
    and "256 \<le> unat base" "unat base + length binary + 16 < 2 ^ 63" "length binary < n"
  shows "case quicpro_iibin_decode n Z reg base name binary as_object of
    Ok (pending, v) \<Rightarrow> \<not> pending | Fail e \<Rightarrow> e \<noteq> E_Fault | Diverge \<Rightarrow> False"
proof -
  let ?bs = "bytes_of binary"
  let ?r = "decode_message_internal n Z reg (string_storage base ?bs) as_object base
    (ptr_add base (length ?bs)) sch (new_message as_object)"
  have len: "length ?bs = length binary" by (simp add: bytes_of_def)
  have "message_at (string_storage base ?bs) base ?bs"
    using assms(5,6) holds_at_string_storage [of base ?bs] len by (simp add: message_at_def)
  moreover have "schema_wf reg sch"
    using reg by (auto simp: registry_wf_def get_compiled_iibin_schema_internal_def ht_find_def
        split: if_splits dest: map_of_SomeD)
  ultimately have "case ?r of
      Ok (p, ret) \<Rightarrow> p = ptr_add base (length ?bs) | Fail e \<Rightarrow> e \<noteq> E_Fault | Diverge \<Rightarrow> False"
    using decode_message_safe [of _ base ?bs reg sch 0 n Z as_object "new_message as_object"] assms len by simp
  note r = this
  show ?thesis
  proof (cases ?r)
    case (Ok pr)
    with r obtain ret where "?r = Ok (ptr_add base (length ?bs), ret)" by (cases pr) simp
    with reg(2) len populate_fields_safe [of "take (num_fields sch) (ordered_fields sch)" ret] show ?thesis
      by (cases "populate_fields (take (num_fields sch) (ordered_fields sch)) ret")
        (auto simp: quicpro_iibin_decode_def Let_def populate_default_values_and_check_required_def)
  qed (use r reg(2) len in \<open>auto simp: quicpro_iibin_decode_def Let_def\<close>)
qed

theorem decode_safe_witness:
  "case quicpro_iibin_decode 8 example_api pair_registry 4096 ''Pair'' (string_of [16, 200, 1, 7, 24, 9]) False of
    Ok (pending, v) \<Rightarrow> \<not> pending | Fail e \<Rightarrow> e \<noteq> E_Fault | Diverge \<Rightarrow> False"
proof (rule decode_safe [OF pair_registry_wf pair_lookup])
  have "list_all (\<lambda>f. \<not> repeated f) (ordered_fields pair_schema)" by code_simp
  then show "\<forall>f \<in> set (ordered_fields pair_schema). \<not> repeated f" by (simp add: list_all_iff)
  show "lengths_small (bytes_of (string_of [16, 200, 1, 7, 24, 9]))" by code_simp
qed (simp_all add: string_of_def)

section \<open>Where the decoder goes wrong\<close>

lemma backward_length:
  "length (backward_message 11) = 11" "length (backward_message 12) = 11"
  "length (varint_bytes 10 10) = 1"
  by code_simp+

lemma decode_varint_fault: "p < buf_end \<Longrightarrow> m p = None \<Longrightarrow> quicpro_proto_decode_varint m p buf_end = Inl Fault"
  using decode_varint_loop.simps(2) [of 9 m p buf_end 0 0] by (simp add: quicpro_proto_decode_varint_def)

lemma length_string_of [simp]: "length (string_of bs) = length bs"
  by (simp add: string_of_def)

lemma backward_step:
  assumes d: "d = 11 \<or> d = 12" and none: "ht_find (fields_by_tag sch) 1 = None"
    and room: "12 \<le> unat base" "unat base + 12 < 2 ^ 64"
  shows "decode_message_internal (Suc n) Z reg (string_storage base (backward_message d)) as_object base
      (ptr_add base 11) sch ret =
    decode_message_internal n Z reg (string_storage base (backward_message d)) as_object (base + 11 - d)
      (ptr_add base 11) sch ret"
proof -
  note [simp del] = varint_bytes.simps
  let ?m = "string_storage base (backward_message d)" and ?e = "ptr_add base 11"
  have len: "length (backward_message d) = 11" using d backward_length by auto
  have "holds_at ?m base (backward_message d @ [0])"
    using room len by (intro holds_at_string_storage) simp
  then have at: "holds_at ?m base (varint_bytes 10 10 @ varint_bytes 10 (- d))"
    by (simp add: holds_at_append backward_message_def)
  have len2: "length (varint_bytes 10 (- d)) = 10"
    using len backward_length(3) by (simp add: backward_message_def)
  have key: "quicpro_proto_decode_varint ?m base ?e = Inr (10, ptr_add base 1)"
    using decode_varint_at [OF at, of ?e] backward_length(3) len2 by simp
  have "holds_at ?m (ptr_add base 1) (varint_bytes 10 (- d) @ [])"
    using at backward_length(3) by (simp add: holds_at_append)
  then have dec: "quicpro_proto_decode_varint ?m (ptr_add base 1) ?e = Inr (- d, ptr_add base 11)"
    using decode_varint_at [of ?m "ptr_add base 1" "- d" "[]" ?e] len2 by simp
  have "unat (base + 11 - d) \<le> unat base"
    using d room by (auto simp: unat_sub_if_size word_size unat_word_ariths)
  then have "base + 11 - d \<le> ?e"
    using room by (simp add: word_le_nat_alt unat_ptr_add)
  then have skip: "skip_field ?m (ptr_add base 1) ?e WIRETYPE_LENGTH_DELIM err = Ok (base + 11 - d)" for err
    using dec by (simp add: skip_field_def wire_result_def WIRETYPE_VARINT_def WIRETYPE_FIXED64_def
        WIRETYPE_LENGTH_DELIM_def ptr_add_def not_less)
  have "base < ?e" using room ptr_add_less_iff [of base 0 11] by simp
  then show ?thesis
    using key none skip by (simp add: wire_result_def WIRETYPE_LENGTH_DELIM_def)
qed

text \<open>
  C33: a message of eleven bytes makes the decoder loop for ever: for every amount of fuel, every
  schema without a field of tag 1 and both result kinds, decoding does not return.
\<close>

theorem decode_loops:
  assumes "get_compiled_iibin_schema_internal reg name = Some sch" "ht_find (fields_by_tag sch) 1 = None"
    and "12 \<le> unat base" "unat base + 12 < 2 ^ 64"
  shows "quicpro_iibin_decode n Z reg base name (string_of (backward_message 11)) as_object = Diverge"
proof -
  have "decode_message_internal n Z reg (string_storage base (backward_message 11)) as_object base
      (ptr_add base 11) sch ret = Diverge" for ret
    using backward_step [of 11, OF _ assms(2-4)] by (induction n) simp_all
  then show ?thesis
    using assms(1) backward_length(1)
    by (simp add: quicpro_iibin_decode_def Let_def)
qed

theorem decode_loops_witness:
  "\<forall>n. quicpro_iibin_decode n example_api pair_registry 4096 ''Pair'' (string_of (backward_message 11)) False = Diverge"
  by (intro allI decode_loops [OF pair_lookup pair_no_tag_1]) simp_all

text \<open>
  another message of eleven bytes makes the decoder read the byte in front of its argument.
\<close>

theorem decode_reads_before:
  assumes "get_compiled_iibin_schema_internal reg name = Some sch" "ht_find (fields_by_tag sch) 1 = None"
    and "12 \<le> unat base" "unat base + 12 < 2 ^ 64" "2 \<le> n"
  shows "quicpro_iibin_decode n Z reg base name (string_of (backward_message 12)) as_object = Fail E_Fault"
proof -
  define k where "k = n - 2"
  then have n: "n = Suc (Suc k)" using assms(5) by simp
  let ?m = "string_storage base (backward_message 12)"
  have before: "unat (base - 1) = unat base - 1"
    using assms(3) by (simp add: unat_sub_if_size word_size word_le_nat_alt)
  then have none: "?m (base - 1) = None"
    using assms(3,4) backward_length(2) by (intro string_storage_None) simp_all
  have pred: "base + 11 - 12 = base - 1" by simp
  have "base - 1 < ptr_add base 11"
    using before assms(3,4) by (simp add: word_less_nat_alt unat_ptr_add)
  with none have "decode_message_internal (Suc k) Z reg ?m as_object (base - 1) (ptr_add base 11) sch ret
      = Fail E_Fault" for ret
    by (simp add: decode_varint_fault wire_result_def)
  then have "decode_message_internal n Z reg ?m as_object base (ptr_add base 11) sch ret = Fail E_Fault" for ret
    unfolding n using backward_step [of 12, OF _ assms(2-4), of "Suc k"] pred by (simp only: simp_thms)
  then show ?thesis
    using assms(1) backward_length(2)
    by (simp add: quicpro_iibin_decode_def Let_def)
qed

theorem decode_reads_before_witness:
  "quicpro_iibin_decode 2 example_api pair_registry 4096 ''Pair'' (string_of (backward_message 12)) False = Fail E_Fault"
  by (rule decode_reads_before [OF pair_lookup pair_no_tag_1]) simp_all

lemma decode_varint_loop_ptr:
  "decode_varint_loop n m p buf_end shift result = Inr (v, q) \<Longrightarrow> \<exists>k \<le> n. q = ptr_add p k"
proof (induction n m p buf_end shift result rule: decode_varint_loop.induct)
  case (2 n m p buf_end shift result)
  show ?case
  proof (cases "m p")
    case (Some b)
    show ?thesis
    proof (cases "b AND 0x80 = 0")
      case True
      with 2(2) Some have "q = ptr_add p 1" by (auto simp: ptr_add_1 Let_def split: if_splits)
      then show ?thesis by (intro exI [of _ 1]) simp
    next
      case False
      with 2 Some obtain k where "k \<le> n" "q = ptr_add (p + 1) k" by (auto simp: Let_def split: if_splits)
      then show ?thesis by (intro exI [of _ "Suc k"]) (simp add: ptr_add_1)
    qed
  qed (use 2(2) in \<open>simp split: if_splits\<close>)
qed simp

text \<open>
  C34: no field of type string or bytes is ever decoded: whatever the bytes, the value decoder does
  not succeed, because the bounds test compares the pointer with the byte behind the buffer.
\<close>

theorem string_fields_never_decode:
  assumes "ftype f = TYPE_STRING \<or> ftype f = TYPE_BYTES"
    and "256 \<le> unat p" "unat p + 10 + unat (memory_limit Z) < 2 ^ 64"
  shows "decode_value_to_zval Z reg m rec p buf_end f wt as_object \<noteq> Ok r"
proof
  assume "decode_value_to_zval Z reg m rec p buf_end f wt as_object = Ok r"
  then obtain len q b where dec: "quicpro_proto_decode_varint m p buf_end = Inr (len, q)"
    and b: "\<not> q + len > ucast (b :: u8)" and len: "len \<le> memory_limit Z"
    using assms(1)
    by (auto simp: decode_value_to_zval_def obind_eq_Ok wire_result_def length_test_def zval_stringl_def
        split: if_splits sum.splits wire_fail.splits option.splits)
  from dec obtain k where k: "k \<le> 10" "q = ptr_add p k"
    unfolding quicpro_proto_decode_varint_def by (blast dest: decode_varint_loop_ptr)
  have "unat len \<le> unat (memory_limit Z)" using len by (simp add: word_le_nat_alt)
  then have "unat (ptr_add p (k + unat len)) = unat p + (k + unat len)"
    using assms(3) k(1) by (intro unat_ptr_add) simp
  moreover have "q + len = ptr_add p (k + unat len)" by (simp add: k(2) ptr_add_def add.assoc)
  moreover have "unat (ucast b :: u64) < 256"
    by (simp add: unsigned_ucast_eq take_bit_nat_eq_self [OF less_trans [OF unat_u8_less]])
  ultimately show False using b assms(2) by (simp add: word_less_nat_alt)
qed

theorem string_fields_never_decode_witness:
  "(\<forall>r. decode_value_to_zval example_api empty_registry (string_storage 4096 [2, 104, 105])
      (\<lambda>_ _ _ _. Diverge) 4096 4099 (new_field_def\<lparr>ftype := TYPE_STRING, wire_type := 2\<rparr>) 2 False \<noteq> Ok r) \<and>
   decode_value_to_zval example_api empty_registry (string_storage 4096 [2, 104, 105])
      (\<lambda>_ _ _ _. Diverge) 4096 4099 (new_field_def\<lparr>ftype := TYPE_STRING, wire_type := 2\<rparr>) 2 False = Fail E_Silent"
proof
  show "\<forall>r. decode_value_to_zval example_api empty_registry (string_storage 4096 [2, 104, 105])
      (\<lambda>_ _ _ _. Diverge) 4096 4099 (new_field_def\<lparr>ftype := TYPE_STRING, wire_type := 2\<rparr>) 2 False \<noteq> Ok r"
    by (intro allI string_fields_never_decode) (simp_all add: example_api_def)
qed code_simp

text \<open>
  in an array result the list of a repeated field that is not sent packed is released as soon as it
  is stored: the message refers to freed storage, and storing a second item uses it.
\<close>

theorem unpacked_list_released:
  assumes "repeated f" "arr_find t (name_in_php f) = None"
  shows "\<exists>t'. store_value (Z_Array t) f v = Ok (Z_Array t') \<and> arr_find t' (name_in_php f) = Some Z_Freed \<and>
    store_value (Z_Array t') f w = Fail E_Fault"
  using assms
  by (auto simp: store_value_def store_then_release_def owned_by_array_def refcounted_def arr_find_def
      ht_find_update push_item_def Let_def)

theorem unpacked_list_released_witness:
  "\<exists>t'. store_value (Z_Array []) (new_field_def\<lparr>name_in_php := ''xs'', flags := 5\<rparr>) (Z_Long 7) = Ok (Z_Array t') \<and>
    arr_find t' ''xs'' = Some Z_Freed \<and>
    store_value (Z_Array t') (new_field_def\<lparr>name_in_php := ''xs'', flags := 5\<rparr>) (Z_Long 8) = Fail E_Fault"
  using unpacked_list_released [of "new_field_def\<lparr>name_in_php := ''xs'', flags := 5\<rparr>" "[]" "Z_Long 7" "Z_Long 8"]
  by (simp add: arr_find_def FLAG_REPEATED_def)

text \<open>
  A required repeated field with an empty list is accepted by the encoder, which writes nothing, and
  its output is then refused by the decoder.
\<close>

theorem required_empty_list:
  assumes "get_compiled_iibin_schema_internal reg name = Some sch" "ordered_fields sch = [f]" "num_fields sch = 1"
    and "required f" "repeated f" "message_value Z data (name_in_php f) = Some (Z_Array [])"
    and "is_array data \<or> is_object data"
  shows "quicpro_iibin_encode (Suc n) Z reg name data = Ok [] \<and>
    quicpro_iibin_decode (Suc k) Z reg base name [] as_object = Fail (E_Required_not_found (name_in_php f) (tag f))"
proof
  show "quicpro_iibin_encode (Suc n) Z reg name data = Ok []"
    using assms by (auto simp: quicpro_iibin_encode_def encode_field_internal_def string_of_def)
  show "quicpro_iibin_decode (Suc k) Z reg base name [] as_object = Fail (E_Required_not_found (name_in_php f) (tag f))"
    using assms(1-4) by (simp add: quicpro_iibin_decode_def populate_default_values_and_check_required_def
        new_message_def arr_find_def)
qed

theorem required_empty_list_witness:
  "quicpro_iibin_encode 1 example_api list_registry ''List'' (Z_Array [(HStr ''zs'', Z_Array [])]) = Ok [] \<and>
   quicpro_iibin_decode 1 example_api list_registry 4096 ''List'' [] False = Fail (E_Required_not_found ''zs'' 1)"
proof -
  let ?f = "hd (ordered_fields list_schema)"
  have f: "name_in_php ?f = ''zs''" "tag ?f = 1" by code_simp+
  have "quicpro_iibin_encode (Suc 0) example_api list_registry ''List'' (Z_Array [(HStr ''zs'', Z_Array [])]) = Ok [] \<and>
    quicpro_iibin_decode (Suc 0) example_api list_registry 4096 ''List'' [] False =
      Fail (E_Required_not_found (name_in_php ?f) (tag ?f))"
  proof (rule required_empty_list)
    show "get_compiled_iibin_schema_internal list_registry ''List'' = Some list_schema" by code_simp
    show "ordered_fields list_schema = [?f]" by code_simp
    show "num_fields list_schema = 1" by code_simp
    show "required ?f" by code_simp
    show "repeated ?f" by code_simp
    show "message_value example_api (Z_Array [(HStr ''zs'', Z_Array [])]) (name_in_php ?f) = Some (Z_Array [])"
      by code_simp
  qed simp
  then show ?thesis by (simp add: f)
qed

text \<open>
  tags are cut to 29 bits on the wire: a field whose tag is larger by 2^29 is written with the same key,
  so its values are read back as those of the other field.
\<close>

theorem tag_truncated:
  assumes "tag g = tag f + 2 ^ 29" "wire_type g = wire_type f"
  shows "field_key g = field_key f"
proof -
  have "push_bit 3 (tag f + 2 ^ 29) = push_bit 3 (tag f)"
    by (simp add: push_bit_eq_mult distrib_right)
  with assms show ?thesis by (simp add: field_key_def)
qed

theorem tag_truncated_witness:
  "field_key (new_field_def\<lparr>tag := 536870913\<rparr>) = field_key (new_field_def\<lparr>tag := 1\<rparr>)"
  by (rule tag_truncated) simp_all

end
