(* ===== verification/C_Strings.thy ===== *)
theory C_Strings
  imports Prelude
begin

text \<open>
  The functions of the C library that the parameter validators use: tokenizing,
  case-insensitive comparison, character classes and the numeric scanners, as far as the code
  looks at their results.  Strings are what the C function sees, without a NUL byte.
\<close>

section \<open>Characters\<close>

definition is_digit :: "char \<Rightarrow> bool" where
  "is_digit c \<longleftrightarrow> c \<in> set ''0123456789''"

definition is_xdigit :: "char \<Rightarrow> bool" where
  "is_xdigit c \<longleftrightarrow> c \<in> set ''0123456789abcdefABCDEF''"

definition isspace :: "char \<Rightarrow> bool" where
  "isspace c \<longleftrightarrow> c \<in> {CHR '' '', CHR 0x09, CHR 0x0A, CHR 0x0B, CHR 0x0C, CHR 0x0D}"

definition isalnum :: "char \<Rightarrow> bool" where
  "isalnum c \<longleftrightarrow>
     c \<in> set ''0123456789abcdefghijklmnopqrstuvwxyzABCDEFGHIJKLMNOPQRSTUVWXYZ''"

definition tolower :: "char \<Rightarrow> char" where
  "tolower c =
     (case map_of (zip ''ABCDEFGHIJKLMNOPQRSTUVWXYZ'' ''abcdefghijklmnopqrstuvwxyz'') c of
        Some l \<Rightarrow> l | None \<Rightarrow> c)"

definition strcasecmp_eq :: "string \<Rightarrow> string \<Rightarrow> bool" where
  "strcasecmp_eq a b \<longleftrightarrow> map tolower (cstr a) = map tolower (cstr b)"

section \<open>Tokens\<close>

text \<open>\<^verbatim>\<open>strtok_r\<close> with one delimiter: the token and what is left for the next call.\<close>

definition strtok_r :: "char \<Rightarrow> string \<Rightarrow> (string \<times> string) option" where
  "strtok_r d s =
     (let s = dropWhile (\<lambda>c. c = d) s in
      if s = [] then None
      else Some (takeWhile (\<lambda>c. c \<noteq> d) s, drop 1 (dropWhile (\<lambda>c. c \<noteq> d) s)))"

lemma strtok_r_shorter:
  assumes "strtok_r d s = Some (t, r)"
  shows "length r < length s"
proof -
  let ?s = "dropWhile (\<lambda>c. c = d) s"
  from assms have ne: "?s \<noteq> []" and r: "r = drop 1 (dropWhile (\<lambda>c. c \<noteq> d) ?s)"
    by (auto simp: strtok_r_def Let_def split: if_splits)
  have "hd ?s \<noteq> d" using hd_dropWhile [OF ne] by simp
  with ne have "length (dropWhile (\<lambda>c. c \<noteq> d) ?s) < length ?s"
    by (cases ?s) (auto simp: le_imp_less_Suc length_dropWhile_le)
  with r length_dropWhile_le [of "\<lambda>c. c = d" s] show ?thesis by simp
qed

text \<open>All tokens of a loop over \<^verbatim>\<open>strtok_r\<close>.\<close>

function strtok_tokens :: "char \<Rightarrow> string \<Rightarrow> string list" where
  "strtok_tokens d s = (case strtok_r d s of None \<Rightarrow> [] | Some (t, r) \<Rightarrow> t # strtok_tokens d r)"
  by auto
termination
  by (relation "measure (\<lambda>(d, s). length s)") (auto dest: strtok_r_shorter)

declare strtok_tokens.simps [simp del]

section \<open>Numeric scanners\<close>

definition skip_sign :: "string \<Rightarrow> string" where
  "skip_sign s = (case s of c # r \<Rightarrow> if c = CHR ''+'' \<or> c = CHR ''-'' then r else s | [] \<Rightarrow> [])"

text \<open>Where \<^verbatim>\<open>strtol\<close> with base ten stops; without digits it stops at the start.\<close>

definition strtol_end :: "string \<Rightarrow> string" where
  "strtol_end s =
     (let r = skip_sign (dropWhile isspace s) in
      if r \<noteq> [] \<and> is_digit (hd r) then dropWhile is_digit r else s)"

text \<open>The optional exponent of a floating-point literal.\<close>

definition skip_exponent :: "char set \<Rightarrow> string \<Rightarrow> string" where
  "skip_exponent marks s =
     (case s of
        c # r \<Rightarrow>
          if c \<in> marks \<and> skip_sign r \<noteq> [] \<and> is_digit (hd (skip_sign r))
          then dropWhile is_digit (skip_sign r) else s
      | [] \<Rightarrow> [])"

text \<open>Digits with an optional fraction: the rest, or None without any digit.\<close>

definition skip_mantissa :: "(char \<Rightarrow> bool) \<Rightarrow> string \<Rightarrow> string option" where
  "skip_mantissa digit s =
     (let i = takeWhile digit s; r = dropWhile digit s in
      case r of
        c # f \<Rightarrow>
          if c = CHR ''.'' \<and> (i \<noteq> [] \<or> f \<noteq> [] \<and> digit (hd f)) then Some (dropWhile digit f)
          else if i \<noteq> [] then Some r else None
      | [] \<Rightarrow> if i \<noteq> [] then Some [] else None)"

definition prefix_ci :: "string \<Rightarrow> string \<Rightarrow> bool" where
  "prefix_ci p s \<longleftrightarrow> length p \<le> length s \<and> map tolower (take (length p) s) = p"

text \<open>Where \<^verbatim>\<open>strtod\<close> stops: infinities, NaNs, hexadecimal and decimal literals.\<close>

definition strtod_end :: "string \<Rightarrow> string" where
  "strtod_end s =
     (let r = skip_sign (dropWhile isspace s) in
      if prefix_ci ''infinity'' r then drop 8 r
      else if prefix_ci ''inf'' r then drop 3 r
      else if prefix_ci ''nan'' r then
        (let q = drop 3 r in
         case q of
           c # t \<Rightarrow>
             (let body = dropWhile (\<lambda>c. isalnum c \<or> c = CHR ''_'') t in
              if c = CHR ''('' \<and> body \<noteq> [] \<and> hd body = CHR '')'' then drop 1 body else q)
         | [] \<Rightarrow> [])
      else
        (case (if prefix_ci ''0x'' r then skip_mantissa is_xdigit (drop 2 r) else None) of
           Some t \<Rightarrow> skip_exponent {CHR ''p'', CHR ''P''} t
         | None \<Rightarrow>
             (case skip_mantissa is_digit r of
                Some t \<Rightarrow> skip_exponent {CHR ''e'', CHR ''E''} t
              | None \<Rightarrow> s)))"

section \<open>Scanning integers\<close>

definition digit_value :: "char \<Rightarrow> int" where
  "digit_value c = of_char c - 48"

definition decimal_value :: "string \<Rightarrow> int" where
  "decimal_value ds = foldl (\<lambda>v c. 10 * v + digit_value c) 0 ds"

text \<open>
  The \<^verbatim>\<open>%d\<close> of \<^verbatim>\<open>sscanf\<close>: the number is read as a long, which saturates, and stored as an int.
\<close>

definition scan_int :: "string \<Rightarrow> (int \<times> string) option" where
  "scan_int s =
     (let r = dropWhile isspace s; neg = (r \<noteq> [] \<and> hd r = CHR ''-''); ds = skip_sign r in
      if ds \<noteq> [] \<and> is_digit (hd ds) then
        (let v = decimal_value (takeWhile is_digit ds);
             l = (if neg then max (- (2 ^ 63)) (- v) else min (2 ^ 63 - 1) v)
         in Some (sint (word_of_int l :: 32 word), dropWhile is_digit ds))
      else None)"

section \<open>Lemmas\<close>

lemma strcasecmp_refl [simp]: "strcasecmp_eq a a"
  by (simp add: strcasecmp_eq_def)

lemma strcasecmp_sym: "strcasecmp_eq a b \<longleftrightarrow> strcasecmp_eq b a"
  by (auto simp: strcasecmp_eq_def)

lemma strcasecmp_trans: "strcasecmp_eq a b \<Longrightarrow> strcasecmp_eq b c \<Longrightarrow> strcasecmp_eq a c"
  by (simp add: strcasecmp_eq_def)

lemma strcasecmp_cstr [simp]: "strcasecmp_eq (cstr a) b \<longleftrightarrow> strcasecmp_eq a b"
  by (simp add: strcasecmp_eq_def)

lemma strtok_r_cases:
  "strtok_r d s = Some (t, r) \<Longrightarrow> t \<noteq> [] \<and> d \<notin> set t \<and> set t \<subseteq> set s"
proof -
  assume a: "strtok_r d s = Some (t, r)"
  let ?s = "dropWhile (\<lambda>c. c = d) s"
  from a have ne: "?s \<noteq> []" and t: "t = takeWhile (\<lambda>c. c \<noteq> d) ?s"
    by (auto simp: strtok_r_def Let_def split: if_splits)
  have "hd ?s \<noteq> d" using hd_dropWhile [OF ne] by simp
  then have "t \<noteq> []" using ne unfolding t by (cases ?s) auto
  moreover have "d \<notin> set t" unfolding t by (auto dest: set_takeWhileD)
  moreover have "set t \<subseteq> set s" unfolding t by (auto dest: set_takeWhileD set_dropWhileD)
  ultimately show ?thesis by blast
qed

text \<open>The tokens are the maximal non-empty pieces between delimiters: joining them gives the
  string without superfluous delimiters.\<close>

fun join :: "char \<Rightarrow> string list \<Rightarrow> string" where
  "join d [] = []"
| "join d [t] = t"
| "join d (t # u # ts) = t @ d # join d (u # ts)"

lemma strtok_skip: "strtok_tokens d (d # s) = strtok_tokens d s"
  by (simp add: strtok_tokens.simps [of d "d # s"] strtok_tokens.simps [of d s] strtok_r_def)

lemma strtok_one:
  assumes "t \<noteq> []" "d \<notin> set t"
  shows "strtok_tokens d t = [t]"
proof -
  have "dropWhile (\<lambda>c. c = d) t = t" using assms by (cases t) auto
  moreover have "takeWhile (\<lambda>c. c \<noteq> d) t = t" "dropWhile (\<lambda>c. c \<noteq> d) t = []"
    using assms(2) by (auto simp: takeWhile_eq_all_conv dropWhile_eq_Nil_conv)
  ultimately have "strtok_r d t = Some (t, [])"
    using assms(1) unfolding strtok_r_def Let_def by (simp del: dropWhile_eq_Nil_conv)
  moreover have "strtok_tokens d [] = []" by (simp add: strtok_tokens.simps strtok_r_def)
  ultimately show ?thesis by (simp add: strtok_tokens.simps [of d t])
qed

lemma strtok_append:
  assumes "t \<noteq> []" "d \<notin> set t"
  shows "strtok_tokens d (t @ d # s) = t # strtok_tokens d s"
proof -
  have "dropWhile (\<lambda>c. c = d) (t @ d # s) = t @ d # s" using assms by (cases t) auto
  moreover have "takeWhile (\<lambda>c. c \<noteq> d) (t @ d # s) = t" "dropWhile (\<lambda>c. c \<noteq> d) (t @ d # s) = d # s"
    using assms(2) by (auto simp: takeWhile_append dropWhile_append)
  ultimately have "strtok_r d (t @ d # s) = Some (t, s)" by (simp add: strtok_r_def)
  then show ?thesis by (simp add: strtok_tokens.simps [of d "t @ d # s"])
qed

lemma strtok_join:
  "\<forall>t \<in> set ts. t \<noteq> [] \<and> d \<notin> set t \<Longrightarrow> strtok_tokens d (join d ts) = ts"
proof (induction d ts rule: join.induct)
  case (1 d)
  then show ?case by (simp add: strtok_tokens.simps strtok_r_def)
qed (simp_all add: strtok_one strtok_append)

lemma strtok_tokens_wf: "t \<in> set (strtok_tokens d s) \<Longrightarrow> t \<noteq> [] \<and> d \<notin> set t \<and> set t \<subseteq> set s"
proof (induction d s rule: strtok_tokens.induct)
  case (1 d s)
  show ?case
  proof (cases "strtok_r d s")
    case None
    with 1 show ?thesis by (simp add: strtok_tokens.simps [of d s])
  next
    case (Some tr)
    obtain u r where tr: "tr = (u, r)" by (cases tr)
    have "set r \<subseteq> set s"
      using Some tr by (auto simp: strtok_r_def Let_def split: if_splits dest!: in_set_dropD set_dropWhileD)
    moreover have "t = u \<or> t \<in> set (strtok_tokens d r)"
      using 1(2) Some tr by (auto simp: strtok_tokens.simps [of d s])
    ultimately show ?thesis
      using 1(1) [OF Some tr [symmetric]] Some tr strtok_r_cases [of d s u r] by blast
  qed
qed

end
