(* ===== verification/Validators.thy ===== *)
theory Validators
  imports C_Strings Zend
begin

text \<open>
  The parameter validators under \<^verbatim>\<open>src/extension/src/validation/config_param\<close>.  Each takes the PHP
  value and the old contents of its target, and yields the new contents, the exception it
  throws, or the memory error it commits.  Strings kept in a configuration are \<^verbatim>\<open>char\<close> pointers,
  whose allocator matters because the validators release the old string with \<^verbatim>\<open>free\<close>.
\<close>

section \<open>Errors and pointers\<close>

datatype cfg_error =
    Override_Disabled  \<comment> \<open>userland configuration is switched off\<close>
  | Not_An_Array
  | Type_Required  \<comment> \<open>\<^verbatim>\<open>InvalidArgumentException\<close>: wrong PHP type\<close>
  | Value_Rejected  \<comment> \<open>\<^verbatim>\<open>InvalidArgumentException\<close>: right type, wrong value\<close>
  | Invalid_Free  \<comment> \<open>\<^verbatim>\<open>free\<close> of a pointer that \<^verbatim>\<open>malloc\<close> did not return\<close>
  | Wild_Pointer  \<comment> \<open>a pointer made of unrelated bytes is dereferenced\<close>

type_synonym 'a cfg_result = "(cfg_error, 'a) outcome"

text \<open>Where the string behind a \<^verbatim>\<open>char *\<close> field came from.\<close>

datatype cptr =
    NullPtr
  | Malloced string  \<comment> \<open>\<^verbatim>\<open>pestrdup(s, 1)\<close>\<close>
  | Emalloced string  \<comment> \<open>\<^verbatim>\<open>estrdup\<close>: the request allocator\<close>
  | Interior string  \<comment> \<open>the bytes inside an engine \<^verbatim>\<open>zend_string\<close>\<close>

primrec ptr_str :: "cptr \<Rightarrow> string option" where
  "ptr_str NullPtr = None"
| "ptr_str (Malloced s) = Some s"
| "ptr_str (Emalloced s) = Some s"
| "ptr_str (Interior s) = Some s"

definition pestrdup :: "string \<Rightarrow> cptr" where
  "pestrdup s = Malloced (cstr s)"

definition estrdup :: "string \<Rightarrow> cptr" where
  "estrdup s = Emalloced (cstr s)"

text \<open>\<^verbatim>\<open>if (*target) { pefree(*target, 1); }\<close> succeeds on NULL and on malloced pointers only.\<close>

primrec free_ok :: "cptr \<Rightarrow> bool" where
  "free_ok NullPtr = True"
| "free_ok (Malloced s) = True"
| "free_ok (Emalloced s) = False"
| "free_ok (Interior s) = False"

definition replace_str :: "cptr \<Rightarrow> string \<Rightarrow> cptr cfg_result" where
  "replace_str old s = (if free_ok old then Ok (pestrdup s) else Fail Invalid_Free)"

section \<open>Doubles\<close>

definition f64_is_nan :: "u64 \<Rightarrow> bool" where
  "f64_is_nan d \<longleftrightarrow> 0x7FF0000000000000 < d AND 0x7FFFFFFFFFFFFFFF"

text \<open>The order of the finite and infinite doubles, with both zeros equal.\<close>

definition f64_key :: "u64 \<Rightarrow> int" where
  "f64_key d =
     (if 0x8000000000000000 \<le> d then - uint (d AND 0x7FFFFFFFFFFFFFFF) else uint d)"

definition f64_less :: "u64 \<Rightarrow> u64 \<Rightarrow> bool" where
  "f64_less a b \<longleftrightarrow> \<not> f64_is_nan a \<and> \<not> f64_is_nan b \<and> f64_key a < f64_key b"

section \<open>Scalars\<close>

definition qp_validate_bool :: "zval \<Rightarrow> unit cfg_result" where
  "qp_validate_bool value =
     (case value of Z_True \<Rightarrow> Ok () | Z_False \<Rightarrow> Ok () | _ \<Rightarrow> Fail Type_Required)"

definition qp_validate_positive_long :: "zval \<Rightarrow> zend_long cfg_result" where
  "qp_validate_positive_long value =
     (case value of
        Z_Long l \<Rightarrow> if l \<le>s 0 then Fail Value_Rejected else Ok l
      | _ \<Rightarrow> Fail Value_Rejected)"

definition qp_validate_non_negative_long :: "zval \<Rightarrow> zend_long cfg_result" where
  "qp_validate_non_negative_long value =
     (case value of
        Z_Long l \<Rightarrow> if l <s 0 then Fail Value_Rejected else Ok l
      | _ \<Rightarrow> Fail Type_Required)"

definition qp_validate_long_range :: "zval \<Rightarrow> zend_long \<Rightarrow> zend_long \<Rightarrow> zend_long cfg_result" where
  "qp_validate_long_range value lo hi =
     (case value of
        Z_Long l \<Rightarrow> if l <s lo \<or> hi <s l then Fail Value_Rejected else Ok l
      | _ \<Rightarrow> Fail Type_Required)"

definition qp_validate_niceness_value :: "zval \<Rightarrow> zend_long cfg_result" where
  "qp_validate_niceness_value value =
     (case value of
        Z_Long l \<Rightarrow> if l <s - 20 \<or> 19 <s l then Fail Value_Rejected else Ok l
      | _ \<Rightarrow> Fail Type_Required)"

definition qp_validate_double_range :: "zval \<Rightarrow> u64 \<Rightarrow> u64 \<Rightarrow> u64 cfg_result" where
  "qp_validate_double_range value lo hi =
     (case value of
        Z_Double d \<Rightarrow> if f64_less d lo \<or> f64_less hi d then Fail Value_Rejected else Ok d
      | _ \<Rightarrow> Fail Type_Required)"

section \<open>Strings\<close>

text \<open>A validator with the shape all string validators share: the type test, a test of the
  contents, and the replacement of the target.\<close>

definition validate_str :: "(string \<Rightarrow> bool) \<Rightarrow> zval \<Rightarrow> cptr \<Rightarrow> cptr cfg_result" where
  "validate_str ok value old =
     (case value of
        Z_String s \<Rightarrow> if ok s then replace_str old s else Fail Value_Rejected
      | _ \<Rightarrow> Fail Type_Required)"

definition qp_validate_string :: "zval \<Rightarrow> cptr \<Rightarrow> cptr cfg_result" where
  "qp_validate_string = validate_str (\<lambda>s. True)"

definition qp_validate_generic_string :: "zval \<Rightarrow> cptr \<Rightarrow> cptr cfg_result" where
  "qp_validate_generic_string = validate_str (\<lambda>s. True)"

definition allowed_ci :: "string list \<Rightarrow> string \<Rightarrow> bool" where
  "allowed_ci allowed s \<longleftrightarrow> list_ex (strcasecmp_eq s) allowed"

definition qp_validate_string_from_allowlist ::
  "zval \<Rightarrow> string list \<Rightarrow> cptr \<Rightarrow> cptr cfg_result" where
  "qp_validate_string_from_allowlist value allowed = validate_str (allowed_ci allowed) value"

definition qp_validate_scheduler_policy :: "zval \<Rightarrow> cptr \<Rightarrow> cptr cfg_result" where
  "qp_validate_scheduler_policy =
     validate_str (\<lambda>s. cstr s = ''other'' \<or> cstr s = ''fifo'' \<or> cstr s = ''rr'')"

definition host_ok :: "string \<Rightarrow> bool" where
  "host_ok s \<longleftrightarrow>
     s \<noteq> [] \<and> list_all (\<lambda>c. isalnum c \<or> c = CHR ''.'' \<or> c = CHR ''-'' \<or> c = CHR '':'') s"

definition qp_validate_host_string :: "zval \<Rightarrow> cptr \<Rightarrow> cptr cfg_result" where
  "qp_validate_host_string = validate_str host_ok"

definition qp_validate_readable_file_path :: "zend_api \<Rightarrow> zval \<Rightarrow> cptr \<Rightarrow> cptr cfg_result" where
  "qp_validate_readable_file_path Z =
     validate_str (\<lambda>s. cstr s = [] \<or> vcwd_access_ok Z (cstr s))"

section \<open>Lists in strings\<close>

text \<open>The entries of a comma-separated list are trimmed and empty entries are skipped.\<close>

definition comma_list_ok :: "zend_api \<Rightarrow> (string \<Rightarrow> bool) \<Rightarrow> string \<Rightarrow> bool" where
  "comma_list_ok Z ok s \<longleftrightarrow>
     list_all (\<lambda>t. php_trim Z t = [] \<or> ok (php_trim Z t)) (strtok_tokens (CHR '','') (cstr s))"

definition qp_validate_comma_separated_string_from_allowlist ::
  "zend_api \<Rightarrow> zval \<Rightarrow> string list \<Rightarrow> cptr \<Rightarrow> cptr cfg_result" where
  "qp_validate_comma_separated_string_from_allowlist Z value allowed =
     validate_str (comma_list_ok Z (allowed_ci allowed)) value"

definition is_numeric_token :: "string \<Rightarrow> bool" where
  "is_numeric_token s \<longleftrightarrow> cstr s \<noteq> [] \<and> strtod_end (cstr s) = []"

definition qp_validate_comma_separated_numeric_string ::
  "zend_api \<Rightarrow> zval \<Rightarrow> cptr \<Rightarrow> cptr cfg_result" where
  "qp_validate_comma_separated_numeric_string Z = validate_str (comma_list_ok Z is_numeric_token)"

text \<open>Here the old target is not released, so any pointer may be replaced.\<close>

definition qp_validate_colon_separated_string_from_allowlist ::
  "zval \<Rightarrow> string list \<Rightarrow> cptr cfg_result" where
  "qp_validate_colon_separated_string_from_allowlist value allowed =
     (case value of
        Z_String s \<Rightarrow>
          if list_all (\<lambda>t. t \<in> set allowed) (strtok_tokens (CHR '':'') (cstr s))
          then Ok (pestrdup s) else Fail Value_Rejected
      | _ \<Rightarrow> Fail Type_Required)"

definition origin_ok :: "zend_api \<Rightarrow> string \<Rightarrow> bool" where
  "origin_ok Z t \<longleftrightarrow>
     (case php_url_parse_ex Z t of
        None \<Rightarrow> False
      | Some u \<Rightarrow>
          (case url_scheme u of
             None \<Rightarrow> False
           | Some scheme \<Rightarrow>
               url_host u \<noteq> None \<and>
               (strcasecmp_eq scheme ''http'' \<or> strcasecmp_eq scheme ''https'')))"

definition cors_policy_ok :: "zend_api \<Rightarrow> string \<Rightarrow> bool" where
  "cors_policy_ok Z s \<longleftrightarrow> cstr s = ''*'' \<or> comma_list_ok Z (origin_ok Z) s"

definition qp_validate_cors_origin_string :: "zend_api \<Rightarrow> zval \<Rightarrow> cptr cfg_result" where
  "qp_validate_cors_origin_string Z value =
     (case value of
        Z_String s \<Rightarrow> if cors_policy_ok Z s then Ok (pestrdup s) else Fail Value_Rejected
      | _ \<Rightarrow> Fail Type_Required)"

section \<open>Structured strings\<close>

definition is_numeric_string :: "string \<Rightarrow> bool" where
  "is_numeric_string s \<longleftrightarrow> s \<noteq> [] \<and> \<not> isspace (hd s) \<and> strtol_end s = []"

text \<open>One entry of a CPU affinity map: a worker and a core or a range of cores.\<close>

definition cpu_entry_ok :: "string \<Rightarrow> bool" where
  "cpu_entry_ok entry =
     (case strtok_r (CHR '':'') entry of
        None \<Rightarrow> False
      | Some (worker_part, rest) \<Rightarrow>
          (case strtok_r (CHR '':'') rest of
             None \<Rightarrow> False
           | Some (core_part, _) \<Rightarrow>
               is_numeric_string worker_part \<and>
               (case strtok_r (CHR ''-'') core_part of
                  None \<Rightarrow> False
                | Some (core_start, rest') \<Rightarrow>
                    is_numeric_string core_start \<and>
                    (case strtok_r (CHR ''-'') rest' of
                       None \<Rightarrow> True
                     | Some (core_end, _) \<Rightarrow> is_numeric_string core_end))))"

definition cpu_affinity_ok :: "string \<Rightarrow> bool" where
  "cpu_affinity_ok s \<longleftrightarrow>
     cstr s = [] \<or> list_all cpu_entry_ok (strtok_tokens (CHR '','') (cstr s))"

definition qp_validate_cpu_affinity_map_string :: "zval \<Rightarrow> cptr \<Rightarrow> cptr cfg_result" where
  "qp_validate_cpu_affinity_map_string = validate_str cpu_affinity_ok"

definition scale_up_policy_ok :: "string \<Rightarrow> bool" where
  "scale_up_policy_ok s =
     (case strtok_r (CHR '':'') (cstr s) of
        None \<Rightarrow> False
      | Some (action_part, rest) \<Rightarrow>
          (case strtok_r (CHR '':'') rest of
             None \<Rightarrow> False
           | Some (value_part, _) \<Rightarrow>
               (action_part = ''add_nodes'' \<or> action_part = ''add_percent'') \<and>
               is_numeric_string value_part))"

definition qp_validate_scale_up_policy_string :: "zval \<Rightarrow> cptr \<Rightarrow> cptr cfg_result" where
  "qp_validate_scale_up_policy_string = validate_str scale_up_policy_ok"

text \<open>\<^verbatim>\<open>sscanf(s, "%d%c%d%c", ...)\<close> converting all four items, with the tests on them.\<close>

definition shards_ok :: "string \<Rightarrow> bool" where
  "shards_ok s =
     (case scan_int (cstr s) of
        Some (data_shards, d # rest) \<Rightarrow>
          (case scan_int rest of
             Some (parity_shards, p # _) \<Rightarrow>
               d = CHR ''d'' \<and> p = CHR ''p'' \<and> 0 < data_shards \<and> 0 < parity_shards
           | _ \<Rightarrow> False)
      | _ \<Rightarrow> False)"

definition qp_validate_erasure_coding_shards_string :: "zval \<Rightarrow> cptr \<Rightarrow> cptr cfg_result" where
  "qp_validate_erasure_coding_shards_string = validate_str shards_ok"

end
