(* ===== verification/Config_Base.thy ===== *)
theory Config_Base
  imports Validators
begin

text \<open>
  What every configuration module under \<^verbatim>\<open>src/extension/src/config\<close> shares: the loop that applies a
  PHP array key by key, the calls of INI handlers while directives are registered, and the
  contract under which a module keeps its invariant, as the locale \<^verbatim>\<open>config_module\<close>.
\<close>

section \<open>Applying a userland array\<close>

text \<open>
  The loop \<^verbatim>\<open>ZEND_HASH_FOREACH_STR_KEY_VAL\<close> of the \<^verbatim>\<open>apply_userland_config\<close> functions: integer keys
  are skipped, and the first key that fails ends the loop with the earlier ones applied.
\<close>

fun apply_keys ::
  "(string \<Rightarrow> zval \<Rightarrow> 'c \<Rightarrow> 'c cfg_result) \<Rightarrow> php_array \<Rightarrow> 'c \<Rightarrow> 'c \<times> unit cfg_result" where
  "apply_keys step [] c = (c, Ok ())"
| "apply_keys step ((HIdx i, v) # t) c = apply_keys step t c"
| "apply_keys step ((HStr k, v) # t) c =
     (case step k v c of
        Ok c' \<Rightarrow> apply_keys step t c'
      | Fail e \<Rightarrow> (c, Fail e)
      | Diverge \<Rightarrow> (c, Diverge))"

definition apply_userland ::
  "(string \<Rightarrow> zval \<Rightarrow> 'c \<Rightarrow> 'c cfg_result) \<Rightarrow> bool \<Rightarrow> zval \<Rightarrow> 'c \<Rightarrow> 'c \<times> unit cfg_result" where
  "apply_userland step allowed config_arr c =
     (if \<not> allowed then (c, Fail Override_Disabled)
      else case config_arr of
             Z_Array t \<Rightarrow> apply_keys step t c
           | _ \<Rightarrow> (c, Fail Not_An_Array))"

section \<open>Registering INI directives\<close>

text \<open>
  \<^verbatim>\<open>REGISTER_INI_ENTRIES\<close> makes the engine call the handlers of the directives.  Which calls it
  makes depends on \<^verbatim>\<open>php.ini\<close>, so they are an argument; a handler that refuses its value leaves
  the configuration as it is, while a memory error or a handler that never returns ends it.
\<close>

fun is_exception :: "cfg_error \<Rightarrow> bool" where
  "is_exception Invalid_Free = False"
| "is_exception Wild_Pointer = False"
| "is_exception e = True"

fun ini_run ::
  "(string \<Rightarrow> string \<Rightarrow> 'c \<Rightarrow> 'c cfg_result) \<Rightarrow> (string \<times> string) list \<Rightarrow> 'c \<Rightarrow> 'c cfg_result" where
  "ini_run ini [] c = Ok c"
| "ini_run ini ((name, new_value) # calls) c =
     (case ini name new_value c of
        Ok c' \<Rightarrow> ini_run ini calls c'
      | Fail e \<Rightarrow> if is_exception e then ini_run ini calls c else Fail e
      | Diverge \<Rightarrow> Diverge)"

text \<open>What the engine's \<^verbatim>\<open>OnUpdateString\<close> stores: a pointer to the bytes of its own string.\<close>

definition engine_string :: "string \<Rightarrow> cptr" where
  "engine_string new_value = Interior (cstr new_value)"

text \<open>
  A handler that passes the engine's \<^verbatim>\<open>zend_string\<close> to a validator expecting a \<^verbatim>\<open>zval\<close>: the byte
  read as the type is the lowest byte of the string's hash field, at the same offset, and a
  value that looks like a string has the reference count as its pointer.
\<close>

definition string_as_zval :: "zend_api \<Rightarrow> string \<Rightarrow> 'a cfg_result" where
  "string_as_zval Z new_value =
     (if (ucast (zend_string_h Z new_value) :: u8) = 6 then Fail Wild_Pointer
      else Fail Type_Required)"

section \<open>Values a field may have\<close>

definition ptr_set :: "cptr \<Rightarrow> bool" where
  "ptr_set p \<longleftrightarrow> ptr_str p \<noteq> None"

definition ptr_all :: "(string \<Rightarrow> bool) \<Rightarrow> cptr \<Rightarrow> bool" where
  "ptr_all ok p \<longleftrightarrow> (case ptr_str p of None \<Rightarrow> False | Some s \<Rightarrow> ok s)"

abbreviation ptr_in :: "string list \<Rightarrow> cptr \<Rightarrow> bool" where
  "ptr_in allowed \<equiv> ptr_all (allowed_ci allowed)"

definition in_range :: "zend_long \<Rightarrow> zend_long \<Rightarrow> zend_long \<Rightarrow> bool" where
  "in_range lo hi l \<longleftrightarrow> lo \<le>s l \<and> l \<le>s hi"

text \<open>The double is not outside the range; a NaN never is.\<close>

definition f64_within :: "u64 \<Rightarrow> u64 \<Rightarrow> u64 \<Rightarrow> bool" where
  "f64_within lo hi d \<longleftrightarrow> \<not> f64_less d lo \<and> \<not> f64_less hi d"

section \<open>What the validators accept\<close>

named_theorems accepts \<open>what a validator stored satisfies the test of the field\<close>

lemma positive_longD [accepts]: "qp_validate_positive_long v = Ok l \<Longrightarrow> 0 <s l"
  by (auto simp: qp_validate_positive_long_def word_sle_eq word_sless_alt split: zval.splits if_splits)

lemma positive_long_nonneg [accepts]: "qp_validate_positive_long v = Ok l \<Longrightarrow> 0 \<le>s l"
  by (auto simp: qp_validate_positive_long_def word_sle_eq word_sless_alt split: zval.splits if_splits)

lemma non_negative_longD [accepts]: "qp_validate_non_negative_long v = Ok l \<Longrightarrow> 0 \<le>s l"
  by (auto simp: qp_validate_non_negative_long_def word_sle_eq word_sless_alt split: zval.splits if_splits)

lemma long_rangeD [accepts]: "qp_validate_long_range v lo hi = Ok l \<Longrightarrow> in_range lo hi l"
  by (auto simp: qp_validate_long_range_def in_range_def word_sle_eq word_sless_alt split: zval.splits if_splits)

lemma nicenessD [accepts]: "qp_validate_niceness_value v = Ok l \<Longrightarrow> in_range (- 20) 19 l"
  by (auto simp: qp_validate_niceness_value_def in_range_def word_sle_eq word_sless_alt split: zval.splits if_splits)

lemma double_rangeD [accepts]: "qp_validate_double_range v lo hi = Ok d \<Longrightarrow> f64_within lo hi d"
  by (auto simp: qp_validate_double_range_def f64_within_def split: zval.splits if_splits)

lemma validate_str_Ok:
  "validate_str ok v old = Ok p \<longleftrightarrow> (\<exists>s. v = Z_String s \<and> ok s \<and> free_ok old \<and> p = pestrdup s)"
  by (auto simp: validate_str_def replace_str_def split: zval.splits if_splits)

lemma validate_str_set [accepts]: "validate_str ok v old = Ok p \<Longrightarrow> ptr_set p"
  by (auto simp: validate_str_Ok ptr_set_def pestrdup_def)

lemma allowed_ci_cstr [simp]: "allowed_ci allowed (cstr s) = allowed_ci allowed s"
proof -
  have "strcasecmp_eq (cstr s) = strcasecmp_eq s" by (rule ext) simp
  then show ?thesis by (simp add: allowed_ci_def)
qed

lemma shards_ok_cstr [simp]: "shards_ok (cstr s) = shards_ok s"
  by (simp add: shards_ok_def)

lemma comma_list_ok_cstr [simp]: "comma_list_ok Z ok (cstr s) = comma_list_ok Z ok s"
  by (simp add: comma_list_ok_def)

lemma cors_policy_ok_cstr [simp]: "cors_policy_ok Z (cstr s) = cors_policy_ok Z s"
  by (simp add: cors_policy_ok_def)

lemma ptr_all_pestrdup [simp]: "ptr_all ok (pestrdup s) = ok (cstr s)"
  by (simp add: ptr_all_def pestrdup_def)

lemma ptr_all_estrdup [simp]: "ptr_all ok (estrdup s) = ok (cstr s)"
  by (simp add: ptr_all_def estrdup_def)

lemma ptr_all_engine [simp]: "ptr_all ok (engine_string s) = ok (cstr s)"
  by (simp add: ptr_all_def engine_string_def)

lemma ptr_set_simps [simp]:
  "ptr_set (pestrdup s)" "ptr_set (estrdup s)" "ptr_set (engine_string s)"
  by (simp_all add: ptr_set_def pestrdup_def estrdup_def engine_string_def)

lemma validate_str_all [accepts]:
  "validate_str ok v old = Ok p \<Longrightarrow> (\<And>s. ok (cstr s) = ok s) \<Longrightarrow> ptr_all ok p"
  by (auto simp: validate_str_Ok)

lemma allowlistD [accepts]:
  "qp_validate_string_from_allowlist v allowed old = Ok p \<Longrightarrow> ptr_in allowed p"
  by (simp add: qp_validate_string_from_allowlist_def validate_str_all)

lemma allowlist_setD [accepts]:
  "qp_validate_string_from_allowlist v allowed old = Ok p \<Longrightarrow> ptr_set p"
  by (simp add: qp_validate_string_from_allowlist_def validate_str_set)

lemma colon_listD [accepts]:
  "qp_validate_colon_separated_string_from_allowlist v allowed = Ok p \<Longrightarrow> ptr_set p"
  by (auto simp: qp_validate_colon_separated_string_from_allowlist_def split: zval.splits if_splits)

lemma corsD [accepts]:
  "qp_validate_cors_origin_string Z v = Ok p \<Longrightarrow> ptr_all (cors_policy_ok Z) p"
  by (auto simp: qp_validate_cors_origin_string_def split: zval.splits if_splits)

lemma shardsD [accepts]:
  "qp_validate_erasure_coding_shards_string v old = Ok p \<Longrightarrow> ptr_all shards_ok p"
  by (simp add: qp_validate_erasure_coding_shards_string_def validate_str_all)

text \<open>The string validators without a test of their own only promise a string.\<close>

lemmas string_defs =
  qp_validate_string_def qp_validate_generic_string_def qp_validate_scheduler_policy_def
  qp_validate_host_string_def qp_validate_readable_file_path_def
  qp_validate_comma_separated_string_from_allowlist_def
  qp_validate_comma_separated_numeric_string_def qp_validate_cpu_affinity_map_string_def
  qp_validate_scale_up_policy_string_def

lemma string_setD [accepts]:
  "qp_validate_string v old = Ok p \<Longrightarrow> ptr_set p"
  "qp_validate_generic_string v old = Ok p \<Longrightarrow> ptr_set p"
  "qp_validate_scheduler_policy v old = Ok p \<Longrightarrow> ptr_set p"
  "qp_validate_host_string v old = Ok p \<Longrightarrow> ptr_set p"
  "qp_validate_readable_file_path Z v old = Ok p \<Longrightarrow> ptr_set p"
  "qp_validate_comma_separated_string_from_allowlist Z v allowed old = Ok p \<Longrightarrow> ptr_set p"
  "qp_validate_comma_separated_numeric_string Z v old = Ok p \<Longrightarrow> ptr_set p"
  "qp_validate_cpu_affinity_map_string v old = Ok p \<Longrightarrow> ptr_set p"
  "qp_validate_scale_up_policy_string v old = Ok p \<Longrightarrow> ptr_set p"
  by (simp_all add: string_defs validate_str_set)

text \<open>What a handler's test of a number says about it, and what evaluates a literal.\<close>

lemma sless_simps:
  fixes l :: zend_long
  shows "\<not> l \<le>s 0 \<longleftrightarrow> 0 <s l" "\<not> l <s lo \<longleftrightarrow> lo \<le>s l"
    "lo \<le>s l \<Longrightarrow> l \<le>s hi \<Longrightarrow> in_range lo hi l"
  by (auto simp: in_range_def word_sle_eq word_sless_alt)

lemma shards_8d4p: "shards_ok ''8d4p''"
  by code_simp

lemma f64_within_one: "f64_within 0 0x3FF0000000000000 0x3FF0000000000000"
  by code_simp

lemma allowed_member: "s \<in> set allowed \<Longrightarrow> allowed_ci allowed s"
  unfolding allowed_ci_def list_ex_iff by (rule bexI [of _ s]) simp_all

lemmas config_eval =
  word_sless_alt word_sle_eq in_range_def allowed_member shards_8d4p f64_within_one

section \<open>Keeping an invariant\<close>

definition keeps :: "('c \<Rightarrow> bool) \<Rightarrow> 'c cfg_result \<Rightarrow> bool" where
  "keeps P r \<longleftrightarrow> (\<forall>c. r = Ok c \<longrightarrow> P c)"

lemma keeps_Ok [intro]: "P c \<Longrightarrow> keeps P (Ok c)"
  by (simp add: keeps_def)

lemma keeps_stop [intro]: "keeps P (Fail e)" "keeps P Diverge"
  by (simp_all add: keeps_def)

lemma keeps_if [intro]: "(b \<Longrightarrow> keeps P x) \<Longrightarrow> (\<not> b \<Longrightarrow> keeps P y) \<Longrightarrow> keeps P (if b then x else y)"
  by simp

text \<open>Which key or directive it is does not matter for the invariant.\<close>

lemma keeps_name: "keeps P x \<Longrightarrow> keeps P y \<Longrightarrow> keeps P (if (s :: string) = t then x else y)"
  by simp

lemma keeps_bind [intro]: "(\<And>a. x = Ok a \<Longrightarrow> keeps P (f a)) \<Longrightarrow> keeps P (obind x f)"
  by (cases x) (simp_all add: keeps_def)

lemma keeps_string_as_zval [intro]: "keeps P (string_as_zval Z v)"
  by (simp add: string_as_zval_def keeps_def)

lemma keeps_zval [intro]:
  "(\<And>s. v = Z_String s \<Longrightarrow> keeps P (f s)) \<Longrightarrow>
   keeps P (case v of Z_String s \<Rightarrow> f s | _ \<Rightarrow> Fail e)"
  by (cases v) (simp_all add: keeps_stop)

lemma keeps_option [intro]:
  "keeps P x \<Longrightarrow> (\<And>a. o1 = Some a \<Longrightarrow> keeps P (f a)) \<Longrightarrow>
   keeps P (case o1 of None \<Rightarrow> x | Some a \<Rightarrow> f a)"
  by (cases o1) simp_all

lemma keepsD: "keeps P r \<Longrightarrow> r = Ok c \<Longrightarrow> P c"
  by (simp add: keeps_def)

lemmas keeps_rules =
  keeps_name keeps_if keeps_bind keeps_zval keeps_option keeps_Ok keeps_stop keeps_string_as_zval

section \<open>The contract of a module\<close>

text \<open>
  A configuration module: the loading of its defaults, its INI handlers, what it does with one
  userland key, and an invariant that the three keep.
\<close>

inductive config_step ::
  "(string \<Rightarrow> string \<Rightarrow> 'c \<Rightarrow> 'c cfg_result) \<Rightarrow> (string \<Rightarrow> zval \<Rightarrow> 'c \<Rightarrow> 'c cfg_result) \<Rightarrow>
   'c \<Rightarrow> 'c \<Rightarrow> bool" for ini key where
  ini_change: "ini name new_value c = Ok c' \<Longrightarrow> config_step ini key c c'"
| userland: "apply_userland key allowed config_arr c = (c', r) \<Longrightarrow> config_step ini key c c'"

inductive_cases config_stepE: "config_step ini key c c'"

definition config_start ::
  "('c \<Rightarrow> 'c) \<Rightarrow> (string \<Rightarrow> string \<Rightarrow> 'c \<Rightarrow> 'c cfg_result) \<Rightarrow> 'c \<Rightarrow> bool" where
  "config_start dflt ini c \<longleftrightarrow> (\<exists>calls c0. ini_run ini calls (dflt c0) = Ok c)"

text \<open>A configuration the running program can hold.\<close>

definition config_reachable ::
  "('c \<Rightarrow> 'c) \<Rightarrow> (string \<Rightarrow> string \<Rightarrow> 'c \<Rightarrow> 'c cfg_result) \<Rightarrow>
   (string \<Rightarrow> zval \<Rightarrow> 'c \<Rightarrow> 'c cfg_result) \<Rightarrow> 'c \<Rightarrow> bool" where
  "config_reachable dflt ini key c \<longleftrightarrow>
     (\<exists>c0. config_start dflt ini c0 \<and> (config_step ini key)\<^sup>*\<^sup>* c0 c)"

lemma config_reachable_defaults: "config_reachable dflt ini key (dflt c)"
proof -
  have "config_start dflt ini (dflt c)"
    unfolding config_start_def by (intro exI [of _ "[]"] exI [of _ c]) simp
  then show ?thesis unfolding config_reachable_def by blast
qed

locale config_module =
  fixes dflt :: "'c \<Rightarrow> 'c"
    and ini :: "string \<Rightarrow> string \<Rightarrow> 'c \<Rightarrow> 'c cfg_result"
    and key :: "string \<Rightarrow> zval \<Rightarrow> 'c \<Rightarrow> 'c cfg_result"
    and inv :: "'c \<Rightarrow> bool"
  assumes dflt_inv: "inv (dflt c)"
    and ini_inv: "inv c \<Longrightarrow> keeps inv (ini name new_value c)"
    and key_inv: "inv c \<Longrightarrow> keeps inv (key k value c)"
begin

lemma ini_run_inv: "ini_run ini calls c = Ok c' \<Longrightarrow> inv c \<Longrightarrow> inv c'"
proof (induction calls arbitrary: c)
  case (Cons p calls)
  then show ?case
    by (cases p; cases "ini (fst p) (snd p) c") (auto split: if_splits dest: keepsD [OF ini_inv])
qed simp

lemma apply_keys_inv: "inv c \<Longrightarrow> inv (fst (apply_keys key t c))"
proof (induction t arbitrary: c)
  case (Cons p t)
  obtain h v where p: "p = (h, v)" by (cases p)
  show ?case
  proof (cases h)
    case (HStr k)
    with Cons p show ?thesis
      by (cases "key k v c") (auto dest: keepsD [OF key_inv])
  qed (use Cons p in simp)
qed simp

lemma apply_inv: "inv c \<Longrightarrow> inv (fst (apply_userland key allowed config_arr c))"
  by (auto simp: apply_userland_def apply_keys_inv split: zval.split)

lemma config_step_inv: "inv c \<Longrightarrow> config_step ini key c c' \<Longrightarrow> inv c'"
proof (erule config_stepE)
  fix allowed config_arr r
  assume "inv c" "apply_userland key allowed config_arr c = (c', r)"
  then show "inv c'" using apply_inv [of c allowed config_arr] by simp
qed (auto dest: keepsD [OF ini_inv])

lemma config_start_inv: "config_start dflt ini c \<Longrightarrow> inv c"
  by (auto simp: config_start_def dflt_inv dest: ini_run_inv)

lemma init_inv: "ini_run ini calls (dflt c) = Ok c' \<Longrightarrow> inv c'"
  by (auto simp: dflt_inv dest: ini_run_inv)

end

sublocale config_module \<subseteq> life: step_system "config_start dflt ini" "config_step ini key" inv
  by unfold_locales (auto intro: config_start_inv config_step_inv)

context config_module
begin

lemma reachable: "config_reachable dflt ini key c \<Longrightarrow> inv c"
  by (auto simp: config_reachable_def intro: life.reachable_inv)

end

section \<open>How far an array is applied\<close>

lemma apply_keys_append:
  "apply_keys step (t @ u) c =
     (case apply_keys step t c of
        (c', Ok _) \<Rightarrow> apply_keys step u c'
      | r \<Rightarrow> r)"
  by (induction step t c rule: apply_keys.induct) (auto split: outcome.split)

text \<open>A failing array has a longest prefix that was applied; the key after it failed.\<close>

lemma apply_keys_prefix:
  assumes "apply_keys step t c = (c', Fail e)"
  shows "\<exists>xs k v ys. t = xs @ (HStr k, v) # ys \<and> apply_keys step xs c = (c', Ok ()) \<and>
           step k v c' = Fail e"
  using assms
proof (induction step t c rule: apply_keys.induct)
  case (2 step i v t c)
  then obtain xs k w ys where
    *: "t = xs @ (HStr k, w) # ys" "apply_keys step xs c = (c', Ok ())" "step k w c' = Fail e"
    by auto
  then have "(HIdx i, v) # t = ((HIdx i, v) # xs) @ (HStr k, w) # ys"
    and "apply_keys step ((HIdx i, v) # xs) c = (c', Ok ())" by simp_all
  with * show ?case by blast
next
  case (3 step k v t c)
  show ?case
  proof (cases "step k v c")
    case (Ok d)
    with 3 obtain xs k' w ys where
      *: "t = xs @ (HStr k', w) # ys" "apply_keys step xs d = (c', Ok ())" "step k' w c' = Fail e"
      by auto
    then have "(HStr k, v) # t = ((HStr k, v) # xs) @ (HStr k', w) # ys"
      and "apply_keys step ((HStr k, v) # xs) c = (c', Ok ())" using Ok by simp_all
    with * show ?thesis by blast
  next
    case (Fail f)
    with 3 have "(HStr k, v) # t = [] @ (HStr k, v) # t" "apply_keys step [] c = (c', Ok ())"
      "step k v c' = Fail e" by simp_all
    then show ?thesis by blast
  next
    case Diverge
    with 3 show ?thesis by simp
  qed
qed simp

lemma ini_run_append:
  "ini_run ini (xs @ ys) c = obind (ini_run ini xs c) (ini_run ini ys)"
  by (induction ini xs c rule: ini_run.induct) (auto split: outcome.split)

lemma ini_run_diverges:
  assumes "\<And>c. ini name new_value c = Diverge" and "ini_run ini xs c = Ok d"
  shows "ini_run ini (xs @ (name, new_value) # ys) c = Diverge"
  using assms by (simp add: ini_run_append)

end
