(* ===== verification/Config_Security_And_Traffic.thy ===== *)
theory Config_Security_And_Traffic
  imports Config_Base
begin

text \<open>
  Security policy and traffic limits: the module
  \<^verbatim>\<open>src/extension/src/config/security_and_traffic\<close>, with the global flag that allows or forbids
  userland configuration in all other modules.  The state is the module's struct together with
  that flag.  \<^verbatim>\<open>qp_config_security_policy_apply\<close> is called but not part of the sources; it is an
  argument.
\<close>

section \<open>State\<close>

record qp_security_config_t =
  allow_config_override :: bool
  admin_api_enable :: bool
  rate_limiter_enable :: bool
  rate_limiter_requests_per_sec :: zend_long
  rate_limiter_burst :: zend_long
  cors_allowed_origins :: cptr

record quicpro_globals_t =
  is_userland_override_allowed :: bool

type_synonym security_state = "qp_security_config_t \<times> quicpro_globals_t"

text \<open>The globals before anything ran: zeroed static storage.\<close>

definition quicpro_security_config :: qp_security_config_t where
  "quicpro_security_config =
     \<lparr>allow_config_override = False, admin_api_enable = False, rate_limiter_enable = False,
      rate_limiter_requests_per_sec = 0, rate_limiter_burst = 0, cors_allowed_origins = NullPtr\<rparr>"

definition quicpro_globals :: quicpro_globals_t where
  "quicpro_globals = \<lparr>is_userland_override_allowed = False\<rparr>"

definition qp_config_security_defaults_load :: "security_state \<Rightarrow> security_state" where
  "qp_config_security_defaults_load =
     (\<lambda>(c, g).
        (c\<lparr>allow_config_override := False, admin_api_enable := False, rate_limiter_enable := True,
           rate_limiter_requests_per_sec := 100, rate_limiter_burst := 50,
           cors_allowed_origins := pestrdup ''*''\<rparr>, g))"

section \<open>Userland configuration\<close>

text \<open>
  The origin policy is validated into a fresh string; only then is the old string released and
  replaced.
\<close>

definition security_apply_key ::
  "zend_api \<Rightarrow> string \<Rightarrow> zval \<Rightarrow> qp_security_config_t \<Rightarrow> qp_security_config_t cfg_result" where
  "security_apply_key Z key value c =
     (if key = ''security_rate_limiter_enable''
      then obind (qp_validate_bool value) (\<lambda>_. Ok (c\<lparr>rate_limiter_enable := zend_is_true Z value\<rparr>))
      else if key = ''security_rate_limiter_requests_per_sec''
      then obind (qp_validate_non_negative_long value)
             (\<lambda>v. Ok (c\<lparr>rate_limiter_requests_per_sec := v\<rparr>))
      else if key = ''security_rate_limiter_burst''
      then obind (qp_validate_non_negative_long value) (\<lambda>v. Ok (c\<lparr>rate_limiter_burst := v\<rparr>))
      else if key = ''security_cors_allowed_origins''
      then obind (qp_validate_cors_origin_string Z value)
             (\<lambda>new_value_str.
                if free_ok (cors_allowed_origins c)
                then Ok (c\<lparr>cors_allowed_origins := new_value_str\<rparr>) else Fail Invalid_Free)
      else Ok c)"

definition security_key :: "zend_api \<Rightarrow> string \<Rightarrow> zval \<Rightarrow> security_state \<Rightarrow> security_state cfg_result" where
  "security_key Z key value =
     (\<lambda>(c, g). obind (security_apply_key Z key value c) (\<lambda>c'. Ok (c', g)))"

definition qp_config_security_apply_userland_config ::
  "zend_api \<Rightarrow> zval \<Rightarrow> security_state \<Rightarrow> security_state \<times> unit cfg_result" where
  "qp_config_security_apply_userland_config Z config_arr s =
     apply_userland (security_key Z) (is_userland_override_allowed (snd s)) config_arr s"

section \<open>INI directives\<close>

definition OnUpdateSecurityPolicy ::
  "zend_api \<Rightarrow> string \<Rightarrow> string \<Rightarrow> security_state \<Rightarrow> security_state cfg_result" where
  "OnUpdateSecurityPolicy Z name new_value =
     (\<lambda>(c, g).
        let val = zend_ini_parse_bool Z new_value in
        if name = ''quicpro.security_allow_config_override''
        then Ok (c\<lparr>allow_config_override := val\<rparr>, g\<lparr>is_userland_override_allowed := val\<rparr>)
        else if name = ''quicpro.admin_api_enable'' then Ok (c\<lparr>admin_api_enable := val\<rparr>, g)
        else Ok (c, g))"

definition OnUpdateRateLimiterValue ::
  "zend_api \<Rightarrow> string \<Rightarrow> string \<Rightarrow> security_state \<Rightarrow> security_state cfg_result" where
  "OnUpdateRateLimiterValue Z name new_value =
     (\<lambda>(c, g).
        let val = zend_atol Z new_value in
        if val <s 0 then Fail Value_Rejected
        else if name = ''quicpro.security_rate_limiter_requests_per_sec''
        then Ok (c\<lparr>rate_limiter_requests_per_sec := val\<rparr>, g)
        else if name = ''quicpro.security_rate_limiter_burst''
        then Ok (c\<lparr>rate_limiter_burst := val\<rparr>, g)
        else Ok (c, g))"

text \<open>
  The handler repeats the test of the validator.  It releases the old string unless it is the
  text of the directive's default, which belongs to the engine.
\<close>

definition OnUpdateCorsOrigins ::
  "zend_api \<Rightarrow> string \<Rightarrow> security_state \<Rightarrow> security_state cfg_result" where
  "OnUpdateCorsOrigins Z new_value =
     (\<lambda>(c, g).
        if \<not> cors_policy_ok Z new_value then Fail Value_Rejected
        else if cors_allowed_origins c = Interior ''*'' \<or> free_ok (cors_allowed_origins c)
        then Ok (c\<lparr>cors_allowed_origins := pestrdup new_value\<rparr>, g)
        else Fail Invalid_Free)"

definition security_ini_entry ::
  "zend_api \<Rightarrow> string \<Rightarrow> string \<Rightarrow> security_state \<Rightarrow> security_state cfg_result" where
  "security_ini_entry Z name new_value s =
     (if name = ''quicpro.security_allow_config_override''
      then OnUpdateSecurityPolicy Z name new_value s
      else if name = ''quicpro.admin_api_enable''
      then OnUpdateSecurityPolicy Z name new_value s
      else if name = ''quicpro.security_rate_limiter_enable''
      then Ok ((fst s)\<lparr>rate_limiter_enable := zend_ini_parse_bool Z new_value\<rparr>, snd s)
      else if name = ''quicpro.security_rate_limiter_requests_per_sec''
      then OnUpdateRateLimiterValue Z name new_value s
      else if name = ''quicpro.security_rate_limiter_burst''
      then OnUpdateRateLimiterValue Z name new_value s
      else if name = ''quicpro.security_cors_allowed_origins''
      then OnUpdateCorsOrigins Z new_value s
      else Ok s)"

text \<open>The directives with their default texts, in the order of the table.\<close>

definition security_ini_defaults :: "(string \<times> string) list" where
  "security_ini_defaults =
     [(''quicpro.security_allow_config_override'', ''0''),
      (''quicpro.admin_api_enable'', ''0''),
      (''quicpro.security_rate_limiter_enable'', ''1''),
      (''quicpro.security_rate_limiter_requests_per_sec'', ''100''),
      (''quicpro.security_rate_limiter_burst'', ''50''),
      (''quicpro.security_cors_allowed_origins'', ''*'')]"

definition qp_config_security_and_traffic_init ::
  "zend_api \<Rightarrow> (security_state \<Rightarrow> security_state) \<Rightarrow> (string \<times> string) list \<Rightarrow> security_state \<Rightarrow>
   security_state cfg_result" where
  "qp_config_security_and_traffic_init Z qp_config_security_policy_apply calls s =
     obind (ini_run (security_ini_entry Z) calls (qp_config_security_defaults_load s))
       (\<lambda>s'. Ok (qp_config_security_policy_apply s'))"

section \<open>Invariant\<close>

text \<open>
  The limits are not negative, and the origin policy is one the validator accepts and its string
  can be released.
\<close>

definition security_inv :: "zend_api \<Rightarrow> security_state \<Rightarrow> bool" where
  "security_inv Z =
     (\<lambda>(c, g).
        0 \<le>s rate_limiter_requests_per_sec c \<and>
        0 \<le>s rate_limiter_burst c \<and>
        ptr_all (cors_policy_ok Z) (cors_allowed_origins c) \<and>
        free_ok (cors_allowed_origins c))"

lemma free_ok_pestrdup [simp]: "free_ok (pestrdup s)"
  by (simp add: pestrdup_def)

lemma cors_validated_free: "qp_validate_cors_origin_string Z v = Ok p \<Longrightarrow> free_ok p"
  by (auto simp: qp_validate_cors_origin_string_def split: zval.splits if_splits)

lemma security_defaults_inv: "security_inv Z (qp_config_security_defaults_load s)"
  by (cases s)
    (simp add: security_inv_def qp_config_security_defaults_load_def config_eval cors_policy_ok_def cstr_def)

lemma keeps_fst:
  "keeps (\<lambda>c'. P (c', g)) r \<Longrightarrow> keeps P (obind r (\<lambda>c'. Ok (c', g)))"
  by (cases r) (auto simp: keeps_def)

lemma security_key_inv: "security_inv Z s \<Longrightarrow> keeps (security_inv Z) (security_key Z key value s)"
  unfolding security_key_def security_apply_key_def
  by (cases s, simp only: prod.case, intro keeps_fst keeps_if keeps_bind keeps_Ok keeps_stop;
      simp add: security_inv_def accepts cors_validated_free)

lemma security_ini_inv:
  "security_inv Z s \<Longrightarrow> keeps (security_inv Z) (security_ini_entry Z name new_value s)"
  unfolding security_ini_entry_def OnUpdateSecurityPolicy_def OnUpdateRateLimiterValue_def
    OnUpdateCorsOrigins_def Let_def
  by (cases s, simp only: prod.case fst_conv snd_conv, intro keeps_if keeps_Ok keeps_stop;
      simp add: security_inv_def sless_simps)

interpretation security: config_module qp_config_security_defaults_load "security_ini_entry Z"
  "security_key Z" "security_inv Z"
  for Z
  by unfold_locales (simp_all add: security_defaults_inv security_key_inv security_ini_inv)

text \<open>Nothing a userland array contains reaches the policy flags.\<close>

lemma security_key_frame:
  "security_key Z key value (c, g) = Ok (c', g') \<Longrightarrow>
   g' = g \<and> allow_config_override c' = allow_config_override c \<and>
   admin_api_enable c' = admin_api_enable c"
  unfolding security_key_def security_apply_key_def
  by (auto simp: obind_eq_Ok split: if_splits)

lemma security_keys_frame:
  "apply_keys (security_key Z) t (c, g) = ((c', g'), r) \<Longrightarrow>
   g' = g \<and> allow_config_override c' = allow_config_override c \<and>
   admin_api_enable c' = admin_api_enable c"
proof (induction t arbitrary: c g)
  case (Cons p t)
  obtain h v where p: "p = (h, v)" by (cases p)
  show ?case
  proof (cases h)
    case (HStr k)
    show ?thesis
    proof (cases "security_key Z k v (c, g)")
      case (Ok d)
      obtain c1 g1 where d: "d = (c1, g1)" by (cases d)
      then have *: "security_key Z k v (c, g) = Ok (c1, g1)" using Ok by simp
      have "apply_keys (security_key Z) t (c1, g1) = ((c', g'), r)"
        using Cons.prems p HStr * by simp
      from Cons.IH [OF this] security_key_frame [OF *] show ?thesis by simp
    qed (use Cons.prems p HStr in simp_all)
  next
    case (HIdx i)
    with Cons.prems p have "apply_keys (security_key Z) t (c, g) = ((c', g'), r)" by simp
    then show ?thesis by (rule Cons.IH)
  qed
qed simp

text \<open>The defaults and every directive keep the two flags together.\<close>

lemma security_ini_agree:
  "security_ini_entry Z name new_value (c, g) = Ok (c', g') \<Longrightarrow>
   allow_config_override c = is_userland_override_allowed g \<Longrightarrow>
   allow_config_override c' = is_userland_override_allowed g'"
  unfolding security_ini_entry_def OnUpdateSecurityPolicy_def OnUpdateRateLimiterValue_def
    OnUpdateCorsOrigins_def Let_def
  by (auto split: if_splits)

end
