(* ===== verification/Config_Cluster_And_Process.thy ===== *)
theory Config_Cluster_And_Process
  imports Config_Base
begin

text \<open>
  Cluster and worker process settings: the module \<^verbatim>\<open>src/extension/src/config/cluster_and_process\<close>.
  Userland arrays must give positive numbers where the INI handler also takes zero, and the
  niceness, scheduler policy and affinity map are only tested for userland arrays, so the
  invariant is what both sides guarantee.
\<close>

section \<open>State\<close>

record qp_cluster_config_t =
  cluster_workers :: zend_long
  cluster_graceful_shutdown_ms :: zend_long
  server_max_fd_per_worker :: zend_long
  cluster_restart_crashed_workers :: bool
  cluster_max_restarts_per_worker :: zend_long
  cluster_restart_interval_sec :: zend_long
  cluster_worker_niceness :: zend_long
  cluster_worker_scheduler_policy :: cptr
  cluster_worker_cpu_affinity_map :: cptr
  cluster_worker_cgroup_path :: cptr
  cluster_worker_user_id :: cptr
  cluster_worker_group_id :: cptr

text \<open>The global before anything ran: zeroed static storage.\<close>

definition quicpro_cluster_config :: qp_cluster_config_t where
  "quicpro_cluster_config =
     \<lparr>cluster_workers = 0, cluster_graceful_shutdown_ms = 0, server_max_fd_per_worker = 0,
      cluster_restart_crashed_workers = False, cluster_max_restarts_per_worker = 0,
      cluster_restart_interval_sec = 0, cluster_worker_niceness = 0,
      cluster_worker_scheduler_policy = NullPtr, cluster_worker_cpu_affinity_map = NullPtr,
      cluster_worker_cgroup_path = NullPtr, cluster_worker_user_id = NullPtr,
      cluster_worker_group_id = NullPtr\<rparr>"

definition qp_config_cluster_and_process_defaults_load :: "qp_cluster_config_t \<Rightarrow> qp_cluster_config_t" where
  "qp_config_cluster_and_process_defaults_load c =
     c\<lparr>cluster_workers := 0, cluster_graceful_shutdown_ms := 30000,
       server_max_fd_per_worker := 8192, cluster_restart_crashed_workers := True,
       cluster_max_restarts_per_worker := 10, cluster_restart_interval_sec := 60,
       cluster_worker_niceness := 0, cluster_worker_scheduler_policy := pestrdup ''other'',
       cluster_worker_cpu_affinity_map := pestrdup '''',
       cluster_worker_cgroup_path := pestrdup '''', cluster_worker_user_id := pestrdup '''',
       cluster_worker_group_id := pestrdup ''''\<rparr>"

section \<open>Userland configuration\<close>

definition cluster_apply_key ::
  "zend_api \<Rightarrow> string \<Rightarrow> zval \<Rightarrow> qp_cluster_config_t \<Rightarrow> qp_cluster_config_t cfg_result" where
  "cluster_apply_key Z key value c =
     (if key = ''cluster_workers''
      then obind (qp_validate_non_negative_long value) (\<lambda>v. Ok (c\<lparr>cluster_workers := v\<rparr>))
      else if key = ''cluster_graceful_shutdown_ms''
      then obind (qp_validate_positive_long value) (\<lambda>v. Ok (c\<lparr>cluster_graceful_shutdown_ms := v\<rparr>))
      else if key = ''server_max_fd_per_worker''
      then obind (qp_validate_positive_long value) (\<lambda>v. Ok (c\<lparr>server_max_fd_per_worker := v\<rparr>))
      else if key = ''cluster_restart_crashed_workers''
      then obind (qp_validate_bool value) (\<lambda>_. Ok (c\<lparr>cluster_restart_crashed_workers := zend_is_true Z value\<rparr>))
      else if key = ''cluster_max_restarts_per_worker''
      then obind (qp_validate_positive_long value) (\<lambda>v. Ok (c\<lparr>cluster_max_restarts_per_worker := v\<rparr>))
      else if key = ''cluster_restart_interval_sec''
      then obind (qp_validate_positive_long value) (\<lambda>v. Ok (c\<lparr>cluster_restart_interval_sec := v\<rparr>))
      else if key = ''cluster_worker_niceness''
      then obind (qp_validate_niceness_value value) (\<lambda>v. Ok (c\<lparr>cluster_worker_niceness := v\<rparr>))
      else if key = ''cluster_worker_scheduler_policy''
      then obind (qp_validate_scheduler_policy value (cluster_worker_scheduler_policy c)) (\<lambda>v. Ok (c\<lparr>cluster_worker_scheduler_policy := v\<rparr>))
      else if key = ''cluster_worker_cpu_affinity_map''
      then obind (qp_validate_generic_string value (cluster_worker_cpu_affinity_map c)) (\<lambda>v. Ok (c\<lparr>cluster_worker_cpu_affinity_map := v\<rparr>))
      else if key = ''cluster_worker_cgroup_path''
      then obind (qp_validate_generic_string value (cluster_worker_cgroup_path c)) (\<lambda>v. Ok (c\<lparr>cluster_worker_cgroup_path := v\<rparr>))
      else if key = ''cluster_worker_user_id''
      then obind (qp_validate_generic_string value (cluster_worker_user_id c)) (\<lambda>v. Ok (c\<lparr>cluster_worker_user_id := v\<rparr>))
      else if key = ''cluster_worker_group_id''
      then obind (qp_validate_generic_string value (cluster_worker_group_id c)) (\<lambda>v. Ok (c\<lparr>cluster_worker_group_id := v\<rparr>))
      else Ok c)"

definition qp_config_cluster_and_process_apply_user_land_config ::
  "zend_api \<Rightarrow> bool \<Rightarrow> zval \<Rightarrow> qp_cluster_config_t \<Rightarrow> qp_cluster_config_t \<times> unit cfg_result" where
  "qp_config_cluster_and_process_apply_user_land_config Z is_userland_override_allowed config_arr c =
     apply_userland (cluster_apply_key Z) is_userland_override_allowed config_arr c"

section \<open>INI directives\<close>

definition OnUpdateClusterNonNegativeLong ::
  "zend_api \<Rightarrow> string \<Rightarrow> string \<Rightarrow> qp_cluster_config_t \<Rightarrow> qp_cluster_config_t cfg_result" where
  "OnUpdateClusterNonNegativeLong Z name new_value c =
     (let val = zend_atol Z new_value in
      if val <s 0 then Fail Value_Rejected
      else if name = ''quicpro.cluster_workers'' then Ok (c\<lparr>cluster_workers := val\<rparr>)
      else if name = ''quicpro.cluster_graceful_shutdown_ms'' then Ok (c\<lparr>cluster_graceful_shutdown_ms := val\<rparr>)
      else if name = ''quicpro.server_max_fd_per_worker'' then Ok (c\<lparr>server_max_fd_per_worker := val\<rparr>)
      else if name = ''quicpro.cluster_max_restarts_per_worker'' then Ok (c\<lparr>cluster_max_restarts_per_worker := val\<rparr>)
      else if name = ''quicpro.cluster_restart_interval_sec'' then Ok (c\<lparr>cluster_restart_interval_sec := val\<rparr>)
      else Ok c)"

definition cluster_ini_entry :: "zend_api \<Rightarrow> string \<Rightarrow> string \<Rightarrow> qp_cluster_config_t \<Rightarrow> qp_cluster_config_t cfg_result" where
  "cluster_ini_entry Z name new_value c =
     (if name = ''quicpro.cluster_workers''
      then OnUpdateClusterNonNegativeLong Z name new_value c
      else if name = ''quicpro.cluster_graceful_shutdown_ms''
      then OnUpdateClusterNonNegativeLong Z name new_value c
      else if name = ''quicpro.server_max_fd_per_worker''
      then OnUpdateClusterNonNegativeLong Z name new_value c
      else if name = ''quicpro.cluster_restart_crashed_workers''
      then Ok (c\<lparr>cluster_restart_crashed_workers := zend_ini_parse_bool Z new_value\<rparr>)
      else if name = ''quicpro.cluster_max_restarts_per_worker''
      then OnUpdateClusterNonNegativeLong Z name new_value c
      else if name = ''quicpro.cluster_restart_interval_sec''
      then OnUpdateClusterNonNegativeLong Z name new_value c
      else if name = ''quicpro.cluster_worker_niceness''
      then Ok (c\<lparr>cluster_worker_niceness := zend_atol Z new_value\<rparr>)
      else if name = ''quicpro.cluster_worker_scheduler_policy''
      then Ok (c\<lparr>cluster_worker_scheduler_policy := engine_string new_value\<rparr>)
      else if name = ''quicpro.cluster_worker_cpu_affinity_map''
      then Ok (c\<lparr>cluster_worker_cpu_affinity_map := engine_string new_value\<rparr>)
      else if name = ''quicpro.cluster_worker_cgroup_path''
      then Ok (c\<lparr>cluster_worker_cgroup_path := engine_string new_value\<rparr>)
      else if name = ''quicpro.cluster_worker_user_id''
      then Ok (c\<lparr>cluster_worker_user_id := engine_string new_value\<rparr>)
      else if name = ''quicpro.cluster_worker_group_id''
      then Ok (c\<lparr>cluster_worker_group_id := engine_string new_value\<rparr>)
      else Ok c)"

text \<open>The directives with their default texts, in the order of the table.\<close>

definition cluster_ini_defaults :: "(string \<times> string) list" where
  "cluster_ini_defaults =
     [(''quicpro.cluster_workers'', ''0''),
      (''quicpro.cluster_graceful_shutdown_ms'', ''30000''),
      (''quicpro.server_max_fd_per_worker'', ''8192''),
      (''quicpro.cluster_restart_crashed_workers'', ''1''),
      (''quicpro.cluster_max_restarts_per_worker'', ''10''),
      (''quicpro.cluster_restart_interval_sec'', ''60''),
      (''quicpro.cluster_worker_niceness'', ''0''),
      (''quicpro.cluster_worker_scheduler_policy'', ''other''),
      (''quicpro.cluster_worker_cpu_affinity_map'', ''''),
      (''quicpro.cluster_worker_cgroup_path'', ''''),
      (''quicpro.cluster_worker_user_id'', ''''),
      (''quicpro.cluster_worker_group_id'', '''')]"

text \<open>Loading the defaults, then registering the directives: \<^verbatim>\<open>calls\<close> are the handler calls the
  engine makes meanwhile.\<close>

definition qp_config_cluster_and_process_init ::
  "zend_api \<Rightarrow> (string \<times> string) list \<Rightarrow> qp_cluster_config_t \<Rightarrow> qp_cluster_config_t cfg_result" where
  "qp_config_cluster_and_process_init Z calls c = ini_run (cluster_ini_entry Z) calls (qp_config_cluster_and_process_defaults_load c)"

section \<open>Invariant\<close>

definition cluster_inv :: "qp_cluster_config_t \<Rightarrow> bool" where
  "cluster_inv c \<longleftrightarrow>
     0 \<le>s cluster_workers c \<and>
     0 \<le>s cluster_graceful_shutdown_ms c \<and>
     0 \<le>s server_max_fd_per_worker c \<and>
     0 \<le>s cluster_max_restarts_per_worker c \<and>
     0 \<le>s cluster_restart_interval_sec c \<and>
     ptr_set (cluster_worker_scheduler_policy c) \<and>
     ptr_set (cluster_worker_cpu_affinity_map c) \<and>
     ptr_set (cluster_worker_cgroup_path c) \<and>
     ptr_set (cluster_worker_user_id c) \<and>
     ptr_set (cluster_worker_group_id c)"

lemma cluster_defaults_inv: "cluster_inv (qp_config_cluster_and_process_defaults_load c)"
  by (simp add: cluster_inv_def qp_config_cluster_and_process_defaults_load_def config_eval)

lemma cluster_key_inv: "cluster_inv c \<Longrightarrow> keeps cluster_inv (cluster_apply_key Z key value c)"
  unfolding cluster_apply_key_def
  by (rule keeps_rules | simp add: cluster_inv_def accepts)+

lemma cluster_ini_inv: "cluster_inv c \<Longrightarrow> keeps cluster_inv (cluster_ini_entry Z name new_value c)"
  unfolding cluster_ini_entry_def OnUpdateClusterNonNegativeLong_def Let_def
  by (rule keeps_rules | simp add: cluster_inv_def sless_simps f64_within_def)+

interpretation cluster: config_module qp_config_cluster_and_process_defaults_load "cluster_ini_entry Z" "cluster_apply_key Z" cluster_inv
  for Z
  by unfold_locales (simp_all add: cluster_defaults_inv cluster_key_inv cluster_ini_inv)

end
