(* ===== verification/Config_Tls_And_Crypto.thy ===== *)
theory Config_Tls_And_Crypto
  imports Config_Base
begin

text \<open>
  TLS and encryption: the module \<^verbatim>\<open>src/extension/src/config/tls_and_crypto\<close>.
  The handler of the boolean directives is named like the engine's and calls itself.  Seven
  fields of the struct are never written.
\<close>

section \<open>State\<close>

record qp_tls_and_crypto_config_t =
  tls_verify_peer :: bool
  tls_verify_depth :: zend_long
  tls_default_ca_file :: cptr
  tls_default_cert_file :: cptr
  tls_default_key_file :: cptr
  tls_ticket_key_file :: cptr
  tls_ciphers_tls13 :: cptr
  tls_ciphers_tls12 :: cptr
  tls_curves :: cptr
  tls_session_ticket_lifetime_sec :: zend_long
  tls_enable_early_data :: bool
  tls_server_0rtt_cache_size :: zend_long
  tls_enable_ocsp_stapling :: bool
  tcp_tls_min_version_allowed :: cptr
  storage_encryption_at_rest_enable :: bool
  storage_encryption_algorithm :: cptr
  storage_encryption_key_path :: cptr
  mcp_payload_encryption_enable :: bool
  mcp_payload_encryption_psk_env_var :: cptr
  tls_enable_ech :: bool
  tls_require_ct_policy :: bool
  tls_disable_sni_validation :: bool
  transport_disable_encryption :: bool

text \<open>The global before anything ran: zeroed static storage.\<close>

definition quicpro_tls_crypto_config :: qp_tls_and_crypto_config_t where
  "quicpro_tls_crypto_config =
     \<lparr>tls_verify_peer = False, tls_verify_depth = 0, tls_default_ca_file = NullPtr,
      tls_default_cert_file = NullPtr, tls_default_key_file = NullPtr,
      tls_ticket_key_file = NullPtr, tls_ciphers_tls13 = NullPtr, tls_ciphers_tls12 = NullPtr,
      tls_curves = NullPtr, tls_session_ticket_lifetime_sec = 0, tls_enable_early_data = False,
      tls_server_0rtt_cache_size = 0, tls_enable_ocsp_stapling = False,
      tcp_tls_min_version_allowed = NullPtr, storage_encryption_at_rest_enable = False,
      storage_encryption_algorithm = NullPtr, storage_encryption_key_path = NullPtr,
      mcp_payload_encryption_enable = False, mcp_payload_encryption_psk_env_var = NullPtr,
      tls_enable_ech = False, tls_require_ct_policy = False, tls_disable_sni_validation = False,
      transport_disable_encryption = False\<rparr>"

definition qp_config_tls_crypto_defaults_load :: "qp_tls_and_crypto_config_t \<Rightarrow> qp_tls_and_crypto_config_t" where
  "qp_config_tls_crypto_defaults_load c =
     c\<lparr>tls_verify_peer := True, tls_verify_depth := 10, tls_default_ca_file := pestrdup '''',
       tls_default_cert_file := pestrdup '''', tls_default_key_file := pestrdup '''',
       tls_ticket_key_file := pestrdup '''',
       tls_ciphers_tls13 := pestrdup ''TLS_AES_128_GCM_SHA256:TLS_AES_256_GCM_SHA384:TLS_CHACHA20_POLY1305_SHA256'',
       tls_curves := pestrdup ''P-256:X25519'', tls_session_ticket_lifetime_sec := 7200,
       tls_enable_early_data := False, tls_server_0rtt_cache_size := 100000,
       tls_enable_ocsp_stapling := True, tls_enable_ech := False, tls_require_ct_policy := False,
       tls_disable_sni_validation := False, transport_disable_encryption := False\<rparr>"

section \<open>Userland configuration\<close>

definition tls_crypto_apply_key ::
  "zend_api \<Rightarrow> string \<Rightarrow> zval \<Rightarrow> qp_tls_and_crypto_config_t \<Rightarrow> qp_tls_and_crypto_config_t cfg_result" where
  "tls_crypto_apply_key Z key value c =
     (if key = ''tls_verify_peer''
      then obind (qp_validate_bool value) (\<lambda>_. Ok (c\<lparr>tls_verify_peer := zend_is_true Z value\<rparr>))
      else if key = ''tls_enable_early_data''
      then obind (qp_validate_bool value) (\<lambda>_. Ok (c\<lparr>tls_enable_early_data := zend_is_true Z value\<rparr>))
      else if key = ''tls_enable_ocsp_stapling''
      then obind (qp_validate_bool value) (\<lambda>_. Ok (c\<lparr>tls_enable_ocsp_stapling := zend_is_true Z value\<rparr>))
      else if key = ''tls_enable_ech''
      then obind (qp_validate_bool value) (\<lambda>_. Ok (c\<lparr>tls_enable_ech := zend_is_true Z value\<rparr>))
      else if key = ''tls_require_ct_policy''
      then obind (qp_validate_bool value) (\<lambda>_. Ok (c\<lparr>tls_require_ct_policy := zend_is_true Z value\<rparr>))
      else if key = ''tls_disable_sni_validation''
      then obind (qp_validate_bool value) (\<lambda>_. Ok (c\<lparr>tls_disable_sni_validation := zend_is_true Z value\<rparr>))
      else if key = ''transport_disable_encryption''
      then obind (qp_validate_bool value) (\<lambda>_. Ok (c\<lparr>transport_disable_encryption := zend_is_true Z value\<rparr>))
      else if key = ''tls_verify_depth''
      then obind (qp_validate_positive_long value) (\<lambda>v. Ok (c\<lparr>tls_verify_depth := v\<rparr>))
      else if key = ''tls_session_ticket_lifetime_sec''
      then obind (qp_validate_positive_long value) (\<lambda>v. Ok (c\<lparr>tls_session_ticket_lifetime_sec := v\<rparr>))
      else if key = ''tls_server_0rtt_cache_size''
      then obind (qp_validate_positive_long value) (\<lambda>v. Ok (c\<lparr>tls_server_0rtt_cache_size := v\<rparr>))
      else if key = ''tls_default_ca_file''
      then obind (qp_validate_string value (tls_default_ca_file c)) (\<lambda>v. Ok (c\<lparr>tls_default_ca_file := v\<rparr>))
      else if key = ''tls_default_cert_file''
      then obind (qp_validate_string value (tls_default_cert_file c)) (\<lambda>v. Ok (c\<lparr>tls_default_cert_file := v\<rparr>))
      else if key = ''tls_default_key_file''
      then obind (qp_validate_string value (tls_default_key_file c)) (\<lambda>v. Ok (c\<lparr>tls_default_key_file := v\<rparr>))
      else if key = ''tls_ticket_key_file''
      then obind (qp_validate_string value (tls_ticket_key_file c)) (\<lambda>v. Ok (c\<lparr>tls_ticket_key_file := v\<rparr>))
      else if key = ''tls_ciphers_tls13''
      then obind (qp_validate_string value (tls_ciphers_tls13 c)) (\<lambda>v. Ok (c\<lparr>tls_ciphers_tls13 := v\<rparr>))
      else if key = ''tls_curves''
      then obind (qp_validate_string value (tls_curves c)) (\<lambda>v. Ok (c\<lparr>tls_curves := v\<rparr>))
      else Ok c)"

definition qp_config_tls_crypto_apply_userland_config ::
  "zend_api \<Rightarrow> bool \<Rightarrow> zval \<Rightarrow> qp_tls_and_crypto_config_t \<Rightarrow> qp_tls_and_crypto_config_t \<times> unit cfg_result" where
  "qp_config_tls_crypto_apply_userland_config Z is_userland_override_allowed config_arr c =
     apply_userland (tls_crypto_apply_key Z) is_userland_override_allowed config_arr c"

section \<open>INI directives\<close>

text \<open>
  The handler is a function of this file with the name of the engine's handler, so the call in
  its body is a call of itself.
\<close>

partial_function (option) tls_crypto_OnUpdateBool ::
  "string \<Rightarrow> (bool \<Rightarrow> qp_tls_and_crypto_config_t) \<Rightarrow> qp_tls_and_crypto_config_t cfg_result option" where
  "tls_crypto_OnUpdateBool new_value mh_arg1 = tls_crypto_OnUpdateBool new_value mh_arg1"

definition OnUpdateStringCopy ::
  "string \<Rightarrow> (cptr \<Rightarrow> qp_tls_and_crypto_config_t) \<Rightarrow> qp_tls_and_crypto_config_t cfg_result" where
  "OnUpdateStringCopy new_value mh_arg1 =
     Ok (mh_arg1 (engine_string new_value))"

definition OnUpdatePositiveLong ::
  "zend_api \<Rightarrow> string \<Rightarrow> string \<Rightarrow> qp_tls_and_crypto_config_t \<Rightarrow> qp_tls_and_crypto_config_t cfg_result" where
  "OnUpdatePositiveLong Z name new_value c =
     (let val = zend_atol Z new_value in
      if val \<le>s 0 then Fail Value_Rejected
      else if name = ''quicpro.tls_verify_depth'' then Ok (c\<lparr>tls_verify_depth := val\<rparr>)
      else if name = ''quicpro.tls_session_ticket_lifetime_sec'' then Ok (c\<lparr>tls_session_ticket_lifetime_sec := val\<rparr>)
      else if name = ''quicpro.tls_server_0rtt_cache_size'' then Ok (c\<lparr>tls_server_0rtt_cache_size := val\<rparr>)
      else Ok c)"

definition tls_crypto_ini_entry :: "zend_api \<Rightarrow> string \<Rightarrow> string \<Rightarrow> qp_tls_and_crypto_config_t \<Rightarrow> qp_tls_and_crypto_config_t cfg_result" where
  "tls_crypto_ini_entry Z name new_value c =
     (if name = ''quicpro.tls_verify_peer''
      then (case tls_crypto_OnUpdateBool new_value (\<lambda>v. c\<lparr>tls_verify_peer := v\<rparr>) of Some r \<Rightarrow> r | None \<Rightarrow> Diverge)
      else if name = ''quicpro.tls_verify_depth''
      then OnUpdatePositiveLong Z name new_value c
      else if name = ''quicpro.tls_default_ca_file''
      then OnUpdateStringCopy new_value (\<lambda>v. c\<lparr>tls_default_ca_file := v\<rparr>)
      else if name = ''quicpro.tls_default_cert_file''
      then OnUpdateStringCopy new_value (\<lambda>v. c\<lparr>tls_default_cert_file := v\<rparr>)
      else if name = ''quicpro.tls_default_key_file''
      then OnUpdateStringCopy new_value (\<lambda>v. c\<lparr>tls_default_key_file := v\<rparr>)
      else if name = ''quicpro.tls_ticket_key_file''
      then OnUpdateStringCopy new_value (\<lambda>v. c\<lparr>tls_ticket_key_file := v\<rparr>)
      else if name = ''quicpro.tls_ciphers_tls13''
      then OnUpdateStringCopy new_value (\<lambda>v. c\<lparr>tls_ciphers_tls13 := v\<rparr>)
      else if name = ''quicpro.tls_curves''
      then OnUpdateStringCopy new_value (\<lambda>v. c\<lparr>tls_curves := v\<rparr>)
      else if name = ''quicpro.tls_session_ticket_lifetime_sec''
      then OnUpdatePositiveLong Z name new_value c
      else if name = ''quicpro.tls_enable_early_data''
      then (case tls_crypto_OnUpdateBool new_value (\<lambda>v. c\<lparr>tls_enable_early_data := v\<rparr>) of Some r \<Rightarrow> r | None \<Rightarrow> Diverge)
      else if name = ''quicpro.tls_server_0rtt_cache_size''
      then OnUpdatePositiveLong Z name new_value c
      else if name = ''quicpro.tls_enable_ocsp_stapling''
      then (case tls_crypto_OnUpdateBool new_value (\<lambda>v. c\<lparr>tls_enable_ocsp_stapling := v\<rparr>) of Some r \<Rightarrow> r | None \<Rightarrow> Diverge)
      else if name = ''quicpro.tls_enable_ech''
      then (case tls_crypto_OnUpdateBool new_value (\<lambda>v. c\<lparr>tls_enable_ech := v\<rparr>) of Some r \<Rightarrow> r | None \<Rightarrow> Diverge)
      else if name = ''quicpro.tls_require_ct_policy''
      then (case tls_crypto_OnUpdateBool new_value (\<lambda>v. c\<lparr>tls_require_ct_policy := v\<rparr>) of Some r \<Rightarrow> r | None \<Rightarrow> Diverge)
      else if name = ''quicpro.tls_disable_sni_validation''
      then (case tls_crypto_OnUpdateBool new_value (\<lambda>v. c\<lparr>tls_disable_sni_validation := v\<rparr>) of Some r \<Rightarrow> r | None \<Rightarrow> Diverge)
      else if name = ''quicpro.transport_disable_encryption''
      then (case tls_crypto_OnUpdateBool new_value (\<lambda>v. c\<lparr>transport_disable_encryption := v\<rparr>) of Some r \<Rightarrow> r | None \<Rightarrow> Diverge)
      else Ok c)"

text \<open>The directives with their default texts, in the order of the table.\<close>

definition tls_crypto_ini_defaults :: "(string \<times> string) list" where
  "tls_crypto_ini_defaults =
     [(''quicpro.tls_verify_peer'', ''1''),
      (''quicpro.tls_verify_depth'', ''10''),
      (''quicpro.tls_default_ca_file'', ''''),
      (''quicpro.tls_default_cert_file'', ''''),
      (''quicpro.tls_default_key_file'', ''''),
      (''quicpro.tls_ticket_key_file'', ''''),
      (''quicpro.tls_ciphers_tls13'', ''TLS_AES_128_GCM_SHA256:TLS_AES_256_GCM_SHA384:TLS_CHACHA20_POLY1305_SHA256''),
      (''quicpro.tls_curves'', ''P-256:X25519''),
      (''quicpro.tls_session_ticket_lifetime_sec'', ''7200''),
      (''quicpro.tls_enable_early_data'', ''0''),
      (''quicpro.tls_server_0rtt_cache_size'', ''100000''),
      (''quicpro.tls_enable_ocsp_stapling'', ''1''),
      (''quicpro.tls_enable_ech'', ''0''),
      (''quicpro.tls_require_ct_policy'', ''0''),
      (''quicpro.tls_disable_sni_validation'', ''0''),
      (''quicpro.transport_disable_encryption'', ''0'')]"

text \<open>Loading the defaults, then registering the directives: \<^verbatim>\<open>calls\<close> are the handler calls the
  engine makes meanwhile.\<close>

definition qp_config_tls_crypto_init ::
  "zend_api \<Rightarrow> (string \<times> string) list \<Rightarrow> qp_tls_and_crypto_config_t \<Rightarrow> qp_tls_and_crypto_config_t cfg_result" where
  "qp_config_tls_crypto_init Z calls c = ini_run (tls_crypto_ini_entry Z) calls (qp_config_tls_crypto_defaults_load c)"

section \<open>Invariant\<close>

definition tls_crypto_inv :: "qp_tls_and_crypto_config_t \<Rightarrow> bool" where
  "tls_crypto_inv c \<longleftrightarrow>
     0 <s tls_verify_depth c \<and>
     ptr_set (tls_default_ca_file c) \<and>
     ptr_set (tls_default_cert_file c) \<and>
     ptr_set (tls_default_key_file c) \<and>
     ptr_set (tls_ticket_key_file c) \<and>
     ptr_set (tls_ciphers_tls13 c) \<and>
     ptr_set (tls_curves c) \<and>
     0 <s tls_session_ticket_lifetime_sec c \<and>
     0 <s tls_server_0rtt_cache_size c"

lemma tls_crypto_OnUpdateBool_never_returns: "tls_crypto_OnUpdateBool new_value mh_arg1 = None"
proof -
  have "tls_crypto_OnUpdateBool new_value mh_arg1 = Some r \<Longrightarrow> False" for r
    by (erule tls_crypto_OnUpdateBool.raw_induct [rotated]) (auto simp: bind_eq_Some_conv)
  then show ?thesis by (cases "tls_crypto_OnUpdateBool new_value mh_arg1") auto
qed

lemma tls_crypto_defaults_inv: "tls_crypto_inv (qp_config_tls_crypto_defaults_load c)"
  by (simp add: tls_crypto_inv_def qp_config_tls_crypto_defaults_load_def config_eval)

lemma tls_crypto_key_inv: "tls_crypto_inv c \<Longrightarrow> keeps tls_crypto_inv (tls_crypto_apply_key Z key value c)"
  unfolding tls_crypto_apply_key_def
  by (rule keeps_rules | simp add: tls_crypto_inv_def accepts)+

lemma tls_crypto_ini_inv: "tls_crypto_inv c \<Longrightarrow> keeps tls_crypto_inv (tls_crypto_ini_entry Z name new_value c)"
  unfolding tls_crypto_ini_entry_def OnUpdateStringCopy_def OnUpdatePositiveLong_def Let_def tls_crypto_OnUpdateBool_never_returns option.case
  by (rule keeps_rules | simp add: tls_crypto_inv_def sless_simps f64_within_def)+

interpretation tls_crypto: config_module qp_config_tls_crypto_defaults_load "tls_crypto_ini_entry Z" "tls_crypto_apply_key Z" tls_crypto_inv
  for Z
  by unfold_locales (simp_all add: tls_crypto_defaults_inv tls_crypto_key_inv tls_crypto_ini_inv)

end
