(* ===== verification/Config_Bare_Metal_Tuning.thy ===== *)
theory Config_Bare_Metal_Tuning
  imports Config_Base
begin

text \<open>
  I/O engine and socket tuning: the module \<^verbatim>\<open>src/extension/src/config/bare_metal_tuning\<close>.
  The INI handler of the CPU affinity hands the engine string itself to the validator, so no
  directive value is ever accepted; a userland array may store any string.
\<close>

section \<open>State\<close>

record qp_bare_metal_config_t =
  io_engine_use_uring :: bool
  io_uring_sq_poll_ms :: zend_long
  io_max_batch_read_packets :: zend_long
  io_max_batch_write_packets :: zend_long
  socket_receive_buffer_size :: zend_long
  socket_send_buffer_size :: zend_long
  socket_enable_busy_poll_us :: zend_long
  socket_enable_timestamping :: bool
  io_thread_cpu_affinity :: cptr
  io_thread_numa_node_policy :: cptr

text \<open>The global before anything ran: zeroed static storage.\<close>

definition quicpro_bare_metal_config :: qp_bare_metal_config_t where
  "quicpro_bare_metal_config =
     \<lparr>io_engine_use_uring = False, io_uring_sq_poll_ms = 0, io_max_batch_read_packets = 0,
      io_max_batch_write_packets = 0, socket_receive_buffer_size = 0, socket_send_buffer_size = 0,
      socket_enable_busy_poll_us = 0, socket_enable_timestamping = False,
      io_thread_cpu_affinity = NullPtr, io_thread_numa_node_policy = NullPtr\<rparr>"

definition qp_config_bare_metal_tuning_defaults_load :: "qp_bare_metal_config_t \<Rightarrow> qp_bare_metal_config_t" where
  "qp_config_bare_metal_tuning_defaults_load c =
     c\<lparr>io_engine_use_uring := True, io_uring_sq_poll_ms := 0, io_max_batch_read_packets := 64,
       io_max_batch_write_packets := 64, socket_receive_buffer_size := 2097152,
       socket_send_buffer_size := 2097152, socket_enable_busy_poll_us := 0,
       socket_enable_timestamping := True, io_thread_cpu_affinity := pestrdup '''',
       io_thread_numa_node_policy := pestrdup ''default''\<rparr>"

section \<open>Userland configuration\<close>

definition bare_metal_apply_key ::
  "zend_api \<Rightarrow> string \<Rightarrow> zval \<Rightarrow> qp_bare_metal_config_t \<Rightarrow> qp_bare_metal_config_t cfg_result" where
  "bare_metal_apply_key Z key value c =
     (if key = ''io_engine_use_uring''
      then obind (qp_validate_bool value) (\<lambda>_. Ok (c\<lparr>io_engine_use_uring := zend_is_true Z value\<rparr>))
      else if key = ''io_uring_sq_poll_ms''
      then obind (qp_validate_non_negative_long value) (\<lambda>v. Ok (c\<lparr>io_uring_sq_poll_ms := v\<rparr>))
      else if key = ''io_max_batch_read_packets''
      then obind (qp_validate_positive_long value) (\<lambda>v. Ok (c\<lparr>io_max_batch_read_packets := v\<rparr>))
      else if key = ''io_max_batch_write_packets''
      then obind (qp_validate_positive_long value) (\<lambda>v. Ok (c\<lparr>io_max_batch_write_packets := v\<rparr>))
      else if key = ''socket_receive_buffer_size''
      then obind (qp_validate_positive_long value) (\<lambda>v. Ok (c\<lparr>socket_receive_buffer_size := v\<rparr>))
      else if key = ''socket_send_buffer_size''
      then obind (qp_validate_positive_long value) (\<lambda>v. Ok (c\<lparr>socket_send_buffer_size := v\<rparr>))
      else if key = ''socket_enable_busy_poll_us''
      then obind (qp_validate_non_negative_long value) (\<lambda>v. Ok (c\<lparr>socket_enable_busy_poll_us := v\<rparr>))
      else if key = ''socket_enable_timestamping''
      then obind (qp_validate_bool value) (\<lambda>_. Ok (c\<lparr>socket_enable_timestamping := zend_is_true Z value\<rparr>))
      else if key = ''io_thread_cpu_affinity''
      then obind (qp_validate_generic_string value (io_thread_cpu_affinity c)) (\<lambda>v. Ok (c\<lparr>io_thread_cpu_affinity := v\<rparr>))
      else if key = ''io_thread_numa_node_policy''
      then obind (qp_validate_string_from_allowlist value [''default'', ''prefer'', ''bind'', ''interleave''] (io_thread_numa_node_policy c)) (\<lambda>v. Ok (c\<lparr>io_thread_numa_node_policy := v\<rparr>))
      else Ok c)"

definition qp_config_bare_metal_tuning_apply_userland_config ::
  "zend_api \<Rightarrow> bool \<Rightarrow> zval \<Rightarrow> qp_bare_metal_config_t \<Rightarrow> qp_bare_metal_config_t \<times> unit cfg_result" where
  "qp_config_bare_metal_tuning_apply_userland_config Z is_userland_override_allowed config_arr c =
     apply_userland (bare_metal_apply_key Z) is_userland_override_allowed config_arr c"

section \<open>INI directives\<close>

definition OnUpdateBareMetalNonNegativeLong ::
  "zend_api \<Rightarrow> string \<Rightarrow> string \<Rightarrow> qp_bare_metal_config_t \<Rightarrow> qp_bare_metal_config_t cfg_result" where
  "OnUpdateBareMetalNonNegativeLong Z name new_value c =
     (let val = zend_atol Z new_value in
      if val <s 0 then Fail Value_Rejected
      else if name = ''quicpro.io_uring_sq_poll_ms'' then Ok (c\<lparr>io_uring_sq_poll_ms := val\<rparr>)
      else if name = ''quicpro.socket_enable_busy_poll_us'' then Ok (c\<lparr>socket_enable_busy_poll_us := val\<rparr>)
      else Ok c)"

definition OnUpdateBareMetalPositiveLong ::
  "zend_api \<Rightarrow> string \<Rightarrow> string \<Rightarrow> qp_bare_metal_config_t \<Rightarrow> qp_bare_metal_config_t cfg_result" where
  "OnUpdateBareMetalPositiveLong Z name new_value c =
     (let val = zend_atol Z new_value in
      if val \<le>s 0 then Fail Value_Rejected
      else if name = ''quicpro.io_max_batch_read_packets'' then Ok (c\<lparr>io_max_batch_read_packets := val\<rparr>)
      else if name = ''quicpro.io_max_batch_write_packets'' then Ok (c\<lparr>io_max_batch_write_packets := val\<rparr>)
      else if name = ''quicpro.socket_receive_buffer_size'' then Ok (c\<lparr>socket_receive_buffer_size := val\<rparr>)
      else if name = ''quicpro.socket_send_buffer_size'' then Ok (c\<lparr>socket_send_buffer_size := val\<rparr>)
      else Ok c)"

definition OnUpdateNumaPolicyString ::
  "string \<Rightarrow> (cptr \<Rightarrow> qp_bare_metal_config_t) \<Rightarrow> qp_bare_metal_config_t cfg_result" where
  "OnUpdateNumaPolicyString new_value mh_arg1 =
     (if allowed_ci [''default'', ''prefer'', ''bind'', ''interleave''] new_value
      then Ok (mh_arg1 (engine_string new_value)) else Fail Value_Rejected)"

definition OnUpdateCpuAffinityString ::
  "zend_api \<Rightarrow> string \<Rightarrow> qp_bare_metal_config_t cfg_result" where
  "OnUpdateCpuAffinityString Z new_value =
     string_as_zval Z new_value"

definition bare_metal_ini_entry :: "zend_api \<Rightarrow> string \<Rightarrow> string \<Rightarrow> qp_bare_metal_config_t \<Rightarrow> qp_bare_metal_config_t cfg_result" where
  "bare_metal_ini_entry Z name new_value c =
     (if name = ''quicpro.io_engine_use_uring''
      then Ok (c\<lparr>io_engine_use_uring := zend_ini_parse_bool Z new_value\<rparr>)
      else if name = ''quicpro.io_uring_sq_poll_ms''
      then OnUpdateBareMetalNonNegativeLong Z name new_value c
      else if name = ''quicpro.io_max_batch_read_packets''
      then OnUpdateBareMetalPositiveLong Z name new_value c
      else if name = ''quicpro.io_max_batch_write_packets''
      then OnUpdateBareMetalPositiveLong Z name new_value c
      else if name = ''quicpro.socket_receive_buffer_size''
      then OnUpdateBareMetalPositiveLong Z name new_value c
      else if name = ''quicpro.socket_send_buffer_size''
      then OnUpdateBareMetalPositiveLong Z name new_value c
      else if name = ''quicpro.socket_enable_busy_poll_us''
      then OnUpdateBareMetalNonNegativeLong Z name new_value c
      else if name = ''quicpro.socket_enable_timestamping''
      then Ok (c\<lparr>socket_enable_timestamping := zend_ini_parse_bool Z new_value\<rparr>)
      else if name = ''quicpro.io_thread_cpu_affinity''
      then OnUpdateCpuAffinityString Z new_value
      else if name = ''quicpro.io_thread_numa_node_policy''
      then OnUpdateNumaPolicyString new_value (\<lambda>v. c\<lparr>io_thread_numa_node_policy := v\<rparr>)
      else Ok c)"

text \<open>The directives with their default texts, in the order of the table.\<close>

definition bare_metal_ini_defaults :: "(string \<times> string) list" where
  "bare_metal_ini_defaults =
     [(''quicpro.io_engine_use_uring'', ''1''),
      (''quicpro.io_uring_sq_poll_ms'', ''0''),
      (''quicpro.io_max_batch_read_packets'', ''64''),
      (''quicpro.io_max_batch_write_packets'', ''64''),
      (''quicpro.socket_receive_buffer_size'', ''2097152''),
      (''quicpro.socket_send_buffer_size'', ''2097152''),
      (''quicpro.socket_enable_busy_poll_us'', ''0''),
      (''quicpro.socket_enable_timestamping'', ''1''),
      (''quicpro.io_thread_cpu_affinity'', ''''),
      (''quicpro.io_thread_numa_node_policy'', ''default'')]"

text \<open>Loading the defaults, then registering the directives: \<^verbatim>\<open>calls\<close> are the handler calls the
  engine makes meanwhile.\<close>

definition qp_config_bare_metal_tuning_init ::
  "zend_api \<Rightarrow> (string \<times> string) list \<Rightarrow> qp_bare_metal_config_t \<Rightarrow> qp_bare_metal_config_t cfg_result" where
  "qp_config_bare_metal_tuning_init Z calls c = ini_run (bare_metal_ini_entry Z) calls (qp_config_bare_metal_tuning_defaults_load c)"

section \<open>Invariant\<close>

definition bare_metal_inv :: "qp_bare_metal_config_t \<Rightarrow> bool" where
  "bare_metal_inv c \<longleftrightarrow>
     0 \<le>s io_uring_sq_poll_ms c \<and>
     0 <s io_max_batch_read_packets c \<and>
     0 <s io_max_batch_write_packets c \<and>
     0 <s socket_receive_buffer_size c \<and>
     0 <s socket_send_buffer_size c \<and>
     0 \<le>s socket_enable_busy_poll_us c \<and>
     ptr_set (io_thread_cpu_affinity c) \<and>
     ptr_in [''default'', ''prefer'', ''bind'', ''interleave''] (io_thread_numa_node_policy c)"

lemma bare_metal_defaults_inv: "bare_metal_inv (qp_config_bare_metal_tuning_defaults_load c)"
  by (simp add: bare_metal_inv_def qp_config_bare_metal_tuning_defaults_load_def config_eval)

lemma bare_metal_key_inv: "bare_metal_inv c \<Longrightarrow> keeps bare_metal_inv (bare_metal_apply_key Z key value c)"
  unfolding bare_metal_apply_key_def
  by (rule keeps_rules | simp add: bare_metal_inv_def accepts)+

lemma bare_metal_ini_inv: "bare_metal_inv c \<Longrightarrow> keeps bare_metal_inv (bare_metal_ini_entry Z name new_value c)"
  unfolding bare_metal_ini_entry_def OnUpdateBareMetalNonNegativeLong_def OnUpdateBareMetalPositiveLong_def OnUpdateNumaPolicyString_def OnUpdateCpuAffinityString_def Let_def
  by (rule keeps_rules | simp add: bare_metal_inv_def sless_simps f64_within_def)+

interpretation bare_metal: config_module qp_config_bare_metal_tuning_defaults_load "bare_metal_ini_entry Z" "bare_metal_apply_key Z" bare_metal_inv
  for Z
  by unfold_locales (simp_all add: bare_metal_defaults_inv bare_metal_key_inv bare_metal_ini_inv)

end
