(* ===== verification/Config_Quic_Transport.thy ===== *)
theory Config_Quic_Transport
  imports Config_Base
begin

text \<open>
  QUIC transport parameters: the module \<^verbatim>\<open>src/extension/src/config/quic_transport\<close>.
  The INI handler keeps the ACK delay exponent at most 20; a userland array may store any
  non-negative number.
\<close>

section \<open>State\<close>

record qp_quic_transport_config_t =
  cc_algorithm :: cptr
  cc_initial_cwnd_packets :: zend_long
  cc_min_cwnd_packets :: zend_long
  cc_enable_hystart_plus_plus :: bool
  pacing_enable :: bool
  pacing_max_burst_packets :: zend_long
  max_ack_delay_ms :: zend_long
  ack_delay_exponent :: zend_long
  pto_timeout_ms_initial :: zend_long
  pto_timeout_ms_max :: zend_long
  max_pto_probes :: zend_long
  ping_interval_ms :: zend_long
  initial_max_data :: zend_long
  initial_max_stream_data_bidi_local :: zend_long
  initial_max_stream_data_bidi_remote :: zend_long
  initial_max_stream_data_uni :: zend_long
  initial_max_streams_bidi :: zend_long
  initial_max_streams_uni :: zend_long
  active_connection_id_limit :: zend_long
  stateless_retry_enable :: bool
  grease_enable :: bool
  datagrams_enable :: bool
  dgram_recv_queue_len :: zend_long
  dgram_send_queue_len :: zend_long

text \<open>The global before anything ran: zeroed static storage.\<close>

definition quicpro_quic_transport_config :: qp_quic_transport_config_t where
  "quicpro_quic_transport_config =
     \<lparr>cc_algorithm = NullPtr, cc_initial_cwnd_packets = 0, cc_min_cwnd_packets = 0,
      cc_enable_hystart_plus_plus = False, pacing_enable = False, pacing_max_burst_packets = 0,
      max_ack_delay_ms = 0, ack_delay_exponent = 0, pto_timeout_ms_initial = 0,
      pto_timeout_ms_max = 0, max_pto_probes = 0, ping_interval_ms = 0, initial_max_data = 0,
      initial_max_stream_data_bidi_local = 0, initial_max_stream_data_bidi_remote = 0,
      initial_max_stream_data_uni = 0, initial_max_streams_bidi = 0, initial_max_streams_uni = 0,
      active_connection_id_limit = 0, stateless_retry_enable = False, grease_enable = False,
      datagrams_enable = False, dgram_recv_queue_len = 0, dgram_send_queue_len = 0\<rparr>"

definition qp_config_quic_transport_defaults_load :: "qp_quic_transport_config_t \<Rightarrow> qp_quic_transport_config_t" where
  "qp_config_quic_transport_defaults_load c =
     c\<lparr>cc_algorithm := pestrdup ''cubic'', cc_initial_cwnd_packets := 32,
       cc_min_cwnd_packets := 4, cc_enable_hystart_plus_plus := True, pacing_enable := True,
       pacing_max_burst_packets := 10, max_ack_delay_ms := 25, ack_delay_exponent := 3,
       pto_timeout_ms_initial := 1000, pto_timeout_ms_max := 60000, max_pto_probes := 5,
       ping_interval_ms := 15000, initial_max_data := 10485760,
       initial_max_stream_data_bidi_local := 1048576,
       initial_max_stream_data_bidi_remote := 1048576, initial_max_stream_data_uni := 1048576,
       initial_max_streams_bidi := 100, initial_max_streams_uni := 100,
       active_connection_id_limit := 8, stateless_retry_enable := False, grease_enable := True,
       datagrams_enable := True, dgram_recv_queue_len := 1024, dgram_send_queue_len := 1024\<rparr>"

section \<open>Userland configuration\<close>

definition quic_transport_apply_key ::
  "zend_api \<Rightarrow> string \<Rightarrow> zval \<Rightarrow> qp_quic_transport_config_t \<Rightarrow> qp_quic_transport_config_t cfg_result" where
  "quic_transport_apply_key Z key value c =
     (if key = ''cc_algorithm''
      then obind (qp_validate_string_from_allowlist value [''cubic'', ''bbr''] (cc_algorithm c)) (\<lambda>v. Ok (c\<lparr>cc_algorithm := v\<rparr>))
      else if key = ''cc_initial_cwnd_packets''
      then obind (qp_validate_positive_long value) (\<lambda>v. Ok (c\<lparr>cc_initial_cwnd_packets := v\<rparr>))
      else if key = ''cc_min_cwnd_packets''
      then obind (qp_validate_positive_long value) (\<lambda>v. Ok (c\<lparr>cc_min_cwnd_packets := v\<rparr>))
      else if key = ''cc_enable_hystart_plus_plus''
      then obind (qp_validate_bool value) (\<lambda>_. Ok (c\<lparr>cc_enable_hystart_plus_plus := zend_is_true Z value\<rparr>))
      else if key = ''pacing_enable''
      then obind (qp_validate_bool value) (\<lambda>_. Ok (c\<lparr>pacing_enable := zend_is_true Z value\<rparr>))
      else if key = ''pacing_max_burst_packets''
      then obind (qp_validate_positive_long value) (\<lambda>v. Ok (c\<lparr>pacing_max_burst_packets := v\<rparr>))
      else if key = ''max_ack_delay_ms''
      then obind (qp_validate_non_negative_long value) (\<lambda>v. Ok (c\<lparr>max_ack_delay_ms := v\<rparr>))
      else if key = ''ack_delay_exponent''
      then obind (qp_validate_non_negative_long value) (\<lambda>v. Ok (c\<lparr>ack_delay_exponent := v\<rparr>))
      else if key = ''pto_timeout_ms_initial''
      then obind (qp_validate_positive_long value) (\<lambda>v. Ok (c\<lparr>pto_timeout_ms_initial := v\<rparr>))
      else if key = ''pto_timeout_ms_max''
      then obind (qp_validate_positive_long value) (\<lambda>v. Ok (c\<lparr>pto_timeout_ms_max := v\<rparr>))
      else if key = ''max_pto_probes''
      then obind (qp_validate_positive_long value) (\<lambda>v. Ok (c\<lparr>max_pto_probes := v\<rparr>))
      else if key = ''ping_interval_ms''
      then obind (qp_validate_non_negative_long value) (\<lambda>v. Ok (c\<lparr>ping_interval_ms := v\<rparr>))
      else if key = ''initial_max_data''
      then obind (qp_validate_positive_long value) (\<lambda>v. Ok (c\<lparr>initial_max_data := v\<rparr>))
      else if key = ''initial_max_stream_data_bidi_local''
      then obind (qp_validate_positive_long value) (\<lambda>v. Ok (c\<lparr>initial_max_stream_data_bidi_local := v\<rparr>))
      else if key = ''initial_max_stream_data_bidi_remote''
      then obind (qp_validate_positive_long value) (\<lambda>v. Ok (c\<lparr>initial_max_stream_data_bidi_remote := v\<rparr>))
      else if key = ''initial_max_stream_data_uni''
      then obind (qp_validate_positive_long value) (\<lambda>v. Ok (c\<lparr>initial_max_stream_data_uni := v\<rparr>))
      else if key = ''initial_max_streams_bidi''
      then obind (qp_validate_positive_long value) (\<lambda>v. Ok (c\<lparr>initial_max_streams_bidi := v\<rparr>))
      else if key = ''initial_max_streams_uni''
      then obind (qp_validate_positive_long value) (\<lambda>v. Ok (c\<lparr>initial_max_streams_uni := v\<rparr>))
      else if key = ''active_connection_id_limit''
      then obind (qp_validate_positive_long value) (\<lambda>v. Ok (c\<lparr>active_connection_id_limit := v\<rparr>))
      else if key = ''stateless_retry_enable''
      then obind (qp_validate_bool value) (\<lambda>_. Ok (c\<lparr>stateless_retry_enable := zend_is_true Z value\<rparr>))
      else if key = ''grease_enable''
      then obind (qp_validate_bool value) (\<lambda>_. Ok (c\<lparr>grease_enable := zend_is_true Z value\<rparr>))
      else if key = ''datagrams_enable''
      then obind (qp_validate_bool value) (\<lambda>_. Ok (c\<lparr>datagrams_enable := zend_is_true Z value\<rparr>))
      else if key = ''dgram_recv_queue_len''
      then obind (qp_validate_positive_long value) (\<lambda>v. Ok (c\<lparr>dgram_recv_queue_len := v\<rparr>))
      else if key = ''dgram_send_queue_len''
      then obind (qp_validate_positive_long value) (\<lambda>v. Ok (c\<lparr>dgram_send_queue_len := v\<rparr>))
      else Ok c)"

definition qp_config_quic_transport_apply_userland_config ::
  "zend_api \<Rightarrow> bool \<Rightarrow> zval \<Rightarrow> qp_quic_transport_config_t \<Rightarrow> qp_quic_transport_config_t \<times> unit cfg_result" where
  "qp_config_quic_transport_apply_userland_config Z is_userland_override_allowed config_arr c =
     apply_userland (quic_transport_apply_key Z) is_userland_override_allowed config_arr c"

section \<open>INI directives\<close>

definition OnUpdateQuicPositiveLong ::
  "zend_api \<Rightarrow> string \<Rightarrow> (zend_long \<Rightarrow> qp_quic_transport_config_t) \<Rightarrow> qp_quic_transport_config_t cfg_result" where
  "OnUpdateQuicPositiveLong Z new_value mh_arg1 =
     (let val = zend_atol Z new_value in
      if val \<le>s 0 then Fail Value_Rejected else Ok (mh_arg1 val))"

definition OnUpdateQuicNonNegativeLong ::
  "zend_api \<Rightarrow> string \<Rightarrow> (zend_long \<Rightarrow> qp_quic_transport_config_t) \<Rightarrow> qp_quic_transport_config_t cfg_result" where
  "OnUpdateQuicNonNegativeLong Z new_value mh_arg1 =
     (let val = zend_atol Z new_value in
      if val <s 0 then Fail Value_Rejected else Ok (mh_arg1 val))"

definition OnUpdateAckDelayExponent ::
  "zend_api \<Rightarrow> string \<Rightarrow> qp_quic_transport_config_t \<Rightarrow> qp_quic_transport_config_t cfg_result" where
  "OnUpdateAckDelayExponent Z new_value c =
     (let val = zend_atol Z new_value in
      if val <s 0 \<or> 20 <s val then Fail Value_Rejected else Ok (c\<lparr>ack_delay_exponent := val\<rparr>))"

definition OnUpdateCcAlgorithm ::
  "string \<Rightarrow> (cptr \<Rightarrow> qp_quic_transport_config_t) \<Rightarrow> qp_quic_transport_config_t cfg_result" where
  "OnUpdateCcAlgorithm new_value mh_arg1 =
     (if allowed_ci [''cubic'', ''bbr''] new_value
      then Ok (mh_arg1 (engine_string new_value)) else Fail Value_Rejected)"

definition quic_transport_ini_entry :: "zend_api \<Rightarrow> string \<Rightarrow> string \<Rightarrow> qp_quic_transport_config_t \<Rightarrow> qp_quic_transport_config_t cfg_result" where
  "quic_transport_ini_entry Z name new_value c =
     (if name = ''quicpro.transport_cc_algorithm''
      then OnUpdateCcAlgorithm new_value (\<lambda>v. c\<lparr>cc_algorithm := v\<rparr>)
      else if name = ''quicpro.transport_cc_initial_cwnd_packets''
      then OnUpdateQuicPositiveLong Z new_value (\<lambda>v. c\<lparr>cc_initial_cwnd_packets := v\<rparr>)
      else if name = ''quicpro.transport_cc_min_cwnd_packets''
      then OnUpdateQuicPositiveLong Z new_value (\<lambda>v. c\<lparr>cc_min_cwnd_packets := v\<rparr>)
      else if name = ''quicpro.transport_cc_enable_hystart_plus_plus''
      then Ok (c\<lparr>cc_enable_hystart_plus_plus := zend_ini_parse_bool Z new_value\<rparr>)
      else if name = ''quicpro.transport_pacing_enable''
      then Ok (c\<lparr>pacing_enable := zend_ini_parse_bool Z new_value\<rparr>)
      else if name = ''quicpro.transport_pacing_max_burst_packets''
      then OnUpdateQuicPositiveLong Z new_value (\<lambda>v. c\<lparr>pacing_max_burst_packets := v\<rparr>)
      else if name = ''quicpro.transport_max_ack_delay_ms''
      then OnUpdateQuicNonNegativeLong Z new_value (\<lambda>v. c\<lparr>max_ack_delay_ms := v\<rparr>)
      else if name = ''quicpro.transport_ack_delay_exponent''
      then OnUpdateAckDelayExponent Z new_value c
      else if name = ''quicpro.transport_pto_timeout_ms_initial''
      then OnUpdateQuicPositiveLong Z new_value (\<lambda>v. c\<lparr>pto_timeout_ms_initial := v\<rparr>)
      else if name = ''quicpro.transport_pto_timeout_ms_max''
      then OnUpdateQuicPositiveLong Z new_value (\<lambda>v. c\<lparr>pto_timeout_ms_max := v\<rparr>)
      else if name = ''quicpro.transport_max_pto_probes''
      then OnUpdateQuicPositiveLong Z new_value (\<lambda>v. c\<lparr>max_pto_probes := v\<rparr>)
      else if name = ''quicpro.transport_ping_interval_ms''
      then OnUpdateQuicNonNegativeLong Z new_value (\<lambda>v. c\<lparr>ping_interval_ms := v\<rparr>)
      else if name = ''quicpro.transport_initial_max_data''
      then OnUpdateQuicPositiveLong Z new_value (\<lambda>v. c\<lparr>initial_max_data := v\<rparr>)
      else if name = ''quicpro.transport_initial_max_stream_data_bidi_local''
      then OnUpdateQuicPositiveLong Z new_value (\<lambda>v. c\<lparr>initial_max_stream_data_bidi_local := v\<rparr>)
      else if name = ''quicpro.transport_initial_max_stream_data_bidi_remote''
      then OnUpdateQuicPositiveLong Z new_value (\<lambda>v. c\<lparr>initial_max_stream_data_bidi_remote := v\<rparr>)
      else if name = ''quicpro.transport_initial_max_stream_data_uni''
      then OnUpdateQuicPositiveLong Z new_value (\<lambda>v. c\<lparr>initial_max_stream_data_uni := v\<rparr>)
      else if name = ''quicpro.transport_initial_max_streams_bidi''
      then OnUpdateQuicPositiveLong Z new_value (\<lambda>v. c\<lparr>initial_max_streams_bidi := v\<rparr>)
      else if name = ''quicpro.transport_initial_max_streams_uni''
      then OnUpdateQuicPositiveLong Z new_value (\<lambda>v. c\<lparr>initial_max_streams_uni := v\<rparr>)
      else if name = ''quicpro.transport_active_connection_id_limit''
      then OnUpdateQuicPositiveLong Z new_value (\<lambda>v. c\<lparr>active_connection_id_limit := v\<rparr>)
      else if name = ''quicpro.transport_stateless_retry_enable''
      then Ok (c\<lparr>stateless_retry_enable := zend_ini_parse_bool Z new_value\<rparr>)
      else if name = ''quicpro.transport_grease_enable''
      then Ok (c\<lparr>grease_enable := zend_ini_parse_bool Z new_value\<rparr>)
      else if name = ''quicpro.transport_datagrams_enable''
      then Ok (c\<lparr>datagrams_enable := zend_ini_parse_bool Z new_value\<rparr>)
      else if name = ''quicpro.transport_dgram_recv_queue_len''
      then OnUpdateQuicPositiveLong Z new_value (\<lambda>v. c\<lparr>dgram_recv_queue_len := v\<rparr>)
      else if name = ''quicpro.transport_dgram_send_queue_len''
      then OnUpdateQuicPositiveLong Z new_value (\<lambda>v. c\<lparr>dgram_send_queue_len := v\<rparr>)
      else Ok c)"

text \<open>The directives with their default texts, in the order of the table.\<close>

definition quic_transport_ini_defaults :: "(string \<times> string) list" where
  "quic_transport_ini_defaults =
     [(''quicpro.transport_cc_algorithm'', ''cubic''),
      (''quicpro.transport_cc_initial_cwnd_packets'', ''32''),
      (''quicpro.transport_cc_min_cwnd_packets'', ''4''),
      (''quicpro.transport_cc_enable_hystart_plus_plus'', ''1''),
      (''quicpro.transport_pacing_enable'', ''1''),
      (''quicpro.transport_pacing_max_burst_packets'', ''10''),
      (''quicpro.transport_max_ack_delay_ms'', ''25''),
      (''quicpro.transport_ack_delay_exponent'', ''3''),
      (''quicpro.transport_pto_timeout_ms_initial'', ''1000''),
      (''quicpro.transport_pto_timeout_ms_max'', ''60000''),
      (''quicpro.transport_max_pto_probes'', ''5''),
      (''quicpro.transport_ping_interval_ms'', ''15000''),
      (''quicpro.transport_initial_max_data'', ''10485760''),
      (''quicpro.transport_initial_max_stream_data_bidi_local'', ''1048576''),
      (''quicpro.transport_initial_max_stream_data_bidi_remote'', ''1048576''),
      (''quicpro.transport_initial_max_stream_data_uni'', ''1048576''),
      (''quicpro.transport_initial_max_streams_bidi'', ''100''),
      (''quicpro.transport_initial_max_streams_uni'', ''100''),
      (''quicpro.transport_active_connection_id_limit'', ''8''),
      (''quicpro.transport_stateless_retry_enable'', ''0''),
      (''quicpro.transport_grease_enable'', ''1''),
      (''quicpro.transport_datagrams_enable'', ''1''),
      (''quicpro.transport_dgram_recv_queue_len'', ''1024''),
      (''quicpro.transport_dgram_send_queue_len'', ''1024'')]"

text \<open>Loading the defaults, then registering the directives: \<^verbatim>\<open>calls\<close> are the handler calls the
  engine makes meanwhile.\<close>

definition qp_config_quic_transport_init ::
  "zend_api \<Rightarrow> (string \<times> string) list \<Rightarrow> qp_quic_transport_config_t \<Rightarrow> qp_quic_transport_config_t cfg_result" where
  "qp_config_quic_transport_init Z calls c = ini_run (quic_transport_ini_entry Z) calls (qp_config_quic_transport_defaults_load c)"

section \<open>Invariant\<close>

definition quic_transport_inv :: "qp_quic_transport_config_t \<Rightarrow> bool" where
  "quic_transport_inv c \<longleftrightarrow>
     ptr_in [''cubic'', ''bbr''] (cc_algorithm c) \<and>
     0 <s cc_initial_cwnd_packets c \<and>
     0 <s cc_min_cwnd_packets c \<and>
     0 <s pacing_max_burst_packets c \<and>
     0 \<le>s max_ack_delay_ms c \<and>
     0 \<le>s ack_delay_exponent c \<and>
     0 <s pto_timeout_ms_initial c \<and>
     0 <s pto_timeout_ms_max c \<and>
     0 <s max_pto_probes c \<and>
     0 \<le>s ping_interval_ms c \<and>
     0 <s initial_max_data c \<and>
     0 <s initial_max_stream_data_bidi_local c \<and>
     0 <s initial_max_stream_data_bidi_remote c \<and>
     0 <s initial_max_stream_data_uni c \<and>
     0 <s initial_max_streams_bidi c \<and>
     0 <s initial_max_streams_uni c \<and>
     0 <s active_connection_id_limit c \<and>
     0 <s dgram_recv_queue_len c \<and>
     0 <s dgram_send_queue_len c"

lemma quic_transport_defaults_inv: "quic_transport_inv (qp_config_quic_transport_defaults_load c)"
  by (simp add: quic_transport_inv_def qp_config_quic_transport_defaults_load_def config_eval)

lemma quic_transport_key_inv: "quic_transport_inv c \<Longrightarrow> keeps quic_transport_inv (quic_transport_apply_key Z key value c)"
  unfolding quic_transport_apply_key_def
  by (rule keeps_rules | simp add: quic_transport_inv_def accepts)+

lemma quic_transport_ini_inv: "quic_transport_inv c \<Longrightarrow> keeps quic_transport_inv (quic_transport_ini_entry Z name new_value c)"
  unfolding quic_transport_ini_entry_def OnUpdateQuicPositiveLong_def OnUpdateQuicNonNegativeLong_def OnUpdateAckDelayExponent_def OnUpdateCcAlgorithm_def Let_def
  by (rule keeps_rules | simp add: quic_transport_inv_def sless_simps f64_within_def)+

interpretation quic_transport: config_module qp_config_quic_transport_defaults_load "quic_transport_ini_entry Z" "quic_transport_apply_key Z" quic_transport_inv
  for Z
  by unfold_locales (simp_all add: quic_transport_defaults_inv quic_transport_key_inv quic_transport_ini_inv)

end
