(* ===== verification/Config_Tcp_Transport.thy ===== *)
theory Config_Tcp_Transport
  imports Config_Base
begin

text \<open>
  TCP transport: the module \<^verbatim>\<open>src/extension/src/config/tcp_transport\<close>.
  The code writes the fields with the prefix \<^verbatim>\<open>tcp_\<close> that the struct of the header does not have;
  the record has the names the code uses.  The handler of the cipher list is named like the
  engine's and calls itself.
\<close>

section \<open>State\<close>

record qp_tcp_transport_config_t =
  tcp_enable :: bool
  tcp_max_connections :: zend_long
  tcp_connect_timeout_ms :: zend_long
  tcp_listen_backlog :: zend_long
  tcp_reuse_port_enable :: bool
  tcp_nodelay_enable :: bool
  tcp_cork_enable :: bool
  tcp_keepalive_enable :: bool
  tcp_keepalive_time_sec :: zend_long
  tcp_keepalive_interval_sec :: zend_long
  tcp_keepalive_probes :: zend_long
  tcp_tls_min_version_allowed :: cptr
  tcp_tls_ciphers_tls12 :: cptr

text \<open>The global before anything ran: zeroed static storage.\<close>

definition quicpro_tcp_transport_config :: qp_tcp_transport_config_t where
  "quicpro_tcp_transport_config =
     \<lparr>tcp_enable = False, tcp_max_connections = 0, tcp_connect_timeout_ms = 0,
      tcp_listen_backlog = 0, tcp_reuse_port_enable = False, tcp_nodelay_enable = False,
      tcp_cork_enable = False, tcp_keepalive_enable = False, tcp_keepalive_time_sec = 0,
      tcp_keepalive_interval_sec = 0, tcp_keepalive_probes = 0,
      tcp_tls_min_version_allowed = NullPtr, tcp_tls_ciphers_tls12 = NullPtr\<rparr>"

definition qp_config_tcp_transport_defaults_load :: "qp_tcp_transport_config_t \<Rightarrow> qp_tcp_transport_config_t" where
  "qp_config_tcp_transport_defaults_load c =
     c\<lparr>tcp_enable := True, tcp_max_connections := 10240, tcp_connect_timeout_ms := 5000,
       tcp_listen_backlog := 511, tcp_reuse_port_enable := True, tcp_nodelay_enable := False,
       tcp_cork_enable := False, tcp_keepalive_enable := True, tcp_keepalive_time_sec := 7200,
       tcp_keepalive_interval_sec := 75, tcp_keepalive_probes := 9,
       tcp_tls_min_version_allowed := pestrdup ''TLSv1.2'',
       tcp_tls_ciphers_tls12 := pestrdup ''ECDHE-ECDSA-AES128-GCM-SHA256:ECDHE-RSA-AES128-GCM-SHA256:ECDHE-ECDSA-AES256-GCM-SHA384''\<rparr>"

section \<open>Userland configuration\<close>

definition tcp_transport_apply_key ::
  "zend_api \<Rightarrow> string \<Rightarrow> zval \<Rightarrow> qp_tcp_transport_config_t \<Rightarrow> qp_tcp_transport_config_t cfg_result" where
  "tcp_transport_apply_key Z key value c =
     (if key = ''tcp_enable''
      then obind (qp_validate_bool value) (\<lambda>_. Ok (c\<lparr>tcp_enable := zend_is_true Z value\<rparr>))
      else if key = ''tcp_reuse_port_enable''
      then obind (qp_validate_bool value) (\<lambda>_. Ok (c\<lparr>tcp_reuse_port_enable := zend_is_true Z value\<rparr>))
      else if key = ''tcp_nodelay_enable''
      then obind (qp_validate_bool value) (\<lambda>_. Ok (c\<lparr>tcp_nodelay_enable := zend_is_true Z value\<rparr>))
      else if key = ''tcp_cork_enable''
      then obind (qp_validate_bool value) (\<lambda>_. Ok (c\<lparr>tcp_cork_enable := zend_is_true Z value\<rparr>))
      else if key = ''tcp_keepalive_enable''
      then obind (qp_validate_bool value) (\<lambda>_. Ok (c\<lparr>tcp_keepalive_enable := zend_is_true Z value\<rparr>))
      else if key = ''tcp_max_connections''
      then obind (qp_validate_positive_long value) (\<lambda>v. Ok (c\<lparr>tcp_max_connections := v\<rparr>))
      else if key = ''tcp_connect_timeout_ms''
      then obind (qp_validate_positive_long value) (\<lambda>v. Ok (c\<lparr>tcp_connect_timeout_ms := v\<rparr>))
      else if key = ''tcp_listen_backlog''
      then obind (qp_validate_positive_long value) (\<lambda>v. Ok (c\<lparr>tcp_listen_backlog := v\<rparr>))
      else if key = ''tcp_keepalive_time_sec''
      then obind (qp_validate_positive_long value) (\<lambda>v. Ok (c\<lparr>tcp_keepalive_time_sec := v\<rparr>))
      else if key = ''tcp_keepalive_interval_sec''
      then obind (qp_validate_positive_long value) (\<lambda>v. Ok (c\<lparr>tcp_keepalive_interval_sec := v\<rparr>))
      else if key = ''tcp_keepalive_probes''
      then obind (qp_validate_positive_long value) (\<lambda>v. Ok (c\<lparr>tcp_keepalive_probes := v\<rparr>))
      else if key = ''tcp_tls_min_version_allowed''
      then obind (qp_validate_string_from_allowlist value [''TLSv1.2'', ''TLSv1.3''] (tcp_tls_min_version_allowed c)) (\<lambda>v. Ok (c\<lparr>tcp_tls_min_version_allowed := v\<rparr>))
      else if key = ''tcp_tls_ciphers_tls12''
      then (case value of
           Z_String s \<Rightarrow>
             if s = [] then Fail Value_Rejected else Ok (c\<lparr>tcp_tls_ciphers_tls12 := estrdup s\<rparr>)
         | _ \<Rightarrow> Fail Type_Required)
      else Ok c)"

definition qp_config_tcp_transport_apply_userland_config ::
  "zend_api \<Rightarrow> bool \<Rightarrow> zval \<Rightarrow> qp_tcp_transport_config_t \<Rightarrow> qp_tcp_transport_config_t \<times> unit cfg_result" where
  "qp_config_tcp_transport_apply_userland_config Z is_userland_override_allowed config_arr c =
     apply_userland (tcp_transport_apply_key Z) is_userland_override_allowed config_arr c"

section \<open>INI directives\<close>

definition OnUpdateTcpPositiveLong ::
  "zend_api \<Rightarrow> string \<Rightarrow> string \<Rightarrow> qp_tcp_transport_config_t \<Rightarrow> qp_tcp_transport_config_t cfg_result" where
  "OnUpdateTcpPositiveLong Z name new_value c =
     (let val = zend_atol Z new_value in
      if val \<le>s 0 then Fail Value_Rejected
      else if name = ''quicpro.tcp_max_connections'' then Ok (c\<lparr>tcp_max_connections := val\<rparr>)
      else if name = ''quicpro.tcp_connect_timeout_ms'' then Ok (c\<lparr>tcp_connect_timeout_ms := val\<rparr>)
      else if name = ''quicpro.tcp_listen_backlog'' then Ok (c\<lparr>tcp_listen_backlog := val\<rparr>)
      else if name = ''quicpro.tcp_keepalive_time_sec'' then Ok (c\<lparr>tcp_keepalive_time_sec := val\<rparr>)
      else if name = ''quicpro.tcp_keepalive_interval_sec'' then Ok (c\<lparr>tcp_keepalive_interval_sec := val\<rparr>)
      else if name = ''quicpro.tcp_keepalive_probes'' then Ok (c\<lparr>tcp_keepalive_probes := val\<rparr>)
      else Ok c)"

definition OnUpdateTlsMinVersion ::
  "string \<Rightarrow> qp_tcp_transport_config_t \<Rightarrow> qp_tcp_transport_config_t cfg_result" where
  "OnUpdateTlsMinVersion new_value c =
     (if new_value \<in> set [''TLSv1.2'', ''TLSv1.3'']
      then Ok (c\<lparr>tcp_tls_min_version_allowed := estrdup new_value\<rparr>) else Fail Value_Rejected)"

text \<open>
  The handler is a function of this file with the name of the engine's handler, so the call in
  its body is a call of itself.
\<close>

partial_function (option) tcp_transport_OnUpdateString ::
  "string \<Rightarrow> (cptr \<Rightarrow> qp_tcp_transport_config_t) \<Rightarrow> qp_tcp_transport_config_t cfg_result option" where
  "tcp_transport_OnUpdateString new_value mh_arg1 = Option.bind (tcp_transport_OnUpdateString new_value mh_arg1) (\<lambda>r. Some r)"

definition tcp_transport_ini_entry :: "zend_api \<Rightarrow> string \<Rightarrow> string \<Rightarrow> qp_tcp_transport_config_t \<Rightarrow> qp_tcp_transport_config_t cfg_result" where
  "tcp_transport_ini_entry Z name new_value c =
     (if name = ''quicpro.tcp_enable''
      then Ok (c\<lparr>tcp_enable := zend_ini_parse_bool Z new_value\<rparr>)
      else if name = ''quicpro.tcp_max_connections''
      then OnUpdateTcpPositiveLong Z name new_value c
      else if name = ''quicpro.tcp_connect_timeout_ms''
      then OnUpdateTcpPositiveLong Z name new_value c
      else if name = ''quicpro.tcp_listen_backlog''
      then OnUpdateTcpPositiveLong Z name new_value c
      else if name = ''quicpro.tcp_reuse_port_enable''
      then Ok (c\<lparr>tcp_reuse_port_enable := zend_ini_parse_bool Z new_value\<rparr>)
      else if name = ''quicpro.tcp_nodelay_enable''
      then Ok (c\<lparr>tcp_nodelay_enable := zend_ini_parse_bool Z new_value\<rparr>)
      else if name = ''quicpro.tcp_cork_enable''
      then Ok (c\<lparr>tcp_cork_enable := zend_ini_parse_bool Z new_value\<rparr>)
      else if name = ''quicpro.tcp_keepalive_enable''
      then Ok (c\<lparr>tcp_keepalive_enable := zend_ini_parse_bool Z new_value\<rparr>)
      else if name = ''quicpro.tcp_keepalive_time_sec''
      then OnUpdateTcpPositiveLong Z name new_value c
      else if name = ''quicpro.tcp_keepalive_interval_sec''
      then OnUpdateTcpPositiveLong Z name new_value c
      else if name = ''quicpro.tcp_keepalive_probes''
      then OnUpdateTcpPositiveLong Z name new_value c
      else if name = ''quicpro.tcp_tls_min_version_allowed''
      then OnUpdateTlsMinVersion new_value c
      else if name = ''quicpro.tcp_tls_ciphers_tls12''
      then (case tcp_transport_OnUpdateString new_value (\<lambda>v. c\<lparr>tcp_tls_ciphers_tls12 := v\<rparr>) of Some r \<Rightarrow> r | None \<Rightarrow> Diverge)
      else Ok c)"

text \<open>The directives with their default texts, in the order of the table.\<close>

definition tcp_transport_ini_defaults :: "(string \<times> string) list" where
  "tcp_transport_ini_defaults =
     [(''quicpro.tcp_enable'', ''1''),
      (''quicpro.tcp_max_connections'', ''10240''),
      (''quicpro.tcp_connect_timeout_ms'', ''5000''),
      (''quicpro.tcp_listen_backlog'', ''511''),
      (''quicpro.tcp_reuse_port_enable'', ''1''),
      (''quicpro.tcp_nodelay_enable'', ''0''),
      (''quicpro.tcp_cork_enable'', ''0''),
      (''quicpro.tcp_keepalive_enable'', ''1''),
      (''quicpro.tcp_keepalive_time_sec'', ''7200''),
      (''quicpro.tcp_keepalive_interval_sec'', ''75''),
      (''quicpro.tcp_keepalive_probes'', ''9''),
      (''quicpro.tcp_tls_min_version_allowed'', ''TLSv1.2''),
      (''quicpro.tcp_tls_ciphers_tls12'', ''ECDHE-ECDSA-AES128-GCM-SHA256:ECDHE-RSA-AES128-GCM-SHA256:ECDHE-ECDSA-AES256-GCM-SHA384'')]"

text \<open>Loading the defaults, then registering the directives: \<^verbatim>\<open>calls\<close> are the handler calls the
  engine makes meanwhile.\<close>

definition qp_config_tcp_transport_init ::
  "zend_api \<Rightarrow> (string \<times> string) list \<Rightarrow> qp_tcp_transport_config_t \<Rightarrow> qp_tcp_transport_config_t cfg_result" where
  "qp_config_tcp_transport_init Z calls c = ini_run (tcp_transport_ini_entry Z) calls (qp_config_tcp_transport_defaults_load c)"

section \<open>Invariant\<close>

definition tcp_transport_inv :: "qp_tcp_transport_config_t \<Rightarrow> bool" where
  "tcp_transport_inv c \<longleftrightarrow>
     0 <s tcp_max_connections c \<and>
     0 <s tcp_connect_timeout_ms c \<and>
     0 <s tcp_listen_backlog c \<and>
     0 <s tcp_keepalive_time_sec c \<and>
     0 <s tcp_keepalive_interval_sec c \<and>
     0 <s tcp_keepalive_probes c \<and>
     ptr_in [''TLSv1.2'', ''TLSv1.3''] (tcp_tls_min_version_allowed c) \<and>
     ptr_set (tcp_tls_ciphers_tls12 c)"

lemma tcp_transport_OnUpdateString_never_returns: "tcp_transport_OnUpdateString new_value mh_arg1 = None"
proof -
  have "tcp_transport_OnUpdateString new_value mh_arg1 = Some r \<Longrightarrow> False" for r
    by (erule tcp_transport_OnUpdateString.raw_induct [rotated]) (auto simp: bind_eq_Some_conv)
  then show ?thesis by (cases "tcp_transport_OnUpdateString new_value mh_arg1") auto
qed

lemma tcp_transport_defaults_inv: "tcp_transport_inv (qp_config_tcp_transport_defaults_load c)"
  by (simp add: tcp_transport_inv_def qp_config_tcp_transport_defaults_load_def config_eval)

lemma tcp_transport_key_inv: "tcp_transport_inv c \<Longrightarrow> keeps tcp_transport_inv (tcp_transport_apply_key Z key value c)"
  unfolding tcp_transport_apply_key_def
  by (rule keeps_rules | simp add: tcp_transport_inv_def accepts)+

lemma tcp_transport_ini_inv: "tcp_transport_inv c \<Longrightarrow> keeps tcp_transport_inv (tcp_transport_ini_entry Z name new_value c)"
  unfolding tcp_transport_ini_entry_def OnUpdateTcpPositiveLong_def OnUpdateTlsMinVersion_def Let_def tcp_transport_OnUpdateString_never_returns option.case
  by (rule keeps_rules | fastforce simp: tcp_transport_inv_def sless_simps f64_within_def allowed_ci_def)+

interpretation tcp_transport: config_module qp_config_tcp_transport_defaults_load "tcp_transport_ini_entry Z" "tcp_transport_apply_key Z" tcp_transport_inv
  for Z
  by unfold_locales (simp_all add: tcp_transport_defaults_inv tcp_transport_key_inv tcp_transport_ini_inv)

end
