(* ===== verification/Config_App_Http3_Websockets_Webtransport.thy ===== *)
theory Config_App_Http3_Websockets_Webtransport
  imports Config_Base
begin

text \<open>
  HTTP/3, WebSocket and WebTransport settings: the module \<^verbatim>\<open>src/extension/src/config/app_http3_websockets_webtransport\<close>.
  The list of compression methods is tested for userland arrays only; \<^verbatim>\<open>OnUpdateCompressionString\<close>
  stores any text.
\<close>

section \<open>State\<close>

record qp_app_protocols_config_t =
  http_advertise_h3_alt_svc :: bool
  http_auto_compress :: cptr
  h3_max_header_list_size :: zend_long
  h3_qpack_max_table_capacity :: zend_long
  h3_qpack_blocked_streams :: zend_long
  h3_server_push_enable :: bool
  http_enable_early_hints :: bool
  websocket_default_max_payload_size :: zend_long
  websocket_default_ping_interval_ms :: zend_long
  websocket_handshake_timeout_ms :: zend_long
  webtransport_enable :: bool
  webtransport_max_concurrent_sessions :: zend_long
  webtransport_max_streams_per_session :: zend_long

text \<open>The global before anything ran: zeroed static storage.\<close>

definition quicpro_app_protocols_config :: qp_app_protocols_config_t where
  "quicpro_app_protocols_config =
     \<lparr>http_advertise_h3_alt_svc = False, http_auto_compress = NullPtr,
      h3_max_header_list_size = 0, h3_qpack_max_table_capacity = 0, h3_qpack_blocked_streams = 0,
      h3_server_push_enable = False, http_enable_early_hints = False,
      websocket_default_max_payload_size = 0, websocket_default_ping_interval_ms = 0,
      websocket_handshake_timeout_ms = 0, webtransport_enable = False,
      webtransport_max_concurrent_sessions = 0, webtransport_max_streams_per_session = 0\<rparr>"

definition qp_config_app_http3_websockets_webtransport_defaults_load :: "qp_app_protocols_config_t \<Rightarrow> qp_app_protocols_config_t" where
  "qp_config_app_http3_websockets_webtransport_defaults_load c =
     c\<lparr>http_advertise_h3_alt_svc := True, http_auto_compress := pestrdup ''brotli,gzip'',
       h3_max_header_list_size := 65536, h3_qpack_max_table_capacity := 4096,
       h3_qpack_blocked_streams := 100, h3_server_push_enable := False,
       http_enable_early_hints := True, websocket_default_max_payload_size := 16777216,
       websocket_default_ping_interval_ms := 25000, websocket_handshake_timeout_ms := 5000,
       webtransport_enable := True, webtransport_max_concurrent_sessions := 10000,
       webtransport_max_streams_per_session := 256\<rparr>"

section \<open>Userland configuration\<close>

definition app_protocols_apply_key ::
  "zend_api \<Rightarrow> string \<Rightarrow> zval \<Rightarrow> qp_app_protocols_config_t \<Rightarrow> qp_app_protocols_config_t cfg_result" where
  "app_protocols_apply_key Z key value c =
     (if key = ''http_advertise_h3_alt_svc''
      then obind (qp_validate_bool value) (\<lambda>_. Ok (c\<lparr>http_advertise_h3_alt_svc := zend_is_true Z value\<rparr>))
      else if key = ''http_auto_compress''
      then obind (qp_validate_comma_separated_string_from_allowlist Z value [''brotli'', ''gzip'', ''none''] (http_auto_compress c)) (\<lambda>v. Ok (c\<lparr>http_auto_compress := v\<rparr>))
      else if key = ''h3_max_header_list_size''
      then obind (qp_validate_positive_long value) (\<lambda>v. Ok (c\<lparr>h3_max_header_list_size := v\<rparr>))
      else if key = ''h3_qpack_max_table_capacity''
      then obind (qp_validate_positive_long value) (\<lambda>v. Ok (c\<lparr>h3_qpack_max_table_capacity := v\<rparr>))
      else if key = ''h3_qpack_blocked_streams''
      then obind (qp_validate_positive_long value) (\<lambda>v. Ok (c\<lparr>h3_qpack_blocked_streams := v\<rparr>))
      else if key = ''h3_server_push_enable''
      then obind (qp_validate_bool value) (\<lambda>_. Ok (c\<lparr>h3_server_push_enable := zend_is_true Z value\<rparr>))
      else if key = ''http_enable_early_hints''
      then obind (qp_validate_bool value) (\<lambda>_. Ok (c\<lparr>http_enable_early_hints := zend_is_true Z value\<rparr>))
      else if key = ''websocket_default_max_payload_size''
      then obind (qp_validate_positive_long value) (\<lambda>v. Ok (c\<lparr>websocket_default_max_payload_size := v\<rparr>))
      else if key = ''websocket_default_ping_interval_ms''
      then obind (qp_validate_positive_long value) (\<lambda>v. Ok (c\<lparr>websocket_default_ping_interval_ms := v\<rparr>))
      else if key = ''websocket_handshake_timeout_ms''
      then obind (qp_validate_positive_long value) (\<lambda>v. Ok (c\<lparr>websocket_handshake_timeout_ms := v\<rparr>))
      else if key = ''webtransport_enable''
      then obind (qp_validate_bool value) (\<lambda>_. Ok (c\<lparr>webtransport_enable := zend_is_true Z value\<rparr>))
      else if key = ''webtransport_max_concurrent_sessions''
      then obind (qp_validate_positive_long value) (\<lambda>v. Ok (c\<lparr>webtransport_max_concurrent_sessions := v\<rparr>))
      else if key = ''webtransport_max_streams_per_session''
      then obind (qp_validate_positive_long value) (\<lambda>v. Ok (c\<lparr>webtransport_max_streams_per_session := v\<rparr>))
      else Ok c)"

definition qp_config_app_http3_websockets_webtransport_apply_userland_config ::
  "zend_api \<Rightarrow> bool \<Rightarrow> zval \<Rightarrow> qp_app_protocols_config_t \<Rightarrow> qp_app_protocols_config_t \<times> unit cfg_result" where
  "qp_config_app_http3_websockets_webtransport_apply_userland_config Z is_userland_override_allowed config_arr c =
     apply_userland (app_protocols_apply_key Z) is_userland_override_allowed config_arr c"

section \<open>INI directives\<close>

definition OnUpdateAppProtocolPositiveLong ::
  "zend_api \<Rightarrow> string \<Rightarrow> string \<Rightarrow> qp_app_protocols_config_t \<Rightarrow> qp_app_protocols_config_t cfg_result" where
  "OnUpdateAppProtocolPositiveLong Z name new_value c =
     (let val = zend_atol Z new_value in
      if val \<le>s 0 then Fail Value_Rejected
      else if name = ''quicpro.h3_max_header_list_size'' then Ok (c\<lparr>h3_max_header_list_size := val\<rparr>)
      else if name = ''quicpro.h3_qpack_max_table_capacity'' then Ok (c\<lparr>h3_qpack_max_table_capacity := val\<rparr>)
      else if name = ''quicpro.h3_qpack_blocked_streams'' then Ok (c\<lparr>h3_qpack_blocked_streams := val\<rparr>)
      else if name = ''quicpro.websocket_default_max_payload_size'' then Ok (c\<lparr>websocket_default_max_payload_size := val\<rparr>)
      else if name = ''quicpro.websocket_default_ping_interval_ms'' then Ok (c\<lparr>websocket_default_ping_interval_ms := val\<rparr>)
      else if name = ''quicpro.websocket_handshake_timeout_ms'' then Ok (c\<lparr>websocket_handshake_timeout_ms := val\<rparr>)
      else if name = ''quicpro.webtransport_max_concurrent_sessions'' then Ok (c\<lparr>webtransport_max_concurrent_sessions := val\<rparr>)
      else if name = ''quicpro.webtransport_max_streams_per_session'' then Ok (c\<lparr>webtransport_max_streams_per_session := val\<rparr>)
      else Ok c)"

definition OnUpdateCompressionString ::
  "string \<Rightarrow> (cptr \<Rightarrow> qp_app_protocols_config_t) \<Rightarrow> qp_app_protocols_config_t cfg_result" where
  "OnUpdateCompressionString new_value mh_arg1 =
     Ok (mh_arg1 (engine_string new_value))"

definition app_protocols_ini_entry :: "zend_api \<Rightarrow> string \<Rightarrow> string \<Rightarrow> qp_app_protocols_config_t \<Rightarrow> qp_app_protocols_config_t cfg_result" where
  "app_protocols_ini_entry Z name new_value c =
     (if name = ''quicpro.http_advertise_h3_alt_svc''
      then Ok (c\<lparr>http_advertise_h3_alt_svc := zend_ini_parse_bool Z new_value\<rparr>)
      else if name = ''quicpro.http_auto_compress''
      then OnUpdateCompressionString new_value (\<lambda>v. c\<lparr>http_auto_compress := v\<rparr>)
      else if name = ''quicpro.h3_max_header_list_size''
      then OnUpdateAppProtocolPositiveLong Z name new_value c
      else if name = ''quicpro.h3_qpack_max_table_capacity''
      then OnUpdateAppProtocolPositiveLong Z name new_value c
      else if name = ''quicpro.h3_qpack_blocked_streams''
      then OnUpdateAppProtocolPositiveLong Z name new_value c
      else if name = ''quicpro.h3_server_push_enable''
      then Ok (c\<lparr>h3_server_push_enable := zend_ini_parse_bool Z new_value\<rparr>)
      else if name = ''quicpro.http_enable_early_hints''
      then Ok (c\<lparr>http_enable_early_hints := zend_ini_parse_bool Z new_value\<rparr>)
      else if name = ''quicpro.websocket_default_max_payload_size''
      then OnUpdateAppProtocolPositiveLong Z name new_value c
      else if name = ''quicpro.websocket_default_ping_interval_ms''
      then OnUpdateAppProtocolPositiveLong Z name new_value c
      else if name = ''quicpro.websocket_handshake_timeout_ms''
      then OnUpdateAppProtocolPositiveLong Z name new_value c
      else if name = ''quicpro.webtransport_enable''
      then Ok (c\<lparr>webtransport_enable := zend_ini_parse_bool Z new_value\<rparr>)
      else if name = ''quicpro.webtransport_max_concurrent_sessions''
      then OnUpdateAppProtocolPositiveLong Z name new_value c
      else if name = ''quicpro.webtransport_max_streams_per_session''
      then OnUpdateAppProtocolPositiveLong Z name new_value c
      else Ok c)"

text \<open>The directives with their default texts, in the order of the table.\<close>

definition app_protocols_ini_defaults :: "(string \<times> string) list" where
  "app_protocols_ini_defaults =
     [(''quicpro.http_advertise_h3_alt_svc'', ''1''),
      (''quicpro.http_auto_compress'', ''brotli,gzip''),
      (''quicpro.h3_max_header_list_size'', ''65536''),
      (''quicpro.h3_qpack_max_table_capacity'', ''4096''),
      (''quicpro.h3_qpack_blocked_streams'', ''100''),
      (''quicpro.h3_server_push_enable'', ''0''),
      (''quicpro.http_enable_early_hints'', ''1''),
      (''quicpro.websocket_default_max_payload_size'', ''16777216''),
      (''quicpro.websocket_default_ping_interval_ms'', ''25000''),
      (''quicpro.websocket_handshake_timeout_ms'', ''5000''),
      (''quicpro.webtransport_enable'', ''1''),
      (''quicpro.webtransport_max_concurrent_sessions'', ''10000''),
      (''quicpro.webtransport_max_streams_per_session'', ''256'')]"

text \<open>Loading the defaults, then registering the directives: \<^verbatim>\<open>calls\<close> are the handler calls the
  engine makes meanwhile.\<close>

definition qp_config_app_http3_websockets_webtransport_init ::
  "zend_api \<Rightarrow> (string \<times> string) list \<Rightarrow> qp_app_protocols_config_t \<Rightarrow> qp_app_protocols_config_t cfg_result" where
  "qp_config_app_http3_websockets_webtransport_init Z calls c = ini_run (app_protocols_ini_entry Z) calls (qp_config_app_http3_websockets_webtransport_defaults_load c)"

section \<open>Invariant\<close>

definition app_protocols_inv :: "qp_app_protocols_config_t \<Rightarrow> bool" where
  "app_protocols_inv c \<longleftrightarrow>
     ptr_set (http_auto_compress c) \<and>
     0 <s h3_max_header_list_size c \<and>
     0 <s h3_qpack_max_table_capacity c \<and>
     0 <s h3_qpack_blocked_streams c \<and>
     0 <s websocket_default_max_payload_size c \<and>
     0 <s websocket_default_ping_interval_ms c \<and>
     0 <s websocket_handshake_timeout_ms c \<and>
     0 <s webtransport_max_concurrent_sessions c \<and>
     0 <s webtransport_max_streams_per_session c"

lemma app_protocols_defaults_inv: "app_protocols_inv (qp_config_app_http3_websockets_webtransport_defaults_load c)"
  by (simp add: app_protocols_inv_def qp_config_app_http3_websockets_webtransport_defaults_load_def config_eval)

lemma app_protocols_key_inv: "app_protocols_inv c \<Longrightarrow> keeps app_protocols_inv (app_protocols_apply_key Z key value c)"
  unfolding app_protocols_apply_key_def
  by (rule keeps_rules | simp add: app_protocols_inv_def accepts)+

lemma app_protocols_ini_inv: "app_protocols_inv c \<Longrightarrow> keeps app_protocols_inv (app_protocols_ini_entry Z name new_value c)"
  unfolding app_protocols_ini_entry_def OnUpdateAppProtocolPositiveLong_def OnUpdateCompressionString_def Let_def
  by (rule keeps_rules | simp add: app_protocols_inv_def sless_simps f64_within_def)+

interpretation app_protocols: config_module qp_config_app_http3_websockets_webtransport_defaults_load "app_protocols_ini_entry Z" "app_protocols_apply_key Z" app_protocols_inv
  for Z
  by unfold_locales (simp_all add: app_protocols_defaults_inv app_protocols_key_inv app_protocols_ini_inv)

end
