(* ===== verification/Config_Mcp_And_Orchestrator.thy ===== *)
theory Config_Mcp_And_Orchestrator
  imports Config_Base
begin

text \<open>
  MCP requests and the pipeline orchestrator: the module \<^verbatim>\<open>src/extension/src/config/mcp_and_orchestrator\<close>.
\<close>

section \<open>State\<close>

record qp_mcp_orchestrator_config_t =
  mcp_default_request_timeout_ms :: zend_long
  mcp_max_message_size_bytes :: zend_long
  mcp_default_retry_policy_enable :: bool
  mcp_default_retry_max_attempts :: zend_long
  mcp_default_retry_backoff_ms_initial :: zend_long
  mcp_enable_request_caching :: bool
  mcp_request_cache_ttl_sec :: zend_long
  orchestrator_default_pipeline_timeout_ms :: zend_long
  orchestrator_max_recursion_depth :: zend_long
  orchestrator_loop_concurrency_default :: zend_long
  orchestrator_enable_distributed_tracing :: bool

text \<open>The global before anything ran: zeroed static storage.\<close>

definition quicpro_mcp_orchestrator_config :: qp_mcp_orchestrator_config_t where
  "quicpro_mcp_orchestrator_config =
     \<lparr>mcp_default_request_timeout_ms = 0, mcp_max_message_size_bytes = 0,
      mcp_default_retry_policy_enable = False, mcp_default_retry_max_attempts = 0,
      mcp_default_retry_backoff_ms_initial = 0, mcp_enable_request_caching = False,
      mcp_request_cache_ttl_sec = 0, orchestrator_default_pipeline_timeout_ms = 0,
      orchestrator_max_recursion_depth = 0, orchestrator_loop_concurrency_default = 0,
      orchestrator_enable_distributed_tracing = False\<rparr>"

definition qp_config_mcp_and_orchestrator_defaults_load :: "qp_mcp_orchestrator_config_t \<Rightarrow> qp_mcp_orchestrator_config_t" where
  "qp_config_mcp_and_orchestrator_defaults_load c =
     c\<lparr>mcp_default_request_timeout_ms := 30000, mcp_max_message_size_bytes := 4194304,
       mcp_default_retry_policy_enable := True, mcp_default_retry_max_attempts := 3,
       mcp_default_retry_backoff_ms_initial := 100, mcp_enable_request_caching := False,
       mcp_request_cache_ttl_sec := 60, orchestrator_default_pipeline_timeout_ms := 120000,
       orchestrator_max_recursion_depth := 10, orchestrator_loop_concurrency_default := 50,
       orchestrator_enable_distributed_tracing := True\<rparr>"

section \<open>Userland configuration\<close>

definition mcp_orchestrator_apply_key ::
  "zend_api \<Rightarrow> string \<Rightarrow> zval \<Rightarrow> qp_mcp_orchestrator_config_t \<Rightarrow> qp_mcp_orchestrator_config_t cfg_result" where
  "mcp_orchestrator_apply_key Z key value c =
     (if key = ''mcp_default_request_timeout_ms''
      then obind (qp_validate_positive_long value) (\<lambda>v. Ok (c\<lparr>mcp_default_request_timeout_ms := v\<rparr>))
      else if key = ''mcp_max_message_size_bytes''
      then obind (qp_validate_positive_long value) (\<lambda>v. Ok (c\<lparr>mcp_max_message_size_bytes := v\<rparr>))
      else if key = ''mcp_default_retry_policy_enable''
      then obind (qp_validate_bool value) (\<lambda>_. Ok (c\<lparr>mcp_default_retry_policy_enable := zend_is_true Z value\<rparr>))
      else if key = ''mcp_default_retry_max_attempts''
      then obind (qp_validate_positive_long value) (\<lambda>v. Ok (c\<lparr>mcp_default_retry_max_attempts := v\<rparr>))
      else if key = ''mcp_default_retry_backoff_ms_initial''
      then obind (qp_validate_positive_long value) (\<lambda>v. Ok (c\<lparr>mcp_default_retry_backoff_ms_initial := v\<rparr>))
      else if key = ''mcp_enable_request_caching''
      then obind (qp_validate_bool value) (\<lambda>_. Ok (c\<lparr>mcp_enable_request_caching := zend_is_true Z value\<rparr>))
      else if key = ''mcp_request_cache_ttl_sec''
      then obind (qp_validate_positive_long value) (\<lambda>v. Ok (c\<lparr>mcp_request_cache_ttl_sec := v\<rparr>))
      else if key = ''orchestrator_default_pipeline_timeout_ms''
      then obind (qp_validate_positive_long value) (\<lambda>v. Ok (c\<lparr>orchestrator_default_pipeline_timeout_ms := v\<rparr>))
      else if key = ''orchestrator_max_recursion_depth''
      then obind (qp_validate_positive_long value) (\<lambda>v. Ok (c\<lparr>orchestrator_max_recursion_depth := v\<rparr>))
      else if key = ''orchestrator_loop_concurrency_default''
      then obind (qp_validate_positive_long value) (\<lambda>v. Ok (c\<lparr>orchestrator_loop_concurrency_default := v\<rparr>))
      else if key = ''orchestrator_enable_distributed_tracing''
      then obind (qp_validate_bool value) (\<lambda>_. Ok (c\<lparr>orchestrator_enable_distributed_tracing := zend_is_true Z value\<rparr>))
      else Ok c)"

definition qp_config_mcp_and_orchestrator_apply_userland_config ::
  "zend_api \<Rightarrow> bool \<Rightarrow> zval \<Rightarrow> qp_mcp_orchestrator_config_t \<Rightarrow> qp_mcp_orchestrator_config_t \<times> unit cfg_result" where
  "qp_config_mcp_and_orchestrator_apply_userland_config Z is_userland_override_allowed config_arr c =
     apply_userland (mcp_orchestrator_apply_key Z) is_userland_override_allowed config_arr c"

section \<open>INI directives\<close>

definition OnUpdateMcpPositiveLong ::
  "zend_api \<Rightarrow> string \<Rightarrow> string \<Rightarrow> qp_mcp_orchestrator_config_t \<Rightarrow> qp_mcp_orchestrator_config_t cfg_result" where
  "OnUpdateMcpPositiveLong Z name new_value c =
     (let val = zend_atol Z new_value in
      if val \<le>s 0 then Fail Value_Rejected
      else if name = ''quicpro.mcp_default_request_timeout_ms'' then Ok (c\<lparr>mcp_default_request_timeout_ms := val\<rparr>)
      else if name = ''quicpro.mcp_max_message_size_bytes'' then Ok (c\<lparr>mcp_max_message_size_bytes := val\<rparr>)
      else if name = ''quicpro.mcp_default_retry_max_attempts'' then Ok (c\<lparr>mcp_default_retry_max_attempts := val\<rparr>)
      else if name = ''quicpro.mcp_default_retry_backoff_ms_initial'' then Ok (c\<lparr>mcp_default_retry_backoff_ms_initial := val\<rparr>)
      else if name = ''quicpro.mcp_request_cache_ttl_sec'' then Ok (c\<lparr>mcp_request_cache_ttl_sec := val\<rparr>)
      else if name = ''quicpro.orchestrator_default_pipeline_timeout_ms'' then Ok (c\<lparr>orchestrator_default_pipeline_timeout_ms := val\<rparr>)
      else if name = ''quicpro.orchestrator_max_recursion_depth'' then Ok (c\<lparr>orchestrator_max_recursion_depth := val\<rparr>)
      else if name = ''quicpro.orchestrator_loop_concurrency_default'' then Ok (c\<lparr>orchestrator_loop_concurrency_default := val\<rparr>)
      else Ok c)"

definition mcp_orchestrator_ini_entry :: "zend_api \<Rightarrow> string \<Rightarrow> string \<Rightarrow> qp_mcp_orchestrator_config_t \<Rightarrow> qp_mcp_orchestrator_config_t cfg_result" where
  "mcp_orchestrator_ini_entry Z name new_value c =
     (if name = ''quicpro.mcp_default_request_timeout_ms''
      then OnUpdateMcpPositiveLong Z name new_value c
      else if name = ''quicpro.mcp_max_message_size_bytes''
      then OnUpdateMcpPositiveLong Z name new_value c
      else if name = ''quicpro.mcp_default_retry_policy_enable''
      then Ok (c\<lparr>mcp_default_retry_policy_enable := zend_ini_parse_bool Z new_value\<rparr>)
      else if name = ''quicpro.mcp_default_retry_max_attempts''
      then OnUpdateMcpPositiveLong Z name new_value c
      else if name = ''quicpro.mcp_default_retry_backoff_ms_initial''
      then OnUpdateMcpPositiveLong Z name new_value c
      else if name = ''quicpro.mcp_enable_request_caching''
      then Ok (c\<lparr>mcp_enable_request_caching := zend_ini_parse_bool Z new_value\<rparr>)
      else if name = ''quicpro.mcp_request_cache_ttl_sec''
      then OnUpdateMcpPositiveLong Z name new_value c
      else if name = ''quicpro.orchestrator_default_pipeline_timeout_ms''
      then OnUpdateMcpPositiveLong Z name new_value c
      else if name = ''quicpro.orchestrator_max_recursion_depth''
      then OnUpdateMcpPositiveLong Z name new_value c
      else if name = ''quicpro.orchestrator_loop_concurrency_default''
      then OnUpdateMcpPositiveLong Z name new_value c
      else if name = ''quicpro.orchestrator_enable_distributed_tracing''
      then Ok (c\<lparr>orchestrator_enable_distributed_tracing := zend_ini_parse_bool Z new_value\<rparr>)
      else Ok c)"

text \<open>The directives with their default texts, in the order of the table.\<close>

definition mcp_orchestrator_ini_defaults :: "(string \<times> string) list" where
  "mcp_orchestrator_ini_defaults =
     [(''quicpro.mcp_default_request_timeout_ms'', ''30000''),
      (''quicpro.mcp_max_message_size_bytes'', ''4194304''),
      (''quicpro.mcp_default_retry_policy_enable'', ''1''),
      (''quicpro.mcp_default_retry_max_attempts'', ''3''),
      (''quicpro.mcp_default_retry_backoff_ms_initial'', ''100''),
      (''quicpro.mcp_enable_request_caching'', ''0''),
      (''quicpro.mcp_request_cache_ttl_sec'', ''60''),
      (''quicpro.orchestrator_default_pipeline_timeout_ms'', ''120000''),
      (''quicpro.orchestrator_max_recursion_depth'', ''10''),
      (''quicpro.orchestrator_loop_concurrency_default'', ''50''),
      (''quicpro.orchestrator_enable_distributed_tracing'', ''1'')]"

text \<open>Loading the defaults, then registering the directives: \<^verbatim>\<open>calls\<close> are the handler calls the
  engine makes meanwhile.\<close>

definition qp_config_mcp_and_orchestrator_init ::
  "zend_api \<Rightarrow> (string \<times> string) list \<Rightarrow> qp_mcp_orchestrator_config_t \<Rightarrow> qp_mcp_orchestrator_config_t cfg_result" where
  "qp_config_mcp_and_orchestrator_init Z calls c = ini_run (mcp_orchestrator_ini_entry Z) calls (qp_config_mcp_and_orchestrator_defaults_load c)"

section \<open>Invariant\<close>

definition mcp_orchestrator_inv :: "qp_mcp_orchestrator_config_t \<Rightarrow> bool" where
  "mcp_orchestrator_inv c \<longleftrightarrow>
     0 <s mcp_default_request_timeout_ms c \<and>
     0 <s mcp_max_message_size_bytes c \<and>
     0 <s mcp_default_retry_max_attempts c \<and>
     0 <s mcp_default_retry_backoff_ms_initial c \<and>
     0 <s mcp_request_cache_ttl_sec c \<and>
     0 <s orchestrator_default_pipeline_timeout_ms c \<and>
     0 <s orchestrator_max_recursion_depth c \<and>
     0 <s orchestrator_loop_concurrency_default c"

lemma mcp_orchestrator_defaults_inv: "mcp_orchestrator_inv (qp_config_mcp_and_orchestrator_defaults_load c)"
  by (simp add: mcp_orchestrator_inv_def qp_config_mcp_and_orchestrator_defaults_load_def config_eval)

lemma mcp_orchestrator_key_inv: "mcp_orchestrator_inv c \<Longrightarrow> keeps mcp_orchestrator_inv (mcp_orchestrator_apply_key Z key value c)"
  unfolding mcp_orchestrator_apply_key_def
  by (rule keeps_rules | simp add: mcp_orchestrator_inv_def accepts)+

lemma mcp_orchestrator_ini_inv: "mcp_orchestrator_inv c \<Longrightarrow> keeps mcp_orchestrator_inv (mcp_orchestrator_ini_entry Z name new_value c)"
  unfolding mcp_orchestrator_ini_entry_def OnUpdateMcpPositiveLong_def Let_def
  by (rule keeps_rules | simp add: mcp_orchestrator_inv_def sless_simps f64_within_def)+

interpretation mcp_orchestrator: config_module qp_config_mcp_and_orchestrator_defaults_load "mcp_orchestrator_ini_entry Z" "mcp_orchestrator_apply_key Z" mcp_orchestrator_inv
  for Z
  by unfold_locales (simp_all add: mcp_orchestrator_defaults_inv mcp_orchestrator_key_inv mcp_orchestrator_ini_inv)

end
