(* ===== verification/Config_Iibin.thy ===== *)
theory Config_Iibin
  imports Config_Base
begin

text \<open>
  Limits of the IIBIN codec: the module \<^verbatim>\<open>src/extension/src/config/iibin\<close>.
\<close>

section \<open>State\<close>

record qp_iibin_config_t =
  max_schema_fields :: zend_long
  max_recursion_depth :: zend_long
  string_interning_enable :: bool
  use_shared_memory_buffers :: bool
  default_buffer_size_kb :: zend_long
  shm_total_memory_mb :: zend_long
  shm_path :: cptr

text \<open>The global before anything ran: zeroed static storage.\<close>

definition quicpro_iibin_config :: qp_iibin_config_t where
  "quicpro_iibin_config =
     \<lparr>max_schema_fields = 0, max_recursion_depth = 0, string_interning_enable = False,
      use_shared_memory_buffers = False, default_buffer_size_kb = 0, shm_total_memory_mb = 0,
      shm_path = NullPtr\<rparr>"

definition qp_config_iibin_defaults_load :: "qp_iibin_config_t \<Rightarrow> qp_iibin_config_t" where
  "qp_config_iibin_defaults_load c =
     c\<lparr>max_schema_fields := 256, max_recursion_depth := 32, string_interning_enable := True,
       use_shared_memory_buffers := False, default_buffer_size_kb := 64,
       shm_total_memory_mb := 256, shm_path := pestrdup ''/quicpro_io_shm''\<rparr>"

section \<open>Userland configuration\<close>

definition iibin_apply_key ::
  "zend_api \<Rightarrow> string \<Rightarrow> zval \<Rightarrow> qp_iibin_config_t \<Rightarrow> qp_iibin_config_t cfg_result" where
  "iibin_apply_key Z key value c =
     (if key = ''max_schema_fields''
      then obind (qp_validate_positive_long value) (\<lambda>v. Ok (c\<lparr>max_schema_fields := v\<rparr>))
      else if key = ''max_recursion_depth''
      then obind (qp_validate_positive_long value) (\<lambda>v. Ok (c\<lparr>max_recursion_depth := v\<rparr>))
      else if key = ''string_interning_enable''
      then obind (qp_validate_bool value) (\<lambda>_. Ok (c\<lparr>string_interning_enable := zend_is_true Z value\<rparr>))
      else if key = ''use_shared_memory_buffers''
      then obind (qp_validate_bool value) (\<lambda>_. Ok (c\<lparr>use_shared_memory_buffers := zend_is_true Z value\<rparr>))
      else if key = ''default_buffer_size_kb''
      then obind (qp_validate_positive_long value) (\<lambda>v. Ok (c\<lparr>default_buffer_size_kb := v\<rparr>))
      else if key = ''shm_total_memory_mb''
      then obind (qp_validate_positive_long value) (\<lambda>v. Ok (c\<lparr>shm_total_memory_mb := v\<rparr>))
      else if key = ''shm_path''
      then obind (qp_validate_generic_string value (shm_path c)) (\<lambda>v. Ok (c\<lparr>shm_path := v\<rparr>))
      else Ok c)"

definition qp_config_iibin_apply_userland_config ::
  "zend_api \<Rightarrow> bool \<Rightarrow> zval \<Rightarrow> qp_iibin_config_t \<Rightarrow> qp_iibin_config_t \<times> unit cfg_result" where
  "qp_config_iibin_apply_userland_config Z is_userland_override_allowed config_arr c =
     apply_userland (iibin_apply_key Z) is_userland_override_allowed config_arr c"

section \<open>INI directives\<close>

definition OnUpdateIibinPositiveLong ::
  "zend_api \<Rightarrow> string \<Rightarrow> string \<Rightarrow> qp_iibin_config_t \<Rightarrow> qp_iibin_config_t cfg_result" where
  "OnUpdateIibinPositiveLong Z name new_value c =
     (let val = zend_atol Z new_value in
      if val \<le>s 0 then Fail Value_Rejected
      else if name = ''quicpro.iibin_max_schema_fields'' then Ok (c\<lparr>max_schema_fields := val\<rparr>)
      else if name = ''quicpro.iibin_max_recursion_depth'' then Ok (c\<lparr>max_recursion_depth := val\<rparr>)
      else if name = ''quicpro.io_default_buffer_size_kb'' then Ok (c\<lparr>default_buffer_size_kb := val\<rparr>)
      else if name = ''quicpro.io_shm_total_memory_mb'' then Ok (c\<lparr>shm_total_memory_mb := val\<rparr>)
      else Ok c)"

definition iibin_ini_entry :: "zend_api \<Rightarrow> string \<Rightarrow> string \<Rightarrow> qp_iibin_config_t \<Rightarrow> qp_iibin_config_t cfg_result" where
  "iibin_ini_entry Z name new_value c =
     (if name = ''quicpro.iibin_max_schema_fields''
      then OnUpdateIibinPositiveLong Z name new_value c
      else if name = ''quicpro.iibin_max_recursion_depth''
      then OnUpdateIibinPositiveLong Z name new_value c
      else if name = ''quicpro.iibin_string_interning_enable''
      then Ok (c\<lparr>string_interning_enable := zend_ini_parse_bool Z new_value\<rparr>)
      else if name = ''quicpro.io_use_shared_memory_buffers''
      then Ok (c\<lparr>use_shared_memory_buffers := zend_ini_parse_bool Z new_value\<rparr>)
      else if name = ''quicpro.io_default_buffer_size_kb''
      then OnUpdateIibinPositiveLong Z name new_value c
      else if name = ''quicpro.io_shm_total_memory_mb''
      then OnUpdateIibinPositiveLong Z name new_value c
      else if name = ''quicpro.io_shm_path''
      then Ok (c\<lparr>shm_path := engine_string new_value\<rparr>)
      else Ok c)"

text \<open>The directives with their default texts, in the order of the table.\<close>

definition iibin_ini_defaults :: "(string \<times> string) list" where
  "iibin_ini_defaults =
     [(''quicpro.iibin_max_schema_fields'', ''256''),
      (''quicpro.iibin_max_recursion_depth'', ''32''),
      (''quicpro.iibin_string_interning_enable'', ''1''),
      (''quicpro.io_use_shared_memory_buffers'', ''0''),
      (''quicpro.io_default_buffer_size_kb'', ''64''),
      (''quicpro.io_shm_total_memory_mb'', ''256''),
      (''quicpro.io_shm_path'', ''/quicpro_io_shm'')]"

text \<open>Loading the defaults, then registering the directives: \<^verbatim>\<open>calls\<close> are the handler calls the
  engine makes meanwhile.\<close>

definition qp_config_iibin_init ::
  "zend_api \<Rightarrow> (string \<times> string) list \<Rightarrow> qp_iibin_config_t \<Rightarrow> qp_iibin_config_t cfg_result" where
  "qp_config_iibin_init Z calls c = ini_run (iibin_ini_entry Z) calls (qp_config_iibin_defaults_load c)"

section \<open>Invariant\<close>

definition iibin_inv :: "qp_iibin_config_t \<Rightarrow> bool" where
  "iibin_inv c \<longleftrightarrow>
     0 <s max_schema_fields c \<and>
     0 <s max_recursion_depth c \<and>
     0 <s default_buffer_size_kb c \<and>
     0 <s shm_total_memory_mb c \<and>
     ptr_set (shm_path c)"

lemma iibin_defaults_inv: "iibin_inv (qp_config_iibin_defaults_load c)"
  by (simp add: iibin_inv_def qp_config_iibin_defaults_load_def config_eval)

lemma iibin_key_inv: "iibin_inv c \<Longrightarrow> keeps iibin_inv (iibin_apply_key Z key value c)"
  unfolding iibin_apply_key_def
  by (rule keeps_rules | simp add: iibin_inv_def accepts)+

lemma iibin_ini_inv: "iibin_inv c \<Longrightarrow> keeps iibin_inv (iibin_ini_entry Z name new_value c)"
  unfolding iibin_ini_entry_def OnUpdateIibinPositiveLong_def Let_def
  by (rule keeps_rules | simp add: iibin_inv_def sless_simps f64_within_def)+

interpretation iibin: config_module qp_config_iibin_defaults_load "iibin_ini_entry Z" "iibin_apply_key Z" iibin_inv
  for Z
  by unfold_locales (simp_all add: iibin_defaults_inv iibin_key_inv iibin_ini_inv)

end
