(* ===== verification/Config_State_Management.thy ===== *)
theory Config_State_Management
  imports Config_Base
begin

text \<open>
  The state store: the module \<^verbatim>\<open>src/extension/src/config/state_management\<close>.
\<close>

section \<open>State\<close>

record qp_state_management_config_t =
  default_backend :: cptr
  default_uri :: cptr

text \<open>The global before anything ran: zeroed static storage.\<close>

definition quicpro_state_mgmt_config :: qp_state_management_config_t where
  "quicpro_state_mgmt_config =
     \<lparr>default_backend = NullPtr, default_uri = NullPtr\<rparr>"

definition qp_config_state_management_defaults_load :: "qp_state_management_config_t \<Rightarrow> qp_state_management_config_t" where
  "qp_config_state_management_defaults_load c =
     c\<lparr>default_backend := pestrdup ''memory'', default_uri := pestrdup ''''\<rparr>"

section \<open>Userland configuration\<close>

definition state_mgmt_apply_key ::
  "zend_api \<Rightarrow> string \<Rightarrow> zval \<Rightarrow> qp_state_management_config_t \<Rightarrow> qp_state_management_config_t cfg_result" where
  "state_mgmt_apply_key Z key value c =
     (if key = ''state_manager_default_backend''
      then obind (qp_validate_string_from_allowlist value [''memory'', ''sqlite'', ''redis'', ''postgres''] (default_backend c)) (\<lambda>v. Ok (c\<lparr>default_backend := v\<rparr>))
      else if key = ''state_manager_default_uri''
      then obind (qp_validate_string value (default_uri c)) (\<lambda>v. Ok (c\<lparr>default_uri := v\<rparr>))
      else Ok c)"

definition qp_config_state_management_apply_userland_config ::
  "zend_api \<Rightarrow> bool \<Rightarrow> zval \<Rightarrow> qp_state_management_config_t \<Rightarrow> qp_state_management_config_t \<times> unit cfg_result" where
  "qp_config_state_management_apply_userland_config Z is_userland_override_allowed config_arr c =
     apply_userland (state_mgmt_apply_key Z) is_userland_override_allowed config_arr c"

section \<open>INI directives\<close>

definition OnUpdateStateMgmtBackend ::
  "string \<Rightarrow> qp_state_management_config_t \<Rightarrow> qp_state_management_config_t cfg_result" where
  "OnUpdateStateMgmtBackend new_value c =
     (if new_value \<in> set [''memory'', ''sqlite'', ''redis'', ''postgres'']
      then Ok (c\<lparr>default_backend := estrdup new_value\<rparr>) else Fail Value_Rejected)"

definition OnUpdateStateMgmtString ::
  "string \<Rightarrow> (cptr \<Rightarrow> qp_state_management_config_t) \<Rightarrow> qp_state_management_config_t cfg_result" where
  "OnUpdateStateMgmtString new_value mh_arg1 =
     Ok (mh_arg1 (engine_string new_value))"

definition state_mgmt_ini_entry :: "zend_api \<Rightarrow> string \<Rightarrow> string \<Rightarrow> qp_state_management_config_t \<Rightarrow> qp_state_management_config_t cfg_result" where
  "state_mgmt_ini_entry Z name new_value c =
     (if name = ''quicpro.state_manager_default_backend''
      then OnUpdateStateMgmtBackend new_value c
      else if name = ''quicpro.state_manager_default_uri''
      then OnUpdateStateMgmtString new_value (\<lambda>v. c\<lparr>default_uri := v\<rparr>)
      else Ok c)"

text \<open>The directives with their default texts, in the order of the table.\<close>

definition state_mgmt_ini_defaults :: "(string \<times> string) list" where
  "state_mgmt_ini_defaults =
     [(''quicpro.state_manager_default_backend'', ''memory''),
      (''quicpro.state_manager_default_uri'', '''')]"

text \<open>Loading the defaults, then registering the directives: \<^verbatim>\<open>calls\<close> are the handler calls the
  engine makes meanwhile.\<close>

definition qp_config_state_management_init ::
  "zend_api \<Rightarrow> (string \<times> string) list \<Rightarrow> qp_state_management_config_t \<Rightarrow> qp_state_management_config_t cfg_result" where
  "qp_config_state_management_init Z calls c = ini_run (state_mgmt_ini_entry Z) calls (qp_config_state_management_defaults_load c)"

section \<open>Invariant\<close>

definition state_mgmt_inv :: "qp_state_management_config_t \<Rightarrow> bool" where
  "state_mgmt_inv c \<longleftrightarrow>
     ptr_in [''memory'', ''sqlite'', ''redis'', ''postgres''] (default_backend c) \<and>
     ptr_set (default_uri c)"

lemma state_mgmt_defaults_inv: "state_mgmt_inv (qp_config_state_management_defaults_load c)"
  by (simp add: state_mgmt_inv_def qp_config_state_management_defaults_load_def config_eval)

lemma state_mgmt_key_inv: "state_mgmt_inv c \<Longrightarrow> keeps state_mgmt_inv (state_mgmt_apply_key Z key value c)"
  unfolding state_mgmt_apply_key_def
  by (rule keeps_rules | simp add: state_mgmt_inv_def accepts)+

lemma state_mgmt_ini_inv: "state_mgmt_inv c \<Longrightarrow> keeps state_mgmt_inv (state_mgmt_ini_entry Z name new_value c)"
  unfolding state_mgmt_ini_entry_def OnUpdateStateMgmtBackend_def OnUpdateStateMgmtString_def
  by (rule keeps_rules | fastforce simp: state_mgmt_inv_def sless_simps f64_within_def allowed_ci_def)+

interpretation state_mgmt: config_module qp_config_state_management_defaults_load "state_mgmt_ini_entry Z" "state_mgmt_apply_key Z" state_mgmt_inv
  for Z
  by unfold_locales (simp_all add: state_mgmt_defaults_inv state_mgmt_key_inv state_mgmt_ini_inv)

end
