(* ===== verification/Config_Native_Object_Store.thy ===== *)
theory Config_Native_Object_Store
  imports Config_Base
begin

text \<open>
  The object store: the module \<^verbatim>\<open>src/extension/src/config/native_object_store\<close>.
\<close>

section \<open>State\<close>

record qp_native_object_store_config_t =
  enable :: bool
  s3_api_compat_enable :: bool
  versioning_enable :: bool
  allow_anonymous_access :: bool
  default_redundancy_mode :: cptr
  erasure_coding_shards :: cptr
  default_replication_factor :: zend_long
  default_chunk_size_mb :: zend_long
  metadata_agent_uri :: cptr
  node_discovery_mode :: cptr
  node_static_list :: cptr
  metadata_cache_enable :: bool
  metadata_cache_ttl_sec :: zend_long
  enable_directstorage :: bool

text \<open>The global before anything ran: zeroed static storage.\<close>

definition quicpro_native_object_store_config :: qp_native_object_store_config_t where
  "quicpro_native_object_store_config =
     \<lparr>enable = False, s3_api_compat_enable = False, versioning_enable = False,
      allow_anonymous_access = False, default_redundancy_mode = NullPtr,
      erasure_coding_shards = NullPtr, default_replication_factor = 0, default_chunk_size_mb = 0,
      metadata_agent_uri = NullPtr, node_discovery_mode = NullPtr, node_static_list = NullPtr,
      metadata_cache_enable = False, metadata_cache_ttl_sec = 0, enable_directstorage = False\<rparr>"

definition qp_config_native_object_store_defaults_load :: "qp_native_object_store_config_t \<Rightarrow> qp_native_object_store_config_t" where
  "qp_config_native_object_store_defaults_load c =
     c\<lparr>enable := False, s3_api_compat_enable := False, versioning_enable := True,
       allow_anonymous_access := False, default_redundancy_mode := pestrdup ''erasure_coding'',
       erasure_coding_shards := pestrdup ''8d4p'', default_replication_factor := 3,
       default_chunk_size_mb := 64, metadata_agent_uri := pestrdup ''127.0.0.1:9701'',
       node_discovery_mode := pestrdup ''static'',
       node_static_list := pestrdup ''127.0.0.1:9711,127.0.0.1:9712'',
       metadata_cache_enable := True, metadata_cache_ttl_sec := 60, enable_directstorage := False\<rparr>"

section \<open>Userland configuration\<close>

definition native_object_store_apply_key ::
  "zend_api \<Rightarrow> string \<Rightarrow> zval \<Rightarrow> qp_native_object_store_config_t \<Rightarrow> qp_native_object_store_config_t cfg_result" where
  "native_object_store_apply_key Z key value c =
     (if key = ''enable''
      then obind (qp_validate_bool value) (\<lambda>_. Ok (c\<lparr>enable := zend_is_true Z value\<rparr>))
      else if key = ''s3_api_compat_enable''
      then obind (qp_validate_bool value) (\<lambda>_. Ok (c\<lparr>s3_api_compat_enable := zend_is_true Z value\<rparr>))
      else if key = ''versioning_enable''
      then obind (qp_validate_bool value) (\<lambda>_. Ok (c\<lparr>versioning_enable := zend_is_true Z value\<rparr>))
      else if key = ''allow_anonymous_access''
      then obind (qp_validate_bool value) (\<lambda>_. Ok (c\<lparr>allow_anonymous_access := zend_is_true Z value\<rparr>))
      else if key = ''default_redundancy_mode''
      then obind (qp_validate_string_from_allowlist value [''erasure_coding'', ''replication''] (default_redundancy_mode c)) (\<lambda>v. Ok (c\<lparr>default_redundancy_mode := v\<rparr>))
      else if key = ''erasure_coding_shards''
      then obind (qp_validate_erasure_coding_shards_string value (erasure_coding_shards c)) (\<lambda>v. Ok (c\<lparr>erasure_coding_shards := v\<rparr>))
      else if key = ''default_replication_factor''
      then obind (qp_validate_positive_long value) (\<lambda>v. Ok (c\<lparr>default_replication_factor := v\<rparr>))
      else if key = ''default_chunk_size_mb''
      then obind (qp_validate_positive_long value) (\<lambda>v. Ok (c\<lparr>default_chunk_size_mb := v\<rparr>))
      else if key = ''metadata_agent_uri''
      then obind (qp_validate_generic_string value (metadata_agent_uri c)) (\<lambda>v. Ok (c\<lparr>metadata_agent_uri := v\<rparr>))
      else if key = ''node_discovery_mode''
      then obind (qp_validate_string_from_allowlist value [''static'', ''mcp_heartbeat''] (node_discovery_mode c)) (\<lambda>v. Ok (c\<lparr>node_discovery_mode := v\<rparr>))
      else if key = ''node_static_list''
      then obind (qp_validate_generic_string value (node_static_list c)) (\<lambda>v. Ok (c\<lparr>node_static_list := v\<rparr>))
      else if key = ''metadata_cache_enable''
      then obind (qp_validate_bool value) (\<lambda>_. Ok (c\<lparr>metadata_cache_enable := zend_is_true Z value\<rparr>))
      else if key = ''metadata_cache_ttl_sec''
      then obind (qp_validate_positive_long value) (\<lambda>v. Ok (c\<lparr>metadata_cache_ttl_sec := v\<rparr>))
      else if key = ''enable_directstorage''
      then obind (qp_validate_bool value) (\<lambda>_. Ok (c\<lparr>enable_directstorage := zend_is_true Z value\<rparr>))
      else Ok c)"

definition qp_config_native_object_store_apply_userland_config ::
  "zend_api \<Rightarrow> bool \<Rightarrow> zval \<Rightarrow> qp_native_object_store_config_t \<Rightarrow> qp_native_object_store_config_t \<times> unit cfg_result" where
  "qp_config_native_object_store_apply_userland_config Z is_userland_override_allowed config_arr c =
     apply_userland (native_object_store_apply_key Z) is_userland_override_allowed config_arr c"

section \<open>INI directives\<close>

definition OnUpdateObjectStorePositiveLong ::
  "zend_api \<Rightarrow> string \<Rightarrow> string \<Rightarrow> qp_native_object_store_config_t \<Rightarrow> qp_native_object_store_config_t cfg_result" where
  "OnUpdateObjectStorePositiveLong Z name new_value c =
     (let val = zend_atol Z new_value in
      if val \<le>s 0 then Fail Value_Rejected
      else if name = ''quicpro.storage_default_replication_factor'' then Ok (c\<lparr>default_replication_factor := val\<rparr>)
      else if name = ''quicpro.storage_default_chunk_size_mb'' then Ok (c\<lparr>default_chunk_size_mb := val\<rparr>)
      else if name = ''quicpro.storage_metadata_cache_ttl_sec'' then Ok (c\<lparr>metadata_cache_ttl_sec := val\<rparr>)
      else Ok c)"

definition OnUpdateRedundancyMode ::
  "string \<Rightarrow> (cptr \<Rightarrow> qp_native_object_store_config_t) \<Rightarrow> qp_native_object_store_config_t cfg_result" where
  "OnUpdateRedundancyMode new_value mh_arg1 =
     (if allowed_ci [''erasure_coding'', ''replication''] new_value
      then Ok (mh_arg1 (engine_string new_value)) else Fail Value_Rejected)"

definition OnUpdateDiscoveryMode ::
  "string \<Rightarrow> (cptr \<Rightarrow> qp_native_object_store_config_t) \<Rightarrow> qp_native_object_store_config_t cfg_result" where
  "OnUpdateDiscoveryMode new_value mh_arg1 =
     (if allowed_ci [''static'', ''mcp_heartbeat''] new_value
      then Ok (mh_arg1 (engine_string new_value)) else Fail Value_Rejected)"

definition OnUpdateErasureCodingShards ::
  "string \<Rightarrow> (cptr \<Rightarrow> qp_native_object_store_config_t) \<Rightarrow> qp_native_object_store_config_t cfg_result" where
  "OnUpdateErasureCodingShards new_value mh_arg1 =
     (if shards_ok new_value
      then Ok (mh_arg1 (engine_string new_value)) else Fail Value_Rejected)"

definition native_object_store_ini_entry :: "zend_api \<Rightarrow> string \<Rightarrow> string \<Rightarrow> qp_native_object_store_config_t \<Rightarrow> qp_native_object_store_config_t cfg_result" where
  "native_object_store_ini_entry Z name new_value c =
     (if name = ''quicpro.storage_enable''
      then Ok (c\<lparr>enable := zend_ini_parse_bool Z new_value\<rparr>)
      else if name = ''quicpro.storage_s3_api_compat_enable''
      then Ok (c\<lparr>s3_api_compat_enable := zend_ini_parse_bool Z new_value\<rparr>)
      else if name = ''quicpro.storage_versioning_enable''
      then Ok (c\<lparr>versioning_enable := zend_ini_parse_bool Z new_value\<rparr>)
      else if name = ''quicpro.storage_allow_anonymous_access''
      then Ok (c\<lparr>allow_anonymous_access := zend_ini_parse_bool Z new_value\<rparr>)
      else if name = ''quicpro.storage_default_redundancy_mode''
      then OnUpdateRedundancyMode new_value (\<lambda>v. c\<lparr>default_redundancy_mode := v\<rparr>)
      else if name = ''quicpro.storage_erasure_coding_shards''
      then OnUpdateErasureCodingShards new_value (\<lambda>v. c\<lparr>erasure_coding_shards := v\<rparr>)
      else if name = ''quicpro.storage_default_replication_factor''
      then OnUpdateObjectStorePositiveLong Z name new_value c
      else if name = ''quicpro.storage_default_chunk_size_mb''
      then OnUpdateObjectStorePositiveLong Z name new_value c
      else if name = ''quicpro.storage_metadata_agent_uri''
      then Ok (c\<lparr>metadata_agent_uri := engine_string new_value\<rparr>)
      else if name = ''quicpro.storage_node_discovery_mode''
      then OnUpdateDiscoveryMode new_value (\<lambda>v. c\<lparr>node_discovery_mode := v\<rparr>)
      else if name = ''quicpro.storage_node_static_list''
      then Ok (c\<lparr>node_static_list := engine_string new_value\<rparr>)
      else if name = ''quicpro.storage_metadata_cache_enable''
      then Ok (c\<lparr>metadata_cache_enable := zend_ini_parse_bool Z new_value\<rparr>)
      else if name = ''quicpro.storage_metadata_cache_ttl_sec''
      then OnUpdateObjectStorePositiveLong Z name new_value c
      else if name = ''quicpro.storage_enable_directstorage''
      then Ok (c\<lparr>enable_directstorage := zend_ini_parse_bool Z new_value\<rparr>)
      else Ok c)"

text \<open>The directives with their default texts, in the order of the table.\<close>

definition native_object_store_ini_defaults :: "(string \<times> string) list" where
  "native_object_store_ini_defaults =
     [(''quicpro.storage_enable'', ''0''),
      (''quicpro.storage_s3_api_compat_enable'', ''0''),
      (''quicpro.storage_versioning_enable'', ''1''),
      (''quicpro.storage_allow_anonymous_access'', ''0''),
      (''quicpro.storage_default_redundancy_mode'', ''erasure_coding''),
      (''quicpro.storage_erasure_coding_shards'', ''8d4p''),
      (''quicpro.storage_default_replication_factor'', ''3''),
      (''quicpro.storage_default_chunk_size_mb'', ''64''),
      (''quicpro.storage_metadata_agent_uri'', ''127.0.0.1:9701''),
      (''quicpro.storage_node_discovery_mode'', ''static''),
      (''quicpro.storage_node_static_list'', ''127.0.0.1:9711,127.0.0.1:9712''),
      (''quicpro.storage_metadata_cache_enable'', ''1''),
      (''quicpro.storage_metadata_cache_ttl_sec'', ''60''),
      (''quicpro.storage_enable_directstorage'', ''0'')]"

text \<open>Loading the defaults, then registering the directives: \<^verbatim>\<open>calls\<close> are the handler calls the
  engine makes meanwhile.\<close>

definition qp_config_native_object_store_init ::
  "zend_api \<Rightarrow> (string \<times> string) list \<Rightarrow> qp_native_object_store_config_t \<Rightarrow> qp_native_object_store_config_t cfg_result" where
  "qp_config_native_object_store_init Z calls c = ini_run (native_object_store_ini_entry Z) calls (qp_config_native_object_store_defaults_load c)"

section \<open>Invariant\<close>

definition native_object_store_inv :: "qp_native_object_store_config_t \<Rightarrow> bool" where
  "native_object_store_inv c \<longleftrightarrow>
     ptr_in [''erasure_coding'', ''replication''] (default_redundancy_mode c) \<and>
     ptr_all shards_ok (erasure_coding_shards c) \<and>
     0 <s default_replication_factor c \<and>
     0 <s default_chunk_size_mb c \<and>
     ptr_set (metadata_agent_uri c) \<and>
     ptr_in [''static'', ''mcp_heartbeat''] (node_discovery_mode c) \<and>
     ptr_set (node_static_list c) \<and>
     0 <s metadata_cache_ttl_sec c"

lemma native_object_store_defaults_inv: "native_object_store_inv (qp_config_native_object_store_defaults_load c)"
  by (simp add: native_object_store_inv_def qp_config_native_object_store_defaults_load_def config_eval)

lemma native_object_store_key_inv: "native_object_store_inv c \<Longrightarrow> keeps native_object_store_inv (native_object_store_apply_key Z key value c)"
  unfolding native_object_store_apply_key_def
  by (rule keeps_rules | simp add: native_object_store_inv_def accepts)+

lemma native_object_store_ini_inv: "native_object_store_inv c \<Longrightarrow> keeps native_object_store_inv (native_object_store_ini_entry Z name new_value c)"
  unfolding native_object_store_ini_entry_def OnUpdateObjectStorePositiveLong_def OnUpdateRedundancyMode_def OnUpdateDiscoveryMode_def OnUpdateErasureCodingShards_def Let_def
  by (rule keeps_rules | simp add: native_object_store_inv_def sless_simps f64_within_def)+

interpretation native_object_store: config_module qp_config_native_object_store_defaults_load "native_object_store_ini_entry Z" "native_object_store_apply_key Z" native_object_store_inv
  for Z
  by unfold_locales (simp_all add: native_object_store_defaults_inv native_object_store_key_inv native_object_store_ini_inv)

end
