(* ===== verification/Config_High_Perf_Compute_And_Ai.thy ===== *)
theory Config_High_Perf_Compute_And_Ai
  imports Config_Base
begin

text \<open>
  Dataframes, GPUs and storage engines: the module \<^verbatim>\<open>src/extension/src/config/high_perf_compute_and_ai\<close>.
\<close>

section \<open>State\<close>

record qp_high_perf_compute_ai_config_t =
  dataframe_enable :: bool
  dataframe_memory_limit_mb :: zend_long
  dataframe_string_interning_enable :: bool
  dataframe_cpu_parallelism_default :: zend_long
  gpu_bindings_enable :: bool
  gpu_default_backend :: cptr
  worker_gpu_affinity_map :: cptr
  gpu_memory_preallocation_mb :: zend_long
  gpu_p2p_enable :: bool
  storage_enable_directstorage :: bool
  cuda_enable_tensor_cores :: bool
  cuda_stream_pool_size :: zend_long
  rocm_enable_gfx_optimizations :: bool
  arc_enable_xmx_optimizations :: bool
  arc_video_acceleration_enable :: bool

text \<open>The global before anything ran: zeroed static storage.\<close>

definition quicpro_high_perf_compute_ai_config :: qp_high_perf_compute_ai_config_t where
  "quicpro_high_perf_compute_ai_config =
     \<lparr>dataframe_enable = False, dataframe_memory_limit_mb = 0,
      dataframe_string_interning_enable = False, dataframe_cpu_parallelism_default = 0,
      gpu_bindings_enable = False, gpu_default_backend = NullPtr,
      worker_gpu_affinity_map = NullPtr, gpu_memory_preallocation_mb = 0, gpu_p2p_enable = False,
      storage_enable_directstorage = False, cuda_enable_tensor_cores = False,
      cuda_stream_pool_size = 0, rocm_enable_gfx_optimizations = False,
      arc_enable_xmx_optimizations = False, arc_video_acceleration_enable = False\<rparr>"

definition qp_config_high_perf_compute_and_ai_defaults_load :: "qp_high_perf_compute_ai_config_t \<Rightarrow> qp_high_perf_compute_ai_config_t" where
  "qp_config_high_perf_compute_and_ai_defaults_load c =
     c\<lparr>dataframe_enable := True, dataframe_memory_limit_mb := 1024,
       dataframe_string_interning_enable := True, dataframe_cpu_parallelism_default := 0,
       gpu_bindings_enable := False, gpu_default_backend := pestrdup ''auto'',
       worker_gpu_affinity_map := pestrdup '''', gpu_memory_preallocation_mb := 2048,
       gpu_p2p_enable := True, storage_enable_directstorage := False,
       cuda_enable_tensor_cores := True, cuda_stream_pool_size := 4,
       rocm_enable_gfx_optimizations := True, arc_enable_xmx_optimizations := True,
       arc_video_acceleration_enable := True\<rparr>"

section \<open>Userland configuration\<close>

definition high_perf_compute_ai_apply_key ::
  "zend_api \<Rightarrow> string \<Rightarrow> zval \<Rightarrow> qp_high_perf_compute_ai_config_t \<Rightarrow> qp_high_perf_compute_ai_config_t cfg_result" where
  "high_perf_compute_ai_apply_key Z key value c =
     (if key = ''dataframe_enable''
      then obind (qp_validate_bool value) (\<lambda>_. Ok (c\<lparr>dataframe_enable := zend_is_true Z value\<rparr>))
      else if key = ''dataframe_memory_limit_mb''
      then obind (qp_validate_positive_long value) (\<lambda>v. Ok (c\<lparr>dataframe_memory_limit_mb := v\<rparr>))
      else if key = ''dataframe_string_interning_enable''
      then obind (qp_validate_bool value) (\<lambda>_. Ok (c\<lparr>dataframe_string_interning_enable := zend_is_true Z value\<rparr>))
      else if key = ''dataframe_cpu_parallelism_default''
      then obind (qp_validate_non_negative_long value) (\<lambda>v. Ok (c\<lparr>dataframe_cpu_parallelism_default := v\<rparr>))
      else if key = ''gpu_bindings_enable''
      then obind (qp_validate_bool value) (\<lambda>_. Ok (c\<lparr>gpu_bindings_enable := zend_is_true Z value\<rparr>))
      else if key = ''gpu_default_backend''
      then obind (qp_validate_string_from_allowlist value [''auto'', ''cuda'', ''rocm'', ''sycl''] (gpu_default_backend c)) (\<lambda>v. Ok (c\<lparr>gpu_default_backend := v\<rparr>))
      else if key = ''worker_gpu_affinity_map''
      then obind (qp_validate_cpu_affinity_map_string value (worker_gpu_affinity_map c)) (\<lambda>v. Ok (c\<lparr>worker_gpu_affinity_map := v\<rparr>))
      else if key = ''gpu_memory_preallocation_mb''
      then obind (qp_validate_positive_long value) (\<lambda>v. Ok (c\<lparr>gpu_memory_preallocation_mb := v\<rparr>))
      else if key = ''gpu_p2p_enable''
      then obind (qp_validate_bool value) (\<lambda>_. Ok (c\<lparr>gpu_p2p_enable := zend_is_true Z value\<rparr>))
      else if key = ''storage_enable_directstorage''
      then obind (qp_validate_bool value) (\<lambda>_. Ok (c\<lparr>storage_enable_directstorage := zend_is_true Z value\<rparr>))
      else if key = ''cuda_enable_tensor_cores''
      then obind (qp_validate_bool value) (\<lambda>_. Ok (c\<lparr>cuda_enable_tensor_cores := zend_is_true Z value\<rparr>))
      else if key = ''cuda_stream_pool_size''
      then obind (qp_validate_positive_long value) (\<lambda>v. Ok (c\<lparr>cuda_stream_pool_size := v\<rparr>))
      else if key = ''rocm_enable_gfx_optimizations''
      then obind (qp_validate_bool value) (\<lambda>_. Ok (c\<lparr>rocm_enable_gfx_optimizations := zend_is_true Z value\<rparr>))
      else if key = ''arc_enable_xmx_optimizations''
      then obind (qp_validate_bool value) (\<lambda>_. Ok (c\<lparr>arc_enable_xmx_optimizations := zend_is_true Z value\<rparr>))
      else if key = ''arc_video_acceleration_enable''
      then obind (qp_validate_bool value) (\<lambda>_. Ok (c\<lparr>arc_video_acceleration_enable := zend_is_true Z value\<rparr>))
      else Ok c)"

definition qp_config_high_perf_compute_and_ai_apply_userland_config ::
  "zend_api \<Rightarrow> bool \<Rightarrow> zval \<Rightarrow> qp_high_perf_compute_ai_config_t \<Rightarrow> qp_high_perf_compute_ai_config_t \<times> unit cfg_result" where
  "qp_config_high_perf_compute_and_ai_apply_userland_config Z is_userland_override_allowed config_arr c =
     apply_userland (high_perf_compute_ai_apply_key Z) is_userland_override_allowed config_arr c"

section \<open>INI directives\<close>

definition OnUpdateAiPositiveLong ::
  "zend_api \<Rightarrow> string \<Rightarrow> string \<Rightarrow> qp_high_perf_compute_ai_config_t \<Rightarrow> qp_high_perf_compute_ai_config_t cfg_result" where
  "OnUpdateAiPositiveLong Z name new_value c =
     (let val = zend_atol Z new_value in
      if val \<le>s 0 then Fail Value_Rejected
      else if name = ''quicpro.dataframe_memory_limit_mb'' then Ok (c\<lparr>dataframe_memory_limit_mb := val\<rparr>)
      else if name = ''quicpro.gpu_memory_preallocation_mb'' then Ok (c\<lparr>gpu_memory_preallocation_mb := val\<rparr>)
      else if name = ''quicpro.cuda_stream_pool_size'' then Ok (c\<lparr>cuda_stream_pool_size := val\<rparr>)
      else Ok c)"

definition OnUpdateGpuBackend ::
  "string \<Rightarrow> (cptr \<Rightarrow> qp_high_perf_compute_ai_config_t) \<Rightarrow> qp_high_perf_compute_ai_config_t cfg_result" where
  "OnUpdateGpuBackend new_value mh_arg1 =
     (if allowed_ci [''auto'', ''cuda'', ''rocm'', ''sycl''] new_value
      then Ok (mh_arg1 (engine_string new_value)) else Fail Value_Rejected)"

definition high_perf_compute_ai_ini_entry :: "zend_api \<Rightarrow> string \<Rightarrow> string \<Rightarrow> qp_high_perf_compute_ai_config_t \<Rightarrow> qp_high_perf_compute_ai_config_t cfg_result" where
  "high_perf_compute_ai_ini_entry Z name new_value c =
     (if name = ''quicpro.dataframe_enable''
      then Ok (c\<lparr>dataframe_enable := zend_ini_parse_bool Z new_value\<rparr>)
      else if name = ''quicpro.dataframe_memory_limit_mb''
      then OnUpdateAiPositiveLong Z name new_value c
      else if name = ''quicpro.dataframe_string_interning_enable''
      then Ok (c\<lparr>dataframe_string_interning_enable := zend_ini_parse_bool Z new_value\<rparr>)
      else if name = ''quicpro.dataframe_cpu_parallelism_default''
      then Ok (c\<lparr>dataframe_cpu_parallelism_default := zend_atol Z new_value\<rparr>)
      else if name = ''quicpro.gpu_bindings_enable''
      then Ok (c\<lparr>gpu_bindings_enable := zend_ini_parse_bool Z new_value\<rparr>)
      else if name = ''quicpro.gpu_default_backend''
      then OnUpdateGpuBackend new_value (\<lambda>v. c\<lparr>gpu_default_backend := v\<rparr>)
      else if name = ''quicpro.worker_gpu_affinity_map''
      then Ok (c\<lparr>worker_gpu_affinity_map := engine_string new_value\<rparr>)
      else if name = ''quicpro.gpu_memory_preallocation_mb''
      then OnUpdateAiPositiveLong Z name new_value c
      else if name = ''quicpro.gpu_p2p_enable''
      then Ok (c\<lparr>gpu_p2p_enable := zend_ini_parse_bool Z new_value\<rparr>)
      else if name = ''quicpro.storage_enable_directstorage''
      then Ok (c\<lparr>storage_enable_directstorage := zend_ini_parse_bool Z new_value\<rparr>)
      else if name = ''quicpro.cuda_enable_tensor_cores''
      then Ok (c\<lparr>cuda_enable_tensor_cores := zend_ini_parse_bool Z new_value\<rparr>)
      else if name = ''quicpro.cuda_stream_pool_size''
      then OnUpdateAiPositiveLong Z name new_value c
      else if name = ''quicpro.rocm_enable_gfx_optimizations''
      then Ok (c\<lparr>rocm_enable_gfx_optimizations := zend_ini_parse_bool Z new_value\<rparr>)
      else if name = ''quicpro.arc_enable_xmx_optimizations''
      then Ok (c\<lparr>arc_enable_xmx_optimizations := zend_ini_parse_bool Z new_value\<rparr>)
      else if name = ''quicpro.arc_video_acceleration_enable''
      then Ok (c\<lparr>arc_video_acceleration_enable := zend_ini_parse_bool Z new_value\<rparr>)
      else Ok c)"

text \<open>The directives with their default texts, in the order of the table.\<close>

definition high_perf_compute_ai_ini_defaults :: "(string \<times> string) list" where
  "high_perf_compute_ai_ini_defaults =
     [(''quicpro.dataframe_enable'', ''1''),
      (''quicpro.dataframe_memory_limit_mb'', ''1024''),
      (''quicpro.dataframe_string_interning_enable'', ''1''),
      (''quicpro.dataframe_cpu_parallelism_default'', ''0''),
      (''quicpro.gpu_bindings_enable'', ''0''),
      (''quicpro.gpu_default_backend'', ''auto''),
      (''quicpro.worker_gpu_affinity_map'', ''''),
      (''quicpro.gpu_memory_preallocation_mb'', ''2048''),
      (''quicpro.gpu_p2p_enable'', ''1''),
      (''quicpro.storage_enable_directstorage'', ''0''),
      (''quicpro.cuda_enable_tensor_cores'', ''1''),
      (''quicpro.cuda_stream_pool_size'', ''4''),
      (''quicpro.rocm_enable_gfx_optimizations'', ''1''),
      (''quicpro.arc_enable_xmx_optimizations'', ''1''),
      (''quicpro.arc_video_acceleration_enable'', ''1'')]"

text \<open>Loading the defaults, then registering the directives: \<^verbatim>\<open>calls\<close> are the handler calls the
  engine makes meanwhile.\<close>

definition qp_config_high_perf_compute_and_ai_init ::
  "zend_api \<Rightarrow> (string \<times> string) list \<Rightarrow> qp_high_perf_compute_ai_config_t \<Rightarrow> qp_high_perf_compute_ai_config_t cfg_result" where
  "qp_config_high_perf_compute_and_ai_init Z calls c = ini_run (high_perf_compute_ai_ini_entry Z) calls (qp_config_high_perf_compute_and_ai_defaults_load c)"

section \<open>Invariant\<close>

definition high_perf_compute_ai_inv :: "qp_high_perf_compute_ai_config_t \<Rightarrow> bool" where
  "high_perf_compute_ai_inv c \<longleftrightarrow>
     0 <s dataframe_memory_limit_mb c \<and>
     ptr_in [''auto'', ''cuda'', ''rocm'', ''sycl''] (gpu_default_backend c) \<and>
     ptr_set (worker_gpu_affinity_map c) \<and>
     0 <s gpu_memory_preallocation_mb c \<and>
     0 <s cuda_stream_pool_size c"

lemma high_perf_compute_ai_defaults_inv: "high_perf_compute_ai_inv (qp_config_high_perf_compute_and_ai_defaults_load c)"
  by (simp add: high_perf_compute_ai_inv_def qp_config_high_perf_compute_and_ai_defaults_load_def config_eval)

lemma high_perf_compute_ai_key_inv: "high_perf_compute_ai_inv c \<Longrightarrow> keeps high_perf_compute_ai_inv (high_perf_compute_ai_apply_key Z key value c)"
  unfolding high_perf_compute_ai_apply_key_def
  by (rule keeps_rules | simp add: high_perf_compute_ai_inv_def accepts)+

lemma high_perf_compute_ai_ini_inv: "high_perf_compute_ai_inv c \<Longrightarrow> keeps high_perf_compute_ai_inv (high_perf_compute_ai_ini_entry Z name new_value c)"
  unfolding high_perf_compute_ai_ini_entry_def OnUpdateAiPositiveLong_def OnUpdateGpuBackend_def Let_def
  by (rule keeps_rules | simp add: high_perf_compute_ai_inv_def sless_simps f64_within_def)+

interpretation high_perf_compute_ai: config_module qp_config_high_perf_compute_and_ai_defaults_load "high_perf_compute_ai_ini_entry Z" "high_perf_compute_ai_apply_key Z" high_perf_compute_ai_inv
  for Z
  by unfold_locales (simp_all add: high_perf_compute_ai_defaults_inv high_perf_compute_ai_key_inv high_perf_compute_ai_ini_inv)

end
