(* ===== verification/Config_Cloud_Autoscale.thy ===== *)
theory Config_Cloud_Autoscale
  imports Config_Base
begin

text \<open>
  Cloud autoscaling: the module \<^verbatim>\<open>src/extension/src/config/cloud_autoscale\<close>.
\<close>

section \<open>State\<close>

record qp_cloud_autoscale_config_t =
  provider :: cptr
  region :: cptr
  credentials_path :: cptr
  min_nodes :: zend_long
  max_nodes :: zend_long
  scale_up_cpu_threshold_percent :: zend_long
  scale_down_cpu_threshold_percent :: zend_long
  scale_up_policy :: cptr
  cooldown_period_sec :: zend_long
  idle_node_timeout_sec :: zend_long
  instance_type :: cptr
  instance_image_id :: cptr
  network_config :: cptr
  instance_tags :: cptr

text \<open>The global before anything ran: zeroed static storage.\<close>

definition quicpro_cloud_autoscale_config :: qp_cloud_autoscale_config_t where
  "quicpro_cloud_autoscale_config =
     \<lparr>provider = NullPtr, region = NullPtr, credentials_path = NullPtr, min_nodes = 0,
      max_nodes = 0, scale_up_cpu_threshold_percent = 0, scale_down_cpu_threshold_percent = 0,
      scale_up_policy = NullPtr, cooldown_period_sec = 0, idle_node_timeout_sec = 0,
      instance_type = NullPtr, instance_image_id = NullPtr, network_config = NullPtr,
      instance_tags = NullPtr\<rparr>"

definition qp_config_cloud_autoscale_defaults_load :: "qp_cloud_autoscale_config_t \<Rightarrow> qp_cloud_autoscale_config_t" where
  "qp_config_cloud_autoscale_defaults_load c =
     c\<lparr>provider := pestrdup '''', region := pestrdup '''', credentials_path := pestrdup '''',
       min_nodes := 1, max_nodes := 1, scale_up_cpu_threshold_percent := 80,
       scale_down_cpu_threshold_percent := 20, scale_up_policy := pestrdup ''add_nodes:1'',
       cooldown_period_sec := 300, idle_node_timeout_sec := 600, instance_type := pestrdup '''',
       instance_image_id := pestrdup '''', network_config := pestrdup '''',
       instance_tags := pestrdup ''''\<rparr>"

section \<open>Userland configuration\<close>

definition cloud_autoscale_apply_key ::
  "zend_api \<Rightarrow> string \<Rightarrow> zval \<Rightarrow> qp_cloud_autoscale_config_t \<Rightarrow> qp_cloud_autoscale_config_t cfg_result" where
  "cloud_autoscale_apply_key Z key value c =
     (if key = ''provider''
      then obind (qp_validate_string_from_allowlist value [''aws'', ''azure'', ''hetzner'', ''google_cloud'', ''digitalocean'', ''''] (provider c)) (\<lambda>v. Ok (c\<lparr>provider := v\<rparr>))
      else if key = ''region''
      then obind (qp_validate_generic_string value (region c)) (\<lambda>v. Ok (c\<lparr>region := v\<rparr>))
      else if key = ''credentials_path''
      then obind (qp_validate_generic_string value (credentials_path c)) (\<lambda>v. Ok (c\<lparr>credentials_path := v\<rparr>))
      else if key = ''min_nodes''
      then obind (qp_validate_positive_long value) (\<lambda>v. Ok (c\<lparr>min_nodes := v\<rparr>))
      else if key = ''max_nodes''
      then obind (qp_validate_positive_long value) (\<lambda>v. Ok (c\<lparr>max_nodes := v\<rparr>))
      else if key = ''scale_up_cpu_threshold_percent''
      then obind (qp_validate_long_range value 0 100) (\<lambda>v. Ok (c\<lparr>scale_up_cpu_threshold_percent := v\<rparr>))
      else if key = ''scale_down_cpu_threshold_percent''
      then obind (qp_validate_long_range value 0 100) (\<lambda>v. Ok (c\<lparr>scale_down_cpu_threshold_percent := v\<rparr>))
      else if key = ''scale_up_policy''
      then obind (qp_validate_scale_up_policy_string value (scale_up_policy c)) (\<lambda>v. Ok (c\<lparr>scale_up_policy := v\<rparr>))
      else if key = ''cooldown_period_sec''
      then obind (qp_validate_positive_long value) (\<lambda>v. Ok (c\<lparr>cooldown_period_sec := v\<rparr>))
      else if key = ''idle_node_timeout_sec''
      then obind (qp_validate_positive_long value) (\<lambda>v. Ok (c\<lparr>idle_node_timeout_sec := v\<rparr>))
      else if key = ''instance_type''
      then obind (qp_validate_generic_string value (instance_type c)) (\<lambda>v. Ok (c\<lparr>instance_type := v\<rparr>))
      else if key = ''instance_image_id''
      then obind (qp_validate_generic_string value (instance_image_id c)) (\<lambda>v. Ok (c\<lparr>instance_image_id := v\<rparr>))
      else if key = ''network_config''
      then obind (qp_validate_generic_string value (network_config c)) (\<lambda>v. Ok (c\<lparr>network_config := v\<rparr>))
      else if key = ''instance_tags''
      then obind (qp_validate_generic_string value (instance_tags c)) (\<lambda>v. Ok (c\<lparr>instance_tags := v\<rparr>))
      else Ok c)"

definition qp_config_cloud_autoscale_apply_userland_config ::
  "zend_api \<Rightarrow> bool \<Rightarrow> zval \<Rightarrow> qp_cloud_autoscale_config_t \<Rightarrow> qp_cloud_autoscale_config_t \<times> unit cfg_result" where
  "qp_config_cloud_autoscale_apply_userland_config Z is_userland_override_allowed config_arr c =
     apply_userland (cloud_autoscale_apply_key Z) is_userland_override_allowed config_arr c"

section \<open>INI directives\<close>

definition OnUpdateAutoscalePositiveLong ::
  "zend_api \<Rightarrow> string \<Rightarrow> string \<Rightarrow> qp_cloud_autoscale_config_t \<Rightarrow> qp_cloud_autoscale_config_t cfg_result" where
  "OnUpdateAutoscalePositiveLong Z name new_value c =
     (let val = zend_atol Z new_value in
      if val \<le>s 0 then Fail Value_Rejected
      else if name = ''quicpro.cluster_autoscale_min_nodes'' then Ok (c\<lparr>min_nodes := val\<rparr>)
      else if name = ''quicpro.cluster_autoscale_max_nodes'' then Ok (c\<lparr>max_nodes := val\<rparr>)
      else if name = ''quicpro.cluster_autoscale_cooldown_period_sec'' then Ok (c\<lparr>cooldown_period_sec := val\<rparr>)
      else if name = ''quicpro.cluster_autoscale_idle_node_timeout_sec'' then Ok (c\<lparr>idle_node_timeout_sec := val\<rparr>)
      else Ok c)"

definition OnUpdateAutoscalePercent ::
  "zend_api \<Rightarrow> string \<Rightarrow> string \<Rightarrow> qp_cloud_autoscale_config_t \<Rightarrow> qp_cloud_autoscale_config_t cfg_result" where
  "OnUpdateAutoscalePercent Z name new_value c =
     (let val = zend_atol Z new_value in
      if val <s 0 \<or> 100 <s val then Fail Value_Rejected
      else if name = ''quicpro.cluster_autoscale_scale_up_cpu_threshold_percent'' then Ok (c\<lparr>scale_up_cpu_threshold_percent := val\<rparr>)
      else if name = ''quicpro.cluster_autoscale_scale_down_cpu_threshold_percent'' then Ok (c\<lparr>scale_down_cpu_threshold_percent := val\<rparr>)
      else Ok c)"

definition OnUpdateAutoscaleProvider ::
  "string \<Rightarrow> (cptr \<Rightarrow> qp_cloud_autoscale_config_t) \<Rightarrow> qp_cloud_autoscale_config_t cfg_result" where
  "OnUpdateAutoscaleProvider new_value mh_arg1 =
     (if allowed_ci [''aws'', ''azure'', ''hetzner'', ''google_cloud'', ''digitalocean'', ''''] new_value
      then Ok (mh_arg1 (engine_string new_value)) else Fail Value_Rejected)"

definition cloud_autoscale_ini_entry :: "zend_api \<Rightarrow> string \<Rightarrow> string \<Rightarrow> qp_cloud_autoscale_config_t \<Rightarrow> qp_cloud_autoscale_config_t cfg_result" where
  "cloud_autoscale_ini_entry Z name new_value c =
     (if name = ''quicpro.cluster_autoscale_provider''
      then OnUpdateAutoscaleProvider new_value (\<lambda>v. c\<lparr>provider := v\<rparr>)
      else if name = ''quicpro.cluster_autoscale_region''
      then Ok (c\<lparr>region := engine_string new_value\<rparr>)
      else if name = ''quicpro.cluster_autoscale_credentials_path''
      then Ok (c\<lparr>credentials_path := engine_string new_value\<rparr>)
      else if name = ''quicpro.cluster_autoscale_min_nodes''
      then OnUpdateAutoscalePositiveLong Z name new_value c
      else if name = ''quicpro.cluster_autoscale_max_nodes''
      then OnUpdateAutoscalePositiveLong Z name new_value c
      else if name = ''quicpro.cluster_autoscale_scale_up_cpu_threshold_percent''
      then OnUpdateAutoscalePercent Z name new_value c
      else if name = ''quicpro.cluster_autoscale_scale_down_cpu_threshold_percent''
      then OnUpdateAutoscalePercent Z name new_value c
      else if name = ''quicpro.cluster_autoscale_scale_up_policy''
      then Ok (c\<lparr>scale_up_policy := engine_string new_value\<rparr>)
      else if name = ''quicpro.cluster_autoscale_cooldown_period_sec''
      then OnUpdateAutoscalePositiveLong Z name new_value c
      else if name = ''quicpro.cluster_autoscale_idle_node_timeout_sec''
      then OnUpdateAutoscalePositiveLong Z name new_value c
      else if name = ''quicpro.cluster_autoscale_instance_type''
      then Ok (c\<lparr>instance_type := engine_string new_value\<rparr>)
      else if name = ''quicpro.cluster_autoscale_instance_image_id''
      then Ok (c\<lparr>instance_image_id := engine_string new_value\<rparr>)
      else if name = ''quicpro.cluster_autoscale_network_config''
      then Ok (c\<lparr>network_config := engine_string new_value\<rparr>)
      else if name = ''quicpro.cluster_autoscale_instance_tags''
      then Ok (c\<lparr>instance_tags := engine_string new_value\<rparr>)
      else Ok c)"

text \<open>The directives with their default texts, in the order of the table.\<close>

definition cloud_autoscale_ini_defaults :: "(string \<times> string) list" where
  "cloud_autoscale_ini_defaults =
     [(''quicpro.cluster_autoscale_provider'', ''''),
      (''quicpro.cluster_autoscale_region'', ''''),
      (''quicpro.cluster_autoscale_credentials_path'', ''''),
      (''quicpro.cluster_autoscale_min_nodes'', ''1''),
      (''quicpro.cluster_autoscale_max_nodes'', ''1''),
      (''quicpro.cluster_autoscale_scale_up_cpu_threshold_percent'', ''80''),
      (''quicpro.cluster_autoscale_scale_down_cpu_threshold_percent'', ''20''),
      (''quicpro.cluster_autoscale_scale_up_policy'', ''add_nodes:1''),
      (''quicpro.cluster_autoscale_cooldown_period_sec'', ''300''),
      (''quicpro.cluster_autoscale_idle_node_timeout_sec'', ''600''),
      (''quicpro.cluster_autoscale_instance_type'', ''''),
      (''quicpro.cluster_autoscale_instance_image_id'', ''''),
      (''quicpro.cluster_autoscale_network_config'', ''''),
      (''quicpro.cluster_autoscale_instance_tags'', '''')]"

text \<open>Loading the defaults, then registering the directives: \<^verbatim>\<open>calls\<close> are the handler calls the
  engine makes meanwhile.\<close>

definition qp_config_cloud_autoscale_init ::
  "zend_api \<Rightarrow> (string \<times> string) list \<Rightarrow> qp_cloud_autoscale_config_t \<Rightarrow> qp_cloud_autoscale_config_t cfg_result" where
  "qp_config_cloud_autoscale_init Z calls c = ini_run (cloud_autoscale_ini_entry Z) calls (qp_config_cloud_autoscale_defaults_load c)"

section \<open>Invariant\<close>

definition cloud_autoscale_inv :: "qp_cloud_autoscale_config_t \<Rightarrow> bool" where
  "cloud_autoscale_inv c \<longleftrightarrow>
     ptr_in [''aws'', ''azure'', ''hetzner'', ''google_cloud'', ''digitalocean'', ''''] (provider c) \<and>
     ptr_set (region c) \<and>
     ptr_set (credentials_path c) \<and>
     0 <s min_nodes c \<and>
     0 <s max_nodes c \<and>
     in_range 0 100 (scale_up_cpu_threshold_percent c) \<and>
     in_range 0 100 (scale_down_cpu_threshold_percent c) \<and>
     ptr_set (scale_up_policy c) \<and>
     0 <s cooldown_period_sec c \<and>
     0 <s idle_node_timeout_sec c \<and>
     ptr_set (instance_type c) \<and>
     ptr_set (instance_image_id c) \<and>
     ptr_set (network_config c) \<and>
     ptr_set (instance_tags c)"

lemma cloud_autoscale_defaults_inv: "cloud_autoscale_inv (qp_config_cloud_autoscale_defaults_load c)"
  by (simp add: cloud_autoscale_inv_def qp_config_cloud_autoscale_defaults_load_def config_eval)

lemma cloud_autoscale_key_inv: "cloud_autoscale_inv c \<Longrightarrow> keeps cloud_autoscale_inv (cloud_autoscale_apply_key Z key value c)"
  unfolding cloud_autoscale_apply_key_def
  by (rule keeps_rules | simp add: cloud_autoscale_inv_def accepts)+

lemma cloud_autoscale_ini_inv: "cloud_autoscale_inv c \<Longrightarrow> keeps cloud_autoscale_inv (cloud_autoscale_ini_entry Z name new_value c)"
  unfolding cloud_autoscale_ini_entry_def OnUpdateAutoscalePositiveLong_def OnUpdateAutoscalePercent_def OnUpdateAutoscaleProvider_def Let_def
  by (rule keeps_rules | simp add: cloud_autoscale_inv_def sless_simps f64_within_def)+

interpretation cloud_autoscale: config_module qp_config_cloud_autoscale_defaults_load "cloud_autoscale_ini_entry Z" "cloud_autoscale_apply_key Z" cloud_autoscale_inv
  for Z
  by unfold_locales (simp_all add: cloud_autoscale_defaults_inv cloud_autoscale_key_inv cloud_autoscale_ini_inv)

end
