(* ===== verification/Config_Open_Telemetry.thy ===== *)
theory Config_Open_Telemetry
  imports Config_Base
begin

text \<open>
  Telemetry export: the module \<^verbatim>\<open>src/extension/src/config/open_telemetry\<close>.
  The INI handler of the histogram boundaries hands the engine string itself to the validator.
\<close>

section \<open>State\<close>

record qp_open_telemetry_config_t =
  enable :: bool
  service_name :: cptr
  exporter_endpoint :: cptr
  exporter_protocol :: cptr
  exporter_timeout_ms :: zend_long
  exporter_headers :: cptr
  batch_processor_max_queue_size :: zend_long
  batch_processor_schedule_delay_ms :: zend_long
  traces_sampler_type :: cptr
  traces_sampler_ratio :: u64
  traces_max_attributes_per_span :: zend_long
  metrics_enable :: bool
  metrics_export_interval_ms :: zend_long
  metrics_default_histogram_boundaries :: cptr
  logs_enable :: bool
  logs_exporter_batch_size :: zend_long

text \<open>The global before anything ran: zeroed static storage.\<close>

definition quicpro_open_telemetry_config :: qp_open_telemetry_config_t where
  "quicpro_open_telemetry_config =
     \<lparr>enable = False, service_name = NullPtr, exporter_endpoint = NullPtr,
      exporter_protocol = NullPtr, exporter_timeout_ms = 0, exporter_headers = NullPtr,
      batch_processor_max_queue_size = 0, batch_processor_schedule_delay_ms = 0,
      traces_sampler_type = NullPtr, traces_sampler_ratio = 0, traces_max_attributes_per_span = 0,
      metrics_enable = False, metrics_export_interval_ms = 0,
      metrics_default_histogram_boundaries = NullPtr, logs_enable = False,
      logs_exporter_batch_size = 0\<rparr>"

definition qp_config_open_telemetry_defaults_load :: "qp_open_telemetry_config_t \<Rightarrow> qp_open_telemetry_config_t" where
  "qp_config_open_telemetry_defaults_load c =
     c\<lparr>enable := True, service_name := pestrdup ''quicpro_application'',
       exporter_endpoint := pestrdup ''http://localhost:4317'',
       exporter_protocol := pestrdup ''grpc'', exporter_timeout_ms := 10000,
       exporter_headers := pestrdup '''', batch_processor_max_queue_size := 2048,
       batch_processor_schedule_delay_ms := 5000,
       traces_sampler_type := pestrdup ''parent_based_probability'',
       traces_sampler_ratio := 0x3FF0000000000000, traces_max_attributes_per_span := 128,
       metrics_enable := True, metrics_export_interval_ms := 60000,
       metrics_default_histogram_boundaries := pestrdup ''0,5,10,25,50,75,100,250,500,1000'',
       logs_enable := False, logs_exporter_batch_size := 512\<rparr>"

section \<open>Userland configuration\<close>

definition open_telemetry_apply_key ::
  "zend_api \<Rightarrow> string \<Rightarrow> zval \<Rightarrow> qp_open_telemetry_config_t \<Rightarrow> qp_open_telemetry_config_t cfg_result" where
  "open_telemetry_apply_key Z key value c =
     (if key = ''enable''
      then obind (qp_validate_bool value) (\<lambda>_. Ok (c\<lparr>enable := zend_is_true Z value\<rparr>))
      else if key = ''service_name''
      then obind (qp_validate_generic_string value (service_name c)) (\<lambda>v. Ok (c\<lparr>service_name := v\<rparr>))
      else if key = ''exporter_endpoint''
      then obind (qp_validate_generic_string value (exporter_endpoint c)) (\<lambda>v. Ok (c\<lparr>exporter_endpoint := v\<rparr>))
      else if key = ''exporter_protocol''
      then obind (qp_validate_string_from_allowlist value [''grpc'', ''http/protobuf''] (exporter_protocol c)) (\<lambda>v. Ok (c\<lparr>exporter_protocol := v\<rparr>))
      else if key = ''exporter_timeout_ms''
      then obind (qp_validate_positive_long value) (\<lambda>v. Ok (c\<lparr>exporter_timeout_ms := v\<rparr>))
      else if key = ''exporter_headers''
      then obind (qp_validate_generic_string value (exporter_headers c)) (\<lambda>v. Ok (c\<lparr>exporter_headers := v\<rparr>))
      else if key = ''batch_processor_max_queue_size''
      then obind (qp_validate_positive_long value) (\<lambda>v. Ok (c\<lparr>batch_processor_max_queue_size := v\<rparr>))
      else if key = ''batch_processor_schedule_delay_ms''
      then obind (qp_validate_positive_long value) (\<lambda>v. Ok (c\<lparr>batch_processor_schedule_delay_ms := v\<rparr>))
      else if key = ''traces_sampler_type''
      then obind (qp_validate_string_from_allowlist value [''parent_based_probability'', ''always_on'', ''always_off''] (traces_sampler_type c)) (\<lambda>v. Ok (c\<lparr>traces_sampler_type := v\<rparr>))
      else if key = ''traces_sampler_ratio''
      then obind (qp_validate_double_range value 0x0000000000000000 0x3FF0000000000000) (\<lambda>v. Ok (c\<lparr>traces_sampler_ratio := v\<rparr>))
      else if key = ''traces_max_attributes_per_span''
      then obind (qp_validate_positive_long value) (\<lambda>v. Ok (c\<lparr>traces_max_attributes_per_span := v\<rparr>))
      else if key = ''metrics_enable''
      then obind (qp_validate_bool value) (\<lambda>_. Ok (c\<lparr>metrics_enable := zend_is_true Z value\<rparr>))
      else if key = ''metrics_export_interval_ms''
      then obind (qp_validate_positive_long value) (\<lambda>v. Ok (c\<lparr>metrics_export_interval_ms := v\<rparr>))
      else if key = ''metrics_default_histogram_boundaries''
      then obind (qp_validate_generic_string value (metrics_default_histogram_boundaries c)) (\<lambda>v. Ok (c\<lparr>metrics_default_histogram_boundaries := v\<rparr>))
      else if key = ''logs_enable''
      then obind (qp_validate_bool value) (\<lambda>_. Ok (c\<lparr>logs_enable := zend_is_true Z value\<rparr>))
      else if key = ''logs_exporter_batch_size''
      then obind (qp_validate_positive_long value) (\<lambda>v. Ok (c\<lparr>logs_exporter_batch_size := v\<rparr>))
      else Ok c)"

definition qp_config_open_telemetry_apply_userland_config ::
  "zend_api \<Rightarrow> bool \<Rightarrow> zval \<Rightarrow> qp_open_telemetry_config_t \<Rightarrow> qp_open_telemetry_config_t \<times> unit cfg_result" where
  "qp_config_open_telemetry_apply_userland_config Z is_userland_override_allowed config_arr c =
     apply_userland (open_telemetry_apply_key Z) is_userland_override_allowed config_arr c"

section \<open>INI directives\<close>

definition OnUpdateOtelPositiveLong ::
  "zend_api \<Rightarrow> string \<Rightarrow> string \<Rightarrow> qp_open_telemetry_config_t \<Rightarrow> qp_open_telemetry_config_t cfg_result" where
  "OnUpdateOtelPositiveLong Z name new_value c =
     (let val = zend_atol Z new_value in
      if val \<le>s 0 then Fail Value_Rejected
      else if name = ''quicpro.otel_exporter_timeout_ms'' then Ok (c\<lparr>exporter_timeout_ms := val\<rparr>)
      else if name = ''quicpro.otel_batch_processor_max_queue_size'' then Ok (c\<lparr>batch_processor_max_queue_size := val\<rparr>)
      else if name = ''quicpro.otel_batch_processor_schedule_delay_ms'' then Ok (c\<lparr>batch_processor_schedule_delay_ms := val\<rparr>)
      else if name = ''quicpro.otel_traces_max_attributes_per_span'' then Ok (c\<lparr>traces_max_attributes_per_span := val\<rparr>)
      else if name = ''quicpro.otel_metrics_export_interval_ms'' then Ok (c\<lparr>metrics_export_interval_ms := val\<rparr>)
      else if name = ''quicpro.otel_logs_exporter_batch_size'' then Ok (c\<lparr>logs_exporter_batch_size := val\<rparr>)
      else Ok c)"

definition OnUpdateOtelSamplerRatio ::
  "zend_api \<Rightarrow> string \<Rightarrow> qp_open_telemetry_config_t \<Rightarrow> qp_open_telemetry_config_t cfg_result" where
  "OnUpdateOtelSamplerRatio Z new_value c =
     (let val = zend_strtod Z new_value in
      if f64_less val 0x0000000000000000 \<or> f64_less 0x3FF0000000000000 val then Fail Value_Rejected
      else Ok (c\<lparr>traces_sampler_ratio := val\<rparr>))"

definition OnUpdateOtelAllowlist ::
  "string \<Rightarrow> string \<Rightarrow> (cptr \<Rightarrow> qp_open_telemetry_config_t) \<Rightarrow> qp_open_telemetry_config_t cfg_result" where
  "OnUpdateOtelAllowlist name new_value mh_arg1 =
     (let current_list =
          if name = ''quicpro.otel_exporter_protocol'' then Some [''grpc'', ''http/protobuf'']
          else if name = ''quicpro.otel_traces_sampler_type'' then Some [''parent_based_probability'', ''always_on'', ''always_off'']
          else None
      in case current_list of
           None \<Rightarrow> Fail Wild_Pointer
         | Some allowed \<Rightarrow>
             if allowed_ci allowed new_value then Ok (mh_arg1 (engine_string new_value))
             else Fail Value_Rejected)"

definition OnUpdateOtelHistogramBoundaries ::
  "zend_api \<Rightarrow> string \<Rightarrow> qp_open_telemetry_config_t cfg_result" where
  "OnUpdateOtelHistogramBoundaries Z new_value =
     string_as_zval Z new_value"

definition open_telemetry_ini_entry :: "zend_api \<Rightarrow> string \<Rightarrow> string \<Rightarrow> qp_open_telemetry_config_t \<Rightarrow> qp_open_telemetry_config_t cfg_result" where
  "open_telemetry_ini_entry Z name new_value c =
     (if name = ''quicpro.otel_enable''
      then Ok (c\<lparr>enable := zend_ini_parse_bool Z new_value\<rparr>)
      else if name = ''quicpro.otel_service_name''
      then Ok (c\<lparr>service_name := engine_string new_value\<rparr>)
      else if name = ''quicpro.otel_exporter_endpoint''
      then Ok (c\<lparr>exporter_endpoint := engine_string new_value\<rparr>)
      else if name = ''quicpro.otel_exporter_protocol''
      then OnUpdateOtelAllowlist name new_value (\<lambda>v. c\<lparr>exporter_protocol := v\<rparr>)
      else if name = ''quicpro.otel_exporter_timeout_ms''
      then OnUpdateOtelPositiveLong Z name new_value c
      else if name = ''quicpro.otel_exporter_headers''
      then Ok (c\<lparr>exporter_headers := engine_string new_value\<rparr>)
      else if name = ''quicpro.otel_batch_processor_max_queue_size''
      then OnUpdateOtelPositiveLong Z name new_value c
      else if name = ''quicpro.otel_batch_processor_schedule_delay_ms''
      then OnUpdateOtelPositiveLong Z name new_value c
      else if name = ''quicpro.otel_traces_sampler_type''
      then OnUpdateOtelAllowlist name new_value (\<lambda>v. c\<lparr>traces_sampler_type := v\<rparr>)
      else if name = ''quicpro.otel_traces_sampler_ratio''
      then OnUpdateOtelSamplerRatio Z new_value c
      else if name = ''quicpro.otel_traces_max_attributes_per_span''
      then OnUpdateOtelPositiveLong Z name new_value c
      else if name = ''quicpro.otel_metrics_enable''
      then Ok (c\<lparr>metrics_enable := zend_ini_parse_bool Z new_value\<rparr>)
      else if name = ''quicpro.otel_metrics_export_interval_ms''
      then OnUpdateOtelPositiveLong Z name new_value c
      else if name = ''quicpro.otel_metrics_default_histogram_boundaries''
      then OnUpdateOtelHistogramBoundaries Z new_value
      else if name = ''quicpro.otel_logs_enable''
      then Ok (c\<lparr>logs_enable := zend_ini_parse_bool Z new_value\<rparr>)
      else if name = ''quicpro.otel_logs_exporter_batch_size''
      then OnUpdateOtelPositiveLong Z name new_value c
      else Ok c)"

text \<open>The directives with their default texts, in the order of the table.\<close>

definition open_telemetry_ini_defaults :: "(string \<times> string) list" where
  "open_telemetry_ini_defaults =
     [(''quicpro.otel_enable'', ''1''),
      (''quicpro.otel_service_name'', ''quicpro_application''),
      (''quicpro.otel_exporter_endpoint'', ''http://localhost:4317''),
      (''quicpro.otel_exporter_protocol'', ''grpc''),
      (''quicpro.otel_exporter_timeout_ms'', ''10000''),
      (''quicpro.otel_exporter_headers'', ''''),
      (''quicpro.otel_batch_processor_max_queue_size'', ''2048''),
      (''quicpro.otel_batch_processor_schedule_delay_ms'', ''5000''),
      (''quicpro.otel_traces_sampler_type'', ''parent_based_probability''),
      (''quicpro.otel_traces_sampler_ratio'', ''1.0''),
      (''quicpro.otel_traces_max_attributes_per_span'', ''128''),
      (''quicpro.otel_metrics_enable'', ''1''),
      (''quicpro.otel_metrics_export_interval_ms'', ''60000''),
      (''quicpro.otel_metrics_default_histogram_boundaries'', ''0,5,10,25,50,75,100,250,500,1000''),
      (''quicpro.otel_logs_enable'', ''0''),
      (''quicpro.otel_logs_exporter_batch_size'', ''512'')]"

text \<open>Loading the defaults, then registering the directives: \<^verbatim>\<open>calls\<close> are the handler calls the
  engine makes meanwhile.\<close>

definition qp_config_open_telemetry_init ::
  "zend_api \<Rightarrow> (string \<times> string) list \<Rightarrow> qp_open_telemetry_config_t \<Rightarrow> qp_open_telemetry_config_t cfg_result" where
  "qp_config_open_telemetry_init Z calls c = ini_run (open_telemetry_ini_entry Z) calls (qp_config_open_telemetry_defaults_load c)"

section \<open>Invariant\<close>

definition open_telemetry_inv :: "qp_open_telemetry_config_t \<Rightarrow> bool" where
  "open_telemetry_inv c \<longleftrightarrow>
     ptr_set (service_name c) \<and>
     ptr_set (exporter_endpoint c) \<and>
     ptr_in [''grpc'', ''http/protobuf''] (exporter_protocol c) \<and>
     0 <s exporter_timeout_ms c \<and>
     ptr_set (exporter_headers c) \<and>
     0 <s batch_processor_max_queue_size c \<and>
     0 <s batch_processor_schedule_delay_ms c \<and>
     ptr_in [''parent_based_probability'', ''always_on'', ''always_off''] (traces_sampler_type c) \<and>
     f64_within 0x0000000000000000 0x3FF0000000000000 (traces_sampler_ratio c) \<and>
     0 <s traces_max_attributes_per_span c \<and>
     0 <s metrics_export_interval_ms c \<and>
     ptr_set (metrics_default_histogram_boundaries c) \<and>
     0 <s logs_exporter_batch_size c"

lemma open_telemetry_defaults_inv: "open_telemetry_inv (qp_config_open_telemetry_defaults_load c)"
  by (simp add: open_telemetry_inv_def qp_config_open_telemetry_defaults_load_def config_eval)

lemma open_telemetry_key_inv: "open_telemetry_inv c \<Longrightarrow> keeps open_telemetry_inv (open_telemetry_apply_key Z key value c)"
  unfolding open_telemetry_apply_key_def
  by (rule keeps_rules | simp add: open_telemetry_inv_def accepts)+

lemma open_telemetry_ini_inv: "open_telemetry_inv c \<Longrightarrow> keeps open_telemetry_inv (open_telemetry_ini_entry Z name new_value c)"
  unfolding open_telemetry_ini_entry_def OnUpdateOtelPositiveLong_def OnUpdateOtelSamplerRatio_def OnUpdateOtelAllowlist_def OnUpdateOtelHistogramBoundaries_def Let_def
  by (intro keeps_if keeps_option keeps_Ok keeps_stop keeps_string_as_zval;
      simp add: open_telemetry_inv_def sless_simps f64_within_def)

interpretation open_telemetry: config_module qp_config_open_telemetry_defaults_load "open_telemetry_ini_entry Z" "open_telemetry_apply_key Z" open_telemetry_inv
  for Z
  by unfold_locales (simp_all add: open_telemetry_defaults_inv open_telemetry_key_inv open_telemetry_ini_inv)

end
