(* ===== verification/Config_Native_Cdn.thy ===== *)
theory Config_Native_Cdn
  imports Config_Base
begin

text \<open>
  The content cache: the module \<^verbatim>\<open>src/extension/src/config/native_cdn\<close>.
  The validator \<^verbatim>\<open>qp_validate_writable_file_path\<close> is called but not part of the sources; it is
  an argument.
\<close>

section \<open>State\<close>

record qp_native_cdn_config_t =
  enable :: bool
  cache_mode :: cptr
  cache_memory_limit_mb :: zend_long
  cache_disk_path :: cptr
  cache_default_ttl_sec :: zend_long
  cache_max_object_size_mb :: zend_long
  cache_respect_origin_headers :: bool
  cache_vary_on_headers :: cptr
  origin_mcp_endpoint :: cptr
  origin_http_endpoint :: cptr
  origin_request_timeout_ms :: zend_long
  serve_stale_on_error :: bool
  response_headers_to_add :: cptr
  allowed_http_methods :: cptr

text \<open>The global before anything ran: zeroed static storage.\<close>

definition quicpro_native_cdn_config :: qp_native_cdn_config_t where
  "quicpro_native_cdn_config =
     \<lparr>enable = False, cache_mode = NullPtr, cache_memory_limit_mb = 0, cache_disk_path = NullPtr,
      cache_default_ttl_sec = 0, cache_max_object_size_mb = 0,
      cache_respect_origin_headers = False, cache_vary_on_headers = NullPtr,
      origin_mcp_endpoint = NullPtr, origin_http_endpoint = NullPtr,
      origin_request_timeout_ms = 0, serve_stale_on_error = False,
      response_headers_to_add = NullPtr, allowed_http_methods = NullPtr\<rparr>"

definition qp_config_native_cdn_defaults_load :: "qp_native_cdn_config_t \<Rightarrow> qp_native_cdn_config_t" where
  "qp_config_native_cdn_defaults_load c =
     c\<lparr>enable := False, cache_mode := pestrdup ''disk'', cache_memory_limit_mb := 512,
       cache_disk_path := pestrdup ''/var/cache/quicpro_cdn'', cache_default_ttl_sec := 86400,
       cache_max_object_size_mb := 1024, cache_respect_origin_headers := True,
       cache_vary_on_headers := pestrdup ''Accept-Encoding'',
       origin_mcp_endpoint := pestrdup '''', origin_http_endpoint := pestrdup '''',
       origin_request_timeout_ms := 15000, serve_stale_on_error := True,
       response_headers_to_add := pestrdup ''X-Cache-Status: HIT'',
       allowed_http_methods := pestrdup ''GET,HEAD''\<rparr>"

section \<open>Userland configuration\<close>

definition native_cdn_apply_key ::
  "zend_api \<Rightarrow> (zval \<Rightarrow> cptr \<Rightarrow> cptr cfg_result) \<Rightarrow> string \<Rightarrow> zval \<Rightarrow> qp_native_cdn_config_t \<Rightarrow> qp_native_cdn_config_t cfg_result" where
  "native_cdn_apply_key Z qp_validate_writable_file_path key value c =
     (if key = ''enable''
      then obind (qp_validate_bool value) (\<lambda>_. Ok (c\<lparr>enable := zend_is_true Z value\<rparr>))
      else if key = ''cache_mode''
      then obind (qp_validate_string_from_allowlist value [''memory'', ''disk'', ''hybrid''] (cache_mode c)) (\<lambda>v. Ok (c\<lparr>cache_mode := v\<rparr>))
      else if key = ''cache_memory_limit_mb''
      then obind (qp_validate_positive_long value) (\<lambda>v. Ok (c\<lparr>cache_memory_limit_mb := v\<rparr>))
      else if key = ''cache_disk_path''
      then obind (qp_validate_writable_file_path value (cache_disk_path c)) (\<lambda>v. Ok (c\<lparr>cache_disk_path := v\<rparr>))
      else if key = ''cache_default_ttl_sec''
      then obind (qp_validate_positive_long value) (\<lambda>v. Ok (c\<lparr>cache_default_ttl_sec := v\<rparr>))
      else if key = ''cache_max_object_size_mb''
      then obind (qp_validate_positive_long value) (\<lambda>v. Ok (c\<lparr>cache_max_object_size_mb := v\<rparr>))
      else if key = ''cache_respect_origin_headers''
      then obind (qp_validate_bool value) (\<lambda>_. Ok (c\<lparr>cache_respect_origin_headers := zend_is_true Z value\<rparr>))
      else if key = ''cache_vary_on_headers''
      then obind (qp_validate_generic_string value (cache_vary_on_headers c)) (\<lambda>v. Ok (c\<lparr>cache_vary_on_headers := v\<rparr>))
      else if key = ''origin_mcp_endpoint''
      then obind (qp_validate_generic_string value (origin_mcp_endpoint c)) (\<lambda>v. Ok (c\<lparr>origin_mcp_endpoint := v\<rparr>))
      else if key = ''origin_http_endpoint''
      then obind (qp_validate_generic_string value (origin_http_endpoint c)) (\<lambda>v. Ok (c\<lparr>origin_http_endpoint := v\<rparr>))
      else if key = ''origin_request_timeout_ms''
      then obind (qp_validate_positive_long value) (\<lambda>v. Ok (c\<lparr>origin_request_timeout_ms := v\<rparr>))
      else if key = ''serve_stale_on_error''
      then obind (qp_validate_bool value) (\<lambda>_. Ok (c\<lparr>serve_stale_on_error := zend_is_true Z value\<rparr>))
      else if key = ''response_headers_to_add''
      then obind (qp_validate_generic_string value (response_headers_to_add c)) (\<lambda>v. Ok (c\<lparr>response_headers_to_add := v\<rparr>))
      else if key = ''allowed_http_methods''
      then obind (qp_validate_comma_separated_string_from_allowlist Z value [''GET'', ''HEAD'', ''POST'', ''PUT'', ''DELETE'', ''OPTIONS'', ''PATCH''] (allowed_http_methods c)) (\<lambda>v. Ok (c\<lparr>allowed_http_methods := v\<rparr>))
      else Ok c)"

definition qp_config_native_cdn_apply_userland_config ::
  "zend_api \<Rightarrow> (zval \<Rightarrow> cptr \<Rightarrow> cptr cfg_result) \<Rightarrow> bool \<Rightarrow> zval \<Rightarrow> qp_native_cdn_config_t \<Rightarrow> qp_native_cdn_config_t \<times> unit cfg_result" where
  "qp_config_native_cdn_apply_userland_config Z qp_validate_writable_file_path is_userland_override_allowed config_arr c =
     apply_userland (native_cdn_apply_key Z qp_validate_writable_file_path) is_userland_override_allowed config_arr c"

section \<open>INI directives\<close>

definition OnUpdateCdnPositiveLong ::
  "zend_api \<Rightarrow> string \<Rightarrow> string \<Rightarrow> qp_native_cdn_config_t \<Rightarrow> qp_native_cdn_config_t cfg_result" where
  "OnUpdateCdnPositiveLong Z name new_value c =
     (let val = zend_atol Z new_value in
      if val \<le>s 0 then Fail Value_Rejected
      else if name = ''quicpro.cdn_cache_memory_limit_mb'' then Ok (c\<lparr>cache_memory_limit_mb := val\<rparr>)
      else if name = ''quicpro.cdn_cache_default_ttl_sec'' then Ok (c\<lparr>cache_default_ttl_sec := val\<rparr>)
      else if name = ''quicpro.cdn_cache_max_object_size_mb'' then Ok (c\<lparr>cache_max_object_size_mb := val\<rparr>)
      else if name = ''quicpro.cdn_origin_request_timeout_ms'' then Ok (c\<lparr>origin_request_timeout_ms := val\<rparr>)
      else Ok c)"

definition OnUpdateCacheMode ::
  "string \<Rightarrow> (cptr \<Rightarrow> qp_native_cdn_config_t) \<Rightarrow> qp_native_cdn_config_t cfg_result" where
  "OnUpdateCacheMode new_value mh_arg1 =
     (if allowed_ci [''memory'', ''disk'', ''hybrid''] new_value
      then Ok (mh_arg1 (engine_string new_value)) else Fail Value_Rejected)"

definition native_cdn_ini_entry :: "zend_api \<Rightarrow> string \<Rightarrow> string \<Rightarrow> qp_native_cdn_config_t \<Rightarrow> qp_native_cdn_config_t cfg_result" where
  "native_cdn_ini_entry Z name new_value c =
     (if name = ''quicpro.cdn_enable''
      then Ok (c\<lparr>enable := zend_ini_parse_bool Z new_value\<rparr>)
      else if name = ''quicpro.cdn_cache_mode''
      then OnUpdateCacheMode new_value (\<lambda>v. c\<lparr>cache_mode := v\<rparr>)
      else if name = ''quicpro.cdn_cache_memory_limit_mb''
      then OnUpdateCdnPositiveLong Z name new_value c
      else if name = ''quicpro.cdn_cache_disk_path''
      then Ok (c\<lparr>cache_disk_path := engine_string new_value\<rparr>)
      else if name = ''quicpro.cdn_cache_default_ttl_sec''
      then OnUpdateCdnPositiveLong Z name new_value c
      else if name = ''quicpro.cdn_cache_max_object_size_mb''
      then OnUpdateCdnPositiveLong Z name new_value c
      else if name = ''quicpro.cdn_cache_respect_origin_headers''
      then Ok (c\<lparr>cache_respect_origin_headers := zend_ini_parse_bool Z new_value\<rparr>)
      else if name = ''quicpro.cdn_cache_vary_on_headers''
      then Ok (c\<lparr>cache_vary_on_headers := engine_string new_value\<rparr>)
      else if name = ''quicpro.cdn_origin_mcp_endpoint''
      then Ok (c\<lparr>origin_mcp_endpoint := engine_string new_value\<rparr>)
      else if name = ''quicpro.cdn_origin_http_endpoint''
      then Ok (c\<lparr>origin_http_endpoint := engine_string new_value\<rparr>)
      else if name = ''quicpro.cdn_origin_request_timeout_ms''
      then OnUpdateCdnPositiveLong Z name new_value c
      else if name = ''quicpro.cdn_serve_stale_on_error''
      then Ok (c\<lparr>serve_stale_on_error := zend_ini_parse_bool Z new_value\<rparr>)
      else if name = ''quicpro.cdn_response_headers_to_add''
      then Ok (c\<lparr>response_headers_to_add := engine_string new_value\<rparr>)
      else if name = ''quicpro.cdn_allowed_http_methods''
      then Ok (c\<lparr>allowed_http_methods := engine_string new_value\<rparr>)
      else Ok c)"

text \<open>The directives with their default texts, in the order of the table.\<close>

definition native_cdn_ini_defaults :: "(string \<times> string) list" where
  "native_cdn_ini_defaults =
     [(''quicpro.cdn_enable'', ''0''),
      (''quicpro.cdn_cache_mode'', ''disk''),
      (''quicpro.cdn_cache_memory_limit_mb'', ''512''),
      (''quicpro.cdn_cache_disk_path'', ''/var/cache/quicpro_cdn''),
      (''quicpro.cdn_cache_default_ttl_sec'', ''86400''),
      (''quicpro.cdn_cache_max_object_size_mb'', ''1024''),
      (''quicpro.cdn_cache_respect_origin_headers'', ''1''),
      (''quicpro.cdn_cache_vary_on_headers'', ''Accept-Encoding''),
      (''quicpro.cdn_origin_mcp_endpoint'', ''''),
      (''quicpro.cdn_origin_http_endpoint'', ''''),
      (''quicpro.cdn_origin_request_timeout_ms'', ''15000''),
      (''quicpro.cdn_serve_stale_on_error'', ''1''),
      (''quicpro.cdn_response_headers_to_add'', ''X-Cache-Status: HIT''),
      (''quicpro.cdn_allowed_http_methods'', ''GET,HEAD'')]"

text \<open>Loading the defaults, then registering the directives: \<^verbatim>\<open>calls\<close> are the handler calls the
  engine makes meanwhile.\<close>

definition qp_config_native_cdn_init ::
  "zend_api \<Rightarrow> (string \<times> string) list \<Rightarrow> qp_native_cdn_config_t \<Rightarrow> qp_native_cdn_config_t cfg_result" where
  "qp_config_native_cdn_init Z calls c = ini_run (native_cdn_ini_entry Z) calls (qp_config_native_cdn_defaults_load c)"

section \<open>Invariant\<close>

definition native_cdn_inv :: "qp_native_cdn_config_t \<Rightarrow> bool" where
  "native_cdn_inv c \<longleftrightarrow>
     ptr_in [''memory'', ''disk'', ''hybrid''] (cache_mode c) \<and>
     0 <s cache_memory_limit_mb c \<and>
     0 <s cache_default_ttl_sec c \<and>
     0 <s cache_max_object_size_mb c \<and>
     ptr_set (cache_vary_on_headers c) \<and>
     ptr_set (origin_mcp_endpoint c) \<and>
     ptr_set (origin_http_endpoint c) \<and>
     0 <s origin_request_timeout_ms c \<and>
     ptr_set (response_headers_to_add c) \<and>
     ptr_set (allowed_http_methods c)"

lemma native_cdn_defaults_inv: "native_cdn_inv (qp_config_native_cdn_defaults_load c)"
  by (simp add: native_cdn_inv_def qp_config_native_cdn_defaults_load_def config_eval)

lemma native_cdn_key_inv: "native_cdn_inv c \<Longrightarrow> keeps native_cdn_inv (native_cdn_apply_key Z qp_validate_writable_file_path key value c)"
  unfolding native_cdn_apply_key_def
  by (rule keeps_rules | simp add: native_cdn_inv_def accepts)+

lemma native_cdn_ini_inv: "native_cdn_inv c \<Longrightarrow> keeps native_cdn_inv (native_cdn_ini_entry Z name new_value c)"
  unfolding native_cdn_ini_entry_def OnUpdateCdnPositiveLong_def OnUpdateCacheMode_def Let_def
  by (rule keeps_rules | simp add: native_cdn_inv_def sless_simps f64_within_def)+

interpretation native_cdn: config_module qp_config_native_cdn_defaults_load "native_cdn_ini_entry Z" "native_cdn_apply_key Z qp_validate_writable_file_path" native_cdn_inv
  for Z qp_validate_writable_file_path
  by unfold_locales (simp_all add: native_cdn_defaults_inv native_cdn_key_inv native_cdn_ini_inv)

end
