(* ===== verification/Config_Smart_Dns.thy ===== *)
theory Config_Smart_Dns
  imports Config_Base
begin

text \<open>
  The DNS server: the module \<^verbatim>\<open>src/extension/src/config/smart_dns\<close>.
  The code writes all fields with the prefix \<^verbatim>\<open>dns_\<close> that the struct of the header does not have;
  the record has the names the code uses.
\<close>

section \<open>State\<close>

record qp_smart_dns_config_t =
  dns_server_enable :: bool
  dns_server_bind_host :: cptr
  dns_server_port :: zend_long
  dns_server_enable_tcp :: bool
  dns_default_record_ttl_sec :: zend_long
  dns_mode :: cptr
  dns_static_zone_file_path :: cptr
  dns_recursive_forwarders :: cptr
  dns_health_agent_mcp_endpoint :: cptr
  dns_service_discovery_max_ips_per_response :: zend_long
  dns_enable_dnssec_validation :: bool
  dns_edns_udp_payload_size :: zend_long
  dns_semantic_mode_enable :: bool
  dns_mothernode_uri :: cptr
  dns_mothernode_sync_interval_sec :: zend_long

text \<open>The global before anything ran: zeroed static storage.\<close>

definition quicpro_smart_dns_config :: qp_smart_dns_config_t where
  "quicpro_smart_dns_config =
     \<lparr>dns_server_enable = False, dns_server_bind_host = NullPtr, dns_server_port = 0,
      dns_server_enable_tcp = False, dns_default_record_ttl_sec = 0, dns_mode = NullPtr,
      dns_static_zone_file_path = NullPtr, dns_recursive_forwarders = NullPtr,
      dns_health_agent_mcp_endpoint = NullPtr, dns_service_discovery_max_ips_per_response = 0,
      dns_enable_dnssec_validation = False, dns_edns_udp_payload_size = 0,
      dns_semantic_mode_enable = False, dns_mothernode_uri = NullPtr,
      dns_mothernode_sync_interval_sec = 0\<rparr>"

definition qp_config_smart_dns_defaults_load :: "qp_smart_dns_config_t \<Rightarrow> qp_smart_dns_config_t" where
  "qp_config_smart_dns_defaults_load c =
     c\<lparr>dns_server_enable := False, dns_server_bind_host := pestrdup ''0.0.0.0'',
       dns_server_port := 53, dns_server_enable_tcp := True, dns_default_record_ttl_sec := 60,
       dns_mode := pestrdup ''service_discovery'',
       dns_static_zone_file_path := pestrdup ''/etc/quicpro/dns/zones.db'',
       dns_recursive_forwarders := pestrdup '''',
       dns_health_agent_mcp_endpoint := pestrdup ''127.0.0.1:9998'',
       dns_service_discovery_max_ips_per_response := 8, dns_enable_dnssec_validation := True,
       dns_edns_udp_payload_size := 1232, dns_semantic_mode_enable := False,
       dns_mothernode_uri := pestrdup '''', dns_mothernode_sync_interval_sec := 86400\<rparr>"

section \<open>Userland configuration\<close>

definition smart_dns_apply_key ::
  "zend_api \<Rightarrow> string \<Rightarrow> zval \<Rightarrow> qp_smart_dns_config_t \<Rightarrow> qp_smart_dns_config_t cfg_result" where
  "smart_dns_apply_key Z key value c =
     (if key = ''dns_server_enable''
      then obind (qp_validate_bool value) (\<lambda>_. Ok (c\<lparr>dns_server_enable := zend_is_true Z value\<rparr>))
      else if key = ''dns_server_enable_tcp''
      then obind (qp_validate_bool value) (\<lambda>_. Ok (c\<lparr>dns_server_enable_tcp := zend_is_true Z value\<rparr>))
      else if key = ''dns_enable_dnssec_validation''
      then obind (qp_validate_bool value) (\<lambda>_. Ok (c\<lparr>dns_enable_dnssec_validation := zend_is_true Z value\<rparr>))
      else if key = ''dns_semantic_mode_enable''
      then obind (qp_validate_bool value) (\<lambda>_. Ok (c\<lparr>dns_semantic_mode_enable := zend_is_true Z value\<rparr>))
      else if key = ''dns_server_port''
      then obind (qp_validate_positive_long value) (\<lambda>v. Ok (c\<lparr>dns_server_port := v\<rparr>))
      else if key = ''dns_default_record_ttl_sec''
      then obind (qp_validate_positive_long value) (\<lambda>v. Ok (c\<lparr>dns_default_record_ttl_sec := v\<rparr>))
      else if key = ''dns_service_discovery_max_ips_per_response''
      then obind (qp_validate_positive_long value) (\<lambda>v. Ok (c\<lparr>dns_service_discovery_max_ips_per_response := v\<rparr>))
      else if key = ''dns_edns_udp_payload_size''
      then obind (qp_validate_positive_long value) (\<lambda>v. Ok (c\<lparr>dns_edns_udp_payload_size := v\<rparr>))
      else if key = ''dns_mothernode_sync_interval_sec''
      then obind (qp_validate_positive_long value) (\<lambda>v. Ok (c\<lparr>dns_mothernode_sync_interval_sec := v\<rparr>))
      else if key = ''dns_mode''
      then obind (qp_validate_string_from_allowlist value [''authoritative'', ''recursive_resolver'', ''service_discovery''] (dns_mode c)) (\<lambda>v. Ok (c\<lparr>dns_mode := v\<rparr>))
      else if key = ''dns_server_bind_host''
      then (case value of Z_String s \<Rightarrow> Ok (c\<lparr>dns_server_bind_host := estrdup s\<rparr>) | _ \<Rightarrow> Fail Type_Required)
      else if key = ''dns_static_zone_file_path''
      then (case value of Z_String s \<Rightarrow> Ok (c\<lparr>dns_static_zone_file_path := estrdup s\<rparr>) | _ \<Rightarrow> Fail Type_Required)
      else if key = ''dns_recursive_forwarders''
      then (case value of Z_String s \<Rightarrow> Ok (c\<lparr>dns_recursive_forwarders := estrdup s\<rparr>) | _ \<Rightarrow> Fail Type_Required)
      else if key = ''dns_health_agent_mcp_endpoint''
      then (case value of Z_String s \<Rightarrow> Ok (c\<lparr>dns_health_agent_mcp_endpoint := estrdup s\<rparr>) | _ \<Rightarrow> Fail Type_Required)
      else if key = ''dns_mothernode_uri''
      then (case value of Z_String s \<Rightarrow> Ok (c\<lparr>dns_mothernode_uri := estrdup s\<rparr>) | _ \<Rightarrow> Fail Type_Required)
      else Ok c)"

definition qp_config_smart_dns_apply_userland_config ::
  "zend_api \<Rightarrow> bool \<Rightarrow> zval \<Rightarrow> qp_smart_dns_config_t \<Rightarrow> qp_smart_dns_config_t \<times> unit cfg_result" where
  "qp_config_smart_dns_apply_userland_config Z is_userland_override_allowed config_arr c =
     apply_userland (smart_dns_apply_key Z) is_userland_override_allowed config_arr c"

section \<open>INI directives\<close>

definition OnUpdateDnsPositiveLong ::
  "zend_api \<Rightarrow> string \<Rightarrow> string \<Rightarrow> qp_smart_dns_config_t \<Rightarrow> qp_smart_dns_config_t cfg_result" where
  "OnUpdateDnsPositiveLong Z name new_value c =
     (let val = zend_atol Z new_value in
      if val \<le>s 0 then Fail Value_Rejected
      else if name = ''quicpro.dns_server_port'' then Ok (c\<lparr>dns_server_port := val\<rparr>)
      else if name = ''quicpro.dns_default_record_ttl_sec'' then Ok (c\<lparr>dns_default_record_ttl_sec := val\<rparr>)
      else if name = ''quicpro.dns_service_discovery_max_ips_per_response'' then Ok (c\<lparr>dns_service_discovery_max_ips_per_response := val\<rparr>)
      else if name = ''quicpro.dns_edns_udp_payload_size'' then Ok (c\<lparr>dns_edns_udp_payload_size := val\<rparr>)
      else if name = ''quicpro.dns_mothernode_sync_interval_sec'' then Ok (c\<lparr>dns_mothernode_sync_interval_sec := val\<rparr>)
      else Ok c)"

definition OnUpdateDnsModeString ::
  "string \<Rightarrow> qp_smart_dns_config_t \<Rightarrow> qp_smart_dns_config_t cfg_result" where
  "OnUpdateDnsModeString new_value c =
     (if new_value \<in> set [''authoritative'', ''recursive_resolver'', ''service_discovery'']
      then Ok (c\<lparr>dns_mode := estrdup new_value\<rparr>) else Fail Value_Rejected)"

definition OnUpdateStringDuplicate ::
  "string \<Rightarrow> (cptr \<Rightarrow> qp_smart_dns_config_t) \<Rightarrow> qp_smart_dns_config_t cfg_result" where
  "OnUpdateStringDuplicate new_value mh_arg1 =
     Ok (mh_arg1 (engine_string new_value))"

definition smart_dns_ini_entry :: "zend_api \<Rightarrow> string \<Rightarrow> string \<Rightarrow> qp_smart_dns_config_t \<Rightarrow> qp_smart_dns_config_t cfg_result" where
  "smart_dns_ini_entry Z name new_value c =
     (if name = ''quicpro.dns_server_enable''
      then Ok (c\<lparr>dns_server_enable := zend_ini_parse_bool Z new_value\<rparr>)
      else if name = ''quicpro.dns_server_bind_host''
      then OnUpdateStringDuplicate new_value (\<lambda>v. c\<lparr>dns_server_bind_host := v\<rparr>)
      else if name = ''quicpro.dns_server_port''
      then OnUpdateDnsPositiveLong Z name new_value c
      else if name = ''quicpro.dns_server_enable_tcp''
      then Ok (c\<lparr>dns_server_enable_tcp := zend_ini_parse_bool Z new_value\<rparr>)
      else if name = ''quicpro.dns_default_record_ttl_sec''
      then OnUpdateDnsPositiveLong Z name new_value c
      else if name = ''quicpro.dns_mode''
      then OnUpdateDnsModeString new_value c
      else if name = ''quicpro.dns_static_zone_file_path''
      then OnUpdateStringDuplicate new_value (\<lambda>v. c\<lparr>dns_static_zone_file_path := v\<rparr>)
      else if name = ''quicpro.dns_recursive_forwarders''
      then OnUpdateStringDuplicate new_value (\<lambda>v. c\<lparr>dns_recursive_forwarders := v\<rparr>)
      else if name = ''quicpro.dns_health_agent_mcp_endpoint''
      then OnUpdateStringDuplicate new_value (\<lambda>v. c\<lparr>dns_health_agent_mcp_endpoint := v\<rparr>)
      else if name = ''quicpro.dns_service_discovery_max_ips_per_response''
      then OnUpdateDnsPositiveLong Z name new_value c
      else if name = ''quicpro.dns_enable_dnssec_validation''
      then Ok (c\<lparr>dns_enable_dnssec_validation := zend_ini_parse_bool Z new_value\<rparr>)
      else if name = ''quicpro.dns_edns_udp_payload_size''
      then OnUpdateDnsPositiveLong Z name new_value c
      else if name = ''quicpro.dns_semantic_mode_enable''
      then Ok (c\<lparr>dns_semantic_mode_enable := zend_ini_parse_bool Z new_value\<rparr>)
      else if name = ''quicpro.dns_mothernode_uri''
      then OnUpdateStringDuplicate new_value (\<lambda>v. c\<lparr>dns_mothernode_uri := v\<rparr>)
      else if name = ''quicpro.dns_mothernode_sync_interval_sec''
      then OnUpdateDnsPositiveLong Z name new_value c
      else Ok c)"

text \<open>The directives with their default texts, in the order of the table.\<close>

definition smart_dns_ini_defaults :: "(string \<times> string) list" where
  "smart_dns_ini_defaults =
     [(''quicpro.dns_server_enable'', ''0''),
      (''quicpro.dns_server_bind_host'', ''0.0.0.0''),
      (''quicpro.dns_server_port'', ''53''),
      (''quicpro.dns_server_enable_tcp'', ''1''),
      (''quicpro.dns_default_record_ttl_sec'', ''60''),
      (''quicpro.dns_mode'', ''service_discovery''),
      (''quicpro.dns_static_zone_file_path'', ''/etc/quicpro/dns/zones.db''),
      (''quicpro.dns_recursive_forwarders'', ''''),
      (''quicpro.dns_health_agent_mcp_endpoint'', ''127.0.0.1:9998''),
      (''quicpro.dns_service_discovery_max_ips_per_response'', ''8''),
      (''quicpro.dns_enable_dnssec_validation'', ''1''),
      (''quicpro.dns_edns_udp_payload_size'', ''1232''),
      (''quicpro.dns_semantic_mode_enable'', ''0''),
      (''quicpro.dns_mothernode_uri'', ''''),
      (''quicpro.dns_mothernode_sync_interval_sec'', ''86400'')]"

text \<open>Loading the defaults, then registering the directives: \<^verbatim>\<open>calls\<close> are the handler calls the
  engine makes meanwhile.\<close>

definition qp_config_smart_dns_init ::
  "zend_api \<Rightarrow> (string \<times> string) list \<Rightarrow> qp_smart_dns_config_t \<Rightarrow> qp_smart_dns_config_t cfg_result" where
  "qp_config_smart_dns_init Z calls c = ini_run (smart_dns_ini_entry Z) calls (qp_config_smart_dns_defaults_load c)"

section \<open>Invariant\<close>

definition smart_dns_inv :: "qp_smart_dns_config_t \<Rightarrow> bool" where
  "smart_dns_inv c \<longleftrightarrow>
     ptr_set (dns_server_bind_host c) \<and>
     0 <s dns_server_port c \<and>
     0 <s dns_default_record_ttl_sec c \<and>
     ptr_in [''authoritative'', ''recursive_resolver'', ''service_discovery''] (dns_mode c) \<and>
     ptr_set (dns_static_zone_file_path c) \<and>
     ptr_set (dns_recursive_forwarders c) \<and>
     ptr_set (dns_health_agent_mcp_endpoint c) \<and>
     0 <s dns_service_discovery_max_ips_per_response c \<and>
     0 <s dns_edns_udp_payload_size c \<and>
     ptr_set (dns_mothernode_uri c) \<and>
     0 <s dns_mothernode_sync_interval_sec c"

lemma smart_dns_defaults_inv: "smart_dns_inv (qp_config_smart_dns_defaults_load c)"
  by (simp add: smart_dns_inv_def qp_config_smart_dns_defaults_load_def config_eval)

lemma smart_dns_key_inv: "smart_dns_inv c \<Longrightarrow> keeps smart_dns_inv (smart_dns_apply_key Z key value c)"
  unfolding smart_dns_apply_key_def
  by (rule keeps_rules | simp add: smart_dns_inv_def accepts)+

lemma smart_dns_ini_inv: "smart_dns_inv c \<Longrightarrow> keeps smart_dns_inv (smart_dns_ini_entry Z name new_value c)"
  unfolding smart_dns_ini_entry_def OnUpdateDnsPositiveLong_def OnUpdateDnsModeString_def OnUpdateStringDuplicate_def Let_def
  by (rule keeps_rules | fastforce simp: smart_dns_inv_def sless_simps f64_within_def allowed_ci_def)+

interpretation smart_dns: config_module qp_config_smart_dns_defaults_load "smart_dns_ini_entry Z" "smart_dns_apply_key Z" smart_dns_inv
  for Z
  by unfold_locales (simp_all add: smart_dns_defaults_inv smart_dns_key_inv smart_dns_ini_inv)

end
