(* ===== verification/Config_Ssh_Over_Quic.thy ===== *)
theory Config_Ssh_Over_Quic
  imports Config_Base
begin

text \<open>
  The SSH gateway: the module \<^verbatim>\<open>src/extension/src/config/ssh_over_quic\<close>.
  The code names the fields without the prefix of the header's struct, and writes the
  authentication mode as \<^verbatim>\<open>gateway_auth_mode\<close> from the defaults and the directive but as \<^verbatim>\<open>auth_mode\<close>
  from a userland array: the record has the fields the code uses, both of them included.
\<close>

section \<open>State\<close>

record qp_ssh_over_quic_config_t =
  gateway_enable :: bool
  listen_host :: cptr
  listen_port :: zend_long
  default_target_host :: cptr
  default_target_port :: zend_long
  target_connect_timeout_ms :: zend_long
  gateway_auth_mode :: cptr
  auth_mode :: cptr
  mcp_auth_agent_uri :: cptr
  target_mapping_mode :: cptr
  user_profile_agent_uri :: cptr
  idle_timeout_sec :: zend_long
  log_session_activity :: bool

text \<open>The global before anything ran: zeroed static storage.\<close>

definition quicpro_ssh_quic_config :: qp_ssh_over_quic_config_t where
  "quicpro_ssh_quic_config =
     \<lparr>gateway_enable = False, listen_host = NullPtr, listen_port = 0,
      default_target_host = NullPtr, default_target_port = 0, target_connect_timeout_ms = 0,
      gateway_auth_mode = NullPtr, auth_mode = NullPtr, mcp_auth_agent_uri = NullPtr,
      target_mapping_mode = NullPtr, user_profile_agent_uri = NullPtr, idle_timeout_sec = 0,
      log_session_activity = False\<rparr>"

definition qp_config_ssh_over_quic_defaults_load :: "qp_ssh_over_quic_config_t \<Rightarrow> qp_ssh_over_quic_config_t" where
  "qp_config_ssh_over_quic_defaults_load c =
     c\<lparr>gateway_enable := False, listen_host := pestrdup ''0.0.0.0'', listen_port := 2222,
       default_target_host := pestrdup ''127.0.0.1'', default_target_port := 22,
       target_connect_timeout_ms := 5000, gateway_auth_mode := pestrdup ''mtls'',
       mcp_auth_agent_uri := pestrdup '''', target_mapping_mode := pestrdup ''static'',
       user_profile_agent_uri := pestrdup '''', idle_timeout_sec := 1800,
       log_session_activity := True\<rparr>"

section \<open>Userland configuration\<close>

definition ssh_quic_apply_key ::
  "zend_api \<Rightarrow> string \<Rightarrow> zval \<Rightarrow> qp_ssh_over_quic_config_t \<Rightarrow> qp_ssh_over_quic_config_t cfg_result" where
  "ssh_quic_apply_key Z key value c =
     (if key = ''ssh_gateway_enable''
      then obind (qp_validate_bool value) (\<lambda>_. Ok (c\<lparr>gateway_enable := zend_is_true Z value\<rparr>))
      else if key = ''ssh_gateway_log_session_activity''
      then obind (qp_validate_bool value) (\<lambda>_. Ok (c\<lparr>log_session_activity := zend_is_true Z value\<rparr>))
      else if key = ''ssh_gateway_listen_host''
      then (case value of Z_String s \<Rightarrow> Ok (c\<lparr>listen_host := estrdup s\<rparr>) | _ \<Rightarrow> Fail Type_Required)
      else if key = ''ssh_gateway_default_target_host''
      then (case value of Z_String s \<Rightarrow> Ok (c\<lparr>default_target_host := estrdup s\<rparr>) | _ \<Rightarrow> Fail Type_Required)
      else if key = ''ssh_gateway_mcp_auth_agent_uri''
      then (case value of Z_String s \<Rightarrow> Ok (c\<lparr>mcp_auth_agent_uri := estrdup s\<rparr>) | _ \<Rightarrow> Fail Type_Required)
      else if key = ''ssh_gateway_user_profile_agent_uri''
      then (case value of Z_String s \<Rightarrow> Ok (c\<lparr>user_profile_agent_uri := estrdup s\<rparr>) | _ \<Rightarrow> Fail Type_Required)
      else if key = ''ssh_gateway_listen_port''
      then obind (qp_validate_positive_long value) (\<lambda>v. Ok (c\<lparr>listen_port := v\<rparr>))
      else if key = ''ssh_gateway_default_target_port''
      then obind (qp_validate_positive_long value) (\<lambda>v. Ok (c\<lparr>default_target_port := v\<rparr>))
      else if key = ''ssh_gateway_target_connect_timeout_ms''
      then obind (qp_validate_positive_long value) (\<lambda>v. Ok (c\<lparr>target_connect_timeout_ms := v\<rparr>))
      else if key = ''ssh_gateway_idle_timeout_sec''
      then obind (qp_validate_positive_long value) (\<lambda>v. Ok (c\<lparr>idle_timeout_sec := v\<rparr>))
      else if key = ''ssh_gateway_auth_mode''
      then obind (qp_validate_string_from_allowlist value [''mtls'', ''mcp_token''] (auth_mode c)) (\<lambda>v. Ok (c\<lparr>auth_mode := v\<rparr>))
      else if key = ''ssh_gateway_target_mapping_mode''
      then obind (qp_validate_string_from_allowlist value [''static'', ''user_profile''] (target_mapping_mode c)) (\<lambda>v. Ok (c\<lparr>target_mapping_mode := v\<rparr>))
      else Ok c)"

definition qp_config_ssh_over_quic_apply_userland_config ::
  "zend_api \<Rightarrow> bool \<Rightarrow> zval \<Rightarrow> qp_ssh_over_quic_config_t \<Rightarrow> qp_ssh_over_quic_config_t \<times> unit cfg_result" where
  "qp_config_ssh_over_quic_apply_userland_config Z is_userland_override_allowed config_arr c =
     apply_userland (ssh_quic_apply_key Z) is_userland_override_allowed config_arr c"

section \<open>INI directives\<close>

definition OnUpdateSshQuicPositiveLong ::
  "zend_api \<Rightarrow> string \<Rightarrow> string \<Rightarrow> qp_ssh_over_quic_config_t \<Rightarrow> qp_ssh_over_quic_config_t cfg_result" where
  "OnUpdateSshQuicPositiveLong Z name new_value c =
     (let val = zend_atol Z new_value in
      if val \<le>s 0 then Fail Value_Rejected
      else if name = ''quicpro.ssh_gateway_listen_port'' then Ok (c\<lparr>listen_port := val\<rparr>)
      else if name = ''quicpro.ssh_gateway_default_target_port'' then Ok (c\<lparr>default_target_port := val\<rparr>)
      else if name = ''quicpro.ssh_gateway_target_connect_timeout_ms'' then Ok (c\<lparr>target_connect_timeout_ms := val\<rparr>)
      else if name = ''quicpro.ssh_gateway_idle_timeout_sec'' then Ok (c\<lparr>idle_timeout_sec := val\<rparr>)
      else Ok c)"

definition OnUpdateSshQuicAuthMode ::
  "string \<Rightarrow> qp_ssh_over_quic_config_t \<Rightarrow> qp_ssh_over_quic_config_t cfg_result" where
  "OnUpdateSshQuicAuthMode new_value c =
     (if new_value \<in> set [''mtls'', ''mcp_token'']
      then Ok (c\<lparr>gateway_auth_mode := estrdup new_value\<rparr>) else Fail Value_Rejected)"

definition OnUpdateSshQuicMappingMode ::
  "string \<Rightarrow> qp_ssh_over_quic_config_t \<Rightarrow> qp_ssh_over_quic_config_t cfg_result" where
  "OnUpdateSshQuicMappingMode new_value c =
     (if new_value \<in> set [''static'', ''user_profile'']
      then Ok (c\<lparr>target_mapping_mode := estrdup new_value\<rparr>) else Fail Value_Rejected)"

definition OnUpdateSshQuicStringDuplicate ::
  "string \<Rightarrow> (cptr \<Rightarrow> qp_ssh_over_quic_config_t) \<Rightarrow> qp_ssh_over_quic_config_t cfg_result" where
  "OnUpdateSshQuicStringDuplicate new_value mh_arg1 =
     Ok (mh_arg1 (engine_string new_value))"

definition ssh_quic_ini_entry :: "zend_api \<Rightarrow> string \<Rightarrow> string \<Rightarrow> qp_ssh_over_quic_config_t \<Rightarrow> qp_ssh_over_quic_config_t cfg_result" where
  "ssh_quic_ini_entry Z name new_value c =
     (if name = ''quicpro.ssh_gateway_enable''
      then Ok (c\<lparr>gateway_enable := zend_ini_parse_bool Z new_value\<rparr>)
      else if name = ''quicpro.ssh_gateway_listen_host''
      then OnUpdateSshQuicStringDuplicate new_value (\<lambda>v. c\<lparr>listen_host := v\<rparr>)
      else if name = ''quicpro.ssh_gateway_listen_port''
      then OnUpdateSshQuicPositiveLong Z name new_value c
      else if name = ''quicpro.ssh_gateway_default_target_host''
      then OnUpdateSshQuicStringDuplicate new_value (\<lambda>v. c\<lparr>default_target_host := v\<rparr>)
      else if name = ''quicpro.ssh_gateway_default_target_port''
      then OnUpdateSshQuicPositiveLong Z name new_value c
      else if name = ''quicpro.ssh_gateway_target_connect_timeout_ms''
      then OnUpdateSshQuicPositiveLong Z name new_value c
      else if name = ''quicpro.ssh_gateway_auth_mode''
      then OnUpdateSshQuicAuthMode new_value c
      else if name = ''quicpro.ssh_gateway_mcp_auth_agent_uri''
      then OnUpdateSshQuicStringDuplicate new_value (\<lambda>v. c\<lparr>mcp_auth_agent_uri := v\<rparr>)
      else if name = ''quicpro.ssh_gateway_target_mapping_mode''
      then OnUpdateSshQuicMappingMode new_value c
      else if name = ''quicpro.ssh_gateway_user_profile_agent_uri''
      then OnUpdateSshQuicStringDuplicate new_value (\<lambda>v. c\<lparr>user_profile_agent_uri := v\<rparr>)
      else if name = ''quicpro.ssh_gateway_idle_timeout_sec''
      then OnUpdateSshQuicPositiveLong Z name new_value c
      else if name = ''quicpro.ssh_gateway_log_session_activity''
      then Ok (c\<lparr>log_session_activity := zend_ini_parse_bool Z new_value\<rparr>)
      else Ok c)"

text \<open>The directives with their default texts, in the order of the table.\<close>

definition ssh_quic_ini_defaults :: "(string \<times> string) list" where
  "ssh_quic_ini_defaults =
     [(''quicpro.ssh_gateway_enable'', ''0''),
      (''quicpro.ssh_gateway_listen_host'', ''0.0.0.0''),
      (''quicpro.ssh_gateway_listen_port'', ''2222''),
      (''quicpro.ssh_gateway_default_target_host'', ''127.0.0.1''),
      (''quicpro.ssh_gateway_default_target_port'', ''22''),
      (''quicpro.ssh_gateway_target_connect_timeout_ms'', ''5000''),
      (''quicpro.ssh_gateway_auth_mode'', ''mtls''),
      (''quicpro.ssh_gateway_mcp_auth_agent_uri'', ''''),
      (''quicpro.ssh_gateway_target_mapping_mode'', ''static''),
      (''quicpro.ssh_gateway_user_profile_agent_uri'', ''''),
      (''quicpro.ssh_gateway_idle_timeout_sec'', ''1800''),
      (''quicpro.ssh_gateway_log_session_activity'', ''1'')]"

text \<open>Loading the defaults, then registering the directives: \<^verbatim>\<open>calls\<close> are the handler calls the
  engine makes meanwhile.\<close>

definition qp_config_ssh_over_quic_init ::
  "zend_api \<Rightarrow> (string \<times> string) list \<Rightarrow> qp_ssh_over_quic_config_t \<Rightarrow> qp_ssh_over_quic_config_t cfg_result" where
  "qp_config_ssh_over_quic_init Z calls c = ini_run (ssh_quic_ini_entry Z) calls (qp_config_ssh_over_quic_defaults_load c)"

section \<open>Invariant\<close>

definition ssh_quic_inv :: "qp_ssh_over_quic_config_t \<Rightarrow> bool" where
  "ssh_quic_inv c \<longleftrightarrow>
     ptr_set (listen_host c) \<and>
     0 <s listen_port c \<and>
     ptr_set (default_target_host c) \<and>
     0 <s default_target_port c \<and>
     0 <s target_connect_timeout_ms c \<and>
     ptr_in [''mtls'', ''mcp_token''] (gateway_auth_mode c) \<and>
     ptr_set (mcp_auth_agent_uri c) \<and>
     ptr_in [''static'', ''user_profile''] (target_mapping_mode c) \<and>
     ptr_set (user_profile_agent_uri c) \<and>
     0 <s idle_timeout_sec c"

lemma ssh_quic_defaults_inv: "ssh_quic_inv (qp_config_ssh_over_quic_defaults_load c)"
  by (simp add: ssh_quic_inv_def qp_config_ssh_over_quic_defaults_load_def config_eval)

lemma ssh_quic_key_inv: "ssh_quic_inv c \<Longrightarrow> keeps ssh_quic_inv (ssh_quic_apply_key Z key value c)"
  unfolding ssh_quic_apply_key_def
  by (rule keeps_rules | simp add: ssh_quic_inv_def accepts)+

lemma ssh_quic_ini_inv: "ssh_quic_inv c \<Longrightarrow> keeps ssh_quic_inv (ssh_quic_ini_entry Z name new_value c)"
  unfolding ssh_quic_ini_entry_def OnUpdateSshQuicPositiveLong_def OnUpdateSshQuicAuthMode_def OnUpdateSshQuicMappingMode_def OnUpdateSshQuicStringDuplicate_def Let_def
  by (rule keeps_rules | fastforce simp: ssh_quic_inv_def sless_simps f64_within_def allowed_ci_def)+

interpretation ssh_quic: config_module qp_config_ssh_over_quic_defaults_load "ssh_quic_ini_entry Z" "ssh_quic_apply_key Z" ssh_quic_inv
  for Z
  by unfold_locales (simp_all add: ssh_quic_defaults_inv ssh_quic_key_inv ssh_quic_ini_inv)

end
