(* ===== verification/Config_Router_And_Loadbalancer.thy ===== *)
theory Config_Router_And_Loadbalancer
  imports Config_Base
begin

text \<open>
  Router mode and backends: the module \<^verbatim>\<open>src/extension/src/config/router_and_loadbalancer\<close>.
\<close>

section \<open>State\<close>

record qp_router_loadbalancer_config_t =
  router_mode_enable :: bool
  hashing_algorithm :: cptr
  connection_id_entropy_salt :: cptr
  backend_discovery_mode :: cptr
  backend_static_list :: cptr
  backend_mcp_endpoint :: cptr
  backend_mcp_poll_interval_sec :: zend_long
  max_forwarding_pps :: zend_long

text \<open>The global before anything ran: zeroed static storage.\<close>

definition quicpro_router_loadbalancer_config :: qp_router_loadbalancer_config_t where
  "quicpro_router_loadbalancer_config =
     \<lparr>router_mode_enable = False, hashing_algorithm = NullPtr,
      connection_id_entropy_salt = NullPtr, backend_discovery_mode = NullPtr,
      backend_static_list = NullPtr, backend_mcp_endpoint = NullPtr,
      backend_mcp_poll_interval_sec = 0, max_forwarding_pps = 0\<rparr>"

definition qp_config_router_and_loadbalancer_defaults_load :: "qp_router_loadbalancer_config_t \<Rightarrow> qp_router_loadbalancer_config_t" where
  "qp_config_router_and_loadbalancer_defaults_load c =
     c\<lparr>router_mode_enable := False, hashing_algorithm := pestrdup ''consistent_hash'',
       connection_id_entropy_salt := pestrdup ''change-this-to-a-long-random-string-in-production'',
       backend_discovery_mode := pestrdup ''static'',
       backend_static_list := pestrdup ''127.0.0.1:8443'',
       backend_mcp_endpoint := pestrdup ''127.0.0.1:9998'', backend_mcp_poll_interval_sec := 10,
       max_forwarding_pps := 1000000\<rparr>"

section \<open>Userland configuration\<close>

definition router_loadbalancer_apply_key ::
  "zend_api \<Rightarrow> string \<Rightarrow> zval \<Rightarrow> qp_router_loadbalancer_config_t \<Rightarrow> qp_router_loadbalancer_config_t cfg_result" where
  "router_loadbalancer_apply_key Z key value c =
     (if key = ''router_mode_enable''
      then obind (qp_validate_bool value) (\<lambda>_. Ok (c\<lparr>router_mode_enable := zend_is_true Z value\<rparr>))
      else if key = ''hashing_algorithm''
      then obind (qp_validate_string_from_allowlist value [''consistent_hash'', ''round_robin''] (hashing_algorithm c)) (\<lambda>v. Ok (c\<lparr>hashing_algorithm := v\<rparr>))
      else if key = ''connection_id_entropy_salt''
      then obind (qp_validate_generic_string value (connection_id_entropy_salt c)) (\<lambda>v. Ok (c\<lparr>connection_id_entropy_salt := v\<rparr>))
      else if key = ''backend_discovery_mode''
      then obind (qp_validate_string_from_allowlist value [''static'', ''mcp''] (backend_discovery_mode c)) (\<lambda>v. Ok (c\<lparr>backend_discovery_mode := v\<rparr>))
      else if key = ''backend_static_list''
      then obind (qp_validate_generic_string value (backend_static_list c)) (\<lambda>v. Ok (c\<lparr>backend_static_list := v\<rparr>))
      else if key = ''backend_mcp_endpoint''
      then obind (qp_validate_generic_string value (backend_mcp_endpoint c)) (\<lambda>v. Ok (c\<lparr>backend_mcp_endpoint := v\<rparr>))
      else if key = ''backend_mcp_poll_interval_sec''
      then obind (qp_validate_positive_long value) (\<lambda>v. Ok (c\<lparr>backend_mcp_poll_interval_sec := v\<rparr>))
      else if key = ''max_forwarding_pps''
      then obind (qp_validate_positive_long value) (\<lambda>v. Ok (c\<lparr>max_forwarding_pps := v\<rparr>))
      else Ok c)"

definition qp_config_router_and_loadbalancer_apply_userland_config ::
  "zend_api \<Rightarrow> bool \<Rightarrow> zval \<Rightarrow> qp_router_loadbalancer_config_t \<Rightarrow> qp_router_loadbalancer_config_t \<times> unit cfg_result" where
  "qp_config_router_and_loadbalancer_apply_userland_config Z is_userland_override_allowed config_arr c =
     apply_userland (router_loadbalancer_apply_key Z) is_userland_override_allowed config_arr c"

section \<open>INI directives\<close>

definition OnUpdateRouterPositiveLong ::
  "zend_api \<Rightarrow> string \<Rightarrow> string \<Rightarrow> qp_router_loadbalancer_config_t \<Rightarrow> qp_router_loadbalancer_config_t cfg_result" where
  "OnUpdateRouterPositiveLong Z name new_value c =
     (let val = zend_atol Z new_value in
      if val \<le>s 0 then Fail Value_Rejected
      else if name = ''quicpro.router_backend_mcp_poll_interval_sec'' then Ok (c\<lparr>backend_mcp_poll_interval_sec := val\<rparr>)
      else if name = ''quicpro.router_max_forwarding_pps'' then Ok (c\<lparr>max_forwarding_pps := val\<rparr>)
      else Ok c)"

definition OnUpdateRouterAllowlist ::
  "string \<Rightarrow> string \<Rightarrow> (cptr \<Rightarrow> qp_router_loadbalancer_config_t) \<Rightarrow> qp_router_loadbalancer_config_t cfg_result" where
  "OnUpdateRouterAllowlist name new_value mh_arg1 =
     (let current_list =
          if name = ''quicpro.router_hashing_algorithm'' then Some [''consistent_hash'', ''round_robin'']
          else if name = ''quicpro.router_backend_discovery_mode'' then Some [''static'', ''mcp'']
          else None
      in case current_list of
           None \<Rightarrow> Fail Wild_Pointer
         | Some allowed \<Rightarrow>
             if allowed_ci allowed new_value then Ok (mh_arg1 (engine_string new_value))
             else Fail Value_Rejected)"

definition router_loadbalancer_ini_entry :: "zend_api \<Rightarrow> string \<Rightarrow> string \<Rightarrow> qp_router_loadbalancer_config_t \<Rightarrow> qp_router_loadbalancer_config_t cfg_result" where
  "router_loadbalancer_ini_entry Z name new_value c =
     (if name = ''quicpro.router_mode_enable''
      then Ok (c\<lparr>router_mode_enable := zend_ini_parse_bool Z new_value\<rparr>)
      else if name = ''quicpro.router_hashing_algorithm''
      then OnUpdateRouterAllowlist name new_value (\<lambda>v. c\<lparr>hashing_algorithm := v\<rparr>)
      else if name = ''quicpro.router_connection_id_entropy_salt''
      then Ok (c\<lparr>connection_id_entropy_salt := engine_string new_value\<rparr>)
      else if name = ''quicpro.router_backend_discovery_mode''
      then OnUpdateRouterAllowlist name new_value (\<lambda>v. c\<lparr>backend_discovery_mode := v\<rparr>)
      else if name = ''quicpro.router_backend_static_list''
      then Ok (c\<lparr>backend_static_list := engine_string new_value\<rparr>)
      else if name = ''quicpro.router_backend_mcp_endpoint''
      then Ok (c\<lparr>backend_mcp_endpoint := engine_string new_value\<rparr>)
      else if name = ''quicpro.router_backend_mcp_poll_interval_sec''
      then OnUpdateRouterPositiveLong Z name new_value c
      else if name = ''quicpro.router_max_forwarding_pps''
      then OnUpdateRouterPositiveLong Z name new_value c
      else Ok c)"

text \<open>The directives with their default texts, in the order of the table.\<close>

definition router_loadbalancer_ini_defaults :: "(string \<times> string) list" where
  "router_loadbalancer_ini_defaults =
     [(''quicpro.router_mode_enable'', ''0''),
      (''quicpro.router_hashing_algorithm'', ''consistent_hash''),
      (''quicpro.router_connection_id_entropy_salt'', ''change-this-to-a-long-random-string-in-production''),
      (''quicpro.router_backend_discovery_mode'', ''static''),
      (''quicpro.router_backend_static_list'', ''127.0.0.1:8443''),
      (''quicpro.router_backend_mcp_endpoint'', ''127.0.0.1:9998''),
      (''quicpro.router_backend_mcp_poll_interval_sec'', ''10''),
      (''quicpro.router_max_forwarding_pps'', ''1000000'')]"

text \<open>Loading the defaults, then registering the directives: \<^verbatim>\<open>calls\<close> are the handler calls the
  engine makes meanwhile.\<close>

definition qp_config_router_and_loadbalancer_init ::
  "zend_api \<Rightarrow> (string \<times> string) list \<Rightarrow> qp_router_loadbalancer_config_t \<Rightarrow> qp_router_loadbalancer_config_t cfg_result" where
  "qp_config_router_and_loadbalancer_init Z calls c = ini_run (router_loadbalancer_ini_entry Z) calls (qp_config_router_and_loadbalancer_defaults_load c)"

section \<open>Invariant\<close>

definition router_loadbalancer_inv :: "qp_router_loadbalancer_config_t \<Rightarrow> bool" where
  "router_loadbalancer_inv c \<longleftrightarrow>
     ptr_in [''consistent_hash'', ''round_robin''] (hashing_algorithm c) \<and>
     ptr_set (connection_id_entropy_salt c) \<and>
     ptr_in [''static'', ''mcp''] (backend_discovery_mode c) \<and>
     ptr_set (backend_static_list c) \<and>
     ptr_set (backend_mcp_endpoint c) \<and>
     0 <s backend_mcp_poll_interval_sec c \<and>
     0 <s max_forwarding_pps c"

lemma router_loadbalancer_defaults_inv: "router_loadbalancer_inv (qp_config_router_and_loadbalancer_defaults_load c)"
  by (simp add: router_loadbalancer_inv_def qp_config_router_and_loadbalancer_defaults_load_def config_eval)

lemma router_loadbalancer_key_inv: "router_loadbalancer_inv c \<Longrightarrow> keeps router_loadbalancer_inv (router_loadbalancer_apply_key Z key value c)"
  unfolding router_loadbalancer_apply_key_def
  by (rule keeps_rules | simp add: router_loadbalancer_inv_def accepts)+

lemma router_loadbalancer_ini_inv: "router_loadbalancer_inv c \<Longrightarrow> keeps router_loadbalancer_inv (router_loadbalancer_ini_entry Z name new_value c)"
  unfolding router_loadbalancer_ini_entry_def OnUpdateRouterPositiveLong_def OnUpdateRouterAllowlist_def Let_def
  by (intro keeps_if keeps_option keeps_Ok keeps_stop keeps_string_as_zval;
      simp add: router_loadbalancer_inv_def sless_simps f64_within_def)

interpretation router_loadbalancer: config_module qp_config_router_and_loadbalancer_defaults_load "router_loadbalancer_ini_entry Z" "router_loadbalancer_apply_key Z" router_loadbalancer_inv
  for Z
  by unfold_locales (simp_all add: router_loadbalancer_defaults_inv router_loadbalancer_key_inv router_loadbalancer_ini_inv)

end
