(* ===== verification/Config_Smart_Contracts.thy ===== *)
theory Config_Smart_Contracts
  imports Config_Base
begin

text \<open>
  Smart contracts: the module \<^verbatim>\<open>src/extension/src/config/smart_contracts\<close>.
  The code calls the first field \<^verbatim>\<open>smartcontract_enable\<close>, the header \<^verbatim>\<open>enable\<close>; the record has the name
  the code uses.  The validator \<^verbatim>\<open>qp_validate_non_empty_string\<close> is called but not part of the
  sources; it is an argument.  \<^verbatim>\<open>zend_string_equals_literal\<close> is the equality of strings it documents.
\<close>

section \<open>State\<close>

record qp_smart_contracts_config_t =
  smartcontract_enable :: bool
  registry_uri :: cptr
  dlt_provider :: cptr
  dlt_rpc_endpoint :: cptr
  chain_id :: zend_long
  default_gas_limit :: zend_long
  default_gas_price_gwei :: zend_long
  default_wallet_path :: cptr
  default_wallet_password_env_var :: cptr
  use_hardware_wallet :: bool
  hsm_pkcs11_library_path :: cptr
  abi_directory :: cptr
  event_listener_enable :: bool

text \<open>The global before anything ran: zeroed static storage.\<close>

definition quicpro_smart_contracts_config :: qp_smart_contracts_config_t where
  "quicpro_smart_contracts_config =
     \<lparr>smartcontract_enable = False, registry_uri = NullPtr, dlt_provider = NullPtr,
      dlt_rpc_endpoint = NullPtr, chain_id = 0, default_gas_limit = 0, default_gas_price_gwei = 0,
      default_wallet_path = NullPtr, default_wallet_password_env_var = NullPtr,
      use_hardware_wallet = False, hsm_pkcs11_library_path = NullPtr, abi_directory = NullPtr,
      event_listener_enable = False\<rparr>"

definition qp_config_smart_contracts_defaults_load :: "qp_smart_contracts_config_t \<Rightarrow> qp_smart_contracts_config_t" where
  "qp_config_smart_contracts_defaults_load c =
     c\<lparr>smartcontract_enable := False,
       registry_uri := pestrdup ''https://contracts.quicpro.internal'',
       dlt_provider := pestrdup ''ethereum'', dlt_rpc_endpoint := pestrdup '''', chain_id := 1,
       default_gas_limit := 300000, default_gas_price_gwei := 20,
       default_wallet_path := pestrdup '''',
       default_wallet_password_env_var := pestrdup ''QUICPRO_WALLET_PASSWORD'',
       use_hardware_wallet := False,
       hsm_pkcs11_library_path := pestrdup ''/usr/lib/x86_64-linux-gnu/softhsm/libsofthsm2.so'',
       abi_directory := pestrdup ''/var/www/abis'', event_listener_enable := False\<rparr>"

section \<open>Userland configuration\<close>

definition smart_contracts_apply_key ::
  "zend_api \<Rightarrow> (zval \<Rightarrow> cptr \<Rightarrow> cptr cfg_result) \<Rightarrow> string \<Rightarrow> zval \<Rightarrow> qp_smart_contracts_config_t \<Rightarrow> qp_smart_contracts_config_t cfg_result" where
  "smart_contracts_apply_key Z qp_validate_non_empty_string key value c =
     (if key = ''smartcontract_enable''
      then obind (qp_validate_bool value) (\<lambda>_. Ok (c\<lparr>smartcontract_enable := zend_is_true Z value\<rparr>))
      else if key = ''smartcontract_registry_uri''
      then obind (qp_validate_non_empty_string value (registry_uri c)) (\<lambda>v. Ok (c\<lparr>registry_uri := v\<rparr>))
      else if key = ''smartcontract_dlt_provider''
      then obind (qp_validate_string_from_allowlist value [''ethereum'', ''solana'', ''fabric''] (dlt_provider c)) (\<lambda>v. Ok (c\<lparr>dlt_provider := v\<rparr>))
      else if key = ''smartcontract_dlt_rpc_endpoint''
      then obind (qp_validate_non_empty_string value (dlt_rpc_endpoint c)) (\<lambda>v. Ok (c\<lparr>dlt_rpc_endpoint := v\<rparr>))
      else if key = ''smartcontract_chain_id''
      then obind (qp_validate_positive_long value) (\<lambda>v. Ok (c\<lparr>chain_id := v\<rparr>))
      else if key = ''smartcontract_default_gas_limit''
      then obind (qp_validate_positive_long value) (\<lambda>v. Ok (c\<lparr>default_gas_limit := v\<rparr>))
      else if key = ''smartcontract_default_gas_price_gwei''
      then obind (qp_validate_positive_long value) (\<lambda>v. Ok (c\<lparr>default_gas_price_gwei := v\<rparr>))
      else if key = ''smartcontract_default_wallet_path''
      then obind (qp_validate_non_empty_string value (default_wallet_path c)) (\<lambda>v. Ok (c\<lparr>default_wallet_path := v\<rparr>))
      else if key = ''smartcontract_default_wallet_password_env_var''
      then obind (qp_validate_non_empty_string value (default_wallet_password_env_var c)) (\<lambda>v. Ok (c\<lparr>default_wallet_password_env_var := v\<rparr>))
      else if key = ''smartcontract_use_hardware_wallet''
      then obind (qp_validate_bool value) (\<lambda>_. Ok (c\<lparr>use_hardware_wallet := zend_is_true Z value\<rparr>))
      else if key = ''smartcontract_hsm_pkcs11_library_path''
      then obind (qp_validate_non_empty_string value (hsm_pkcs11_library_path c)) (\<lambda>v. Ok (c\<lparr>hsm_pkcs11_library_path := v\<rparr>))
      else if key = ''smartcontract_abi_directory''
      then obind (qp_validate_non_empty_string value (abi_directory c)) (\<lambda>v. Ok (c\<lparr>abi_directory := v\<rparr>))
      else if key = ''smartcontract_event_listener_enable''
      then obind (qp_validate_bool value) (\<lambda>_. Ok (c\<lparr>event_listener_enable := zend_is_true Z value\<rparr>))
      else Ok c)"

definition qp_config_smart_contracts_apply_userland_config ::
  "zend_api \<Rightarrow> (zval \<Rightarrow> cptr \<Rightarrow> cptr cfg_result) \<Rightarrow> bool \<Rightarrow> zval \<Rightarrow> qp_smart_contracts_config_t \<Rightarrow> qp_smart_contracts_config_t \<times> unit cfg_result" where
  "qp_config_smart_contracts_apply_userland_config Z qp_validate_non_empty_string is_userland_override_allowed config_arr c =
     apply_userland (smart_contracts_apply_key Z qp_validate_non_empty_string) is_userland_override_allowed config_arr c"

section \<open>INI directives\<close>

definition OnUpdateSmartContractPositiveLong ::
  "zend_api \<Rightarrow> string \<Rightarrow> string \<Rightarrow> qp_smart_contracts_config_t \<Rightarrow> qp_smart_contracts_config_t cfg_result" where
  "OnUpdateSmartContractPositiveLong Z name new_value c =
     (let val = zend_atol Z new_value in
      if val \<le>s 0 then Fail Value_Rejected
      else if name = ''quicpro.smartcontract_chain_id'' then Ok (c\<lparr>chain_id := val\<rparr>)
      else if name = ''quicpro.smartcontract_default_gas_limit'' then Ok (c\<lparr>default_gas_limit := val\<rparr>)
      else if name = ''quicpro.smartcontract_default_gas_price_gwei'' then Ok (c\<lparr>default_gas_price_gwei := val\<rparr>)
      else Ok c)"

definition OnUpdateDltProviderString ::
  "string \<Rightarrow> qp_smart_contracts_config_t \<Rightarrow> qp_smart_contracts_config_t cfg_result" where
  "OnUpdateDltProviderString new_value c =
     (if new_value \<in> set [''ethereum'', ''solana'', ''fabric'']
      then Ok (c\<lparr>dlt_provider := estrdup new_value\<rparr>) else Fail Value_Rejected)"

definition OnUpdateStringDuplicate ::
  "string \<Rightarrow> (cptr \<Rightarrow> qp_smart_contracts_config_t) \<Rightarrow> qp_smart_contracts_config_t cfg_result" where
  "OnUpdateStringDuplicate new_value mh_arg1 =
     Ok (mh_arg1 (engine_string new_value))"

definition smart_contracts_ini_entry :: "zend_api \<Rightarrow> string \<Rightarrow> string \<Rightarrow> qp_smart_contracts_config_t \<Rightarrow> qp_smart_contracts_config_t cfg_result" where
  "smart_contracts_ini_entry Z name new_value c =
     (if name = ''quicpro.smartcontract_enable''
      then Ok (c\<lparr>smartcontract_enable := zend_ini_parse_bool Z new_value\<rparr>)
      else if name = ''quicpro.smartcontract_registry_uri''
      then OnUpdateStringDuplicate new_value (\<lambda>v. c\<lparr>registry_uri := v\<rparr>)
      else if name = ''quicpro.smartcontract_dlt_provider''
      then OnUpdateDltProviderString new_value c
      else if name = ''quicpro.smartcontract_dlt_rpc_endpoint''
      then OnUpdateStringDuplicate new_value (\<lambda>v. c\<lparr>dlt_rpc_endpoint := v\<rparr>)
      else if name = ''quicpro.smartcontract_chain_id''
      then OnUpdateSmartContractPositiveLong Z name new_value c
      else if name = ''quicpro.smartcontract_default_gas_limit''
      then OnUpdateSmartContractPositiveLong Z name new_value c
      else if name = ''quicpro.smartcontract_default_gas_price_gwei''
      then OnUpdateSmartContractPositiveLong Z name new_value c
      else if name = ''quicpro.smartcontract_default_wallet_path''
      then OnUpdateStringDuplicate new_value (\<lambda>v. c\<lparr>default_wallet_path := v\<rparr>)
      else if name = ''quicpro.smartcontract_default_wallet_password_env_var''
      then OnUpdateStringDuplicate new_value (\<lambda>v. c\<lparr>default_wallet_password_env_var := v\<rparr>)
      else if name = ''quicpro.smartcontract_use_hardware_wallet''
      then Ok (c\<lparr>use_hardware_wallet := zend_ini_parse_bool Z new_value\<rparr>)
      else if name = ''quicpro.smartcontract_hsm_pkcs11_library_path''
      then OnUpdateStringDuplicate new_value (\<lambda>v. c\<lparr>hsm_pkcs11_library_path := v\<rparr>)
      else if name = ''quicpro.smartcontract_abi_directory''
      then OnUpdateStringDuplicate new_value (\<lambda>v. c\<lparr>abi_directory := v\<rparr>)
      else if name = ''quicpro.smartcontract_event_listener_enable''
      then Ok (c\<lparr>event_listener_enable := zend_ini_parse_bool Z new_value\<rparr>)
      else Ok c)"

text \<open>The directives with their default texts, in the order of the table.\<close>

definition smart_contracts_ini_defaults :: "(string \<times> string) list" where
  "smart_contracts_ini_defaults =
     [(''quicpro.smartcontract_enable'', ''0''),
      (''quicpro.smartcontract_registry_uri'', ''https://contracts.quicpro.internal''),
      (''quicpro.smartcontract_dlt_provider'', ''ethereum''),
      (''quicpro.smartcontract_dlt_rpc_endpoint'', ''''),
      (''quicpro.smartcontract_chain_id'', ''1''),
      (''quicpro.smartcontract_default_gas_limit'', ''300000''),
      (''quicpro.smartcontract_default_gas_price_gwei'', ''20''),
      (''quicpro.smartcontract_default_wallet_path'', ''''),
      (''quicpro.smartcontract_default_wallet_password_env_var'', ''QUICPRO_WALLET_PASSWORD''),
      (''quicpro.smartcontract_use_hardware_wallet'', ''0''),
      (''quicpro.smartcontract_hsm_pkcs11_library_path'', ''/usr/lib/x86_64-linux-gnu/softhsm/libsofthsm2.so''),
      (''quicpro.smartcontract_abi_directory'', ''/var/www/abis''),
      (''quicpro.smartcontract_event_listener_enable'', ''0'')]"

text \<open>Loading the defaults, then registering the directives: \<^verbatim>\<open>calls\<close> are the handler calls the
  engine makes meanwhile.\<close>

definition qp_config_smart_contracts_init ::
  "zend_api \<Rightarrow> (string \<times> string) list \<Rightarrow> qp_smart_contracts_config_t \<Rightarrow> qp_smart_contracts_config_t cfg_result" where
  "qp_config_smart_contracts_init Z calls c = ini_run (smart_contracts_ini_entry Z) calls (qp_config_smart_contracts_defaults_load c)"

section \<open>Invariant\<close>

definition smart_contracts_inv :: "qp_smart_contracts_config_t \<Rightarrow> bool" where
  "smart_contracts_inv c \<longleftrightarrow>
     ptr_in [''ethereum'', ''solana'', ''fabric''] (dlt_provider c) \<and>
     0 <s chain_id c \<and>
     0 <s default_gas_limit c \<and>
     0 <s default_gas_price_gwei c"

lemma smart_contracts_defaults_inv: "smart_contracts_inv (qp_config_smart_contracts_defaults_load c)"
  by (simp add: smart_contracts_inv_def qp_config_smart_contracts_defaults_load_def config_eval)

lemma smart_contracts_key_inv: "smart_contracts_inv c \<Longrightarrow> keeps smart_contracts_inv (smart_contracts_apply_key Z qp_validate_non_empty_string key value c)"
  unfolding smart_contracts_apply_key_def
  by (rule keeps_rules | simp add: smart_contracts_inv_def accepts)+

lemma smart_contracts_ini_inv: "smart_contracts_inv c \<Longrightarrow> keeps smart_contracts_inv (smart_contracts_ini_entry Z name new_value c)"
  unfolding smart_contracts_ini_entry_def OnUpdateSmartContractPositiveLong_def OnUpdateDltProviderString_def OnUpdateStringDuplicate_def Let_def
  by (rule keeps_rules | fastforce simp: smart_contracts_inv_def sless_simps f64_within_def allowed_ci_def)+

interpretation smart_contracts: config_module qp_config_smart_contracts_defaults_load "smart_contracts_ini_entry Z" "smart_contracts_apply_key Z qp_validate_non_empty_string" smart_contracts_inv
  for Z qp_validate_non_empty_string
  by unfold_locales (simp_all add: smart_contracts_defaults_inv smart_contracts_key_inv smart_contracts_ini_inv)

end
