(* ===== verification/Config_Dynamic_Admin_Api.thy ===== *)
theory Config_Dynamic_Admin_Api
  imports Config_Base
begin

text \<open>
  The administration interface: the module \<^verbatim>\<open>src/extension/src/config/dynamic_admin_api\<close>.
\<close>

section \<open>State\<close>

record qp_dynamic_admin_api_config_t =
  bind_host :: cptr
  port :: zend_long
  auth_mode :: cptr
  ca_file :: cptr
  cert_file :: cptr
  key_file :: cptr

text \<open>The global before anything ran: zeroed static storage.\<close>

definition quicpro_dynamic_admin_api_config :: qp_dynamic_admin_api_config_t where
  "quicpro_dynamic_admin_api_config =
     \<lparr>bind_host = NullPtr, port = 0, auth_mode = NullPtr, ca_file = NullPtr, cert_file = NullPtr,
      key_file = NullPtr\<rparr>"

definition qp_config_dynamic_admin_api_defaults_load :: "qp_dynamic_admin_api_config_t \<Rightarrow> qp_dynamic_admin_api_config_t" where
  "qp_config_dynamic_admin_api_defaults_load c =
     c\<lparr>bind_host := pestrdup ''127.0.0.1'', port := 2019, auth_mode := pestrdup ''mtls'',
       ca_file := pestrdup '''', cert_file := pestrdup '''', key_file := pestrdup ''''\<rparr>"

section \<open>Userland configuration\<close>

definition dynamic_admin_api_apply_key ::
  "zend_api \<Rightarrow> string \<Rightarrow> zval \<Rightarrow> qp_dynamic_admin_api_config_t \<Rightarrow> qp_dynamic_admin_api_config_t cfg_result" where
  "dynamic_admin_api_apply_key Z key value c =
     (if key = ''bind_host''
      then obind (qp_validate_host_string value (bind_host c)) (\<lambda>v. Ok (c\<lparr>bind_host := v\<rparr>))
      else if key = ''port''
      then obind (qp_validate_long_range value 1024 65535) (\<lambda>v. Ok (c\<lparr>port := v\<rparr>))
      else if key = ''auth_mode''
      then obind (qp_validate_string_from_allowlist value [''mtls''] (auth_mode c)) (\<lambda>v. Ok (c\<lparr>auth_mode := v\<rparr>))
      else if key = ''ca_file''
      then obind (qp_validate_readable_file_path Z value (ca_file c)) (\<lambda>v. Ok (c\<lparr>ca_file := v\<rparr>))
      else if key = ''cert_file''
      then obind (qp_validate_readable_file_path Z value (cert_file c)) (\<lambda>v. Ok (c\<lparr>cert_file := v\<rparr>))
      else if key = ''key_file''
      then obind (qp_validate_readable_file_path Z value (key_file c)) (\<lambda>v. Ok (c\<lparr>key_file := v\<rparr>))
      else Ok c)"

definition qp_config_dynamic_admin_api_apply_userland_config ::
  "zend_api \<Rightarrow> bool \<Rightarrow> zval \<Rightarrow> qp_dynamic_admin_api_config_t \<Rightarrow> qp_dynamic_admin_api_config_t \<times> unit cfg_result" where
  "qp_config_dynamic_admin_api_apply_userland_config Z is_userland_override_allowed config_arr c =
     apply_userland (dynamic_admin_api_apply_key Z) is_userland_override_allowed config_arr c"

section \<open>INI directives\<close>

definition OnUpdateAdminApiPort ::
  "zend_api \<Rightarrow> string \<Rightarrow> qp_dynamic_admin_api_config_t \<Rightarrow> qp_dynamic_admin_api_config_t cfg_result" where
  "OnUpdateAdminApiPort Z new_value c =
     (let val = zend_atol Z new_value in
      if val <s 1024 \<or> 65535 <s val then Fail Value_Rejected else Ok (c\<lparr>port := val\<rparr>))"

definition OnUpdateAdminAuthMode ::
  "string \<Rightarrow> (cptr \<Rightarrow> qp_dynamic_admin_api_config_t) \<Rightarrow> qp_dynamic_admin_api_config_t cfg_result" where
  "OnUpdateAdminAuthMode new_value mh_arg1 =
     (if allowed_ci [''mtls''] new_value
      then Ok (mh_arg1 (engine_string new_value)) else Fail Value_Rejected)"

definition OnUpdateAdminApiFilePath ::
  "zend_api \<Rightarrow> string \<Rightarrow> (cptr \<Rightarrow> qp_dynamic_admin_api_config_t) \<Rightarrow> qp_dynamic_admin_api_config_t cfg_result" where
  "OnUpdateAdminApiFilePath Z new_value mh_arg1 =
     (if new_value \<noteq> [] \<and> \<not> vcwd_access_ok Z (cstr new_value) then Fail Value_Rejected
      else Ok (mh_arg1 (engine_string new_value)))"

definition dynamic_admin_api_ini_entry :: "zend_api \<Rightarrow> string \<Rightarrow> string \<Rightarrow> qp_dynamic_admin_api_config_t \<Rightarrow> qp_dynamic_admin_api_config_t cfg_result" where
  "dynamic_admin_api_ini_entry Z name new_value c =
     (if name = ''quicpro.admin_api_bind_host''
      then Ok (c\<lparr>bind_host := engine_string new_value\<rparr>)
      else if name = ''quicpro.admin_api_port''
      then OnUpdateAdminApiPort Z new_value c
      else if name = ''quicpro.admin_api_auth_mode''
      then OnUpdateAdminAuthMode new_value (\<lambda>v. c\<lparr>auth_mode := v\<rparr>)
      else if name = ''quicpro.admin_api_ca_file''
      then OnUpdateAdminApiFilePath Z new_value (\<lambda>v. c\<lparr>ca_file := v\<rparr>)
      else if name = ''quicpro.admin_api_cert_file''
      then OnUpdateAdminApiFilePath Z new_value (\<lambda>v. c\<lparr>cert_file := v\<rparr>)
      else if name = ''quicpro.admin_api_key_file''
      then OnUpdateAdminApiFilePath Z new_value (\<lambda>v. c\<lparr>key_file := v\<rparr>)
      else Ok c)"

text \<open>The directives with their default texts, in the order of the table.\<close>

definition dynamic_admin_api_ini_defaults :: "(string \<times> string) list" where
  "dynamic_admin_api_ini_defaults =
     [(''quicpro.admin_api_bind_host'', ''127.0.0.1''),
      (''quicpro.admin_api_port'', ''2019''),
      (''quicpro.admin_api_auth_mode'', ''mtls''),
      (''quicpro.admin_api_ca_file'', ''''),
      (''quicpro.admin_api_cert_file'', ''''),
      (''quicpro.admin_api_key_file'', '''')]"

text \<open>Loading the defaults, then registering the directives: \<^verbatim>\<open>calls\<close> are the handler calls the
  engine makes meanwhile.\<close>

definition qp_config_dynamic_admin_api_init ::
  "zend_api \<Rightarrow> (string \<times> string) list \<Rightarrow> qp_dynamic_admin_api_config_t \<Rightarrow> qp_dynamic_admin_api_config_t cfg_result" where
  "qp_config_dynamic_admin_api_init Z calls c = ini_run (dynamic_admin_api_ini_entry Z) calls (qp_config_dynamic_admin_api_defaults_load c)"

section \<open>Invariant\<close>

definition dynamic_admin_api_inv :: "qp_dynamic_admin_api_config_t \<Rightarrow> bool" where
  "dynamic_admin_api_inv c \<longleftrightarrow>
     ptr_set (bind_host c) \<and>
     in_range 1024 65535 (port c) \<and>
     ptr_in [''mtls''] (auth_mode c) \<and>
     ptr_set (ca_file c) \<and>
     ptr_set (cert_file c) \<and>
     ptr_set (key_file c)"

lemma dynamic_admin_api_defaults_inv: "dynamic_admin_api_inv (qp_config_dynamic_admin_api_defaults_load c)"
  by (simp add: dynamic_admin_api_inv_def qp_config_dynamic_admin_api_defaults_load_def config_eval)

lemma dynamic_admin_api_key_inv: "dynamic_admin_api_inv c \<Longrightarrow> keeps dynamic_admin_api_inv (dynamic_admin_api_apply_key Z key value c)"
  unfolding dynamic_admin_api_apply_key_def
  by (rule keeps_rules | simp add: dynamic_admin_api_inv_def accepts)+

lemma dynamic_admin_api_ini_inv: "dynamic_admin_api_inv c \<Longrightarrow> keeps dynamic_admin_api_inv (dynamic_admin_api_ini_entry Z name new_value c)"
  unfolding dynamic_admin_api_ini_entry_def OnUpdateAdminApiPort_def OnUpdateAdminAuthMode_def OnUpdateAdminApiFilePath_def Let_def
  by (rule keeps_rules | simp add: dynamic_admin_api_inv_def sless_simps f64_within_def)+

interpretation dynamic_admin_api: config_module qp_config_dynamic_admin_api_defaults_load "dynamic_admin_api_ini_entry Z" "dynamic_admin_api_apply_key Z" dynamic_admin_api_inv
  for Z
  by unfold_locales (simp_all add: dynamic_admin_api_defaults_inv dynamic_admin_api_key_inv dynamic_admin_api_ini_inv)

end
