(* ===== verification/Config_Http2.thy ===== *)
theory Config_Http2
  imports Config_Base
begin

text \<open>
  HTTP/2 settings: the module \<^verbatim>\<open>src/extension/src/config/http2\<close>.
  The maximal frame size is kept within the bounds of the protocol by both sides.
\<close>

section \<open>State\<close>

record qp_http2_config_t =
  enable :: bool
  initial_window_size :: zend_long
  max_concurrent_streams :: zend_long
  max_header_list_size :: zend_long
  enable_push :: bool
  max_frame_size :: zend_long

text \<open>The global before anything ran: zeroed static storage.\<close>

definition quicpro_http2_config :: qp_http2_config_t where
  "quicpro_http2_config =
     \<lparr>enable = False, initial_window_size = 0, max_concurrent_streams = 0,
      max_header_list_size = 0, enable_push = False, max_frame_size = 0\<rparr>"

definition qp_config_http2_defaults_load :: "qp_http2_config_t \<Rightarrow> qp_http2_config_t" where
  "qp_config_http2_defaults_load c =
     c\<lparr>enable := True, initial_window_size := 65535, max_concurrent_streams := 100,
       max_header_list_size := 0, enable_push := True, max_frame_size := 16384\<rparr>"

section \<open>Userland configuration\<close>

definition http2_apply_key ::
  "zend_api \<Rightarrow> string \<Rightarrow> zval \<Rightarrow> qp_http2_config_t \<Rightarrow> qp_http2_config_t cfg_result" where
  "http2_apply_key Z key value c =
     (if key = ''enable''
      then obind (qp_validate_bool value) (\<lambda>_. Ok (c\<lparr>enable := zend_is_true Z value\<rparr>))
      else if key = ''initial_window_size''
      then obind (qp_validate_positive_long value) (\<lambda>v. Ok (c\<lparr>initial_window_size := v\<rparr>))
      else if key = ''max_concurrent_streams''
      then obind (qp_validate_positive_long value) (\<lambda>v. Ok (c\<lparr>max_concurrent_streams := v\<rparr>))
      else if key = ''max_header_list_size''
      then obind (qp_validate_non_negative_long value) (\<lambda>v. Ok (c\<lparr>max_header_list_size := v\<rparr>))
      else if key = ''enable_push''
      then obind (qp_validate_bool value) (\<lambda>_. Ok (c\<lparr>enable_push := zend_is_true Z value\<rparr>))
      else if key = ''max_frame_size''
      then obind (qp_validate_long_range value 16384 16777215) (\<lambda>v. Ok (c\<lparr>max_frame_size := v\<rparr>))
      else Ok c)"

definition qp_config_http2_apply_userland_config ::
  "zend_api \<Rightarrow> bool \<Rightarrow> zval \<Rightarrow> qp_http2_config_t \<Rightarrow> qp_http2_config_t \<times> unit cfg_result" where
  "qp_config_http2_apply_userland_config Z is_userland_override_allowed config_arr c =
     apply_userland (http2_apply_key Z) is_userland_override_allowed config_arr c"

section \<open>INI directives\<close>

definition OnUpdateHttp2PositiveLong ::
  "zend_api \<Rightarrow> string \<Rightarrow> string \<Rightarrow> qp_http2_config_t \<Rightarrow> qp_http2_config_t cfg_result" where
  "OnUpdateHttp2PositiveLong Z name new_value c =
     (let val = zend_atol Z new_value in
      if val \<le>s 0 then Fail Value_Rejected
      else if name = ''quicpro.http2_initial_window_size'' then Ok (c\<lparr>initial_window_size := val\<rparr>)
      else if name = ''quicpro.http2_max_concurrent_streams'' then Ok (c\<lparr>max_concurrent_streams := val\<rparr>)
      else Ok c)"

definition OnUpdateHttp2MaxFrameSize ::
  "zend_api \<Rightarrow> string \<Rightarrow> qp_http2_config_t \<Rightarrow> qp_http2_config_t cfg_result" where
  "OnUpdateHttp2MaxFrameSize Z new_value c =
     (let val = zend_atol Z new_value in
      if val <s 16384 \<or> 16777215 <s val then Fail Value_Rejected else Ok (c\<lparr>max_frame_size := val\<rparr>))"

definition http2_ini_entry :: "zend_api \<Rightarrow> string \<Rightarrow> string \<Rightarrow> qp_http2_config_t \<Rightarrow> qp_http2_config_t cfg_result" where
  "http2_ini_entry Z name new_value c =
     (if name = ''quicpro.http2_enable''
      then Ok (c\<lparr>enable := zend_ini_parse_bool Z new_value\<rparr>)
      else if name = ''quicpro.http2_initial_window_size''
      then OnUpdateHttp2PositiveLong Z name new_value c
      else if name = ''quicpro.http2_max_concurrent_streams''
      then OnUpdateHttp2PositiveLong Z name new_value c
      else if name = ''quicpro.http2_max_header_list_size''
      then Ok (c\<lparr>max_header_list_size := zend_atol Z new_value\<rparr>)
      else if name = ''quicpro.http2_enable_push''
      then Ok (c\<lparr>enable_push := zend_ini_parse_bool Z new_value\<rparr>)
      else if name = ''quicpro.http2_max_frame_size''
      then OnUpdateHttp2MaxFrameSize Z new_value c
      else Ok c)"

text \<open>The directives with their default texts, in the order of the table.\<close>

definition http2_ini_defaults :: "(string \<times> string) list" where
  "http2_ini_defaults =
     [(''quicpro.http2_enable'', ''1''),
      (''quicpro.http2_initial_window_size'', ''65535''),
      (''quicpro.http2_max_concurrent_streams'', ''100''),
      (''quicpro.http2_max_header_list_size'', ''0''),
      (''quicpro.http2_enable_push'', ''1''),
      (''quicpro.http2_max_frame_size'', ''16384'')]"

text \<open>Loading the defaults, then registering the directives: \<^verbatim>\<open>calls\<close> are the handler calls the
  engine makes meanwhile.\<close>

definition qp_config_http2_init ::
  "zend_api \<Rightarrow> (string \<times> string) list \<Rightarrow> qp_http2_config_t \<Rightarrow> qp_http2_config_t cfg_result" where
  "qp_config_http2_init Z calls c = ini_run (http2_ini_entry Z) calls (qp_config_http2_defaults_load c)"

section \<open>Invariant\<close>

definition http2_inv :: "qp_http2_config_t \<Rightarrow> bool" where
  "http2_inv c \<longleftrightarrow>
     0 <s initial_window_size c \<and>
     0 <s max_concurrent_streams c \<and>
     in_range 16384 16777215 (max_frame_size c)"

lemma http2_defaults_inv: "http2_inv (qp_config_http2_defaults_load c)"
  by (simp add: http2_inv_def qp_config_http2_defaults_load_def config_eval)

lemma http2_key_inv: "http2_inv c \<Longrightarrow> keeps http2_inv (http2_apply_key Z key value c)"
  unfolding http2_apply_key_def
  by (rule keeps_rules | simp add: http2_inv_def accepts)+

lemma http2_ini_inv: "http2_inv c \<Longrightarrow> keeps http2_inv (http2_ini_entry Z name new_value c)"
  unfolding http2_ini_entry_def OnUpdateHttp2PositiveLong_def OnUpdateHttp2MaxFrameSize_def Let_def
  by (rule keeps_rules | simp add: http2_inv_def sless_simps f64_within_def)+

interpretation http2: config_module qp_config_http2_defaults_load "http2_ini_entry Z" "http2_apply_key Z" http2_inv
  for Z
  by unfold_locales (simp_all add: http2_defaults_inv http2_key_inv http2_ini_inv)

end
