(* ===== verification/Config_Semantic_Geometry.thy ===== *)
theory Config_Semantic_Geometry
  imports Config_Base
begin

text \<open>
  Semantic geometry: the module \<^verbatim>\<open>src/extension/src/config/semantic_geometry\<close>.
  All directives use the handlers of the engine without a test, so only the presence of the
  strings is invariant.
\<close>

section \<open>State\<close>

record qp_semantic_geometry_config_t =
  default_vector_dimensions :: zend_long
  calculation_precision :: cptr
  convex_hull_algorithm :: cptr
  point_in_polytope_algorithm :: cptr
  hausdorff_distance_algorithm :: cptr
  spiral_search_step_size :: u64
  core_consolidation_threshold :: u64

text \<open>The global before anything ran: zeroed static storage.\<close>

definition quicpro_semantic_geometry_config :: qp_semantic_geometry_config_t where
  "quicpro_semantic_geometry_config =
     \<lparr>default_vector_dimensions = 0, calculation_precision = NullPtr,
      convex_hull_algorithm = NullPtr, point_in_polytope_algorithm = NullPtr,
      hausdorff_distance_algorithm = NullPtr, spiral_search_step_size = 0,
      core_consolidation_threshold = 0\<rparr>"

definition qp_config_semantic_geometry_defaults_load :: "qp_semantic_geometry_config_t \<Rightarrow> qp_semantic_geometry_config_t" where
  "qp_config_semantic_geometry_defaults_load c =
     c\<lparr>default_vector_dimensions := 768, calculation_precision := pestrdup ''float64'',
       convex_hull_algorithm := pestrdup ''qhull'',
       point_in_polytope_algorithm := pestrdup ''ray_casting'',
       hausdorff_distance_algorithm := pestrdup ''exact'',
       spiral_search_step_size := 0x3FB999999999999A,
       core_consolidation_threshold := 0x3FEE666666666666\<rparr>"

section \<open>Userland configuration\<close>

definition semantic_geometry_apply_key ::
  "zend_api \<Rightarrow> string \<Rightarrow> zval \<Rightarrow> qp_semantic_geometry_config_t \<Rightarrow> qp_semantic_geometry_config_t cfg_result" where
  "semantic_geometry_apply_key Z key value c =
     (if key = ''default_vector_dimensions''
      then obind (qp_validate_positive_long value) (\<lambda>v. Ok (c\<lparr>default_vector_dimensions := v\<rparr>))
      else if key = ''calculation_precision''
      then obind (qp_validate_string_from_allowlist value [''float32'', ''float64''] (calculation_precision c)) (\<lambda>v. Ok (c\<lparr>calculation_precision := v\<rparr>))
      else if key = ''convex_hull_algorithm''
      then obind (qp_validate_string_from_allowlist value [''qhull'', ''gift_wrapping''] (convex_hull_algorithm c)) (\<lambda>v. Ok (c\<lparr>convex_hull_algorithm := v\<rparr>))
      else if key = ''point_in_polytope_algorithm''
      then obind (qp_validate_string_from_allowlist value [''ray_casting'', ''barycentric''] (point_in_polytope_algorithm c)) (\<lambda>v. Ok (c\<lparr>point_in_polytope_algorithm := v\<rparr>))
      else if key = ''hausdorff_distance_algorithm''
      then obind (qp_validate_string_from_allowlist value [''exact'', ''approximated''] (hausdorff_distance_algorithm c)) (\<lambda>v. Ok (c\<lparr>hausdorff_distance_algorithm := v\<rparr>))
      else if key = ''spiral_search_step_size''
      then obind (qp_validate_double_range value 0x0000000000000000 0x3FF0000000000000) (\<lambda>v. Ok (c\<lparr>spiral_search_step_size := v\<rparr>))
      else if key = ''core_consolidation_threshold''
      then obind (qp_validate_double_range value 0x0000000000000000 0x3FF0000000000000) (\<lambda>v. Ok (c\<lparr>core_consolidation_threshold := v\<rparr>))
      else Ok c)"

definition qp_config_semantic_geometry_apply_userland_config ::
  "zend_api \<Rightarrow> bool \<Rightarrow> zval \<Rightarrow> qp_semantic_geometry_config_t \<Rightarrow> qp_semantic_geometry_config_t \<times> unit cfg_result" where
  "qp_config_semantic_geometry_apply_userland_config Z is_userland_override_allowed config_arr c =
     apply_userland (semantic_geometry_apply_key Z) is_userland_override_allowed config_arr c"

section \<open>INI directives\<close>

definition semantic_geometry_ini_entry :: "zend_api \<Rightarrow> string \<Rightarrow> string \<Rightarrow> qp_semantic_geometry_config_t \<Rightarrow> qp_semantic_geometry_config_t cfg_result" where
  "semantic_geometry_ini_entry Z name new_value c =
     (if name = ''quicpro.geometry_default_vector_dimensions''
      then Ok (c\<lparr>default_vector_dimensions := zend_atol Z new_value\<rparr>)
      else if name = ''quicpro.geometry_calculation_precision''
      then Ok (c\<lparr>calculation_precision := engine_string new_value\<rparr>)
      else if name = ''quicpro.geometry_convex_hull_algorithm''
      then Ok (c\<lparr>convex_hull_algorithm := engine_string new_value\<rparr>)
      else if name = ''quicpro.geometry_point_in_polytope_algorithm''
      then Ok (c\<lparr>point_in_polytope_algorithm := engine_string new_value\<rparr>)
      else if name = ''quicpro.geometry_hausdorff_distance_algorithm''
      then Ok (c\<lparr>hausdorff_distance_algorithm := engine_string new_value\<rparr>)
      else if name = ''quicpro.geometry_spiral_search_step_size''
      then Ok (c\<lparr>spiral_search_step_size := zend_strtod Z new_value\<rparr>)
      else if name = ''quicpro.geometry_core_consolidation_threshold''
      then Ok (c\<lparr>core_consolidation_threshold := zend_strtod Z new_value\<rparr>)
      else Ok c)"

text \<open>The directives with their default texts, in the order of the table.\<close>

definition semantic_geometry_ini_defaults :: "(string \<times> string) list" where
  "semantic_geometry_ini_defaults =
     [(''quicpro.geometry_default_vector_dimensions'', ''768''),
      (''quicpro.geometry_calculation_precision'', ''float64''),
      (''quicpro.geometry_convex_hull_algorithm'', ''qhull''),
      (''quicpro.geometry_point_in_polytope_algorithm'', ''ray_casting''),
      (''quicpro.geometry_hausdorff_distance_algorithm'', ''exact''),
      (''quicpro.geometry_spiral_search_step_size'', ''0.1''),
      (''quicpro.geometry_core_consolidation_threshold'', ''0.95'')]"

text \<open>Loading the defaults, then registering the directives: \<^verbatim>\<open>calls\<close> are the handler calls the
  engine makes meanwhile.\<close>

definition qp_config_semantic_geometry_init ::
  "zend_api \<Rightarrow> (string \<times> string) list \<Rightarrow> qp_semantic_geometry_config_t \<Rightarrow> qp_semantic_geometry_config_t cfg_result" where
  "qp_config_semantic_geometry_init Z calls c = ini_run (semantic_geometry_ini_entry Z) calls (qp_config_semantic_geometry_defaults_load c)"

section \<open>Invariant\<close>

definition semantic_geometry_inv :: "qp_semantic_geometry_config_t \<Rightarrow> bool" where
  "semantic_geometry_inv c \<longleftrightarrow>
     ptr_set (calculation_precision c) \<and>
     ptr_set (convex_hull_algorithm c) \<and>
     ptr_set (point_in_polytope_algorithm c) \<and>
     ptr_set (hausdorff_distance_algorithm c)"

lemma semantic_geometry_defaults_inv: "semantic_geometry_inv (qp_config_semantic_geometry_defaults_load c)"
  by (simp add: semantic_geometry_inv_def qp_config_semantic_geometry_defaults_load_def config_eval)

lemma semantic_geometry_key_inv: "semantic_geometry_inv c \<Longrightarrow> keeps semantic_geometry_inv (semantic_geometry_apply_key Z key value c)"
  unfolding semantic_geometry_apply_key_def
  by (rule keeps_rules | simp add: semantic_geometry_inv_def accepts)+

lemma semantic_geometry_ini_inv: "semantic_geometry_inv c \<Longrightarrow> keeps semantic_geometry_inv (semantic_geometry_ini_entry Z name new_value c)"
  unfolding semantic_geometry_ini_entry_def 
  by (rule keeps_rules | simp add: semantic_geometry_inv_def sless_simps f64_within_def)+

interpretation semantic_geometry: config_module qp_config_semantic_geometry_defaults_load "semantic_geometry_ini_entry Z" "semantic_geometry_apply_key Z" semantic_geometry_inv
  for Z
  by unfold_locales (simp_all add: semantic_geometry_defaults_inv semantic_geometry_key_inv semantic_geometry_ini_inv)

end
