(* ===== verification/Validator_Specs.thy ===== *)
theory Validator_Specs
  imports Config_Base
begin

text \<open>
  What the structured string validators and the range validators accept, stated on texts built
  from their parts: shard counts, CPU affinity maps, comma-separated lists and doubles.
\<close>

section \<open>Digits\<close>

definition digits :: "string \<Rightarrow> bool" where
  "digits ds \<longleftrightarrow> ds \<noteq> [] \<and> list_all is_digit ds"

lemma digits_not_special:
  assumes "digits ds" "c \<in> set ds"
  shows "is_digit c" "c \<noteq> CHR 0x00" "c \<noteq> CHR '':''" "c \<noteq> CHR ''-''" "c \<noteq> CHR '',''" "\<not> isspace c"
    "c \<noteq> CHR ''+''"
proof -
  show d: "is_digit c" using assms by (simp add: digits_def list_all_iff)
  then show "c \<noteq> CHR 0x00" "c \<noteq> CHR '':''" "c \<noteq> CHR ''-''" "c \<noteq> CHR '',''" "\<not> isspace c"
    "c \<noteq> CHR ''+''"
    by (auto simp: is_digit_def isspace_def)
qed

lemma digits_hd: "digits ds \<Longrightarrow> hd ds \<in> set ds"
  by (simp add: digits_def)

lemma digits_take:
  assumes "digits ds"
  shows "takeWhile is_digit (ds @ r) = ds @ takeWhile is_digit r"
    "dropWhile is_digit (ds @ r) = dropWhile is_digit r"
  using assms by (simp_all add: digits_def list_all_iff takeWhile_append dropWhile_append)

lemma digits_space:
  "digits ds \<Longrightarrow> dropWhile isspace (ds @ r) = ds @ r"
  using digits_not_special(6) [of ds "hd ds"] by (cases ds) (simp_all add: digits_def)

lemma digits_sign: "digits ds \<Longrightarrow> skip_sign (ds @ r) = ds @ r"
  using digits_not_special(4) [of ds "hd ds"] digits_not_special(7) [of ds "hd ds"]
  by (cases ds) (simp_all add: digits_def skip_sign_def)

lemma digits_numeric: "digits ds \<Longrightarrow> is_numeric_string ds"
proof -
  assume d: "digits ds"
  have "strtol_end ds = []"
    using digits_space [OF d, of "[]"] digits_sign [OF d, of "[]"] digits_take(2) [OF d, of "[]"]
      digits_not_special(1) [OF d digits_hd [OF d]] d
    by (simp add: strtol_end_def digits_def)
  then show ?thesis
    using d digits_not_special(6) [OF d digits_hd [OF d]]
    by (simp add: is_numeric_string_def digits_def)
qed

lemma cstr_append: "CHR 0x00 \<notin> set xs \<Longrightarrow> cstr (xs @ t) = xs @ cstr t"
  by (induction xs) (auto simp: cstr_def)

lemma cstr_digits: "digits ds \<Longrightarrow> cstr (ds @ t) = ds @ cstr t"
  by (rule cstr_append) (auto dest: digits_not_special(2))

section \<open>Shard counts\<close>

lemma decimal_value_nonneg: "list_all is_digit ds \<Longrightarrow> 0 \<le> decimal_value ds"
proof -
  have d: "is_digit c \<Longrightarrow> 0 \<le> digit_value c" for c
    by (auto simp: is_digit_def digit_value_def of_char_def)
  have "list_all is_digit ds \<Longrightarrow> 0 \<le> v \<Longrightarrow> 0 \<le> foldl (\<lambda>v c. 10 * v + digit_value c) v ds" for v
    by (induction ds arbitrary: v) (auto simp: d)
  then show "list_all is_digit ds \<Longrightarrow> 0 \<le> decimal_value ds" by (simp add: decimal_value_def)
qed

lemma scan_digits:
  assumes "digits ds" "decimal_value ds < 2 ^ 31" "\<not> is_digit d"
  shows "scan_int (ds @ d # r) = Some (decimal_value ds, d # r)"
proof -
  have h: "hd (ds @ d # r) = hd ds" "ds @ d # r \<noteq> []" using assms(1) by (simp_all add: digits_def)
  have n: "hd ds \<noteq> CHR ''-''" "is_digit (hd ds)"
    using digits_not_special [OF assms(1) digits_hd [OF assms(1)]] by simp_all
  have nn: "0 \<le> decimal_value ds"
    using assms(1) by (simp add: digits_def decimal_value_nonneg)
  have "sint (word_of_int (decimal_value ds) :: 32 word) = decimal_value ds"
    using nn assms(2) by (simp add: signed_of_int signed_take_bit_int_eq_self_iff)
  moreover have "min (2 ^ 63 - 1) (decimal_value ds) = decimal_value ds" using assms(2) by simp
  ultimately show ?thesis
    using assms h n
    by (simp add: scan_int_def Let_def digits_space digits_sign digits_take)
qed

text \<open>
  The shard specification is read as the text says: for digit strings below
  \<^verbatim>\<open>2^31\<close>, the text \<^verbatim>\<open><data>d<parity>p\<close> is accepted exactly when both counts are positive,
  whatever follows the \<^verbatim>\<open>p\<close>.
\<close>

theorem shards_exact:
  assumes "digits ds" "decimal_value ds < 2 ^ 31" "digits es" "decimal_value es < 2 ^ 31"
  shows "qp_validate_erasure_coding_shards_string
           (Z_String (ds @ CHR ''d'' # es @ CHR ''p'' # t)) old =
         (if 0 < decimal_value ds \<and> 0 < decimal_value es
          then replace_str old (ds @ CHR ''d'' # es @ CHR ''p'' # t) else Fail Value_Rejected)"
proof -
  have c: "cstr (ds @ CHR ''d'' # es @ CHR ''p'' # t) = ds @ CHR ''d'' # es @ CHR ''p'' # cstr t"
    using cstr_digits [OF assms(1), of "CHR ''d'' # es @ CHR ''p'' # t"]
      cstr_append [of "[CHR ''d'']"] cstr_digits [OF assms(3)] cstr_append [of "[CHR ''p'']"]
    by simp
  have n: "\<not> is_digit CHR ''d''" "\<not> is_digit CHR ''p''" by (simp_all add: is_digit_def)
  have "shards_ok (ds @ CHR ''d'' # es @ CHR ''p'' # t) \<longleftrightarrow>
      0 < decimal_value ds \<and> 0 < decimal_value es"
    unfolding shards_ok_def c
    by (simp add: scan_digits [OF assms(1,2) n(1)] scan_digits [OF assms(3,4) n(2)])
  then show ?thesis by (simp add: qp_validate_erasure_coding_shards_string_def validate_str_def)
qed

theorem shards_exact_witness:
  "qp_validate_erasure_coding_shards_string (Z_String ''8d4p (or so)'') NullPtr =
     Ok (Malloced ''8d4p (or so)'')"
proof -
  have d: "digits ''8''" "digits ''4''" "decimal_value ''8'' = 8" "decimal_value ''4'' = 4"
    by (simp_all add: digits_def is_digit_def decimal_value_def digit_value_def of_char_def)
  show ?thesis
    using shards_exact [of "''8''" "''4''" "'' (or so)''" NullPtr] d
    by (simp add: replace_str_def pestrdup_def cstr_def)
qed

section \<open>CPU affinity maps\<close>

text \<open>The text of an entry: a worker with a core or a range of cores.\<close>

definition cpu_entry_text :: "string \<times> string \<times> string option \<Rightarrow> string" where
  "cpu_entry_text =
     (\<lambda>(w, a, b). w @ CHR '':'' # a @ (case b of None \<Rightarrow> [] | Some b \<Rightarrow> CHR ''-'' # b))"

definition cpu_entry_digits :: "string \<times> string \<times> string option \<Rightarrow> bool" where
  "cpu_entry_digits =
     (\<lambda>(w, a, b). digits w \<and> digits a \<and> (case b of None \<Rightarrow> True | Some b \<Rightarrow> digits b))"

lemma strtok_r_first:
  assumes "t \<noteq> []" "d \<notin> set t"
  shows "strtok_r d t = Some (t, [])" "strtok_r d (t @ d # r) = Some (t, r)"
proof -
  have f: "dropWhile (\<lambda>c. c = d) (t @ u) = t @ u" for u using assms by (cases t) auto
  have t: "takeWhile (\<lambda>c. c \<noteq> d) t = t" "dropWhile (\<lambda>c. c \<noteq> d) t = []"
    using assms(2) by (auto simp: takeWhile_eq_all_conv dropWhile_eq_Nil_conv)
  show "strtok_r d t = Some (t, [])"
    using f [of "[]"] t assms(1) by (simp add: strtok_r_def del: dropWhile_eq_Nil_conv)
  show "strtok_r d (t @ d # r) = Some (t, r)"
    using f [of "d # r"] t assms by (simp add: strtok_r_def takeWhile_append dropWhile_append)
qed

lemma strtok_r_Nil: "strtok_r d [] = None"
  by (simp add: strtok_r_def)

lemma digits_strtok:
  assumes "digits ds" "\<not> is_digit d"
  shows "strtok_r d ds = Some (ds, [])" "strtok_r d (ds @ d # r) = Some (ds, r)"
  using assms digits_not_special(1) [OF assms(1)]
  by (auto intro!: strtok_r_first simp: digits_def)

lemma cpu_entry_text_ok:
  assumes "cpu_entry_digits e"
  shows "cpu_entry_ok (cpu_entry_text e)"
proof -
  obtain w a b where e: "e = (w, a, b)" by (cases e)
  have s: "\<not> is_digit CHR '':''" "\<not> is_digit CHR ''-''" by (simp_all add: is_digit_def)
  have w: "digits w" and a: "digits a" using assms e by (simp_all add: cpu_entry_digits_def)
  show ?thesis
  proof (cases b)
    case None
    then show ?thesis
      using e w a
      by (simp add: cpu_entry_text_def cpu_entry_ok_def digits_strtok s digits_numeric strtok_r_Nil)
  next
    case (Some c)
    then have c: "digits c" using assms e by (simp add: cpu_entry_digits_def)
    have "a @ CHR ''-'' # c \<noteq> []" by simp
    moreover have "CHR '':'' \<notin> set (a @ CHR ''-'' # c)"
      using digits_not_special(3) [OF a] digits_not_special(3) [OF c] by auto
    ultimately have "strtok_r CHR '':'' (a @ CHR ''-'' # c) = Some (a @ CHR ''-'' # c, [])"
      by (rule strtok_r_first(1))
    then show ?thesis
      using e w a c Some by (simp add: cpu_entry_text_def cpu_entry_ok_def digits_strtok s digits_numeric)
  qed
qed

lemma cpu_entry_text_chars:
  assumes "cpu_entry_digits e"
  shows "cpu_entry_text e \<noteq> []" "CHR '','' \<notin> set (cpu_entry_text e)"
    "CHR 0x00 \<notin> set (cpu_entry_text e)"
proof -
  obtain w a b where e: "e = (w, a, b)" by (cases e)
  show "cpu_entry_text e \<noteq> []" by (simp add: e cpu_entry_text_def)
  show "CHR '','' \<notin> set (cpu_entry_text e)" "CHR 0x00 \<notin> set (cpu_entry_text e)"
    using assms e
    by (auto simp: cpu_entry_text_def cpu_entry_digits_def dest: digits_not_special(2,5)
        split: option.splits)
qed

lemma join_chars: "c \<in> set (join d ts) \<Longrightarrow> c = d \<or> (\<exists>t \<in> set ts. c \<in> set t)"
  by (induction d ts rule: join.induct) auto

text \<open>
  The affinity validator accepts every well-formed map: a comma-separated list of
  \<^verbatim>\<open>worker:core\<close> and \<^verbatim>\<open>worker:first-last\<close> entries with decimal numbers, the empty map included, and
  stores exactly the given text.
\<close>

theorem cpu_affinity_accepts:
  assumes "\<forall>e \<in> set es. cpu_entry_digits e" "free_ok old"
  shows "qp_validate_cpu_affinity_map_string
           (Z_String (join (CHR '','') (map cpu_entry_text es))) old =
         Ok (Malloced (join (CHR '','') (map cpu_entry_text es)))"
proof -
  let ?s = "join (CHR '','') (map cpu_entry_text es)"
  have "CHR 0x00 \<notin> set ?s"
    using assms(1) cpu_entry_text_chars(3) by (auto dest!: join_chars)
  then have c: "cstr ?s = ?s" by (rule cstr_id)
  have "strtok_tokens (CHR '','') ?s = map cpu_entry_text es"
    by (rule strtok_join) (use assms(1) cpu_entry_text_chars in auto)
  then have "cpu_affinity_ok ?s"
    using assms(1) by (auto simp: cpu_affinity_ok_def c list_all_iff cpu_entry_text_ok)
  then show ?thesis
    using assms(2)
    by (simp add: qp_validate_cpu_affinity_map_string_def validate_str_def replace_str_def
        pestrdup_def c)
qed

theorem cpu_affinity_accepts_witness:
  "qp_validate_cpu_affinity_map_string (Z_String ''0:0-1,1:2'') NullPtr =
     Ok (Malloced ''0:0-1,1:2'')"
  using cpu_affinity_accepts
    [of "[(''0'', ''0'', Some ''1''), (''1'', ''2'', None)]" NullPtr]
  by (simp add: cpu_entry_digits_def cpu_entry_text_def digits_def is_digit_def)

section \<open>Doubles\<close>

text \<open>
  A double is accepted exactly when it lies between the bounds or is a NaN, whose comparisons
  are all false; what is accepted is stored unchanged.
\<close>

theorem double_range_exact:
  assumes "\<not> f64_is_nan lo" "\<not> f64_is_nan hi"
  shows "qp_validate_double_range (Z_Double d) lo hi =
         (if f64_is_nan d \<or> f64_key lo \<le> f64_key d \<and> f64_key d \<le> f64_key hi
          then Ok d else Fail Value_Rejected)"
  using assms by (auto simp: qp_validate_double_range_def f64_less_def)

theorem double_range_exact_witness:
  "qp_validate_double_range (Z_Double 0x7FF8000000000000) 0 0x3FF0000000000000 =
     Ok 0x7FF8000000000000 \<and>
   qp_validate_double_range (Z_Double 0x4000000000000000) 0 0x3FF0000000000000 =
     Fail Value_Rejected"
proof -
  have "\<not> f64_is_nan 0" "\<not> f64_is_nan 0x3FF0000000000000" "f64_is_nan 0x7FF8000000000000"
    "\<not> f64_is_nan 0x4000000000000000"
    "\<not> f64_key 0x4000000000000000 \<le> f64_key 0x3FF0000000000000"
    by code_simp+
  then show ?thesis
    using double_range_exact [of "0" "0x3FF0000000000000" "0x7FF8000000000000"]
      double_range_exact [of "0" "0x3FF0000000000000" "0x4000000000000000"]
    by simp
qed

section \<open>Comma-separated lists\<close>

text \<open>
  A comma-separated list is accepted exactly when each of its entries, once trimmed, is empty
  or equal to an allowed word up to case; the stored text is the whole list.
\<close>

theorem comma_list_exact:
  assumes "\<forall>t \<in> set ts. t \<noteq> [] \<and> CHR '','' \<notin> set t \<and> CHR 0x00 \<notin> set t"
  shows "qp_validate_comma_separated_string_from_allowlist Z (Z_String (join (CHR '','') ts)) allowed old =
         (if \<forall>t \<in> set ts. php_trim Z t = [] \<or> (\<exists>a \<in> set allowed. strcasecmp_eq (php_trim Z t) a)
          then replace_str old (join (CHR '','') ts) else Fail Value_Rejected)"
proof -
  let ?s = "join (CHR '','') ts"
  have "CHR 0x00 \<notin> set ?s" using assms by (auto dest!: join_chars)
  then have c: "cstr ?s = ?s" by (rule cstr_id)
  have "strtok_tokens (CHR '','') ?s = ts"
    by (rule strtok_join) (use assms in auto)
  then show ?thesis
    by (simp add: qp_validate_comma_separated_string_from_allowlist_def validate_str_def
        comma_list_ok_def c list_all_iff list_ex_iff allowed_ci_def)
qed

definition example_engine :: zend_api where
  "example_engine =
     \<lparr>zval_get_long = (\<lambda>v. 0), zval_get_double = (\<lambda>v. 0), zend_is_true = (\<lambda>v. v = Z_True),
      zend_is_callable = (\<lambda>v. False), zend_read_property = (\<lambda>v k. Z_Null), memory_limit = 0,
      php_trim = dropWhile isspace, php_url_parse_ex = (\<lambda>s. None), zend_string_h = (\<lambda>s. 0),
      zend_atol = (\<lambda>s. word_of_int (decimal_value s)), zend_ini_parse_bool = (\<lambda>s. s = ''1''),
      zend_strtod = (\<lambda>s. 0), vcwd_access_ok = (\<lambda>s. True)\<rparr>"

theorem comma_list_exact_witness:
  "qp_validate_comma_separated_string_from_allowlist example_engine (Z_String ''GZIP, none'')
     [''brotli'', ''gzip'', ''none''] NullPtr = Ok (Malloced ''GZIP, none'')"
  using comma_list_exact [of "[''GZIP'', '' none'']" example_engine "[''brotli'', ''gzip'', ''none'']" NullPtr]
  by (simp add: example_engine_def isspace_def strcasecmp_eq_def cstr_def tolower_def
      replace_str_def pestrdup_def)

end
