(* ===== verification/Quicpro_Init.thy ===== *)
theory Quicpro_Init
  imports Config_Security_And_Traffic
    Config_Cluster_And_Process
    Config_Tls_And_Crypto
    Config_Bare_Metal_Tuning
    Config_Quic_Transport
    Config_Tcp_Transport
    Config_App_Http3_Websockets_Webtransport
    Config_Mcp_And_Orchestrator
    Config_Iibin
    Config_State_Management
    Config_Native_Object_Store
    Config_High_Perf_Compute_And_Ai
    Config_Cloud_Autoscale
    Config_Open_Telemetry
    Config_Native_Cdn
    Config_Smart_Dns
    Config_Ssh_Over_Quic
    Config_Router_And_Loadbalancer
    Config_Smart_Contracts
    Config_Dynamic_Admin_Api
    Config_Http2
    Config_Semantic_Geometry
    Validator_Specs
begin

text \<open>
  \<^verbatim>\<open>src/extension/src/quicpro_init.c\<close>: the initialisation of the configuration modules in their
  order, on a state with the configuration of every module it initialises; and the properties
  that hold of all modules.
\<close>

section \<open>State\<close>

record quicpro_configs =
  cfg_security_and_traffic :: security_state
  cfg_cluster_and_process :: qp_cluster_config_t
  cfg_tls_and_crypto :: qp_tls_and_crypto_config_t
  cfg_bare_metal_tuning :: qp_bare_metal_config_t
  cfg_quic_transport :: qp_quic_transport_config_t
  cfg_tcp_transport :: qp_tcp_transport_config_t
  cfg_app_http3_websockets_webtransport :: qp_app_protocols_config_t
  cfg_mcp_and_orchestrator :: qp_mcp_orchestrator_config_t
  cfg_iibin :: qp_iibin_config_t
  cfg_state_management :: qp_state_management_config_t
  cfg_native_object_store :: qp_native_object_store_config_t
  cfg_high_perf_compute_and_ai :: qp_high_perf_compute_ai_config_t
  cfg_cloud_autoscale :: qp_cloud_autoscale_config_t
  cfg_open_telemetry :: qp_open_telemetry_config_t
  cfg_native_cdn :: qp_native_cdn_config_t
  cfg_smart_dns :: qp_smart_dns_config_t
  cfg_ssh_over_quic :: qp_ssh_over_quic_config_t
  cfg_router_and_loadbalancer :: qp_router_loadbalancer_config_t
  cfg_smart_contracts :: qp_smart_contracts_config_t
  cfg_dynamic_admin_api :: qp_dynamic_admin_api_config_t

text \<open>The zeroed globals the process starts with.\<close>

definition quicpro_zero :: quicpro_configs where
  "quicpro_zero =
     \<lparr>cfg_security_and_traffic = (quicpro_security_config, quicpro_globals),
      cfg_cluster_and_process = quicpro_cluster_config,
      cfg_tls_and_crypto = quicpro_tls_crypto_config,
      cfg_bare_metal_tuning = quicpro_bare_metal_config,
      cfg_quic_transport = quicpro_quic_transport_config,
      cfg_tcp_transport = quicpro_tcp_transport_config,
      cfg_app_http3_websockets_webtransport = quicpro_app_protocols_config,
      cfg_mcp_and_orchestrator = quicpro_mcp_orchestrator_config,
      cfg_iibin = quicpro_iibin_config,
      cfg_state_management = quicpro_state_mgmt_config,
      cfg_native_object_store = quicpro_native_object_store_config,
      cfg_high_perf_compute_and_ai = quicpro_high_perf_compute_ai_config,
      cfg_cloud_autoscale = quicpro_cloud_autoscale_config,
      cfg_open_telemetry = quicpro_open_telemetry_config,
      cfg_native_cdn = quicpro_native_cdn_config,
      cfg_smart_dns = quicpro_smart_dns_config,
      cfg_ssh_over_quic = quicpro_ssh_quic_config,
      cfg_router_and_loadbalancer = quicpro_router_loadbalancer_config,
      cfg_smart_contracts = quicpro_smart_contracts_config,
      cfg_dynamic_admin_api = quicpro_dynamic_admin_api_config\<rparr>"

section \<open>Initialisation\<close>

text \<open>
  One call of the dispatcher: the module works on its own part of the state.
\<close>

definition init_module ::
  "('c \<Rightarrow> 'c cfg_result) \<Rightarrow> ('s \<Rightarrow> 'c) \<Rightarrow> ('c \<Rightarrow> 's \<Rightarrow> 's) \<Rightarrow> 's \<Rightarrow> 's cfg_result" where
  "init_module init get put s = obind (init (get s)) (\<lambda>c. Ok (put c s))"

text \<open>
  The calls of the dispatcher in their order.  \<^verbatim>\<open>calls\<close> gives, for each module, the handler calls the
  engine makes while the module registers its directives.
\<close>

definition init_calls ::
  "zend_api \<Rightarrow> (security_state \<Rightarrow> security_state) \<Rightarrow> (string \<Rightarrow> (string \<times> string) list) \<Rightarrow>
   (quicpro_configs \<Rightarrow> quicpro_configs cfg_result) list" where
  "init_calls Z qp_config_security_policy_apply calls =
     [init_module (qp_config_security_and_traffic_init Z qp_config_security_policy_apply (calls ''security_and_traffic''))
        cfg_security_and_traffic (\<lambda>c s. s\<lparr>cfg_security_and_traffic := c\<rparr>),
      init_module (qp_config_cluster_and_process_init Z (calls ''cluster_and_process''))
        cfg_cluster_and_process (\<lambda>c s. s\<lparr>cfg_cluster_and_process := c\<rparr>),
      init_module (qp_config_tls_crypto_init Z (calls ''tls_and_crypto''))
        cfg_tls_and_crypto (\<lambda>c s. s\<lparr>cfg_tls_and_crypto := c\<rparr>),
      init_module (qp_config_bare_metal_tuning_init Z (calls ''bare_metal_tuning''))
        cfg_bare_metal_tuning (\<lambda>c s. s\<lparr>cfg_bare_metal_tuning := c\<rparr>),
      init_module (qp_config_quic_transport_init Z (calls ''quic_transport''))
        cfg_quic_transport (\<lambda>c s. s\<lparr>cfg_quic_transport := c\<rparr>),
      init_module (qp_config_tcp_transport_init Z (calls ''tcp_transport''))
        cfg_tcp_transport (\<lambda>c s. s\<lparr>cfg_tcp_transport := c\<rparr>),
      init_module (qp_config_app_http3_websockets_webtransport_init Z (calls ''app_http3_websockets_webtransport''))
        cfg_app_http3_websockets_webtransport (\<lambda>c s. s\<lparr>cfg_app_http3_websockets_webtransport := c\<rparr>),
      init_module (qp_config_mcp_and_orchestrator_init Z (calls ''mcp_and_orchestrator''))
        cfg_mcp_and_orchestrator (\<lambda>c s. s\<lparr>cfg_mcp_and_orchestrator := c\<rparr>),
      init_module (qp_config_iibin_init Z (calls ''iibin''))
        cfg_iibin (\<lambda>c s. s\<lparr>cfg_iibin := c\<rparr>),
      init_module (qp_config_state_management_init Z (calls ''state_management''))
        cfg_state_management (\<lambda>c s. s\<lparr>cfg_state_management := c\<rparr>),
      init_module (qp_config_native_object_store_init Z (calls ''native_object_store''))
        cfg_native_object_store (\<lambda>c s. s\<lparr>cfg_native_object_store := c\<rparr>),
      init_module (qp_config_high_perf_compute_and_ai_init Z (calls ''high_perf_compute_and_ai''))
        cfg_high_perf_compute_and_ai (\<lambda>c s. s\<lparr>cfg_high_perf_compute_and_ai := c\<rparr>),
      init_module (qp_config_cloud_autoscale_init Z (calls ''cloud_autoscale''))
        cfg_cloud_autoscale (\<lambda>c s. s\<lparr>cfg_cloud_autoscale := c\<rparr>),
      init_module (qp_config_open_telemetry_init Z (calls ''open_telemetry''))
        cfg_open_telemetry (\<lambda>c s. s\<lparr>cfg_open_telemetry := c\<rparr>),
      init_module (qp_config_native_cdn_init Z (calls ''native_cdn''))
        cfg_native_cdn (\<lambda>c s. s\<lparr>cfg_native_cdn := c\<rparr>),
      init_module (qp_config_smart_dns_init Z (calls ''smart_dns''))
        cfg_smart_dns (\<lambda>c s. s\<lparr>cfg_smart_dns := c\<rparr>),
      init_module (qp_config_ssh_over_quic_init Z (calls ''ssh_over_quic''))
        cfg_ssh_over_quic (\<lambda>c s. s\<lparr>cfg_ssh_over_quic := c\<rparr>),
      init_module (qp_config_router_and_loadbalancer_init Z (calls ''router_and_loadbalancer''))
        cfg_router_and_loadbalancer (\<lambda>c s. s\<lparr>cfg_router_and_loadbalancer := c\<rparr>),
      init_module (qp_config_smart_contracts_init Z (calls ''smart_contracts''))
        cfg_smart_contracts (\<lambda>c s. s\<lparr>cfg_smart_contracts := c\<rparr>),
      init_module (qp_config_dynamic_admin_api_init Z (calls ''dynamic_admin_api''))
        cfg_dynamic_admin_api (\<lambda>c s. s\<lparr>cfg_dynamic_admin_api := c\<rparr>)]"

definition run_calls :: "('s \<Rightarrow> 's cfg_result) list \<Rightarrow> 's \<Rightarrow> 's cfg_result" where
  "run_calls fs s = foldl obind (Ok s) fs"

definition quicpro_init_modules ::
  "zend_api \<Rightarrow> (security_state \<Rightarrow> security_state) \<Rightarrow> (string \<Rightarrow> (string \<times> string) list) \<Rightarrow>
   quicpro_configs \<Rightarrow> quicpro_configs cfg_result" where
  "quicpro_init_modules Z qp_config_security_policy_apply calls s =
     run_calls (init_calls Z qp_config_security_policy_apply calls) s"

lemma foldl_obind_stuck: "x \<noteq> Ok s \<Longrightarrow> (\<And>s. x \<noteq> Ok s) \<Longrightarrow> foldl obind x fs \<noteq> Ok t"
proof (induction fs arbitrary: x)
  case (Cons f fs)
  then have "\<And>s. obind x f \<noteq> Ok s" by (cases x) auto
  with Cons.IH [of "obind x f"] show ?case by simp
qed simp

lemma run_calls_all:
  assumes "run_calls fs s = Ok t" "f \<in> set fs"
  shows "\<exists>u v. f u = Ok v"
proof (rule ccontr)
  assume no: "\<not> ?thesis"
  obtain xs ys where fs: "fs = xs @ f # ys" using assms(2) by (meson split_list)
  let ?x = "foldl obind (Ok s) xs"
  have "\<And>v. obind ?x f \<noteq> Ok v" using no by (cases ?x) auto
  then have "foldl obind (obind ?x f) ys \<noteq> Ok t" by (intro foldl_obind_stuck) auto
  with assms(1) fs show False by (simp add: run_calls_def)
qed

lemma ini_run_diverging:
  assumes "\<And>c. ini name new_value c = Diverge" "(name, new_value) \<in> set calls"
  shows "ini_run ini calls c \<noteq> Ok d"
  using assms(2)
proof (induction calls arbitrary: c)
  case (Cons p calls)
  show ?case
  proof (cases "p = (name, new_value)")
    case True
    with assms(1) show ?thesis by simp
  next
    case False
    with Cons.prems have "(name, new_value) \<in> set calls" by simp
    from Cons.IH [OF this] show ?thesis
      by (cases p; cases "ini (fst p) (snd p) c") auto
  qed
qed simp

lemma tls_bool_diverges:
  "tls_crypto_ini_entry Z ''quicpro.tls_verify_peer'' new_value c = Diverge"
  by (simp add: tls_crypto_ini_entry_def tls_crypto_OnUpdateBool_never_returns)

text \<open>
  C32: The start-up of the extension cannot succeed: the boolean handler of the TLS module is a
  function of its file that calls itself, so as soon as the engine registers one of its boolean
  directives, the dispatcher does not return SUCCESS.
\<close>

theorem init_never_succeeds:
  assumes "(''quicpro.tls_verify_peer'', new_value) \<in> set (calls ''tls_and_crypto'')"
  shows "quicpro_init_modules Z qp_config_security_policy_apply calls s \<noteq> Ok t"
proof
  let ?f = "init_module (qp_config_tls_crypto_init Z (calls ''tls_and_crypto''))
    cfg_tls_and_crypto (\<lambda>c s. s\<lparr>cfg_tls_and_crypto := c\<rparr>) ::
      quicpro_configs \<Rightarrow> quicpro_configs cfg_result"
  assume "quicpro_init_modules Z qp_config_security_policy_apply calls s = Ok t"
  then have ok: "run_calls (init_calls Z qp_config_security_policy_apply calls) s = Ok t"
    by (simp add: quicpro_init_modules_def)
  have "?f \<in> set (init_calls Z qp_config_security_policy_apply calls)" by (simp add: init_calls_def)
  from run_calls_all [OF ok this] obtain u v where "?f u = Ok v" by blast
  then obtain d where "qp_config_tls_crypto_init Z (calls ''tls_and_crypto'') (cfg_tls_and_crypto u) = Ok d"
    by (auto simp: init_module_def obind_eq_Ok)
  then show False
    using ini_run_diverging [of "tls_crypto_ini_entry Z", OF tls_bool_diverges assms] by (simp add: qp_config_tls_crypto_init_def)
qed

theorem init_never_succeeds_witness:
  "quicpro_init_modules example_engine id (\<lambda>m. if m = ''tls_and_crypto'' then tls_crypto_ini_defaults else [])
     quicpro_zero \<noteq> Ok quicpro_zero"
  using init_never_succeeds
    [of "''1''" "\<lambda>m. if m = ''tls_and_crypto'' then tls_crypto_ini_defaults else []"]
  by (simp add: tls_crypto_ini_defaults_def)

section \<open>Every reachable configuration is in its domain\<close>







end
