(* ===== verification/Config_Properties.thy ===== *)
theory Config_Properties
  imports Quicpro_Init
begin

text \<open>
  Properties of the configuration modules beyond their invariants: how far a failing array is
  applied, what userland can never reach, that the two sets of defaults agree, and where the
  ownership of strings and the names of fields go wrong.
\<close>

section \<open>Failing arrays\<close>


definition example_http2_array :: php_array where
  "example_http2_array =
     [(HStr ''enable'', Z_False), (HStr ''max_frame_size'', Z_Long 1), (HStr ''enable_push'', Z_False)]"


section \<open>What userland cannot reach\<close>

text \<open>
  C16: No array applied from userland can open the gate for itself: the security module keeps the
  policy flag, the switch of the administration interface and the global flag that every module
  tests, whatever the array contains and whether it is accepted or not.
\<close>

theorem security_flags_protected:
  assumes "qp_config_security_apply_userland_config Z config_arr (c, g) = ((c', g'), r)"
  shows "g' = g \<and> allow_config_override c' = allow_config_override c \<and>
         admin_api_enable c' = admin_api_enable c"
  using assms security_keys_frame [of Z _ c g c' g' r]
  by (auto simp: qp_config_security_apply_userland_config_def apply_userland_def
      split: if_splits zval.splits)

theorem security_flags_protected_witness:
  "\<exists>c'. qp_config_security_apply_userland_config example_engine
          (Z_Array [(HStr ''quicpro.security_allow_config_override'', Z_True),
                    (HStr ''security_rate_limiter_burst'', Z_Long 7)])
          (quicpro_security_config, \<lparr>is_userland_override_allowed = True\<rparr>) =
        ((c', \<lparr>is_userland_override_allowed = True\<rparr>), Ok ()) \<and>
        allow_config_override c' = False \<and> rate_limiter_burst c' = 7"
proof -
  let ?c = "quicpro_security_config\<lparr>rate_limiter_burst := 7\<rparr>"
  have r: "qp_config_security_apply_userland_config example_engine
      (Z_Array [(HStr ''quicpro.security_allow_config_override'', Z_True),
                (HStr ''security_rate_limiter_burst'', Z_Long 7)])
      (quicpro_security_config, \<lparr>is_userland_override_allowed = True\<rparr>) =
    ((?c, \<lparr>is_userland_override_allowed = True\<rparr>), Ok ())"
    by code_simp
  have "allow_config_override ?c = allow_config_override quicpro_security_config"
    using security_flags_protected [OF r] by blast
  then have "allow_config_override ?c = False" by (simp add: quicpro_security_config_def)
  moreover have "rate_limiter_burst ?c = 7" by simp
  ultimately show ?thesis using r by blast
qed

lemma ssh_key_auth: "ssh_quic_apply_key Z k v c = Ok c' \<Longrightarrow> gateway_auth_mode c' = gateway_auth_mode c"
  unfolding ssh_quic_apply_key_def
  by (auto simp: obind_eq_Ok split: if_splits zval.splits)

lemma ssh_keys_auth: "gateway_auth_mode (fst (apply_keys (ssh_quic_apply_key Z) t c)) = gateway_auth_mode c"
proof (induction t arbitrary: c)
  case (Cons p t)
  obtain h v where p: "p = (h, v)" by (cases p)
  show ?case
  proof (cases h)
    case (HStr k)
    show ?thesis
      by (cases "ssh_quic_apply_key Z k v c") (simp_all add: p HStr Cons.IH ssh_key_auth)
  qed (simp add: p Cons.IH)
qed simp

text \<open>
  An authentication mode set from userland is lost: the array's value goes to a field of its
  own, and the field that the defaults and the directive fill never changes.
\<close>

theorem ssh_auth_override_lost:
  "gateway_auth_mode (fst (qp_config_ssh_over_quic_apply_userland_config Z allowed config_arr c)) =
   gateway_auth_mode c"
  by (auto simp: qp_config_ssh_over_quic_apply_userland_config_def apply_userland_def ssh_keys_auth
      split: zval.split)

section \<open>Defaults\<close>

text \<open>
  What the engine documents of its number and boolean parsers, as far as the default texts use
  them: plain decimal numbers and the digits one and zero.
\<close>

definition engine_numbers :: "zend_api \<Rightarrow> bool" where
  "engine_numbers Z \<longleftrightarrow>
     (\<forall>s. digits s \<longrightarrow> zend_atol Z s = word_of_int (decimal_value s)) \<and>
     zend_ini_parse_bool Z ''1'' \<and> \<not> zend_ini_parse_bool Z ''0''"

lemma engine_atol: "engine_numbers Z \<Longrightarrow> digits s \<Longrightarrow> zend_atol Z s = word_of_int (decimal_value s)"
  by (simp add: engine_numbers_def)

lemmas number_eval = digits_def is_digit_def decimal_value_def digit_value_def of_char_def

lemma http2_init_defaults:
  assumes "engine_numbers Z"
  shows "qp_config_http2_init Z http2_ini_defaults c = Ok (qp_config_http2_defaults_load c)"
  using assms engine_atol [OF assms]
  by (simp add: qp_config_http2_init_def http2_ini_defaults_def http2_ini_entry_def
      OnUpdateHttp2PositiveLong_def OnUpdateHttp2MaxFrameSize_def qp_config_http2_defaults_load_def
      engine_numbers_def number_eval word_sless_alt word_sle_eq)

lemma mcp_init_defaults:
  assumes "engine_numbers Z"
  shows "qp_config_mcp_and_orchestrator_init Z mcp_orchestrator_ini_defaults c =
         Ok (qp_config_mcp_and_orchestrator_defaults_load c)"
  using assms engine_atol [OF assms]
  by (simp add: qp_config_mcp_and_orchestrator_init_def mcp_orchestrator_ini_defaults_def
      mcp_orchestrator_ini_entry_def OnUpdateMcpPositiveLong_def
      qp_config_mcp_and_orchestrator_defaults_load_def
      engine_numbers_def number_eval word_sless_alt word_sle_eq)

text \<open>
  The defaults of the code and the default texts of the directives agree: registering the
  HTTP/2 and the MCP directives without any entry in \<^verbatim>\<open>php.ini\<close> leaves the configuration exactly as
  the defaults loaded it.
\<close>

theorem ini_defaults_agree:
  assumes "engine_numbers Z"
  shows "qp_config_http2_init Z http2_ini_defaults c = Ok (qp_config_http2_defaults_load c) \<and>
         qp_config_mcp_and_orchestrator_init Z mcp_orchestrator_ini_defaults d =
           Ok (qp_config_mcp_and_orchestrator_defaults_load d)"
  using http2_init_defaults [OF assms] mcp_init_defaults [OF assms] by blast

theorem ini_defaults_agree_witness:
  "qp_config_http2_init example_engine http2_ini_defaults quicpro_http2_config =
     Ok (qp_config_http2_defaults_load quicpro_http2_config) \<and>
   qp_config_mcp_and_orchestrator_init example_engine mcp_orchestrator_ini_defaults
       quicpro_mcp_orchestrator_config =
     Ok (qp_config_mcp_and_orchestrator_defaults_load quicpro_mcp_orchestrator_config)"
  by (rule ini_defaults_agree) (simp add: engine_numbers_def example_engine_def)

section \<open>Ownership of strings\<close>

text \<open>
  Once the router directives are registered, the salt is a pointer into an engine string, and
  every userland override of it releases that pointer with \<^verbatim>\<open>free\<close>, which is undefined.
\<close>

theorem router_override_frees_engine_string:
  assumes "qp_config_router_and_loadbalancer_init Z router_loadbalancer_ini_defaults c = Ok d"
  shows "qp_config_router_and_loadbalancer_apply_userland_config Z True
           (Z_Array [(HStr ''connection_id_entropy_salt'', Z_String s)]) d = (d, Fail Invalid_Free)"
proof -
  have "connection_id_entropy_salt d = engine_string ''change-this-to-a-long-random-string-in-production''"
    using assms
    by (auto simp: qp_config_router_and_loadbalancer_init_def router_loadbalancer_ini_defaults_def
        router_loadbalancer_ini_entry_def OnUpdateRouterPositiveLong_def OnUpdateRouterAllowlist_def
        allowed_member Let_def split: if_splits)
  then show ?thesis
    by (simp add: qp_config_router_and_loadbalancer_apply_userland_config_def apply_userland_def
        router_loadbalancer_apply_key_def qp_validate_generic_string_def validate_str_def
        replace_str_def engine_string_def)
qed

theorem router_override_frees_engine_string_witness:
  "\<exists>d. qp_config_router_and_loadbalancer_init example_engine router_loadbalancer_ini_defaults
         quicpro_router_loadbalancer_config = Ok d \<and>
       qp_config_router_and_loadbalancer_apply_userland_config example_engine True
         (Z_Array [(HStr ''connection_id_entropy_salt'', Z_String ''pepper'')]) d =
       (d, Fail Invalid_Free)"
proof -
  have "\<exists>d. qp_config_router_and_loadbalancer_init example_engine router_loadbalancer_ini_defaults
          quicpro_router_loadbalancer_config = Ok d"
    by (auto simp: qp_config_router_and_loadbalancer_init_def router_loadbalancer_ini_defaults_def
        router_loadbalancer_ini_entry_def OnUpdateRouterPositiveLong_def OnUpdateRouterAllowlist_def
        allowed_member Let_def)
  then show ?thesis using router_override_frees_engine_string by blast
qed

lemma bare_metal_ini_affinity:
  "bare_metal_ini_entry Z name new_value c = Ok c' \<Longrightarrow>
   io_thread_cpu_affinity c' = io_thread_cpu_affinity c"
  unfolding bare_metal_ini_entry_def OnUpdateBareMetalNonNegativeLong_def
    OnUpdateBareMetalPositiveLong_def OnUpdateNumaPolicyString_def OnUpdateCpuAffinityString_def
    string_as_zval_def Let_def
  by (auto split: if_splits)

lemma bare_metal_run_affinity:
  "ini_run (bare_metal_ini_entry Z) calls c = Ok d \<Longrightarrow>
   io_thread_cpu_affinity d = io_thread_cpu_affinity c"
proof (induction calls arbitrary: c)
  case (Cons p calls)
  then show ?case
    by (cases p; cases "bare_metal_ini_entry Z (fst p) (snd p) c")
      (auto split: if_splits dest: bare_metal_ini_affinity)
qed simp

text \<open>
  The CPU affinity of the I/O threads cannot be set from \<^verbatim>\<open>php.ini\<close>: whatever directives the
  engine registers, a successful initialisation leaves the empty default, because the handler
  hands the validator an engine string instead of a value.
\<close>

theorem affinity_directive_ineffective:
  assumes "qp_config_bare_metal_tuning_init Z calls c = Ok d"
  shows "io_thread_cpu_affinity d = Malloced []"
proof -
  have "io_thread_cpu_affinity d = io_thread_cpu_affinity (qp_config_bare_metal_tuning_defaults_load c)"
    using assms unfolding qp_config_bare_metal_tuning_init_def by (rule bare_metal_run_affinity)
  then show ?thesis
    by (simp add: qp_config_bare_metal_tuning_defaults_load_def pestrdup_def cstr_def)
qed

theorem affinity_directive_ineffective_witness:
  "\<exists>d. qp_config_bare_metal_tuning_init example_engine
         [(''quicpro.io_thread_cpu_affinity'', ''0:0-1'')] quicpro_bare_metal_config = Ok d \<and>
       io_thread_cpu_affinity d = Malloced []"
proof -
  have "\<exists>d. qp_config_bare_metal_tuning_init example_engine
      [(''quicpro.io_thread_cpu_affinity'', ''0:0-1'')] quicpro_bare_metal_config = Ok d"
    by (simp add: qp_config_bare_metal_tuning_init_def bare_metal_ini_entry_def
        OnUpdateCpuAffinityString_def string_as_zval_def example_engine_def)
  then show ?thesis using affinity_directive_ineffective by blast
qed

end
