(* ===== verification/Cluster.thy ===== *)
theory Cluster
  imports Zend
begin

text \<open>
  The process supervisor of \<^verbatim>\<open>src/extension/src/cluster/cluster.c\<close>: parsing of its options, the start
  of the workers, the supervision loop with crashes, reloads and restarts, the shutdown sequence
  and the set-up of a worker process.  What the operating system answers (process numbers, exit
  states, times) and the signals that arrive are inputs; what the master does to other processes
  is a list of actions.
\<close>

section \<open>State\<close>

datatype signal = SIGTERM | SIGKILL | SIGHUP | SIGINT

datatype wstatus = Exited int | Signaled int

record quicpro_worker_info_t =
  w_pid :: int
  w_worker_id :: int
  w_start_time :: int
  w_restart_count :: int
  w_last_restart_time :: int
  w_is_exiting :: bool

record quicpro_cluster_options_t =
  num_workers :: int
  enable_cpu_affinity :: bool
  worker_niceness :: int
  worker_scheduler_policy :: int
  worker_max_open_files :: int
  worker_cgroup_path :: "string option"
  worker_uid :: int
  worker_gid :: int
  worker_loop_usleep_usec :: int
  worker_main_callable :: zval
  on_worker_start_callable :: zval
  on_worker_exit_callable :: zval
  restart_crashed_workers :: bool
  max_restarts_per_worker :: int
  restart_interval_sec :: int
  graceful_shutdown_timeout_sec :: int
  master_pid_file_path :: "string option"
  cluster_name :: "string option"

datatype action =
    Kill int signal
  | Call_start int int
  | Call_exit int int int int
  | Write_pid_file string
  | Remove_pid_file string
  | Throw

text \<open>The file-level variables of the master, and the actions it has taken.\<close>

record master =
  g_worker_pool :: "quicpro_worker_info_t list"
  g_shutdown_request :: bool
  g_reload_request :: bool
  actions :: "action list"

definition do_actions :: "action list \<Rightarrow> master \<Rightarrow> master" where
  "do_actions as m = m\<lparr>actions := actions m @ as\<rparr>"

section \<open>Options\<close>

definition zero_options :: quicpro_cluster_options_t where
  "zero_options =
     \<lparr>num_workers = 0, enable_cpu_affinity = False, worker_niceness = 0, worker_scheduler_policy = 0,
      worker_max_open_files = 0, worker_cgroup_path = None, worker_uid = 0, worker_gid = 0,
      worker_loop_usleep_usec = 0, worker_main_callable = Z_Undef, on_worker_start_callable = Z_Undef,
      on_worker_exit_callable = Z_Undef, restart_crashed_workers = False, max_restarts_per_worker = 0,
      restart_interval_sec = 0, graceful_shutdown_timeout_sec = 0, master_pid_file_path = None,
      cluster_name = None\<rparr>"

text \<open>The cast \<^verbatim>\<open>(int)\<close> of a 64-bit integer.\<close>

definition c_int :: "zend_long \<Rightarrow> int" where
  "c_int l = sint (ucast l :: 32 word)"

definition find_callable :: "zend_api \<Rightarrow> php_array \<Rightarrow> string \<Rightarrow> zval" where
  "find_callable Z ht key =
     (case arr_find ht key of
        Some v \<Rightarrow> if zend_is_callable Z v then v else Z_Undef
      | None \<Rightarrow> Z_Undef)"

definition parse_options_from_php ::
  "zend_api \<Rightarrow> int \<Rightarrow> php_array \<Rightarrow> quicpro_cluster_options_t option" where
  "parse_options_from_php Z ncpu ht =
     (let c_options =
            zero_options\<lparr>num_workers := ncpu, restart_crashed_workers := True,
              max_restarts_per_worker := 5, restart_interval_sec := 60,
              graceful_shutdown_timeout_sec := 30, worker_loop_usleep_usec := 10000\<rparr>
      in case arr_find ht ''worker_main_callable'' of
           None \<Rightarrow> None
         | Some main \<Rightarrow>
             if \<not> zend_is_callable Z main then None
             else Some (c_options
                \<lparr>worker_main_callable := main,
                 num_workers :=
                   (case arr_find ht ''num_workers'' of
                      Some (Z_Long l) \<Rightarrow> if 0 <s l then c_int l else ncpu
                    | _ \<Rightarrow> ncpu),
                 on_worker_start_callable := find_callable Z ht ''on_worker_start_callable'',
                 on_worker_exit_callable := find_callable Z ht ''on_worker_exit_callable'',
                 master_pid_file_path :=
                   (case arr_find ht ''master_pid_file_path'' of
                      Some (Z_String s) \<Rightarrow> Some (cstr s)
                    | _ \<Rightarrow> None)\<rparr>))"

section \<open>Signals\<close>

fun cluster_signal_handler :: "signal \<Rightarrow> master \<Rightarrow> master" where
  "cluster_signal_handler SIGINT m = m\<lparr>g_shutdown_request := True\<rparr>"
| "cluster_signal_handler SIGTERM m = m\<lparr>g_shutdown_request := True\<rparr>"
| "cluster_signal_handler SIGHUP m = m\<lparr>g_reload_request := True\<rparr>"
| "cluster_signal_handler SIGKILL m = m"

section \<open>The supervision loop\<close>

text \<open>
  The inputs of one pass: what \<^verbatim>\<open>waitpid\<close> returns, the signals that arrive before the restart
  decision, the clock there, what \<^verbatim>\<open>fork\<close> returns and the clock after it.
\<close>

record tick =
  t_child_pid :: int
  t_status :: wstatus
  t_signals :: "signal list"
  t_now :: int
  t_fork :: int
  t_started :: int

text \<open>A reload tells every live worker to stop and marks it as stopping.\<close>

definition reload_workers :: "master \<Rightarrow> master" where
  "reload_workers m =
     (if g_reload_request m
      then (do_actions (map (\<lambda>w. Kill (w_pid w) SIGTERM) (filter (\<lambda>w. 0 < w_pid w) (g_worker_pool m))) m)
             \<lparr>g_worker_pool := map (\<lambda>w. if 0 < w_pid w then w\<lparr>w_is_exiting := True\<rparr> else w) (g_worker_pool m),
              g_reload_request := False\<rparr>
      else m)"

fun find_worker :: "quicpro_worker_info_t list \<Rightarrow> int \<Rightarrow> nat option" where
  "find_worker [] p = None"
| "find_worker (w # ws) p =
     (if w_pid w = p then Some 0 else map_option Suc (find_worker ws p))"

definition exit_code :: "wstatus \<Rightarrow> int" where
  "exit_code st = (case st of Exited c \<Rightarrow> c | Signaled s \<Rightarrow> 0)"

definition term_signal :: "wstatus \<Rightarrow> int" where
  "term_signal st = (case st of Exited c \<Rightarrow> 0 | Signaled s \<Rightarrow> s)"

definition set_worker :: "nat \<Rightarrow> quicpro_worker_info_t \<Rightarrow> master \<Rightarrow> master" where
  "set_worker i w m = m\<lparr>g_worker_pool := (g_worker_pool m)[i := w]\<rparr>"

text \<open>What becomes of the entry of a worker that has exited.\<close>

definition restart_worker ::
  "quicpro_cluster_options_t \<Rightarrow> tick \<Rightarrow> bool \<Rightarrow> quicpro_worker_info_t \<Rightarrow> quicpro_worker_info_t" where
  "restart_worker opts t shutdown w =
     (if restart_crashed_workers opts \<and> \<not> w_is_exiting w \<and> \<not> shutdown then
        (let count = (if restart_interval_sec opts < t_now t - w_last_restart_time w then 0
                      else w_restart_count w) + 1;
             w' = w\<lparr>w_restart_count := count, w_last_restart_time := t_now t\<rparr>
         in if max_restarts_per_worker opts < 0 \<or> count \<le> max_restarts_per_worker opts
            then if 0 < t_fork t then w'\<lparr>w_pid := t_fork t, w_start_time := t_started t\<rparr>
                 else w'\<lparr>w_pid := 0\<rparr>
            else w'\<lparr>w_pid := 0\<rparr>)
      else w\<lparr>w_pid := 0\<rparr>)"

definition supervise :: "quicpro_cluster_options_t \<Rightarrow> tick \<Rightarrow> master \<Rightarrow> master" where
  "supervise opts t m0 =
     (let m = reload_workers m0 in
      if t_child_pid t \<le> 0 then m
      else case find_worker (g_worker_pool m) (t_child_pid t) of
             None \<Rightarrow> m
           | Some i \<Rightarrow>
               (let m1 = (if on_worker_exit_callable opts \<noteq> Z_Undef
                          then do_actions [Call_exit (int i) (t_child_pid t) (exit_code (t_status t))
                                             (term_signal (t_status t))] m
                          else m);
                    m2 = fold cluster_signal_handler (t_signals t) m1
                in set_worker i
                     (restart_worker opts t (g_shutdown_request m2) (g_worker_pool m2 ! i)) m2))"

text \<open>
  The loop, driven by signals and passes; None when the inputs end while it still runs.
\<close>

datatype event = Sig signal | Tick tick

fun master_supervisor_loop :: "quicpro_cluster_options_t \<Rightarrow> event list \<Rightarrow> master \<Rightarrow> master option" where
  "master_supervisor_loop opts [] m = (if g_shutdown_request m then Some m else None)"
| "master_supervisor_loop opts (Sig s # es) m =
     master_supervisor_loop opts es (cluster_signal_handler s m)"
| "master_supervisor_loop opts (Tick t # es) m =
     (if g_shutdown_request m then Some m
      else master_supervisor_loop opts es (supervise opts t m))"

section \<open>Start and shutdown\<close>

text \<open>
  The initial forks, each with the process number and the times of the new entry.  A failing fork
  kills the workers already started.
\<close>

fun start_workers ::
  "quicpro_cluster_options_t \<Rightarrow> (nat \<Rightarrow> int \<times> int \<times> int) \<Rightarrow> nat \<Rightarrow> nat \<Rightarrow> master \<Rightarrow> bool \<times> master" where
  "start_workers opts forks i 0 m = (True, m)"
| "start_workers opts forks i (Suc n) m =
     (let (p, t0, t1) = forks i in
      if p < 0
      then (False,
            do_actions (map (\<lambda>w. Kill (w_pid w) SIGKILL)
                          (filter (\<lambda>w. 0 < w_pid w) (take i (g_worker_pool m))) @ [Throw]) m)
      else
        (let m1 = set_worker i
               \<lparr>w_pid = p, w_worker_id = int i, w_start_time = t0, w_restart_count = 0,
                w_last_restart_time = t1, w_is_exiting = False\<rparr> m
         in start_workers opts forks (Suc i) n
              (if on_worker_start_callable opts \<noteq> Z_Undef
               then do_actions [Call_start (int i) p] m1 else m1)))"

definition kill_all :: "signal \<Rightarrow> master \<Rightarrow> master" where
  "kill_all s m =
     do_actions (map (\<lambda>w. Kill (w_pid w) s) (filter (\<lambda>w. 0 < w_pid w) (g_worker_pool m))) m"

text \<open>The wait for the workers: the clock and what \<^verbatim>\<open>waitpid\<close> returns in each pass.\<close>

fun shutdown_wait ::
  "int \<Rightarrow> (int \<times> int) list \<Rightarrow> quicpro_worker_info_t list \<Rightarrow> quicpro_worker_info_t list option" where
  "shutdown_wait deadline [] pool = None"
| "shutdown_wait deadline ((now, exited_pid) # ins) pool =
     (if deadline \<le> now then Some pool
      else if exited_pid \<le> 0 then shutdown_wait deadline ins pool
      else (let pool' = map (\<lambda>w. if w_pid w = exited_pid then w\<lparr>w_pid := 0\<rparr> else w) pool in
            if list_all (\<lambda>w. w_pid w \<le> 0) pool' then Some pool'
            else shutdown_wait deadline ins pool'))"

definition shutdown_workers ::
  "quicpro_cluster_options_t \<Rightarrow> int \<Rightarrow> (int \<times> int) list \<Rightarrow> master \<Rightarrow> master option" where
  "shutdown_workers opts now ins m =
     (let m1 = kill_all SIGTERM m in
      map_option (\<lambda>pool. kill_all SIGKILL (m1\<lparr>g_worker_pool := pool\<rparr>))
        (shutdown_wait (now + graceful_shutdown_timeout_sec opts) ins (g_worker_pool m1)))"

definition zero_worker :: quicpro_worker_info_t where
  "zero_worker =
     \<lparr>w_pid = 0, w_worker_id = 0, w_start_time = 0, w_restart_count = 0, w_last_restart_time = 0,
      w_is_exiting = False\<rparr>"

datatype orchestrate_result = Returned bool | Out_of_memory | Still_running

text \<open>
  The whole PHP function.  A negative number of workers reaches the allocator as a huge size.
\<close>

definition quicpro_cluster_orchestrate ::
  "zend_api \<Rightarrow> int \<Rightarrow> php_array \<Rightarrow> (nat \<Rightarrow> int \<times> int \<times> int) \<Rightarrow> event list \<Rightarrow> int \<Rightarrow> (int \<times> int) list \<Rightarrow>
   master \<Rightarrow> orchestrate_result \<times> master" where
  "quicpro_cluster_orchestrate Z ncpu ht forks events now ins m =
     (case parse_options_from_php Z ncpu ht of
        None \<Rightarrow> (Returned False, do_actions [Throw] m)
      | Some opts \<Rightarrow>
          (let m0 = (case master_pid_file_path opts of
                       Some p \<Rightarrow> do_actions [Write_pid_file p] m | None \<Rightarrow> m);
               finish = (\<lambda>m. case master_pid_file_path opts of
                               Some p \<Rightarrow> do_actions [Remove_pid_file p] m | None \<Rightarrow> m)
           in if num_workers opts < 0 then (Out_of_memory, m0)
              else
                (let n = nat (num_workers opts);
                     (ok, m1) = start_workers opts forks 0 n
                                  (m0\<lparr>g_worker_pool := replicate n zero_worker\<rparr>)
                 in if \<not> ok then (Returned True, finish m1)
                    else case master_supervisor_loop opts events m1 of
                           None \<Rightarrow> (Still_running, m1)
                         | Some m2 \<Rightarrow>
                             (case shutdown_workers opts now ins m2 of
                                None \<Rightarrow> (Still_running, m2)
                              | Some m3 \<Rightarrow> (Returned True, finish m3)))))"

section \<open>The worker process\<close>

text \<open>The system calls of a worker, with their results as a function.\<close>

datatype sys_call =
    Sched_setaffinity int
  | Sched_setscheduler int
  | Setpriority int
  | Setrlimit int
  | Setgid int
  | Setuid int
  | Write_cgroup string
  | Call_main int

definition affinity_calls :: "quicpro_cluster_options_t \<Rightarrow> int \<Rightarrow> int \<Rightarrow> sys_call list" where
  "affinity_calls opts ncpu worker_id =
     (if enable_cpu_affinity opts then [Sched_setaffinity (worker_id mod ncpu)] else []) @
     (if worker_scheduler_policy opts \<noteq> 0 then [Sched_setscheduler (worker_scheduler_policy opts)] else []) @
     (if worker_niceness opts \<noteq> 0 then [Setpriority (worker_niceness opts)] else []) @
     (if 0 < worker_max_open_files opts then [Setrlimit (worker_max_open_files opts)] else [])"

definition worker_process_main ::
  "quicpro_cluster_options_t \<Rightarrow> (sys_call \<Rightarrow> bool) \<Rightarrow> int \<Rightarrow> int \<Rightarrow> sys_call list \<times> int" where
  "worker_process_main opts succeeds ncpu worker_id =
     (let pre = affinity_calls opts ncpu worker_id;
          gid = (if 0 < worker_gid opts then [Setgid (worker_gid opts)] else []);
          uid = (if 0 < worker_uid opts then [Setuid (worker_uid opts)] else []);
          cgroup = (case worker_cgroup_path opts of Some p \<Rightarrow> [Write_cgroup p] | None \<Rightarrow> [])
      in if \<not> list_all succeeds gid then (pre @ gid, 1)
         else if \<not> list_all succeeds uid then (pre @ gid @ uid, 1)
         else (pre @ gid @ uid @ cgroup @ [Call_main worker_id],
               if succeeds (Call_main worker_id) then 0 else 1))"

section \<open>Lemmas on the pool\<close>

lemma find_worker_Some:
  "find_worker ws p = Some i \<Longrightarrow> i < length ws \<and> w_pid (ws ! i) = p \<and> (\<forall>j < i. w_pid (ws ! j) \<noteq> p)"
proof (induction ws arbitrary: i)
  case (Cons w ws)
  then show ?case
    by (auto split: if_splits simp: nth_Cons split: nat.splits)
qed simp

lemma find_worker_exists: "i < length ws \<Longrightarrow> w_pid (ws ! i) = p \<Longrightarrow> find_worker ws p \<noteq> None"
  by (induction ws arbitrary: i) (auto simp: nth_Cons split: nat.splits)

lemma pool_do_actions [simp]:
  "g_worker_pool (do_actions as m) = g_worker_pool m"
  "g_shutdown_request (do_actions as m) = g_shutdown_request m"
  "g_reload_request (do_actions as m) = g_reload_request m"
  "actions (do_actions as m) = actions m @ as"
  by (simp_all add: do_actions_def)

lemma pool_handler [simp]:
  "g_worker_pool (cluster_signal_handler s m) = g_worker_pool m"
  "actions (cluster_signal_handler s m) = actions m"
  by (cases s; simp)+

lemma pool_handlers [simp]:
  "g_worker_pool (fold cluster_signal_handler ss m) = g_worker_pool m"
  "actions (fold cluster_signal_handler ss m) = actions m"
  by (induction ss arbitrary: m) simp_all

lemma reload_pool:
  "length (g_worker_pool (reload_workers m)) = length (g_worker_pool m)"
  "i < length (g_worker_pool m) \<Longrightarrow>
   w_pid (g_worker_pool (reload_workers m) ! i) = w_pid (g_worker_pool m ! i) \<and>
   w_worker_id (g_worker_pool (reload_workers m) ! i) = w_worker_id (g_worker_pool m ! i) \<and>
   w_restart_count (g_worker_pool (reload_workers m) ! i) = w_restart_count (g_worker_pool m ! i) \<and>
   (w_is_exiting (g_worker_pool m ! i) \<longrightarrow> w_is_exiting (g_worker_pool (reload_workers m) ! i))"
  by (auto simp: reload_workers_def)

text \<open>A pass changes at most the entry of the worker that exited.\<close>

lemma supervise_cases:
  obtains (same) "g_worker_pool (supervise opts t m) = g_worker_pool (reload_workers m)"
  | (one) i sh where "0 < t_child_pid t" "i < length (g_worker_pool m)"
      "w_pid (g_worker_pool m ! i) = t_child_pid t"
      "g_worker_pool (supervise opts t m) =
         (g_worker_pool (reload_workers m))
           [i := restart_worker opts t sh (g_worker_pool (reload_workers m) ! i)]"
      "g_shutdown_request m \<longrightarrow> sh"
proof (cases "t_child_pid t \<le> 0")
  case True
  then show ?thesis by (intro that(1)) (simp add: supervise_def)
next
  case False
  let ?m = "reload_workers m"
  show ?thesis
  proof (cases "find_worker (g_worker_pool ?m) (t_child_pid t)")
    case None
    with False show ?thesis by (intro that(1)) (simp add: supervise_def)
  next
    case (Some i)
    from find_worker_Some [OF Some] have i: "i < length (g_worker_pool m)"
      and p: "w_pid (g_worker_pool m ! i) = t_child_pid t"
      using reload_pool(1) [where m = m] reload_pool(2) [where i = i and m = m] by auto
    let ?m1 = "if on_worker_exit_callable opts \<noteq> Z_Undef
      then do_actions [Call_exit (int i) (t_child_pid t) (exit_code (t_status t)) (term_signal (t_status t))] ?m
      else ?m"
    let ?sh = "g_shutdown_request (fold cluster_signal_handler (t_signals t) ?m1)"
    have sd: "g_shutdown_request x \<Longrightarrow> g_shutdown_request (fold cluster_signal_handler ss x)" for ss x
    proof (induction ss arbitrary: x)
      case (Cons s ss)
      have "g_shutdown_request (cluster_signal_handler s x)" using Cons.prems by (cases s) simp_all
      from Cons.IH [OF this] show ?case by simp
    qed simp
    have rs: "g_shutdown_request ?m = g_shutdown_request m" by (simp add: reload_workers_def)
    have "g_worker_pool (supervise opts t m) =
        (g_worker_pool ?m)[i := restart_worker opts t ?sh (g_worker_pool ?m ! i)]"
      using False Some by (simp add: supervise_def Let_def set_worker_def)
    with False i p sd [of ?m1] rs show ?thesis by (intro that(2) [of i ?sh]) auto
  qed
qed

end
