(* ===== verification/Cluster_Properties.thy ===== *)
theory Cluster_Properties
  imports Cluster
begin

text \<open>
  The supervisor as a state machine: its invariant, that a full cluster stays full, what a reload
  does to the workers for good, and that a shutdown leaves no worker behind.
\<close>

section \<open>The start\<close>

definition new_worker :: "(nat \<Rightarrow> int \<times> int \<times> int) \<Rightarrow> nat \<Rightarrow> quicpro_worker_info_t" where
  "new_worker forks i =
     (case forks i of (p, t0, t1) \<Rightarrow>
        \<lparr>w_pid = p, w_worker_id = int i, w_start_time = t0, w_restart_count = 0,
         w_last_restart_time = t1, w_is_exiting = False\<rparr>)"

lemma new_worker_simps [simp]:
  "w_pid (new_worker forks i) = fst (forks i)"
  "w_worker_id (new_worker forks i) = int i"
  "w_restart_count (new_worker forks i) = 0"
  "\<not> w_is_exiting (new_worker forks i)"
  by (simp_all add: new_worker_def split: prod.split)

lemma start_workers_pool:
  assumes "start_workers opts forks i n m = (True, m')" "length (g_worker_pool m) = i + n"
  shows "g_worker_pool m' = take i (g_worker_pool m) @ map (new_worker forks) [i ..< i + n] \<and>
         (\<forall>j. i \<le> j \<and> j < i + n \<longrightarrow> 0 \<le> fst (forks j)) \<and>
         g_shutdown_request m' = g_shutdown_request m"
  using assms
proof (induction n arbitrary: i m)
  case (Suc n)
  obtain p t0 t1 where f: "forks i = (p, t0, t1)" by (cases "forks i") auto
  from Suc.prems(1) f have p: "0 \<le> p" by (auto split: if_splits)
  define m1 where "m1 = set_worker i (new_worker forks i) m"
  define m2 where
    "m2 = (if on_worker_start_callable opts \<noteq> Z_Undef then do_actions [Call_start (int i) p] m1 else m1)"
  have run: "start_workers opts forks (Suc i) n m2 = (True, m')"
    using Suc.prems(1) f p
    by (simp add: m2_def m1_def new_worker_def Let_def split: if_splits)
  have pool: "g_worker_pool m2 = (g_worker_pool m)[i := new_worker forks i]"
    "g_shutdown_request m2 = g_shutdown_request m"
    by (simp_all add: m2_def m1_def set_worker_def)
  have IH: "g_worker_pool m' =
      take (Suc i) (g_worker_pool m2) @ map (new_worker forks) [Suc i ..< Suc i + n] \<and>
      (\<forall>j. Suc i \<le> j \<and> j < Suc i + n \<longrightarrow> 0 \<le> fst (forks j)) \<and>
      g_shutdown_request m' = g_shutdown_request m2"
    using Suc.IH [OF run] Suc.prems(2) pool by simp
  have "take (Suc i) (g_worker_pool m2) = take i (g_worker_pool m) @ [new_worker forks i]"
    using Suc.prems(2) pool by (simp add: take_Suc_conv_app_nth)
  moreover have "[i ..< i + Suc n] = i # [Suc i ..< Suc i + n]" by (simp add: upt_conv_Cons)
  moreover have "0 \<le> fst (forks j)" if "i \<le> j" "j < i + Suc n" for j
    using that IH f p by (cases "j = i") auto
  ultimately show ?case using IH pool by simp
qed simp

section \<open>The state machine\<close>

text \<open>
  Signals arrive at any time; passes happen while no shutdown is requested.  The kernel never
  gives a new process the number of another worker that still runs.
\<close>

inductive cluster_step :: "quicpro_cluster_options_t \<Rightarrow> master \<Rightarrow> master \<Rightarrow> bool" for opts where
  signal: "cluster_step opts m (cluster_signal_handler s m)"
| pass: "\<not> g_shutdown_request m \<Longrightarrow>
    (\<forall>w \<in> set (g_worker_pool m). w_pid w = t_fork t \<longrightarrow> w_pid w \<le> 0 \<or> w_pid w = t_child_pid t) \<Longrightarrow>
    cluster_step opts m (supervise opts t m)"

inductive_cases cluster_stepE: "cluster_step opts m m'"

definition cluster_start :: "quicpro_cluster_options_t \<Rightarrow> nat \<Rightarrow> master \<Rightarrow> bool" where
  "cluster_start opts n m \<longleftrightarrow>
     (\<exists>forks m0. inj_on (fst \<circ> forks) {..<n} \<and> (\<forall>i < n. 0 < fst (forks i)) \<and>
        start_workers opts forks 0 n (m0\<lparr>g_worker_pool := replicate n zero_worker\<rparr>) = (True, m))"

definition worker_ok :: "quicpro_cluster_options_t \<Rightarrow> nat \<Rightarrow> quicpro_worker_info_t \<Rightarrow> bool" where
  "worker_ok opts i w \<longleftrightarrow>
     w_worker_id w = int i \<and> 0 \<le> w_pid w \<and> 0 \<le> w_restart_count w \<and>
     (0 \<le> max_restarts_per_worker opts \<longrightarrow>
        w_restart_count w \<le> max_restarts_per_worker opts + (if w_pid w = 0 then 1 else 0))"

definition cluster_inv :: "quicpro_cluster_options_t \<Rightarrow> nat \<Rightarrow> master \<Rightarrow> bool" where
  "cluster_inv opts n m \<longleftrightarrow>
     length (g_worker_pool m) = n \<and>
     (\<forall>i < n. worker_ok opts i (g_worker_pool m ! i)) \<and>
     (\<forall>i < n. \<forall>j < n. i \<noteq> j \<longrightarrow> 0 < w_pid (g_worker_pool m ! i) \<longrightarrow>
        w_pid (g_worker_pool m ! i) \<noteq> w_pid (g_worker_pool m ! j))"

lemma restart_worker_ok:
  assumes "worker_ok opts i w" "0 < w_pid w"
  shows "worker_ok opts i (restart_worker opts t sh w)"
  using assms by (auto simp: worker_ok_def restart_worker_def Let_def)

lemma restart_worker_pid: "w_pid (restart_worker opts t sh w) = 0 \<or>
    w_pid (restart_worker opts t sh w) = t_fork t \<and> 0 < t_fork t"
  by (simp add: restart_worker_def Let_def)

lemma cluster_inv_reload: "cluster_inv opts n m \<Longrightarrow> cluster_inv opts n (reload_workers m)"
  using reload_pool(1) [of m] reload_pool(2) [of _ m]
  by (auto simp: cluster_inv_def worker_ok_def)

lemma cluster_inv_supervise:
  assumes inv: "cluster_inv opts n m"
    and fresh: "\<forall>w \<in> set (g_worker_pool m). w_pid w = t_fork t \<longrightarrow> w_pid w \<le> 0 \<or> w_pid w = t_child_pid t"
  shows "cluster_inv opts n (supervise opts t m)"
proof (cases rule: supervise_cases [of opts t m])
  case same
  with cluster_inv_reload [OF inv] show ?thesis by (simp add: cluster_inv_def)
next
  case (one i sh)
  let ?P = "g_worker_pool (reload_workers m)" and ?w = "restart_worker opts t sh (g_worker_pool (reload_workers m) ! i)"
  have n: "length (g_worker_pool m) = n" and r: "cluster_inv opts n (reload_workers m)"
    using inv cluster_inv_reload [OF inv] by (simp_all add: cluster_inv_def)
  have pid: "w_pid (?P ! j) = w_pid (g_worker_pool m ! j)" if "j < n" for j
    using reload_pool(2) [of j m] that n by simp
  have ok: "worker_ok opts i ?w"
    using r one(1,2,3) n pid by (intro restart_worker_ok) (auto simp: cluster_inv_def)
  have new: "w_pid ?w \<noteq> w_pid (?P ! j)" if "j < n" "j \<noteq> i" "0 < w_pid ?w" for j
  proof
    assume eq: "w_pid ?w = w_pid (?P ! j)"
    with that restart_worker_pid [of opts t sh "?P ! i"] pid
    have "w_pid (g_worker_pool m ! j) = t_fork t" "0 < t_fork t" by auto
    moreover have "g_worker_pool m ! j \<in> set (g_worker_pool m)" using that n by simp
    ultimately have "w_pid (g_worker_pool m ! j) = t_child_pid t" using fresh by force
    with one(1,3) have "w_pid (g_worker_pool m ! i) = w_pid (g_worker_pool m ! j)"
      "0 < w_pid (g_worker_pool m ! i)" by simp_all
    with inv that one(2) n show False unfolding cluster_inv_def by metis
  qed
  have new': "w_pid (?P ! j) \<noteq> w_pid ?w" if "j < n" "j \<noteq> i" "0 < w_pid (?P ! j)" for j
    using new [of j] that restart_worker_pid [of opts t sh "?P ! i"] by fastforce
  show ?thesis
    unfolding cluster_inv_def one(4)
    using r ok new new' one(2) n
    by (auto simp: cluster_inv_def nth_list_update)
qed

lemma cluster_inv_start: "cluster_start opts n m \<Longrightarrow> cluster_inv opts n m"
  unfolding cluster_start_def
proof (elim exE conjE)
  fix forks m0
  assume inj: "inj_on (fst \<circ> forks) {..<n}" and pos: "\<forall>i < n. 0 < fst (forks i)"
    and st: "start_workers opts forks 0 n (m0\<lparr>g_worker_pool := replicate n zero_worker\<rparr>) = (True, m)"
  have pool: "g_worker_pool m = map (new_worker forks) [0 ..< n]"
    using start_workers_pool [OF st] by simp
  have "fst (forks i) \<noteq> fst (forks j)" if "i < n" "j < n" "i \<noteq> j" for i j
    using inj_onD [OF inj, of i j] that by auto
  with pool pos show "cluster_inv opts n m"
    by (simp add: cluster_inv_def worker_ok_def less_imp_le)
qed

interpretation supervisor: step_system "cluster_start opts n" "cluster_step opts" "cluster_inv opts n"
  for opts n
proof unfold_locales
  fix m m'
  assume "cluster_inv opts n m" "cluster_step opts m m'"
  then show "cluster_inv opts n m'"
    by (auto elim!: cluster_stepE intro: cluster_inv_supervise) (simp add: cluster_inv_def)
qed (rule cluster_inv_start)

text \<open>
  C7: In every state the supervisor can reach, under any signals, crashes and fork failures, the
  pool has one entry per configured worker in its place, no two live workers share a process
  number, and the restart count of a slot exceeds its limit by at most one, and only when the
  slot is dead.
\<close>

theorem cluster_invariant:
  assumes "cluster_start opts n m0" "(cluster_step opts)\<^sup>*\<^sup>* m0 m"
  shows "length (g_worker_pool m) = n \<and>
         (\<forall>i < n. worker_ok opts i (g_worker_pool m ! i)) \<and>
         (\<forall>i < n. \<forall>j < n. i \<noteq> j \<longrightarrow> 0 < w_pid (g_worker_pool m ! i) \<longrightarrow>
            w_pid (g_worker_pool m ! i) \<noteq> w_pid (g_worker_pool m ! j))"
  using supervisor.reachable_inv [OF assms] by (simp add: cluster_inv_def)

definition example_options :: quicpro_cluster_options_t where
  "example_options =
     zero_options\<lparr>num_workers := 2, restart_crashed_workers := True, max_restarts_per_worker := 5,
       restart_interval_sec := 60, graceful_shutdown_timeout_sec := 30,
       worker_gid := 33, worker_uid := 33\<rparr>"

definition example_master :: master where
  "example_master = \<lparr>g_worker_pool = [], g_shutdown_request = False, g_reload_request = False, actions = []\<rparr>"

definition example_forks :: "nat \<Rightarrow> int \<times> int \<times> int" where
  "example_forks i = (100 + int i, 0, 0)"

definition example_running :: master where
  "example_running =
     snd (start_workers example_options example_forks 0 2
            (example_master\<lparr>g_worker_pool := replicate 2 zero_worker\<rparr>))"

definition example_crash :: tick where
  "example_crash =
     \<lparr>t_child_pid = 101, t_status = Signaled 11, t_signals = [], t_now = 5, t_fork = 200, t_started = 5\<rparr>"

lemma example_started: "cluster_start example_options 2 example_running"
  unfolding cluster_start_def
proof (intro exI conjI)
  show "start_workers example_options example_forks 0 2
      (example_master\<lparr>g_worker_pool := replicate 2 zero_worker\<rparr>) = (True, example_running)"
    by code_simp
qed (auto simp: example_forks_def inj_on_def)

theorem cluster_invariant_witness:
  "length (g_worker_pool (supervise example_options example_crash example_running)) = 2 \<and>
   map w_pid (g_worker_pool (supervise example_options example_crash example_running)) = [100, 200]"
proof -
  have "cluster_step example_options example_running (supervise example_options example_crash example_running)"
    by (rule cluster_step.pass) code_simp+
  then have "(cluster_step example_options)\<^sup>*\<^sup>* example_running
      (supervise example_options example_crash example_running)" by simp
  from cluster_invariant [OF example_started this]
  have "length (g_worker_pool (supervise example_options example_crash example_running)) = 2"
    by simp
  moreover have "map w_pid (g_worker_pool (supervise example_options example_crash example_running)) = [100, 200]"
    by code_simp
  ultimately show ?thesis by blast
qed

section \<open>Crashes\<close>

definition full :: "master \<Rightarrow> bool" where
  "full m \<longleftrightarrow> \<not> g_reload_request m \<and> \<not> g_shutdown_request m \<and>
     list_all (\<lambda>w. 0 < w_pid w \<and> \<not> w_is_exiting w) (g_worker_pool m)"

lemma supervise_flags:
  assumes "t_signals t = []" "\<not> g_reload_request m"
  shows "g_reload_request (supervise opts t m) = False"
    "g_shutdown_request (supervise opts t m) = g_shutdown_request m"
  using assms
  by (auto simp: supervise_def Let_def reload_workers_def set_worker_def split: option.split)

lemma full_supervise:
  assumes "full m" "t_signals t = []" "0 < t_fork t"
    and "restart_crashed_workers opts" "max_restarts_per_worker opts < 0"
  shows "full (supervise opts t m)"
proof -
  have m: "reload_workers m = m" "\<not> g_reload_request m" "\<not> g_shutdown_request m"
    using assms(1) by (simp_all add: full_def reload_workers_def)
  have "list_all (\<lambda>w. 0 < w_pid w \<and> \<not> w_is_exiting w) (g_worker_pool (supervise opts t m))"
  proof (cases "t_child_pid t \<le> 0 \<or> find_worker (g_worker_pool m) (t_child_pid t) = None")
    case True
    then have "supervise opts t m = m" by (auto simp: supervise_def m)
    with assms(1) show ?thesis by (simp add: full_def)
  next
    case False
    then obtain i where i: "find_worker (g_worker_pool m) (t_child_pid t) = Some i" by auto
    let ?w = "restart_worker opts t False (g_worker_pool m ! i)"
    have "g_worker_pool m ! i \<in> set (g_worker_pool m)" using find_worker_Some [OF i] by simp
    then have "0 < w_pid ?w \<and> \<not> w_is_exiting ?w"
      using assms by (auto simp: full_def list_all_iff restart_worker_def Let_def)
    moreover have "g_worker_pool (supervise opts t m) = (g_worker_pool m)[i := ?w]"
      using False i m assms(2) by (simp add: supervise_def set_worker_def Let_def)
    ultimately show ?thesis
      using assms(1) by (auto simp: full_def list_all_iff dest!: set_update_subset_insert [THEN subsetD])
  qed
  with supervise_flags [OF assms(2) m(2), of opts] m(3) show ?thesis by (simp add: full_def)
qed



section \<open>Reload\<close>

lemma exiting_supervise:
  assumes "i < length (g_worker_pool m)" "w_is_exiting (g_worker_pool m ! i)"
  shows "w_is_exiting (g_worker_pool (supervise opts t m) ! i) \<and>
         w_pid (g_worker_pool (supervise opts t m) ! i) \<in> {w_pid (g_worker_pool m ! i), 0} \<and>
         length (g_worker_pool (supervise opts t m)) = length (g_worker_pool m)"
proof (cases rule: supervise_cases [of opts t m])
  case same
  with assms reload_pool(1) [of m] reload_pool(2) [of i m] show ?thesis by simp
next
  case (one k sh)
  then show ?thesis
    using assms reload_pool(1) [of m] reload_pool(2) [of i m]
    by (simp add: nth_list_update restart_worker_def)
qed

text \<open>
  A reload never brings a worker back: once SIGHUP has marked a worker as stopping, the mark
  stays for ever, so after the worker has exited its slot is never started again.
\<close>

theorem reload_never_restarts:
  assumes "(cluster_step opts)\<^sup>*\<^sup>* m m'" "i < length (g_worker_pool m)"
    and "w_is_exiting (g_worker_pool m ! i)"
  shows "w_is_exiting (g_worker_pool m' ! i) \<and>
         w_pid (g_worker_pool m' ! i) \<in> {w_pid (g_worker_pool m ! i), 0}"
proof -
  have "w_is_exiting (g_worker_pool m' ! i) \<and> i < length (g_worker_pool m') \<and>
      w_pid (g_worker_pool m' ! i) \<in> {w_pid (g_worker_pool m ! i), 0}"
    using assms(1)
  proof (induction rule: rtranclp_induct)
    case (step y z)
    from step.hyps(2) show ?case
    proof (cases rule: cluster_step.cases)
      case (signal s)
      with step.IH show ?thesis by simp
    next
      case (pass t)
      with step.IH exiting_supervise [of i y opts t] show ?thesis by auto
    qed
  qed (use assms in auto)
  then show ?thesis by blast
qed

theorem reload_never_restarts_witness:
  "w_pid (g_worker_pool (supervise example_options example_crash
     (supervise example_options (example_crash\<lparr>t_child_pid := 0\<rparr>)
        (cluster_signal_handler SIGHUP example_running))) ! 1) = 0"
proof -
  let ?m = "supervise example_options (example_crash\<lparr>t_child_pid := 0\<rparr>)
    (cluster_signal_handler SIGHUP example_running)"
  have st: "cluster_step example_options ?m (supervise example_options example_crash ?m)"
    by (rule cluster_step.pass) code_simp+
  have ex: "1 < length (g_worker_pool ?m)" "w_is_exiting (g_worker_pool ?m ! 1)"
    "w_pid (g_worker_pool ?m ! 1) = 101"
    by code_simp+
  have "w_pid (g_worker_pool (supervise example_options example_crash ?m) ! 1) \<in> {101, 0}"
    using reload_never_restarts [OF _ ex(1,2), of example_options "supervise example_options example_crash ?m"]
      r_into_rtranclp [of "cluster_step example_options", OF st] ex(3) by simp
  moreover have "w_pid (g_worker_pool (supervise example_options example_crash ?m) ! 1) \<noteq> 101"
    by code_simp
  ultimately show ?thesis by simp
qed

section \<open>Shutdown\<close>

lemma shutdown_wait_ends:
  "\<exists>x \<in> set ins. deadline \<le> fst x \<Longrightarrow> shutdown_wait deadline ins pool \<noteq> None"
proof (induction ins arbitrary: pool)
  case (Cons x ins)
  then show ?case by (cases x) (auto simp: Let_def)
qed simp

lemma shutdown_wait_left:
  "shutdown_wait deadline ins pool = Some pool' \<Longrightarrow> w \<in> set pool \<Longrightarrow>
   w_pid w \<in> snd ` set ins \<or> w \<in> set pool'"
proof (induction ins arbitrary: pool)
  case (Cons x ins)
  obtain now p where x: "x = (now, p)" by (cases x)
  show ?case
  proof (cases "w_pid w = p")
    case False
    then have "w \<in> set (map (\<lambda>w. if w_pid w = p then w\<lparr>w_pid := 0\<rparr> else w) pool)"
      using Cons.prems(2) by force
    with Cons x show ?thesis by (auto simp: Let_def split: if_splits)
  qed (simp add: x)
qed simp

text \<open>
  C24: The shutdown ends as soon as the clock passes the deadline, and it leaves no worker behind:
  every live worker is told to terminate, and afterwards it has either been reaped or killed.
\<close>

theorem shutdown_complete:
  assumes "\<exists>x \<in> set ins. now + graceful_shutdown_timeout_sec opts \<le> fst x"
  shows "\<exists>m'. shutdown_workers opts now ins m = Some m' \<and>
           (\<forall>w \<in> set (g_worker_pool m). 0 < w_pid w \<longrightarrow>
              Kill (w_pid w) SIGTERM \<in> set (actions m') \<and>
              (w_pid w \<in> snd ` set ins \<or> Kill (w_pid w) SIGKILL \<in> set (actions m')))"
proof -
  let ?d = "now + graceful_shutdown_timeout_sec opts"
  obtain pool where pool: "shutdown_wait ?d ins (g_worker_pool m) = Some pool"
    using shutdown_wait_ends [OF assms] by blast
  let ?m' = "kill_all SIGKILL ((kill_all SIGTERM m)\<lparr>g_worker_pool := pool\<rparr>)"
  have "shutdown_workers opts now ins m = Some ?m'"
    using pool by (simp add: shutdown_workers_def kill_all_def)
  moreover have "Kill (w_pid w) SIGTERM \<in> set (actions ?m') \<and>
      (w_pid w \<in> snd ` set ins \<or> Kill (w_pid w) SIGKILL \<in> set (actions ?m'))"
    if "w \<in> set (g_worker_pool m)" "0 < w_pid w" for w
    using shutdown_wait_left [OF pool that(1)] that by (auto simp: kill_all_def)
  ultimately show ?thesis by blast
qed

theorem shutdown_complete_witness:
  "\<exists>m'. shutdown_workers example_options 0 [(0, 100), (30, 0)] example_running = Some m' \<and>
     Kill 101 SIGKILL \<in> set (actions m')"
proof -
  have "\<exists>m'. shutdown_workers example_options 0 [(0, 100), (30, 0)] example_running = Some m' \<and>
      (\<forall>w \<in> set (g_worker_pool example_running). 0 < w_pid w \<longrightarrow>
         Kill (w_pid w) SIGTERM \<in> set (actions m') \<and>
         (w_pid w \<in> snd ` set [(0::int, 100::int), (30, 0)] \<or> Kill (w_pid w) SIGKILL \<in> set (actions m')))"
    by (rule shutdown_complete) (simp add: example_options_def)
  moreover have "\<exists>w \<in> set (g_worker_pool example_running). w_pid w = 101" by code_simp
  ultimately show ?thesis by fastforce
qed

text \<open>
  A second cluster in the same process is never supervised: the shutdown flag is not cleared,
  so the loop returns at once, whatever happens to the workers.
\<close>

theorem supervision_over_for_good:
  assumes "g_shutdown_request m"
  shows "\<exists>m'. master_supervisor_loop opts es m = Some m' \<and> g_shutdown_request m' \<and>
           g_worker_pool m' = g_worker_pool m \<and> actions m' = actions m"
  using assms
proof (induction opts es m rule: master_supervisor_loop.induct)
  case (2 opts s es m)
  have "g_shutdown_request (cluster_signal_handler s m)" using "2.prems" by (cases s) simp_all
  from "2.IH" [OF this] show ?case by simp
qed auto

theorem supervision_over_for_good_witness:
  "\<exists>m'. master_supervisor_loop example_options [Tick example_crash, Tick example_crash]
          (cluster_signal_handler SIGTERM example_running) = Some m' \<and>
        g_worker_pool m' = g_worker_pool example_running"
  using supervision_over_for_good
    [of "cluster_signal_handler SIGTERM example_running" example_options
       "[Tick example_crash, Tick example_crash]"]
  by auto

section \<open>Privileges\<close>



end
