(* ===== verification/Tool_Registry.thy ===== *)
theory Tool_Registry
  imports Zend
begin

text \<open>
  The tool handler registry of
  \<^verbatim>\<open>src/extension/src/pipeline_orchestrator/tool_handler_registry.c\<close>: the parsing of the PHP
  configuration of a tool into its C structures and the registry that keeps them.  The header
  names three fields of the retrieval configuration differently from the code; the record has
  the names the code uses.
\<close>

section \<open>Structures\<close>

record quicpro_mcp_target_config_t =
  mt_host :: string
  mt_port :: zend_long
  mt_service_name :: string
  mt_method_name :: string
  mt_client_options :: zval

record quicpro_rag_config_t =
  rag_agent_target :: quicpro_mcp_target_config_t
  rag_enabled_param_key :: string
  rag_request_proto_schema :: string
  rag_response_proto_schema :: string
  rag_context_output_field :: string
  rag_target_context_field :: string
  rag_topics_from_param_key :: "string option"
  rag_topics_from_previous_step :: "(string \<times> string) option"
  rag_param_map :: "php_array option"

record quicpro_tool_handler_config_t =
  th_tool_name :: string
  th_mcp_target :: quicpro_mcp_target_config_t
  th_input_proto_schema :: string
  th_output_proto_schema :: string
  th_param_map :: "php_array option"
  th_output_map :: "php_array option"
  th_rag_config :: "quicpro_rag_config_t option"

datatype tool_error =
    Not_Initialized
  | Already_Registered
  | Missing_Field string  \<comment> \<open>a required field is absent or of the wrong type\<close>

record tool_registry =
  registry_initialized :: bool
  registry_table :: "(string, quicpro_tool_handler_config_t) htable"

section \<open>Parsing\<close>

text \<open>\<^verbatim>\<open>zend_hash_str_find\<close> with a type test.\<close>

definition need_string :: "php_array \<Rightarrow> string \<Rightarrow> (tool_error, string) outcome" where
  "need_string ht key =
     (case arr_find ht key of Some (Z_String s) \<Rightarrow> Ok s | _ \<Rightarrow> Fail (Missing_Field key))"

definition need_long :: "php_array \<Rightarrow> string \<Rightarrow> (tool_error, zend_long) outcome" where
  "need_long ht key =
     (case arr_find ht key of Some (Z_Long l) \<Rightarrow> Ok l | _ \<Rightarrow> Fail (Missing_Field key))"

definition need_array :: "php_array \<Rightarrow> string \<Rightarrow> (tool_error, php_array) outcome" where
  "need_array ht key =
     (case arr_find ht key of Some (Z_Array t) \<Rightarrow> Ok t | _ \<Rightarrow> Fail (Missing_Field key))"

definition opt_string :: "php_array \<Rightarrow> string \<Rightarrow> string option" where
  "opt_string ht key = (case arr_find ht key of Some (Z_String s) \<Rightarrow> Some s | _ \<Rightarrow> None)"

definition opt_array :: "php_array \<Rightarrow> string \<Rightarrow> php_array option" where
  "opt_array ht key = (case arr_find ht key of Some (Z_Array t) \<Rightarrow> Some t | _ \<Rightarrow> None)"

definition parse_mcp_target_config_from_php ::
  "php_array \<Rightarrow> (tool_error, quicpro_mcp_target_config_t) outcome" where
  "parse_mcp_target_config_from_php ht =
     obind (need_string ht ''host'') (\<lambda>host.
     obind (need_long ht ''port'') (\<lambda>port.
     obind (need_string ht ''service_name'') (\<lambda>service_name.
     obind (need_string ht ''method_name'') (\<lambda>method_name.
     Ok \<lparr>mt_host = host, mt_port = port, mt_service_name = service_name, mt_method_name = method_name,
         mt_client_options =
           (case opt_array ht ''mcp_options'' of Some t \<Rightarrow> Z_Array t | None \<Rightarrow> Z_Undef)\<rparr>))))"

definition topics_from_previous :: "php_array \<Rightarrow> (string \<times> string) option" where
  "topics_from_previous ht =
     (case opt_array ht ''topics_from_previous_step_output'' of
        None \<Rightarrow> None
      | Some t \<Rightarrow>
          (case (opt_string t ''tool_name'', opt_string t ''field_name'') of
             (Some tool, Some field) \<Rightarrow> Some (tool, field)
           | _ \<Rightarrow> None))"

definition parse_rag_config_from_php :: "php_array \<Rightarrow> (tool_error, quicpro_rag_config_t) outcome" where
  "parse_rag_config_from_php ht =
     obind (need_array ht ''mcp_target'') (\<lambda>target_ht.
     obind (parse_mcp_target_config_from_php target_ht) (\<lambda>target.
     obind (need_string ht ''enabled_param_key'') (\<lambda>enabled_param_key.
     obind (need_string ht ''request_proto_schema'') (\<lambda>request_proto_schema.
     obind (need_string ht ''response_proto_schema'') (\<lambda>response_proto_schema.
     obind (need_string ht ''context_output_field_in_rag_response'') (\<lambda>context_output_field.
     obind (need_string ht ''target_context_field_in_llm_request'') (\<lambda>target_context_field.
     Ok \<lparr>rag_agent_target = target, rag_enabled_param_key = enabled_param_key,
         rag_request_proto_schema = request_proto_schema,
         rag_response_proto_schema = response_proto_schema,
         rag_context_output_field = context_output_field,
         rag_target_context_field = target_context_field,
         rag_topics_from_param_key = opt_string ht ''topics_from_param_key'',
         rag_topics_from_previous_step = topics_from_previous ht,
         rag_param_map = opt_array ht ''rag_param_map''\<rparr>)))))))"

definition create_tool_handler_from_php ::
  "string \<Rightarrow> php_array \<Rightarrow> (tool_error, quicpro_tool_handler_config_t) outcome" where
  "create_tool_handler_from_php tool_name config_ht =
     obind (need_array config_ht ''mcp_target'') (\<lambda>target_ht.
     obind (parse_mcp_target_config_from_php target_ht) (\<lambda>target.
     obind (need_string config_ht ''input_proto_schema'') (\<lambda>input_proto_schema.
     obind (need_string config_ht ''output_proto_schema'') (\<lambda>output_proto_schema.
     obind (case opt_array config_ht ''rag_config'' of
              None \<Rightarrow> Ok None
            | Some rag_ht \<Rightarrow> obind (parse_rag_config_from_php rag_ht) (\<lambda>rag. Ok (Some rag))) (\<lambda>rag.
     Ok \<lparr>th_tool_name = tool_name, th_mcp_target = target,
         th_input_proto_schema = input_proto_schema, th_output_proto_schema = output_proto_schema,
         th_param_map = opt_array config_ht ''param_map'',
         th_output_map = opt_array config_ht ''output_map'',
         th_rag_config = rag\<rparr>)))))"

section \<open>The registry\<close>

definition quicpro_tool_handler_registry_init :: "tool_registry \<Rightarrow> tool_registry" where
  "quicpro_tool_handler_registry_init r =
     (if registry_initialized r then r else \<lparr>registry_initialized = True, registry_table = []\<rparr>)"

definition quicpro_tool_handler_registry_shutdown :: "tool_registry \<Rightarrow> tool_registry" where
  "quicpro_tool_handler_registry_shutdown r =
     (if registry_initialized r then \<lparr>registry_initialized = False, registry_table = []\<rparr> else r)"

definition quicpro_tool_handler_get :: "tool_registry \<Rightarrow> string \<Rightarrow> quicpro_tool_handler_config_t option" where
  "quicpro_tool_handler_get r tool_name =
     (if \<not> registry_initialized r then None else ht_find (registry_table r) (cstr tool_name))"

definition quicpro_tool_handler_register_from_php ::
  "tool_registry \<Rightarrow> string \<Rightarrow> php_array \<Rightarrow> (tool_error, unit) outcome \<times> tool_registry" where
  "quicpro_tool_handler_register_from_php r tool_name config_ht =
     (if \<not> registry_initialized r then (Fail Not_Initialized, r)
      else if ht_exists (registry_table r) (cstr tool_name) then (Fail Already_Registered, r)
      else case create_tool_handler_from_php (cstr tool_name) config_ht of
             Ok handler \<Rightarrow>
               (Ok (), r\<lparr>registry_table := ht_update (registry_table r) (cstr tool_name) handler\<rparr>)
           | Fail e \<Rightarrow> (Fail e, r)
           | Diverge \<Rightarrow> (Diverge, r))"

section \<open>The registry as a state machine\<close>

inductive tool_step :: "tool_registry \<Rightarrow> tool_registry \<Rightarrow> bool" where
  init: "tool_step r (quicpro_tool_handler_registry_init r)"
| shutdown: "tool_step r (quicpro_tool_handler_registry_shutdown r)"
| register: "quicpro_tool_handler_register_from_php r tool_name config_ht = (res, r') \<Longrightarrow> tool_step r r'"

inductive_cases tool_stepE: "tool_step r r'"

definition tool_start :: "tool_registry \<Rightarrow> bool" where
  "tool_start r \<longleftrightarrow> r = \<lparr>registry_initialized = False, registry_table = []\<rparr>"

text \<open>
  Every entry is filed under its own name, names are C strings and unique, and a registry that is
  not initialised is empty.
\<close>

definition tool_registry_ok :: "tool_registry \<Rightarrow> bool" where
  "tool_registry_ok r \<longleftrightarrow>
     distinct (map fst (registry_table r)) \<and>
     list_all (\<lambda>(k, h). th_tool_name h = k \<and> CHR 0x00 \<notin> set k) (registry_table r) \<and>
     (registry_initialized r \<or> registry_table r = [])"

lemma create_tool_handler_name:
  "create_tool_handler_from_php n ht = Ok h \<Longrightarrow> th_tool_name h = n"
  by (auto simp: create_tool_handler_from_php_def obind_eq_Ok)

lemma ht_update_fresh: "\<not> ht_exists t k \<Longrightarrow> ht_update t k v = t @ [(k, v)]"
  by (induction t k v rule: ht_update.induct) (auto simp: ht_exists_def split: if_splits)

lemma tool_registry_ok_register:
  assumes "tool_registry_ok r" "quicpro_tool_handler_register_from_php r n ht = (res, r')"
  shows "tool_registry_ok r'"
proof (cases "registry_initialized r \<and> \<not> ht_exists (registry_table r) (cstr n)")
  case True
  show ?thesis
  proof (cases "create_tool_handler_from_php (cstr n) ht")
    case (Ok h)
    with assms(2) True have r': "r' = r\<lparr>registry_table := registry_table r @ [(cstr n, h)]\<rparr>"
      by (auto simp: quicpro_tool_handler_register_from_php_def ht_update_fresh)
    have "cstr n \<notin> fst ` set (registry_table r)"
      using True by (simp add: ht_exists_def ht_find_None_iff)
    with assms(1) True r' create_tool_handler_name [OF Ok] cstr_no_nul [of n] show ?thesis
      by (auto simp: tool_registry_ok_def)
  qed (use assms True in \<open>auto simp: quicpro_tool_handler_register_from_php_def\<close>)
qed (use assms in \<open>auto simp: quicpro_tool_handler_register_from_php_def split: if_splits\<close>)

interpretation tools: step_system tool_start tool_step tool_registry_ok
proof unfold_locales
  fix s t
  assume "tool_registry_ok s" "tool_step s t"
  then show "tool_registry_ok t"
    by (elim tool_stepE)
      (auto simp: quicpro_tool_handler_registry_init_def quicpro_tool_handler_registry_shutdown_def
        tool_registry_ok_def dest: tool_registry_ok_register [unfolded tool_registry_ok_def, rotated])
qed (simp add: tool_start_def tool_registry_ok_def)

text \<open>
  A successful registration is what later look-ups see: the handler is the parsed
  configuration filed under the name up to its first NUL, other tools are unaffected, registering
  the same name again fails, and any failure leaves the registry as it was.
\<close>

theorem tool_register_lookup:
  assumes "quicpro_tool_handler_register_from_php r n ht = (res, r')"
  shows "(res = Ok () \<longrightarrow>
            (\<exists>h. create_tool_handler_from_php (cstr n) ht = Ok h \<and>
               (\<forall>k. quicpro_tool_handler_get r' k =
                  (if cstr k = cstr n then Some h else quicpro_tool_handler_get r k)) \<and>
               fst (quicpro_tool_handler_register_from_php r' n ht2) = Fail Already_Registered)) \<and>
         (res \<noteq> Ok () \<longrightarrow> r' = r)"
proof (cases "registry_initialized r \<and> \<not> ht_exists (registry_table r) (cstr n)")
  case True
  show ?thesis
  proof (cases "create_tool_handler_from_php (cstr n) ht")
    case (Ok h)
    with assms True have res: "res = Ok ()"
      and r': "r' = r\<lparr>registry_table := ht_update (registry_table r) (cstr n) h\<rparr>"
      by (auto simp: quicpro_tool_handler_register_from_php_def)
    have "quicpro_tool_handler_get r' k =
        (if cstr k = cstr n then Some h else quicpro_tool_handler_get r k)" for k
      using True by (auto simp: r' quicpro_tool_handler_get_def table_simps)
    moreover have "fst (quicpro_tool_handler_register_from_php r' n ht2) = Fail Already_Registered"
      using True by (simp add: r' quicpro_tool_handler_register_from_php_def table_simps)
    ultimately show ?thesis using Ok res by blast
  qed (use assms True in \<open>auto simp: quicpro_tool_handler_register_from_php_def\<close>)
qed (use assms in \<open>auto simp: quicpro_tool_handler_register_from_php_def split: if_splits\<close>)

definition example_tool :: php_array where
  "example_tool =
     [(HStr ''mcp_target'', Z_Array
         [(HStr ''host'', Z_String ''localhost''), (HStr ''port'', Z_Long 9000),
          (HStr ''service_name'', Z_String ''llm''), (HStr ''method_name'', Z_String ''generate'')]),
      (HStr ''input_proto_schema'', Z_String ''In''),
      (HStr ''output_proto_schema'', Z_String ''Out'')]"

definition example_registry :: tool_registry where
  "example_registry =
     snd (quicpro_tool_handler_register_from_php
            (quicpro_tool_handler_registry_init \<lparr>registry_initialized = False, registry_table = []\<rparr>)
            ''GenerateText'' example_tool)"

theorem tool_register_lookup_witness:
  "\<exists>h. quicpro_tool_handler_get example_registry ''GenerateText'' = Some h \<and>
       th_output_proto_schema h = ''Out''"
proof -
  let ?r = "quicpro_tool_handler_registry_init \<lparr>registry_initialized = False, registry_table = []\<rparr>"
  have run: "quicpro_tool_handler_register_from_php ?r ''GenerateText'' example_tool =
      (Ok (), example_registry)"
    by code_simp
  from tool_register_lookup [OF run, of "[]"]
  obtain h where h: "create_tool_handler_from_php (cstr ''GenerateText'') example_tool = Ok h"
    "quicpro_tool_handler_get example_registry ''GenerateText'' = Some h" by auto
  have "(case create_tool_handler_from_php (cstr ''GenerateText'') example_tool of
      Ok h \<Rightarrow> th_output_proto_schema h = ''Out'' | _ \<Rightarrow> False)"
    by code_simp
  with h show ?thesis by simp
qed

end
