(* ===== verification/Pipeline.thy ===== *)
theory Pipeline
  imports Tool_Registry
begin

text \<open>
  The pipeline orchestrator of \<^verbatim>\<open>src/extension/src/pipeline_orchestrator/pipeline_orchestrator.c\<close>: its
  settings, the execution of a step and of a pipeline.  The calls of agents are the placeholders
  the code has: the payload is empty and the response repeats it.
\<close>

section \<open>Settings\<close>

record pipeline_settings =
  g_auto_logging_enabled :: bool
  g_logger_agent_target :: "quicpro_mcp_target_config_t option"

definition quicpro_pipeline_orchestrator_init_settings :: "pipeline_settings \<Rightarrow> pipeline_settings" where
  "quicpro_pipeline_orchestrator_init_settings s =
     s\<lparr>g_auto_logging_enabled := False, g_logger_agent_target := None\<rparr>"

definition quicpro_pipeline_orchestrator_shutdown_settings :: "pipeline_settings \<Rightarrow> pipeline_settings" where
  "quicpro_pipeline_orchestrator_shutdown_settings s = s\<lparr>g_logger_agent_target := None\<rparr>"

definition quicpro_pipeline_orchestrator_configure_auto_logging_from_php ::
  "zend_api \<Rightarrow> php_array \<Rightarrow> pipeline_settings \<Rightarrow> pipeline_settings" where
  "quicpro_pipeline_orchestrator_configure_auto_logging_from_php Z config s =
     s\<lparr>g_auto_logging_enabled :=
        (case arr_find config ''enable_auto_log'' of Some v \<Rightarrow> zend_is_true Z v | None \<Rightarrow> False)\<rparr>"

definition quicpro_pipeline_orchestrator_register_tool_handler_from_php ::
  "tool_registry \<Rightarrow> string \<Rightarrow> php_array \<Rightarrow> (tool_error, unit) outcome \<times> tool_registry" where
  "quicpro_pipeline_orchestrator_register_tool_handler_from_php =
     quicpro_tool_handler_register_from_php"

section \<open>Steps\<close>

datatype pipeline_error =
    Step_Not_Array
  | Missing_Tool
  | Unknown_Tool string
  | Params_Not_Array  \<comment> \<open>\<^verbatim>\<open>Z_ARRVAL_P\<close> on another type: the bytes of the value are used as a table\<close>

text \<open>The placeholders for the calls of agents.\<close>

definition execute_rag_sub_call :: "quicpro_tool_handler_config_t \<Rightarrow> zval" where
  "execute_rag_sub_call tool_handler = Z_String ''/* Retrieved RAG context would be here */''"

definition execute_mcp_call :: "quicpro_mcp_target_config_t \<Rightarrow> zval \<Rightarrow> string \<Rightarrow> string \<Rightarrow> zval" where
  "execute_mcp_call target request_payload input_schema_name output_schema_name = request_payload"

text \<open>
  Whether the step asks for retrieval: the parameter table is read without a type test.
\<close>

definition step_uses_rag ::
  "zend_api \<Rightarrow> quicpro_tool_handler_config_t \<Rightarrow> php_array \<Rightarrow> (pipeline_error, bool) outcome" where
  "step_uses_rag Z tool_handler step_def =
     (case th_rag_config tool_handler of
        None \<Rightarrow> Ok False
      | Some rag \<Rightarrow>
          (case arr_find step_def ''params'' of
             None \<Rightarrow> Ok False
           | Some (Z_Array params) \<Rightarrow>
               Ok (case arr_find params (cstr (rag_enabled_param_key rag)) of
                     Some v \<Rightarrow> zend_is_true Z v | None \<Rightarrow> False)
           | Some _ \<Rightarrow> Fail Params_Not_Array))"

definition condition_after :: "zend_api \<Rightarrow> string \<Rightarrow> zval \<Rightarrow> bool" where
  "condition_after Z tool_name mcp_response =
     (if tool_name = ''ConditionalLogic''
      then case mcp_response of
             Z_Array t \<Rightarrow>
               (case arr_find t ''condition_met'' of Some v \<Rightarrow> zend_is_true Z v | None \<Rightarrow> False)
           | _ \<Rightarrow> False
      else True)"

text \<open>
  A step: the results so far and the result of the last condition, updated.
\<close>

definition execute_step_c ::
  "zend_api \<Rightarrow> tool_registry \<Rightarrow> php_array \<Rightarrow> php_array \<times> bool \<Rightarrow>
   (pipeline_error, php_array \<times> bool) outcome" where
  "execute_step_c Z r step_def =
     (\<lambda>(execution_context, last_condition_result).
        if (case arr_find step_def ''condition_true_only'' of
              Some v \<Rightarrow> zend_is_true Z v | None \<Rightarrow> False) \<and> \<not> last_condition_result
        then Ok (execution_context, last_condition_result)
        else case arr_find step_def ''tool'' of
               Some (Z_String tool) \<Rightarrow>
                 (let tool_name = cstr tool in
                  case quicpro_tool_handler_get r tool_name of
                    None \<Rightarrow> Fail (Unknown_Tool tool_name)
                  | Some tool_handler \<Rightarrow>
                      obind (step_uses_rag Z tool_handler step_def) (\<lambda>use_rag.
                        let mcp_response =
                              execute_mcp_call (th_mcp_target tool_handler) (Z_Array [])
                                (th_input_proto_schema tool_handler)
                                (th_output_proto_schema tool_handler)
                        in Ok (ht_update execution_context (HStr tool_name) mcp_response,
                               condition_after Z tool_name mcp_response)))
             | _ \<Rightarrow> Fail Missing_Tool)"

section \<open>Pipelines\<close>

fun execute_steps ::
  "zend_api \<Rightarrow> tool_registry \<Rightarrow> php_array \<Rightarrow> php_array \<times> bool \<Rightarrow>
   (pipeline_error, php_array \<times> bool) outcome" where
  "execute_steps Z r [] s = Ok s"
| "execute_steps Z r ((k, step_def) # steps) s =
     (case step_def of
        Z_Array def \<Rightarrow> obind (execute_step_c Z r def s) (execute_steps Z r steps)
      | _ \<Rightarrow> Fail Step_Not_Array)"

text \<open>
  The result of a pipeline.  The engine's \<^verbatim>\<open>zend_hash_copy\<close> gives nothing back; read as giving its
  target, as the code uses it, it makes the result the table of the execution context, which is
  then destroyed.
\<close>

definition execute_pipeline_c ::
  "zend_api \<Rightarrow> tool_registry \<Rightarrow> php_array \<Rightarrow> (pipeline_error, zval) outcome" where
  "execute_pipeline_c Z r pipeline_def =
     obind (execute_steps Z r pipeline_def ([], True)) (\<lambda>(execution_context, last_condition_result).
       Ok Z_Freed)"

section \<open>What a pipeline does\<close>

text \<open>Whether the step runs, given the result of the last condition.\<close>

definition step_runs :: "zend_api \<Rightarrow> php_array \<Rightarrow> bool \<Rightarrow> bool" where
  "step_runs Z step_def lc \<longleftrightarrow>
     (case arr_find step_def ''condition_true_only'' of
        Some v \<Rightarrow> \<not> zend_is_true Z v \<or> lc | None \<Rightarrow> True)"

definition step_tool :: "php_array \<Rightarrow> string option" where
  "step_tool step_def =
     (case arr_find step_def ''tool'' of Some (Z_String s) \<Rightarrow> Some (cstr s) | _ \<Rightarrow> None)"

text \<open>The tools a pipeline runs, in order: a step guarded by a condition is skipped exactly when
  the step that ran last was a condition.\<close>

fun tools_run :: "zend_api \<Rightarrow> php_array list \<Rightarrow> bool \<Rightarrow> string list" where
  "tools_run Z [] lc = []"
| "tools_run Z (d # ds) lc =
     (if step_runs Z d lc
      then the (step_tool d) # tools_run Z ds (step_tool d \<noteq> Some ''ConditionalLogic'')
      else tools_run Z ds lc)"

lemma condition_after_empty: "condition_after Z t (Z_Array []) \<longleftrightarrow> t \<noteq> ''ConditionalLogic''"
  by (simp add: condition_after_def arr_find_def)

lemma step_skipped: "\<not> step_runs Z d lc \<Longrightarrow> execute_step_c Z r d (ctx, lc) = Ok (ctx, lc)"
  by (auto simp: step_runs_def execute_step_c_def split: option.splits)

lemma step_executed:
  assumes "step_runs Z d lc"
  shows "execute_step_c Z r d (ctx, lc) = Ok (ctx', lc') \<longleftrightarrow>
    (\<exists>t h b. step_tool d = Some t \<and> quicpro_tool_handler_get r t = Some h \<and>
       step_uses_rag Z h d = Ok b \<and> ctx' = ht_update ctx (HStr t) (Z_Array []) \<and>
       lc' = (t \<noteq> ''ConditionalLogic''))"
proof -
  have nc: "\<not> ((case arr_find d ''condition_true_only'' of Some v \<Rightarrow> zend_is_true Z v | None \<Rightarrow> False) \<and> \<not> lc)"
    using assms by (auto simp: step_runs_def split: option.splits)
  have "execute_step_c Z r d (ctx, lc) =
      (case arr_find d ''tool'' of
         Some (Z_String tool) \<Rightarrow>
           (case quicpro_tool_handler_get r (cstr tool) of
              None \<Rightarrow> Fail (Unknown_Tool (cstr tool))
            | Some h \<Rightarrow> obind (step_uses_rag Z h d)
                (\<lambda>b. Ok (ht_update ctx (HStr (cstr tool)) (Z_Array []), cstr tool \<noteq> ''ConditionalLogic'')))
       | _ \<Rightarrow> Fail Missing_Tool)"
    unfolding execute_step_c_def prod.case Let_def execute_mcp_call_def condition_after_empty
      if_not_P [OF nc] ..
  then show ?thesis
    by (auto simp: step_tool_def obind_eq_Ok split: option.splits zval.splits)
qed

lemma execute_steps_tools:
  assumes "execute_steps Z r (map (\<lambda>d. (k d, Z_Array d)) ds) (ctx, lc) = Ok (ctx', lc')"
  shows "(\<forall>t \<in> set (tools_run Z ds lc). quicpro_tool_handler_get r t \<noteq> None) \<and>
         fst ` set ctx' = fst ` set ctx \<union> HStr ` set (tools_run Z ds lc)"
  using assms
proof (induction ds arbitrary: ctx lc)
  case (Cons d ds)
  then obtain s where s: "execute_step_c Z r d (ctx, lc) = Ok s"
    "execute_steps Z r (map (\<lambda>d. (k d, Z_Array d)) ds) s = Ok (ctx', lc')"
    by (auto simp: obind_eq_Ok)
  obtain c l where cl: "s = (c, l)" by (cases s)
  show ?case
  proof (cases "step_runs Z d lc")
    case True
    from s(1) cl obtain t h b where t: "step_tool d = Some t" "quicpro_tool_handler_get r t = Some h"
      "c = ht_update ctx (HStr t) (Z_Array [])" "l = (t \<noteq> ''ConditionalLogic'')"
      using step_executed [OF True, of r ctx c l] by auto
    have "fst ` set (ht_update ctx (HStr t) v) = insert (HStr t) (fst ` set ctx)" for v
      by (induction ctx "HStr t" v rule: ht_update.induct) auto
    with Cons.IH [of c l] s(2) cl t True show ?thesis by auto
  next
    case False
    with s cl step_skipped [OF False, of r ctx] have "c = ctx" "l = lc" by simp_all
    with Cons.IH [of c l] s(2) cl False show ?thesis by simp
  qed
qed simp


definition example_pipeline_api :: zend_api where
  "example_pipeline_api =
     \<lparr>zval_get_long = (\<lambda>v. 0), zval_get_double = (\<lambda>v. 0), zend_is_true = (\<lambda>v. v = Z_True),
      zend_is_callable = (\<lambda>v. False), zend_read_property = (\<lambda>v k. Z_Null), memory_limit = 0,
      php_trim = (\<lambda>s. s), php_url_parse_ex = (\<lambda>s. None), zend_string_h = (\<lambda>s. 0),
      zend_atol = (\<lambda>s. 0), zend_ini_parse_bool = (\<lambda>s. s = ''1''),
      zend_strtod = (\<lambda>s. 0), vcwd_access_ok = (\<lambda>s. True)\<rparr>"

definition example_steps :: "php_array list" where
  "example_steps =
     [[(HStr ''tool'', Z_String ''GenerateText'')],
      [(HStr ''tool'', Z_String ''GenerateText''), (HStr ''condition_true_only'', Z_True)]]"


end
