(* ===== verification/Websocket.thy ===== *)
theory Websocket
  imports Zend IIBIN_Wire
begin

text \<open>
  The WebSocket framing of \<^verbatim>\<open>src/extension/src/server/websocket.c\<close>: frame headers, their parser, and
  the masked frames the send function hands to the QUIC stream.  OpenSSL and quiche are
  arguments: the masking key, if the random generator delivers one, and the result of the send.
\<close>

section \<open>State\<close>

definition WS_OPCODE_TEXT :: u8 where "WS_OPCODE_TEXT = 0x1"
definition WS_OPCODE_BINARY :: u8 where "WS_OPCODE_BINARY = 0x2"

datatype quicpro_ws_state_t = WS_STATE_CONNECTING | WS_STATE_OPEN | WS_STATE_CLOSING | WS_STATE_CLOSED

text \<open>The integer values of the enumeration, which PHP sees.\<close>

fun ws_state_value :: "quicpro_ws_state_t \<Rightarrow> zend_long" where
  "ws_state_value WS_STATE_CONNECTING = 0"
| "ws_state_value WS_STATE_OPEN = 1"
| "ws_state_value WS_STATE_CLOSING = 2"
| "ws_state_value WS_STATE_CLOSED = 3"

text \<open>\<^verbatim>\<open>smart_str\<close>: no string yet, or its bytes.\<close>

type_synonym smart_str = "u8 list option"

text \<open>The session of a connection is the argument that stands for its stream sends.\<close>

record quicpro_ws_conn_internal_t =
  ws_stream_id :: u64
  ws_state :: quicpro_ws_state_t
  ws_last_error :: "string option"
  ws_read_buffer :: smart_str

section \<open>Frame headers\<close>

definition create_ws_frame_header :: "u8 list \<Rightarrow> u8 \<Rightarrow> u64 \<Rightarrow> bool \<Rightarrow> u8 list" where
  "create_ws_frame_header buf opcode payload_len is_masked =
     (let header0 = 0x80 OR (opcode AND 0x0F);
          header1 = (if is_masked then 0x80 else 0x00)
      in buf @
         (if payload_len \<le> 125 then [header0, header1 OR ucast payload_len]
          else if payload_len \<le> 65535 then
            [header0, header1 OR 126, ucast (drop_bit 8 payload_len), ucast (payload_len AND 0xFF)]
          else
            [header0, header1 OR 127,
             ucast (drop_bit 56 payload_len), ucast (drop_bit 48 payload_len),
             ucast (drop_bit 40 payload_len), ucast (drop_bit 32 payload_len),
             ucast (drop_bit 24 payload_len), ucast (drop_bit 16 payload_len),
             ucast (drop_bit 8 payload_len), ucast (payload_len AND 0xFF)]))"

text \<open>The opcode, the payload length and the header length, or None for the result 0.\<close>

definition parse_ws_frame_header :: "smart_str \<Rightarrow> (u8 \<times> u64 \<times> nat) option" where
  "parse_ws_frame_header read_buffer =
     (case read_buffer of
        None \<Rightarrow> None
      | Some p \<Rightarrow>
          if length p < 2 then None
          else
            (let opcode_out = p ! 0 AND 0x0F;
                 is_masked = (p ! 1 AND 0x80 \<noteq> 0);
                 len = ucast (p ! 1 AND 0x7F) :: u64;
                 body =
                   (if len = 126 then
                      if length p < 4 then None
                      else Some (push_bit 8 (ucast (p ! 2)) OR ucast (p ! 3), 4)
                    else if len = 127 then
                      if length p < 10 then None
                      else Some (push_bit 56 (ucast (p ! 2)) OR push_bit 48 (ucast (p ! 3)) OR
                                 push_bit 40 (ucast (p ! 4)) OR push_bit 32 (ucast (p ! 5)) OR
                                 push_bit 24 (ucast (p ! 6)) OR push_bit 16 (ucast (p ! 7)) OR
                                 push_bit 8 (ucast (p ! 8)) OR ucast (p ! 9), 10)
                    else Some (len, 2))
             in case body of
                  None \<Rightarrow> None
                | Some (payload_len_out, current_pos) \<Rightarrow>
                    if is_masked then
                      if length p < current_pos + 4 then None
                      else Some (opcode_out, payload_len_out, current_pos + 4)
                    else Some (opcode_out, payload_len_out, current_pos)))"

section \<open>Sending\<close>

text \<open>The masking loop over the payload.\<close>

definition mask_payload :: "u8 list \<Rightarrow> u8 list \<Rightarrow> u8 list" where
  "mask_payload mask_ptr payload_ptr =
     map (\<lambda>i. payload_ptr ! i XOR mask_ptr ! (i mod 4)) [0..<length payload_ptr]"

definition ws_frame :: "u8 \<Rightarrow> u8 list \<Rightarrow> u8 list \<Rightarrow> u8 list" where
  "ws_frame opcode masking_key data =
     create_ws_frame_header [] opcode (of_nat (length data)) True @ masking_key @
     mask_payload masking_key data"

datatype ws_result =
    Ws_Bool bool
  | Ws_Throw_Mask
  | Ws_Throw_Send int

text \<open>
  \<^verbatim>\<open>quicpro_ws_send\<close>: the result, and what was handed to \<^verbatim>\<open>quiche_stream_send\<close>, the stream, the bytes
  and the \<^verbatim>\<open>fin\<close> flag.  \<^verbatim>\<open>ws_conn\<close> is None when the resource is not a WebSocket connection.
\<close>

definition quicpro_ws_send ::
  "u8 list option \<Rightarrow> (u64 \<Rightarrow> u8 list \<Rightarrow> bool \<Rightarrow> int) \<Rightarrow> quicpro_ws_conn_internal_t option \<Rightarrow>
   u8 list \<Rightarrow> bool \<Rightarrow> ws_result \<times> (u64 \<times> u8 list \<times> bool) option" where
  "quicpro_ws_send rand_bytes quiche_stream_send ws_conn data is_binary =
     (case ws_conn of
        None \<Rightarrow> (Ws_Bool False, None)
      | Some c \<Rightarrow>
          if ws_state c \<noteq> WS_STATE_OPEN then (Ws_Bool False, None)
          else
            (let opcode = (if is_binary then WS_OPCODE_BINARY else WS_OPCODE_TEXT) in
             case rand_bytes of
               None \<Rightarrow> (Ws_Throw_Mask, None)
             | Some masking_key \<Rightarrow>
                 (let frame_buf = ws_frame opcode masking_key data;
                      sent = quiche_stream_send (ws_stream_id c) frame_buf True
                  in (if sent < 0 then Ws_Throw_Send sent else Ws_Bool True,
                      Some (ws_stream_id c, frame_buf, True)))))"

definition quicpro_ws_get_status :: "quicpro_ws_conn_internal_t option \<Rightarrow> zval" where
  "quicpro_ws_get_status ws_conn =
     (case ws_conn of None \<Rightarrow> Z_False | Some c \<Rightarrow> Z_Long (ws_state_value (ws_state c)))"

section \<open>Header lemmas\<close>

lemma and_0F: "(x :: 'a::len word) AND 0x0F = take_bit 4 x"
  by (simp add: take_bit_eq_mask mask_eq_exp_minus_1)

lemma and_FF: "(x :: 'a::len word) AND 0xFF = take_bit 8 x"
  by (simp add: take_bit_eq_mask mask_eq_exp_minus_1)

lemma byte_low: "ucast (ucast (take_bit 8 n) :: u8) = take_bit 8 (n :: u64)"
  by (rule bit_word_eqI) (auto simp: bit_simps)

lemma be_step: "push_bit k (ucast (ucast (drop_bit k n) :: u8)) OR take_bit k n = take_bit (k + 8) (n :: u64)"
proof (rule bit_word_eqI)
  fix i
  show "bit (push_bit k (ucast (ucast (drop_bit k n) :: u8)) OR take_bit k n) i \<longleftrightarrow> bit (take_bit (k + 8) n) i"
    by (cases "i < k") (auto simp: bit_simps dest: bit_imp_le_length)
qed

lemma bit_80: "bit (0x80 :: u8) n \<longleftrightarrow> n = 7"
  using bit_exp_iff [of 7 n, where ?'a = "8 word"] by (auto simp: possible_bit_def)

lemma opcode_byte: "take_bit 4 (0x80 OR take_bit 4 x) = (take_bit 4 x :: u8)"
  by (rule bit_word_eqI) (auto simp: bit_simps bit_80)

lemma take_bit_small: "n < 2 ^ k \<Longrightarrow> k < LENGTH('a) \<Longrightarrow> take_bit k n = (n :: 'a::len word)"
  by (rule bit_word_eqI) (auto simp: bit_take_bit_iff not_less [symmetric] dest: bit_above)

lemma second_byte:
  assumes "b < (0x80 :: u8)"
  shows "take_bit 7 ((if masked then 0x80 else 0) OR b) = b"
    and "bit ((if masked then 0x80 else 0) OR b) 7 = masked"
proof -
  have "take_bit 7 b = b" using assms by (intro take_bit_small) simp_all
  moreover have "take_bit 7 (0x80 :: u8) = 0" by (rule bit_word_eqI) (auto simp: bit_simps bit_80)
  ultimately show "take_bit 7 ((if masked then 0x80 else 0) OR b) = b"
    by simp
  have "\<not> bit b 7" using assms by (intro bit_above [where k = 7]) simp_all
  then show "bit ((if masked then 0x80 else 0) OR b) 7 = masked"
    by (auto simp: bit_or_iff bit_80)
qed

lemma small_length:
  assumes "n \<le> (125 :: u64)"
  shows "ucast n < (0x80 :: u8)" "ucast (ucast n :: u8) = n" "n \<noteq> 126" "n \<noteq> 127"
proof -
  from assms have le: "unat n \<le> 125" by (simp add: word_le_nat_alt)
  then have u: "unat (ucast n :: u8) = unat n"
    by (simp add: unsigned_ucast_eq take_bit_eq_mod)
  then show "ucast n < (0x80 :: u8)" using le by (simp add: word_less_nat_alt)
  have "take_bit 8 n = n" using le by (intro take_bit_small) (simp_all add: word_less_nat_alt)
  then show "ucast (ucast n :: u8) = n" using byte_low [of n] by simp
  show "n \<noteq> 126" "n \<noteq> 127" using le by auto
qed

lemma length_2_bytes:
  assumes "n \<le> (65535 :: u64)"
  shows "push_bit 8 (ucast (ucast (drop_bit 8 n) :: u8)) OR take_bit 8 n = n"
proof -
  have "n < 2 ^ 16" using assms by (simp add: word_le_nat_alt word_less_nat_alt)
  then have "take_bit 16 n = n" by (intro take_bit_small) simp_all
  with be_step [of 8 n] show ?thesis by simp
qed

lemma length_8_bytes:
  "push_bit 56 (ucast (ucast (drop_bit 56 n) :: u8)) OR push_bit 48 (ucast (ucast (drop_bit 48 n) :: u8)) OR
   push_bit 40 (ucast (ucast (drop_bit 40 n) :: u8)) OR push_bit 32 (ucast (ucast (drop_bit 32 n) :: u8)) OR
   push_bit 24 (ucast (ucast (drop_bit 24 n) :: u8)) OR push_bit 16 (ucast (ucast (drop_bit 16 n) :: u8)) OR
   push_bit 8 (ucast (ucast (drop_bit 8 n) :: u8)) OR take_bit 8 n = (n :: u64)"
  by (simp add: be_step take_bit_full)

text \<open>The parser on a buffer given by its first two bytes and the rest.\<close>

lemma parse_bytes:
  assumes "b < (0x80 :: u8)" "masked \<longrightarrow> 4 \<le> length rest"
    and "ext = (if b = 126 then 2 else if b = 127 then 8 else 0)" "length lens = ext"
    and "n = (if b = 126 then push_bit 8 (ucast (lens ! 0)) OR ucast (lens ! 1)
              else if b = 127 then
                push_bit 56 (ucast (lens ! 0)) OR push_bit 48 (ucast (lens ! 1)) OR
                push_bit 40 (ucast (lens ! 2)) OR push_bit 32 (ucast (lens ! 3)) OR
                push_bit 24 (ucast (lens ! 4)) OR push_bit 16 (ucast (lens ! 5)) OR
                push_bit 8 (ucast (lens ! 6)) OR ucast (lens ! 7)
              else ucast b)"
  shows "parse_ws_frame_header (Some (h # ((if masked then 0x80 else 0) OR b) # lens @ rest)) =
         Some (h AND 0x0F, n, 2 + ext + (if masked then 4 else 0))"
proof -
  have "take_bit 64 (unat b) = unat b"
    by (rule take_bit_nat_eq_self) (rule less_trans [OF unat_u8_less], simp)
  then have "(ucast b = (126 :: u64)) = (b = 126)" "(ucast b = (127 :: u64)) = (b = 127)"
    by (simp_all add: word_unat_eq_iff unsigned_ucast_eq)
  moreover have "take_bit 7 b = b" using second_byte(1) [OF assms(1), of False] by simp
  ultimately show ?thesis using assms
    by (simp add: parse_ws_frame_header_def Let_def second_byte nth_append) auto
qed

lemma parse_created:
  assumes "masked \<longrightarrow> 4 \<le> length rest"
  shows "parse_ws_frame_header (Some (create_ws_frame_header [] opcode n masked @ rest)) =
         Some (opcode AND 0x0F, n,
               length (create_ws_frame_header [] opcode n masked) + (if masked then 4 else 0))"
proof -
  have op: "(0x80 OR opcode AND 0x0F) AND 0x0F = opcode AND 0x0F"
    by (simp add: and_0F opcode_byte)
  consider "n \<le> 125" | "\<not> n \<le> 125" "n \<le> 65535" | "\<not> n \<le> 125" "\<not> n \<le> 65535" by blast
  then show ?thesis
  proof cases
    case 1
    have "ucast n \<noteq> (126 :: u8) \<and> ucast n \<noteq> (127 :: u8)"
    proof (rule ccontr)
      assume "\<not> ?thesis"
      then have "ucast (ucast n :: u8) = (126 :: u64) \<or> ucast (ucast n :: u8) = (127 :: u64)" by auto
      with small_length [OF 1] show False by simp
    qed
    then show ?thesis
      using parse_bytes [of "ucast n" masked rest 0 "[]" n "0x80 OR opcode AND 0x0F"] 1 assms op
      by (simp add: create_ws_frame_header_def Let_def small_length)
  next
    case 2
    then show ?thesis
      using parse_bytes [of 126 masked rest 2 "[ucast (drop_bit 8 n), ucast (n AND 0xFF)]" n
          "0x80 OR opcode AND 0x0F"] assms op
      by (simp add: create_ws_frame_header_def Let_def and_FF byte_low length_2_bytes)
  next
    case 3
    then show ?thesis
      using parse_bytes [of 127 masked rest 8
          "[ucast (drop_bit 56 n), ucast (drop_bit 48 n), ucast (drop_bit 40 n), ucast (drop_bit 32 n),
            ucast (drop_bit 24 n), ucast (drop_bit 16 n), ucast (drop_bit 8 n), ucast (n AND 0xFF)]" n
          "0x80 OR opcode AND 0x0F"] assms op
      by (simp add: create_ws_frame_header_def Let_def and_FF byte_low length_8_bytes)
  qed
qed

lemma mask_twice:
  "length (mask_payload key data) = length data"
  "mask_payload key (mask_payload key data) = data"
  by (auto simp: mask_payload_def xor.assoc intro!: nth_equalityI)

section \<open>Properties\<close>

text \<open>
  C11: What a successful send on an open connection hands to the stream is one frame that the header
  parser reads back: the opcode of the message kind, the length of the data and the place where
  the payload starts, and the payload unmasked with the four key bytes in front of it is the
  data.  A send on a connection that is not open, or without a masking key, sends nothing.  Every
  frame is sent with the \<^verbatim>\<open>fin\<close> flag set, although the code says that the stream stays open.
\<close>

theorem ws_send_frame:
  assumes "quicpro_ws_send rand_bytes quiche_stream_send ws_conn data is_binary = (res, out)"
    and "\<And>key. rand_bytes = Some key \<Longrightarrow> length key = 4"
    and "length data < 2 ^ 64"
  shows "case out of
           None \<Rightarrow> res \<noteq> Ws_Bool True
         | Some (stream, frame, fin) \<Rightarrow>
             fin \<and>
             (\<exists>c key h.
                ws_conn = Some c \<and> ws_state c = WS_STATE_OPEN \<and> stream = ws_stream_id c \<and>
                rand_bytes = Some key \<and>
                parse_ws_frame_header (Some frame) =
                  Some (if is_binary then WS_OPCODE_BINARY else WS_OPCODE_TEXT, of_nat (length data), h) \<and>
                unat (of_nat (length data) :: u64) = length data \<and>
                take 4 (drop (h - 4) frame) = key \<and> mask_payload key (drop h frame) = data) \<and>
             (res = Ws_Bool True \<longleftrightarrow> 0 \<le> quiche_stream_send stream frame fin)"
proof (cases out)
  case None
  with assms(1) show ?thesis
    by (auto simp: quicpro_ws_send_def Let_def split: option.splits if_splits)
next
  case (Some o3)
  let ?op = "if is_binary then WS_OPCODE_BINARY else WS_OPCODE_TEXT"
  obtain c key where c: "ws_conn = Some c" "ws_state c = WS_STATE_OPEN" "rand_bytes = Some key"
    "o3 = (ws_stream_id c, ws_frame ?op key data, True)"
    "res = (if quiche_stream_send (ws_stream_id c) (ws_frame ?op key data) True < 0
            then Ws_Throw_Send (quiche_stream_send (ws_stream_id c) (ws_frame ?op key data) True)
            else Ws_Bool True)"
    using assms(1) Some
    by (auto simp: quicpro_ws_send_def Let_def split: option.splits if_splits)
  let ?hd = "create_ws_frame_header [] ?op (of_nat (length data)) True"
  have k: "length key = 4" using assms(2) c(3) by blast
  have op: "?op AND 0x0F = ?op" by (simp add: WS_OPCODE_BINARY_def WS_OPCODE_TEXT_def)
  have "parse_ws_frame_header (Some (ws_frame ?op key data)) =
      Some (?op, of_nat (length data), length ?hd + 4)"
    unfolding ws_frame_def by (subst parse_created) (use k op in simp_all)
  moreover have "take 4 (drop (length ?hd + 4 - 4) (ws_frame ?op key data)) = key"
    "mask_payload key (drop (length ?hd + 4) (ws_frame ?op key data)) = data"
    using k by (simp_all add: ws_frame_def mask_twice)
  moreover have "unat (of_nat (length data) :: u64) = length data"
    using assms(3) by (simp add: unat_of_nat)
  ultimately show ?thesis using c Some by auto
qed

theorem ws_send_frame_witness:
  "let frame = [0x81, 0x82, 1, 2, 3, 4, 0x49, 0x6B] in
   quicpro_ws_send (Some [1, 2, 3, 4]) (\<lambda>s b f. int (length b))
     (Some \<lparr>ws_stream_id = 8, ws_state = WS_STATE_OPEN, ws_last_error = None, ws_read_buffer = None\<rparr>) [0x48, 0x69] False =
     (Ws_Bool True, Some (8, frame, True)) \<and>
   mask_payload [1, 2, 3, 4] (drop 6 frame) = [0x48, 0x69]"
proof -
  let ?c = "\<lparr>ws_stream_id = 8, ws_state = WS_STATE_OPEN, ws_last_error = None, ws_read_buffer = None\<rparr>"
  let ?frame = "[0x81, 0x82, 1, 2, 3, 4, 0x49, 0x6B] :: u8 list"
  have r: "quicpro_ws_send (Some [1, 2, 3, 4]) (\<lambda>s b f. int (length b)) (Some ?c) [0x48, 0x69] False =
      (Ws_Bool True, Some (8, ?frame, True))"
    by code_simp
  have p: "parse_ws_frame_header (Some ?frame) = Some (1, 2, 6)" by code_simp
  have "mask_payload [1, 2, 3, 4] (drop 6 ?frame) = [0x48, 0x69]"
    using ws_send_frame [OF r] p by auto
  with r show ?thesis by simp
qed

end
