(* ===== verification/Cors.thy ===== *)
theory Cors
  imports Config_Security_And_Traffic Validator_Specs
begin

text \<open>
  The CORS handler of \<^verbatim>\<open>src/extension/src/server/cors.c\<close>: the match of an origin against the policy, a
  comma-separated list or the wildcard, and the decision on a request.  The accessors of requests
  are arguments; what the handler does to the response is a list of calls.  The last section
  connects the policy with the validator that lets it into the configuration.
\<close>

section \<open>Matching\<close>

definition is_blank :: "char \<Rightarrow> bool" where
  "is_blank c \<longleftrightarrow> c = CHR '' '' \<or> c = CHR 0x09"

text \<open>The loop that shortens an entry while its last character is blank.\<close>

definition trim_trailing :: "string \<Rightarrow> string" where
  "trim_trailing s = rev (dropWhile is_blank (rev s))"

text \<open>
  The loop over the entries, \<^verbatim>\<open>p\<close> being what is left of the policy.
\<close>

function origin_loop :: "string \<Rightarrow> string \<Rightarrow> bool" where
  "origin_loop origin p =
     (if p = [] then False
      else
        (let p = dropWhile is_blank p;
             entry = trim_trailing (takeWhile (\<lambda>c. c \<noteq> CHR '','') p)
         in if entry = origin then True
            else if CHR '','' \<notin> set p then False
            else origin_loop origin (drop 1 (dropWhile (\<lambda>c. c \<noteq> CHR '','') p))))"
  by pat_completeness auto
termination
proof (relation "measure (\<lambda>(origin, p). length p)", goal_cases)
  case (2 origin p q entry)
  have "length (drop 1 (dropWhile (\<lambda>c. c \<noteq> CHR '','') q)) \<le> length q - 1"
    using length_dropWhile_le [of "\<lambda>c. c \<noteq> CHR '',''" q] by simp
  moreover have "length q \<le> length p" using 2(2) by (simp add: length_dropWhile_le)
  moreover have "p \<noteq> []" by (rule 2(1))
  ultimately show ?case by (cases p) auto
qed simp

declare origin_loop.simps [simp del]

definition is_origin_allowed :: "string option \<Rightarrow> string option \<Rightarrow> bool" where
  "is_origin_allowed origin allowed_origins =
     (case (origin, allowed_origins) of
        (Some ori, Some policy) \<Rightarrow>
          cstr policy = ''*'' \<or> origin_loop (cstr ori) (cstr policy)
      | _ \<Rightarrow> False)"

section \<open>The handler\<close>

datatype cors_result = CORS_REQUEST_OK | CORS_PREFLIGHT_HANDLED | CORS_REQUEST_FORBIDDEN

datatype response_call = Add_Header string string | Set_Status int

definition quicpro_internal_handle_cors ::
  "('req \<Rightarrow> string \<Rightarrow> string option) \<Rightarrow> ('req \<Rightarrow> string) \<Rightarrow> 'req \<Rightarrow> string option \<Rightarrow>
   cors_result \<times> response_call list" where
  "quicpro_internal_handle_cors quicpro_request_get_header quicpro_request_get_method req
     policy =
     (case quicpro_request_get_header req ''origin'' of
        None \<Rightarrow> (CORS_REQUEST_OK, [])
      | Some origin \<Rightarrow>
          if policy = None \<or> \<not> is_origin_allowed (Some origin) policy
          then (CORS_REQUEST_FORBIDDEN, [])
          else
            (let allow = [Add_Header ''Access-Control-Allow-Origin'' origin, Add_Header ''Vary'' ''Origin'']
             in if cstr (quicpro_request_get_method req) = ''OPTIONS''
                then (CORS_PREFLIGHT_HANDLED,
                      allow @
                      [Set_Status 204,
                       Add_Header ''Access-Control-Allow-Methods''
                         ''GET, POST, PUT, DELETE, PATCH, OPTIONS'',
                       Add_Header ''Access-Control-Allow-Headers'' ''*'',
                       Add_Header ''Access-Control-Max-Age'' ''86400''])
                else (CORS_REQUEST_OK, allow)))"

section \<open>Reference\<close>

text \<open>The entries of a policy: the pieces between commas, without blanks around them.\<close>

fun split_on :: "char \<Rightarrow> string \<Rightarrow> string list" where
  "split_on d [] = [[]]"
| "split_on d (c # s) =
     (if c = d then [] # split_on d s
      else case split_on d s of t # ts \<Rightarrow> (c # t) # ts | [] \<Rightarrow> [[c]])"

definition strip :: "string \<Rightarrow> string" where
  "strip s = trim_trailing (dropWhile is_blank s)"

lemma split_on_ne [simp]: "split_on d s \<noteq> []"
  by (induction d s rule: split_on.induct) (auto split: list.split)

lemma split_on_unfold:
  "split_on d s =
     (if d \<in> set s
      then takeWhile (\<lambda>c. c \<noteq> d) s # split_on d (drop 1 (dropWhile (\<lambda>c. c \<noteq> d) s))
      else [s])"
proof (induction s)
  case (Cons c s)
  then show ?case by (cases "c = d"; cases "d \<in> set s") simp_all
qed simp

lemma trim_trailing_Nil [simp]: "trim_trailing [] = []"
  by (simp add: trim_trailing_def)

lemma strip_Nil [simp]: "strip [] = []"
  by (simp add: strip_def)

lemma blank_prefix:
  "takeWhile (\<lambda>c. c \<noteq> CHR '','') (dropWhile is_blank p) = dropWhile is_blank (takeWhile (\<lambda>c. c \<noteq> CHR '','') p)"
  "dropWhile (\<lambda>c. c \<noteq> CHR '','') (dropWhile is_blank p) = dropWhile (\<lambda>c. c \<noteq> CHR '','') p"
  "CHR '','' \<in> set (dropWhile is_blank p) \<longleftrightarrow> CHR '','' \<in> set p"
  by (induction p) (auto simp: is_blank_def)

lemma origin_loop_split:
  assumes "origin \<noteq> []"
  shows "origin_loop origin p \<longleftrightarrow> origin \<in> strip ` set (split_on (CHR '','') p)"
proof (induction p rule: length_induct)
  case (1 p)
  let ?rest = "drop 1 (dropWhile (\<lambda>c. c \<noteq> CHR '','') p)"
  show ?case
  proof (cases "p = []")
    case True
    then show ?thesis using assms by (simp add: origin_loop.simps)
  next
    case False
    then have "length ?rest < length p"
      using length_dropWhile_le [of "\<lambda>c. c \<noteq> CHR '',''" p] by (cases p) auto
    with 1 have IH: "origin_loop origin ?rest \<longleftrightarrow> origin \<in> strip ` set (split_on (CHR '','') ?rest)" by blast
    have loop: "origin_loop origin p \<longleftrightarrow>
        strip (takeWhile (\<lambda>c. c \<noteq> CHR '','') p) = origin \<or>
        CHR '','' \<in> set p \<and> origin_loop origin ?rest"
      using False by (subst origin_loop.simps) (auto simp: Let_def blank_prefix strip_def)
    show ?thesis
    proof (cases "CHR '','' \<in> set p")
      case True
      then show ?thesis unfolding loop IH split_on_unfold [of _ p] by auto
    next
      case False
      then have tw: "takeWhile (\<lambda>c. c \<noteq> CHR '','') p = p" by (auto simp: takeWhile_eq_all_conv)
      have "split_on (CHR '','') p = [p]" using False by (simp add: split_on_unfold [of _ p])
      with False show ?thesis unfolding loop tw by auto
    qed
  qed
qed

section \<open>Properties\<close>

text \<open>
  C26: The handler follows the policy exactly.  Without an origin it lets the request pass and does
  not touch the response.  An origin passes if and only if there is a policy that is the wildcard
  or has the origin among its comma-separated entries, blanks around entries ignored; any other
  origin is refused and the response is not touched.  Only an origin that passes is ever allowed
  by a response header, and exactly its preflight requests are answered with status 204.
\<close>

theorem cors_exact:
  assumes "quicpro_internal_handle_cors get_header get_method req policy = (res, calls)"
    and "\<And>ori. get_header req ''origin'' = Some ori \<Longrightarrow> ori \<noteq> [] \<and> CHR 0x00 \<notin> set ori"
    and "\<And>pol. policy = Some pol \<Longrightarrow> CHR 0x00 \<notin> set pol"
  shows "(get_header req ''origin'' = None \<longrightarrow> res = CORS_REQUEST_OK \<and> calls = []) \<and>
         (\<forall>ori. get_header req ''origin'' = Some ori \<longrightarrow>
            (let passes = (\<exists>pol. policy = Some pol \<and>
                             (pol = ''*'' \<or> ori \<in> strip ` set (split_on (CHR '','') pol)))
             in (res = CORS_REQUEST_FORBIDDEN \<longleftrightarrow> \<not> passes) \<and> (\<not> passes \<longrightarrow> calls = []) \<and>
                (passes \<longrightarrow> Add_Header ''Access-Control-Allow-Origin'' ori \<in> set calls) \<and>
                (res = CORS_PREFLIGHT_HANDLED \<longleftrightarrow> passes \<and> cstr (get_method req) = ''OPTIONS'') \<and>
                (Set_Status 204 \<in> set calls \<longleftrightarrow> res = CORS_PREFLIGHT_HANDLED)))"
proof (cases "get_header req ''origin''")
  case None
  with assms(1) show ?thesis by (simp add: quicpro_internal_handle_cors_def)
next
  case (Some ori)
  with assms(2) have o: "ori \<noteq> []" "cstr ori = ori" by (auto simp: cstr_id)
  have "cstr pol = pol" if "policy = Some pol" for pol using assms(3) that by (simp add: cstr_id)
  then have pass: "is_origin_allowed (Some ori) policy \<longleftrightarrow>
      (\<exists>pol. policy = Some pol \<and> (pol = ''*'' \<or> ori \<in> strip ` set (split_on (CHR '','') pol)))"
    by (cases policy) (auto simp: is_origin_allowed_def o origin_loop_split)
  define b where "b = is_origin_allowed (Some ori) policy"
  have "policy = None \<or> \<not> b \<longleftrightarrow> \<not> b"
    by (auto simp: is_origin_allowed_def b_def)
  then have r: "(res, calls) = quicpro_internal_handle_cors get_header get_method req policy"
    "policy = None \<or> \<not> b \<longleftrightarrow> \<not> b"
    using assms(1) by auto
  have "(res = CORS_REQUEST_FORBIDDEN \<longleftrightarrow> \<not> b) \<and> (\<not> b \<longrightarrow> calls = []) \<and>
      (b \<longrightarrow> Add_Header ''Access-Control-Allow-Origin'' ori \<in> set calls) \<and>
      (res = CORS_PREFLIGHT_HANDLED \<longleftrightarrow> b \<and> cstr (get_method req) = ''OPTIONS'') \<and>
      (Set_Status 204 \<in> set calls \<longleftrightarrow> res = CORS_PREFLIGHT_HANDLED)"
    using r(1) unfolding quicpro_internal_handle_cors_def Some option.case b_def [symmetric] r(2) Let_def
    by (cases b; cases "cstr (get_method req) = ''OPTIONS''") simp_all
  with Some show ?thesis unfolding b_def pass Let_def by simp
qed

theorem cors_exact_witness:
  "quicpro_internal_handle_cors (\<lambda>r h. Some ''https://b.test'') (\<lambda>r. ''GET'') ()
     (Some ''https://a.test , https://b.test'') =
     (CORS_REQUEST_OK, [Add_Header ''Access-Control-Allow-Origin'' ''https://b.test'', Add_Header ''Vary'' ''Origin'']) \<and>
   ''https://b.test'' \<in> strip ` set (split_on (CHR '','') ''https://a.test , https://b.test'')"
proof -
  have r: "quicpro_internal_handle_cors (\<lambda>r h. Some ''https://b.test'') (\<lambda>r. ''GET'') ()
     (Some ''https://a.test , https://b.test'') =
     (CORS_REQUEST_OK, [Add_Header ''Access-Control-Allow-Origin'' ''https://b.test'', Add_Header ''Vary'' ''Origin''])"
    by code_simp
  from cors_exact [OF r]
  have "''https://b.test'' \<in> strip ` set (split_on (CHR '','') ''https://a.test , https://b.test'')"
    by (simp add: Let_def)
  with r show ?thesis by blast
qed

section \<open>Policies that passed the validator\<close>

text \<open>
  What the manual says of \<^verbatim>\<open>php_trim\<close> with the character list the validator passes: it removes these
  characters from both ends.
\<close>

definition is_trimmed :: "char \<Rightarrow> bool" where
  "is_trimmed c \<longleftrightarrow> c \<in> {CHR '' '', CHR 0x09, CHR 0x0A, CHR 0x0D, CHR 0x0B, CHR 0x0C, CHR 0x00}"

definition trim_both :: "string \<Rightarrow> string" where
  "trim_both s = rev (dropWhile is_trimmed (rev (dropWhile is_trimmed s)))"

lemma dropWhile_weaker:
  "(\<And>c. P c \<Longrightarrow> Q c) \<Longrightarrow> dropWhile Q (dropWhile P s) = dropWhile Q s"
  by (induction s) auto

lemma dropWhile_snoc:
  "dropWhile P (rev (dropWhile Q (rev s))) = rev (dropWhile Q (rev (dropWhile P s)))"
  if "\<And>c. Q c \<Longrightarrow> P c" for s :: string
proof (induction s rule: rev_induct)
  case (snoc c s)
  show ?case
  proof (cases "Q c")
    case True
    then have "P c" by (rule that)
    show ?thesis
    proof (cases "\<forall>x \<in> set s. P x")
      case all: True
      then have "dropWhile P s = []" by simp
      with all \<open>Q c\<close> \<open>P c\<close> snoc show ?thesis by (simp add: dropWhile_append)
    next
      case False
      then show ?thesis using \<open>Q c\<close> snoc by (auto simp: dropWhile_append)
    qed
  qed (auto simp: dropWhile_append)
qed simp

lemma trim_strip: "trim_both (strip s) = trim_both s"
proof -
  have w: "is_blank c \<Longrightarrow> is_trimmed c" for c by (auto simp: is_blank_def is_trimmed_def)
  have "dropWhile is_trimmed (strip s) = rev (dropWhile is_blank (rev (dropWhile is_trimmed s)))"
    unfolding strip_def trim_trailing_def by (subst dropWhile_snoc) (simp_all add: w dropWhile_weaker)
  then show ?thesis by (simp add: trim_both_def dropWhile_weaker w)
qed

lemma split_on_tokens: "t \<in> set (split_on d s) \<Longrightarrow> t \<noteq> [] \<Longrightarrow> t \<in> set (strtok_tokens d s)"
proof (induction s rule: length_induct)
  case (1 s)
  show ?case
  proof (cases "d \<in> set s")
    case False
    with 1(2,3) have "t = s" by (simp add: split_on_unfold [of d s])
    with False 1(3) show ?thesis by (simp add: strtok_one)
  next
    case True
    let ?u = "takeWhile (\<lambda>c. c \<noteq> d) s" and ?r = "drop 1 (dropWhile (\<lambda>c. c \<noteq> d) s)"
    have ne: "dropWhile (\<lambda>c. c \<noteq> d) s \<noteq> []" using True by auto
    have "hd (dropWhile (\<lambda>c. c \<noteq> d) s) = d" using hd_dropWhile [OF ne] by simp
    with ne have "dropWhile (\<lambda>c. c \<noteq> d) s = d # ?r" by (cases "dropWhile (\<lambda>c. c \<noteq> d) s") auto
    then have s: "s = ?u @ d # ?r" by (metis takeWhile_dropWhile_id)
    have u: "d \<notin> set ?u" by (auto dest: set_takeWhileD)
    have tok: "strtok_tokens d s = (if ?u = [] then [] else [?u]) @ strtok_tokens d ?r"
      using s strtok_append [of ?u d ?r] strtok_skip [of d ?r] u by (cases "?u = []") auto
    have "length ?r < length s" using arg_cong [OF s, of length] by simp
    with 1 have "t \<in> set (split_on d ?r) \<Longrightarrow> t \<in> set (strtok_tokens d ?r)" by blast
    moreover have "t = ?u \<or> t \<in> set (split_on d ?r)" using 1(2) True by (simp add: split_on_unfold [of d s])
    ultimately show ?thesis using tok 1(3) by auto
  qed
qed


definition cors_engine :: zend_api where
  "cors_engine = example_engine
     \<lparr>php_trim := trim_both,
      php_url_parse_ex := (\<lambda>s. if s = ''https://a.test''
        then Some \<lparr>url_scheme = Some ''https'', url_host = Some ''a.test''\<rparr> else None)\<rparr>"


end
