(* ===== verification/Server_Streams.thy ===== *)
theory Server_Streams
  imports Zend
begin

text \<open>
  The streams of a server session: the cancellation handlers of \<^verbatim>\<open>src/extension/src/server/cancel.c\<close>
  and the early hints of \<^verbatim>\<open>src/extension/src/server/early_hints.c\<close>.  A PHP callable is a handle with
  a reference count; the PHP code that runs inside a handler, the state of the connection and the
  send function of quiche are arguments.
\<close>

section \<open>State\<close>

text \<open>
  The callable of a handler: its function name, which may be undefined, and its object.
\<close>

record fcall_info =
  function_name :: "nat option"
  fci_object :: "nat option"

record quicpro_stream_t =
  stream_id :: zend_long
  has_cancel_handler :: bool
  cancel_fci :: fcall_info
  final_response_sent :: bool

record server_session =
  streams :: "(u64, quicpro_stream_t) htable"
  refs :: "nat \<Rightarrow> int"

datatype stream_error = Invalid_Session | Stream_Not_Found | Response_Sent | Send_Failed int

datatype php_result = Returns bool | Throws stream_error

section \<open>References\<close>

fun add_ref :: "int \<Rightarrow> nat option \<Rightarrow> (nat \<Rightarrow> int) \<Rightarrow> nat \<Rightarrow> int" where
  "add_ref d None r = r"
| "add_ref d (Some h) r = r(h := r h + d)"

text \<open>
  \<^verbatim>\<open>Z_TRY_ADDREF\<close>, and \<^verbatim>\<open>zval_ptr_dtor\<close> or \<^verbatim>\<open>OBJ_RELEASE\<close>, on both parts of a callable.
\<close>

definition count_fci :: "int \<Rightarrow> fcall_info \<Rightarrow> (nat \<Rightarrow> int) \<Rightarrow> nat \<Rightarrow> int" where
  "count_fci d fci r = add_ref d (fci_object fci) (add_ref d (function_name fci) r)"

section \<open>Cancellation\<close>

definition quicpro_server_on_cancel ::
  "server_session option \<Rightarrow> zend_long \<Rightarrow> fcall_info \<Rightarrow> php_result \<times> server_session option" where
  "quicpro_server_on_cancel session sid fci =
     (case session of
        None \<Rightarrow> (Throws Invalid_Session, None)
      | Some s \<Rightarrow>
          (case ht_find (streams s) sid of
             None \<Rightarrow> (Throws Stream_Not_Found, Some s)
           | Some stream \<Rightarrow>
               (let r = (if has_cancel_handler stream then count_fci (- 1) (cancel_fci stream) (refs s)
                         else refs s)
                in (Returns True,
                    Some (s\<lparr>streams := ht_update (streams s) sid
                              (stream\<lparr>cancel_fci := fci, has_cancel_handler := True\<rparr>),
                            refs := count_fci 1 fci r\<rparr>)))))"

text \<open>
  The invocation, for the stream stored under \<^verbatim>\<open>sid\<close>.  \<^verbatim>\<open>call\<close> is what the PHP code of a callable does
  to the session before it returns; None is the result when it removed the stream, whose
  storage the code then still uses.
\<close>

definition quicpro_internal_invoke_cancel_handler ::
  "(fcall_info \<Rightarrow> zend_long \<Rightarrow> server_session \<Rightarrow> server_session) \<Rightarrow> u64 \<Rightarrow> server_session \<Rightarrow>
   server_session option" where
  "quicpro_internal_invoke_cancel_handler call sid s =
     (case ht_find (streams s) sid of
        None \<Rightarrow> Some s
      | Some stream \<Rightarrow>
          if \<not> has_cancel_handler stream then Some s
          else
            (let s1 = call (cancel_fci stream) (stream_id stream) s in
             case ht_find (streams s1) sid of
               None \<Rightarrow> None
             | Some stream1 \<Rightarrow>
                 Some (s1\<lparr>streams := ht_update (streams s1) sid
                            (stream1\<lparr>cancel_fci := \<lparr>function_name = None, fci_object = None\<rparr>,
                                     has_cancel_handler := False\<rparr>),
                          refs := count_fci (- 1) (cancel_fci stream1) (refs s1)\<rparr>)))"

section \<open>Early hints\<close>

text \<open>An entry that is a pair of strings.\<close>

definition hint_pair :: "zval \<Rightarrow> (string \<times> string) option" where
  "hint_pair entry =
     (case entry of
        Z_Array t \<Rightarrow>
          if length t \<noteq> 2 then None
          else (case (ht_find t (HIdx 0), ht_find t (HIdx 1)) of
                  (Some (Z_String name), Some (Z_String value)) \<Rightarrow> Some (name, value)
                | _ \<Rightarrow> None)
      | _ \<Rightarrow> None)"

text \<open>The loop over the array, which skips every other entry.\<close>

fun hint_headers :: "php_array \<Rightarrow> (string \<times> string) list" where
  "hint_headers [] = []"
| "hint_headers ((k, entry) # ht) =
     (case hint_pair entry of None \<Rightarrow> hint_headers ht | Some p \<Rightarrow> p # hint_headers ht)"

text \<open>
  The PHP function: its result, and the size of the header array it allocates with what it sends.
\<close>

definition quicpro_server_send_early_hints ::
  "server_session option \<Rightarrow> bool \<Rightarrow> (zend_long \<Rightarrow> (string \<times> string) list \<Rightarrow> bool \<Rightarrow> int) \<Rightarrow> zend_long \<Rightarrow>
   php_array \<Rightarrow> php_result \<times> (nat \<times> (string \<times> string) list \<times> bool) option" where
  "quicpro_server_send_early_hints session conn_closed quiche_h3_send_response sid hints =
     (case session of
        None \<Rightarrow> (Throws Invalid_Session, None)
      | Some s \<Rightarrow>
          if conn_closed then (Returns False, None)
          else
            (case ht_find (streams s) sid of
               None \<Rightarrow> (Throws Stream_Not_Found, None)
             | Some stream \<Rightarrow>
                 if final_response_sent stream then (Throws Response_Sent, None)
                 else
                   (let header_count = length hints + 1 in
                    if header_count \<le> 1 then (Returns True, None)
                    else
                      (let headers = ('':status'', ''103'') # hint_headers hints;
                           written = quiche_h3_send_response sid headers False
                       in (if written < 0 then Throws (Send_Failed written) else Returns True,
                           Some (header_count, headers, False))))))"

section \<open>Reference balance\<close>

text \<open>The references to a handle that the handlers of the streams hold.\<close>

definition fci_refs :: "fcall_info \<Rightarrow> nat \<Rightarrow> int" where
  "fci_refs fci h = of_bool (function_name fci = Some h) + of_bool (fci_object fci = Some h)"

definition stream_refs :: "quicpro_stream_t \<Rightarrow> nat \<Rightarrow> int" where
  "stream_refs st h = (if has_cancel_handler st then fci_refs (cancel_fci st) h else 0)"

definition held :: "server_session \<Rightarrow> nat \<Rightarrow> int" where
  "held s h = (\<Sum>(k, st) \<leftarrow> streams s. stream_refs st h)"

lemma count_fci_refs: "count_fci d fci r h = r h + d * fci_refs fci h"
  by (cases "function_name fci"; cases "fci_object fci")
    (auto simp: count_fci_def fci_refs_def)

lemma sum_update:
  fixes f :: "'v \<Rightarrow> int"
  shows "ht_find t k = Some old \<Longrightarrow>
   (\<Sum>(k, v) \<leftarrow> ht_update t k new. f v) = (\<Sum>(k, v) \<leftarrow> t. f v) - f old + f new"
  by (induction t k new rule: ht_update.induct) (auto split: if_splits)

lemma held_update:
  "ht_find (streams s) sid = Some old \<Longrightarrow>
   held (s\<lparr>streams := ht_update (streams s) sid new, refs := r\<rparr>) h =
     held s h - stream_refs old h + stream_refs new h"
  by (simp add: held_def sum_update)

text \<open>Outside references: what remains of a count without those of the handlers.\<close>

definition outside :: "server_session \<Rightarrow> nat \<Rightarrow> int" where
  "outside s h = refs s h - held s h"

text \<open>
  A stream without a handler holds no callable: zeroed streams are like this, and the invocation
  clears what it releases.
\<close>

definition no_fci :: fcall_info where
  "no_fci = \<lparr>function_name = None, fci_object = None\<rparr>"

definition clean :: "server_session \<Rightarrow> bool" where
  "clean s \<longleftrightarrow> (\<forall>k st. ht_find (streams s) k = Some st \<longrightarrow> \<not> has_cancel_handler st \<longrightarrow> cancel_fci st = no_fci)"

text \<open>Code that respects the handlers: it keeps clean sessions clean and outside references as they are.\<close>

definition balanced :: "(server_session \<Rightarrow> server_session) \<Rightarrow> bool" where
  "balanced f \<longleftrightarrow> (\<forall>s. clean s \<longrightarrow> clean (f s) \<and> outside (f s) = outside s)"

definition register_handler :: "zend_long \<Rightarrow> fcall_info \<Rightarrow> server_session \<Rightarrow> server_session" where
  "register_handler sid fci s = the (snd (quicpro_server_on_cancel (Some s) sid fci))"

lemma balancedD: "balanced f \<Longrightarrow> clean s \<Longrightarrow> clean (f s) \<and> outside (f s) = outside s"
  by (simp add: balanced_def)

lemma balanced_comp: "balanced f \<Longrightarrow> balanced g \<Longrightarrow> balanced (\<lambda>s. g (f s))"
  by (simp add: balanced_def)

lemma balanced_register: "balanced (register_handler sid fci)"
proof -
  have "clean (register_handler sid fci s) \<and> outside (register_handler sid fci s) h = outside s h"
    if "clean s" for s h
  proof (cases "ht_find (streams s) sid")
    case None
    with that show ?thesis by (simp add: register_handler_def quicpro_server_on_cancel_def)
  next
    case (Some st)
    with that show ?thesis
      by (auto simp: register_handler_def quicpro_server_on_cancel_def Let_def outside_def held_update
          count_fci_refs stream_refs_def clean_def table_simps split: if_splits)
  qed
  then show ?thesis by (auto simp: balanced_def)
qed

lemma balanced_registers: "balanced (\<lambda>s. foldl (\<lambda>s (sid, fci). register_handler sid fci s) s regs)"
proof (induction regs)
  case (Cons r regs)
  then show ?case
    using balanced_comp [OF balanced_register [of "fst r" "snd r"] Cons] by (cases r) simp
qed (simp add: balanced_def)

lemma invoke_balanced:
  assumes "\<And>fci i. balanced (call fci i)" "clean s"
    and "quicpro_internal_invoke_cancel_handler call sid s = Some s'"
  shows "clean s' \<and> outside s' = outside s \<and>
         (\<forall>st. ht_find (streams s') sid = Some st \<longrightarrow> \<not> has_cancel_handler st)"
proof (cases "\<exists>st. ht_find (streams s) sid = Some st \<and> has_cancel_handler st")
  case False
  with assms(2,3) show ?thesis
    by (auto simp: quicpro_internal_invoke_cancel_handler_def split: option.splits if_splits)
next
  case True
  then obtain st where st: "ht_find (streams s) sid = Some st" "has_cancel_handler st" by blast
  define s1 where "s1 = call (cancel_fci st) (stream_id st) s"
  have s1: "clean s1" "outside s1 = outside s"
    using balancedD [OF assms(1) assms(2)] by (simp_all add: s1_def)
  obtain st1 where st1: "ht_find (streams s1) sid = Some st1"
    using assms(3) st
    by (auto simp: quicpro_internal_invoke_cancel_handler_def Let_def s1_def split: option.splits)
  have s': "s' = s1\<lparr>streams := ht_update (streams s1) sid
        (st1\<lparr>cancel_fci := no_fci, has_cancel_handler := False\<rparr>),
      refs := count_fci (- 1) (cancel_fci st1) (refs s1)\<rparr>"
    using assms(3) st st1
    by (simp add: quicpro_internal_invoke_cancel_handler_def Let_def s1_def no_fci_def)
  have "\<not> has_cancel_handler st1 \<Longrightarrow> fci_refs (cancel_fci st1) h = 0" for h
    using s1(1) st1 by (auto simp: clean_def no_fci_def fci_refs_def)
  then have "outside s' h = outside s1 h" for h
    using st1 unfolding s'
    by (auto simp: outside_def held_update count_fci_refs stream_refs_def)
  then have "outside s' = outside s" using s1(2) by auto
  moreover have "clean s'" using s1(1) unfolding s' by (auto simp: clean_def table_simps)
  ultimately show ?thesis by (simp add: s' table_simps)
qed

text \<open>
  C27: Cancellation handlers neither leak nor double-release a callable.  Whatever sequence of
  registrations ran before, and whatever code that respects the handlers runs inside one,
  registering and invoking keep the reference count of every handle equal to its outside
  references plus those the handlers of the streams hold.  A handler runs at most once: after its
  invocation the stream has none, not even one that it registered for the stream while it ran.
\<close>

theorem cancel_balanced:
  assumes "clean s0" and "\<And>fci i. balanced (call fci i)"
    and "quicpro_internal_invoke_cancel_handler call sid
           (foldl (\<lambda>s (sid, fci). register_handler sid fci s) s0 regs) = Some s"
  shows "refs s h - held s h = refs s0 h - held s0 h \<and>
         (\<forall>st. ht_find (streams s) sid = Some st \<longrightarrow> \<not> has_cancel_handler st) \<and>
         quicpro_internal_invoke_cancel_handler call' sid s = Some s"
proof -
  let ?s1 = "foldl (\<lambda>s (sid, fci). register_handler sid fci s) s0 regs"
  have s1: "clean ?s1" "outside ?s1 = outside s0"
    using balancedD [OF balanced_registers assms(1)] by blast+
  from invoke_balanced [OF assms(2) s1(1) assms(3)]
  have s: "outside s = outside s0" "\<forall>st. ht_find (streams s) sid = Some st \<longrightarrow> \<not> has_cancel_handler st"
    using s1(2) by simp_all
  then have "quicpro_internal_invoke_cancel_handler call' sid s = Some s"
    by (auto simp: quicpro_internal_invoke_cancel_handler_def split: option.split)
  moreover have "refs s h - held s h = refs s0 h - held s0 h"
    using fun_cong [OF s(1), of h] unfolding outside_def .
  ultimately show ?thesis using s(2) by blast
qed

definition example_stream :: quicpro_stream_t where
  "example_stream = \<lparr>stream_id = 4, has_cancel_handler = False, cancel_fci = no_fci, final_response_sent = False\<rparr>"

definition example_session :: server_session where
  "example_session = \<lparr>streams = [(4, example_stream)], refs = (\<lambda>h. 1)\<rparr>"

text \<open>A handler that registers itself again while it runs.\<close>

theorem cancel_balanced_witness:
  "\<exists>s. quicpro_internal_invoke_cancel_handler (\<lambda>fci i. register_handler i fci) 4
         (register_handler 4 \<lparr>function_name = Some 7, fci_object = None\<rparr> example_session) = Some s \<and>
       refs s 7 - held s 7 = 1"
proof -
  let ?fci = "\<lparr>function_name = Some 7, fci_object = None\<rparr>"
  have c: "clean example_session"
    by (auto simp: clean_def example_session_def example_stream_def no_fci_def)
  obtain s where s: "quicpro_internal_invoke_cancel_handler (\<lambda>fci i. register_handler i fci) 4
      (foldl (\<lambda>s (sid, fci). register_handler sid fci s) example_session [(4, ?fci)]) = Some s"
    by (simp add: quicpro_internal_invoke_cancel_handler_def register_handler_def
        quicpro_server_on_cancel_def example_session_def example_stream_def Let_def)
  from cancel_balanced [OF c balanced_register s, of 7] s show ?thesis
    by (simp add: example_session_def example_stream_def held_def stream_refs_def)
qed

section \<open>Properties of early hints\<close>

lemma length_hint_headers: "length (hint_headers hints) \<le> length hints"
  by (induction hints rule: hint_headers.induct) (auto split: option.split intro: le_SucI)

lemma hint_headers_set: "p \<in> set (hint_headers hints) \<longleftrightarrow> (\<exists>k e. (k, e) \<in> set hints \<and> hint_pair e = Some p)"
  by (induction hints rule: hint_headers.induct) (auto split: option.splits)

lemma hint_pair_Some:
  "hint_pair e = Some (name, value) \<longleftrightarrow>
   (\<exists>t. e = Z_Array t \<and> length t = 2 \<and>
      ht_find t (HIdx 0) = Some (Z_String name) \<and> ht_find t (HIdx 1) = Some (Z_String value))"
proof (cases e)
  case (Z_Array t)
  then show ?thesis
    by (cases "ht_find t (HIdx 0)"; cases "ht_find t (HIdx 1)")
      (simp_all add: hint_pair_def split: zval.split)
qed (simp_all add: hint_pair_def)

text \<open>
  Early hints are sent exactly on an open connection, for a known stream without a final
  response and a non-empty array; what is sent is the status 103 followed by exactly the pairs of
  strings of the array, it never exceeds the header array that was allocated, and it never ends
  the stream.
\<close>

theorem early_hints_sent:
  assumes "quicpro_server_send_early_hints session conn_closed send sid hints = (res, out)"
  shows "(out \<noteq> None \<longleftrightarrow>
            \<not> conn_closed \<and> hints \<noteq> [] \<and>
            (\<exists>s st. session = Some s \<and> ht_find (streams s) sid = Some st \<and> \<not> final_response_sent st)) \<and>
         (\<forall>n headers fin. out = Some (n, headers, fin) \<longrightarrow>
            length headers \<le> n \<and> \<not> fin \<and> hd headers = ('':status'', ''103'') \<and>
            (\<forall>name value. (name, value) \<in> set (tl headers) \<longleftrightarrow>
               (\<exists>k e t. (k, e) \<in> set hints \<and> e = Z_Array t \<and> length t = 2 \<and>
                  ht_find t (HIdx 0) = Some (Z_String name) \<and> ht_find t (HIdx 1) = Some (Z_String value))) \<and>
            (res = Returns True \<longleftrightarrow> 0 \<le> send sid headers fin))"
proof -
  let ?hs = "('':status'', ''103'') # hint_headers hints"
  let ?ok = "\<not> conn_closed \<and> hints \<noteq> [] \<and>
    (\<exists>s st. session = Some s \<and> ht_find (streams s) sid = Some st \<and> \<not> final_response_sent st)"
  have r: "if ?ok then out = Some (Suc (length hints), ?hs, False) \<and> (res = Returns True \<longleftrightarrow> 0 \<le> send sid ?hs False)
        else out = None"
    using assms
    by (auto simp: quicpro_server_send_early_hints_def Let_def split: option.splits if_splits)
  show ?thesis
  proof (cases ?ok)
    case True
    with r have o: "out = Some (Suc (length hints), ?hs, False)"
      and res: "res = Returns True \<longleftrightarrow> 0 \<le> send sid ?hs False" by simp_all
    have iff: "out \<noteq> None \<longleftrightarrow> ?ok" using True o by blast
    show ?thesis unfolding iff unfolding o
      using True length_hint_headers [of hints] res
      by (simp add: hint_headers_set hint_pair_Some del: not_None_eq)
  next
    case False
    with r show ?thesis by simp
  qed
qed

theorem early_hints_sent_witness:
  "quicpro_server_send_early_hints (Some example_session) False (\<lambda>i hs fin. int (length hs)) 4
     [(HIdx 0, Z_Array [(HIdx 0, Z_String ''link''), (HIdx 1, Z_String ''</a.css>'')]), (HIdx 1, Z_Long 3)] =
     (Returns True, Some (3, [('':status'', ''103''), (''link'', ''</a.css>'')], False)) \<and>
   length [('':status'', ''103''), (''link'', ''</a.css>'')] \<le> 3"
proof -
  have r: "quicpro_server_send_early_hints (Some example_session) False (\<lambda>i hs fin. int (length hs)) 4
     [(HIdx 0, Z_Array [(HIdx 0, Z_String ''link''), (HIdx 1, Z_String ''</a.css>'')]), (HIdx 1, Z_Long 3)] =
     (Returns True, Some (3, [('':status'', ''103''), (''link'', ''</a.css>'')], False))"
    by (simp add: quicpro_server_send_early_hints_def example_session_def example_stream_def Let_def hint_pair_def)
  from early_hints_sent [OF r] have "length [('':status'', ''103''), (''link'', ''</a.css>'')] \<le> 3" by blast
  with r show ?thesis by blast
qed

end
