(* ===== verification/Number_Text.thy ===== *)
theory Number_Text
  imports C_Strings Zend
begin

text \<open>
  Integers as the \<^verbatim>\<open>printf\<close> family writes them, for the functions that format ports, status codes and
  lengths, what is left of them in a short buffer, and the strings that the engine takes for
  integer keys of an array.
\<close>

function nat_text :: "nat \<Rightarrow> string" where
  "nat_text n = (if n < 10 then [''0123456789'' ! n] else nat_text (n div 10) @ [''0123456789'' ! (n mod 10)])"
  by pat_completeness auto
termination by (relation "measure id") auto

declare nat_text.simps [simp del]

definition long_text :: "zend_long \<Rightarrow> string" where
  "long_text n =
     (let i = sint n in if i < 0 then CHR ''-'' # nat_text (nat (- i)) else nat_text (nat i))"

text \<open>The engine's \<^verbatim>\<open>symtable\<close> keys: the decimal form of a \<^verbatim>\<open>zend_long\<close> is an integer key.\<close>

definition symtable_key :: "string \<Rightarrow> hkey" where
  "symtable_key s =
     (let neg = (take 1 s = ''-''); ds = (if neg then drop 1 s else s); v = decimal_value ds in
      if ds \<noteq> [] \<and> list_all is_digit ds \<and> (take 1 ds \<noteq> ''0'' \<or> s = ''0'')
         \<and> v \<le> (if neg then 2 ^ 63 else 2 ^ 63 - 1)
      then HIdx (word_of_int (if neg then - v else v)) else HStr s)"

lemma decimal_value_snoc: "decimal_value (ds @ [d]) = 10 * decimal_value ds + digit_value d"
  by (simp add: decimal_value_def)

lemma digit_value_nth: "n < 10 \<Longrightarrow> digit_value (''0123456789'' ! n) = int n"
  by (auto simp: digit_value_def less_Suc_eq numeral_eq_Suc)

lemma decimal_value_text: "decimal_value (nat_text n) = int n"
proof (induction n rule: nat_text.induct)
  case (1 n)
  show ?case
  proof (cases "n < 10")
    case True
    then show ?thesis
      by (subst nat_text.simps) (simp add: decimal_value_def digit_value_nth)
  next
    case False
    then show ?thesis using 1
      by (subst nat_text.simps) (simp add: decimal_value_snoc digit_value_nth zdiv_int zmod_int)
  qed
qed

lemma nat_text_length: "length (nat_text n) \<le> Suc k \<longleftrightarrow> n < 10 * 10 ^ k"
proof (induction k arbitrary: n)
  case 0
  have "nat_text m \<noteq> []" for m by (subst nat_text.simps) simp
  then show ?case by (subst nat_text.simps) simp
next
  case (Suc k)
  have "(1::nat) \<le> 10 ^ k" by simp
  then have "n < 10 \<Longrightarrow> n < 10 * (10 * 10 ^ k)" by linarith
  moreover have "n div 10 < 10 * 10 ^ k \<longleftrightarrow> n < 10 * (10 * 10 ^ k)"
    by (simp add: div_less_iff_less_mult)
  ultimately show ?case using Suc [of "n div 10"] by (subst nat_text.simps) simp
qed

lemma nat_text_take: "length (nat_text n) > k \<Longrightarrow> k > 0 \<Longrightarrow> \<exists>j. take k (nat_text n) = nat_text (n div 10 ^ Suc j)"
proof (induction n rule: nat_text.induct)
  case (1 n)
  have big: "\<not> n < 10" using 1(2,3) by (auto simp: nat_text.simps [of n])
  then have t: "nat_text n = nat_text (n div 10) @ [''0123456789'' ! (n mod 10)]"
    by (subst nat_text.simps) simp
  show ?case
  proof (cases "k < length (nat_text (n div 10))")
    case True
    from 1(1) [OF big True 1(3)] obtain j where "take k (nat_text (n div 10)) = nat_text (n div 10 div 10 ^ Suc j)"
      by blast
    then show ?thesis using True by (intro exI [of _ "Suc j"]) (simp add: t div_mult2_eq [symmetric])
  next
    case False
    then have "k = length (nat_text (n div 10))" using 1(2) by (simp add: t)
    then show ?thesis by (intro exI [of _ 0]) (simp add: t)
  qed
qed

lemma nat_text_digits: "set (nat_text n) \<subseteq> set ''0123456789''"
proof (induction n rule: nat_text.induct)
  case (1 n)
  have d: "k < 10 \<Longrightarrow> ''0123456789'' ! k \<in> set ''0123456789''" for k :: nat
    by (rule nth_mem) simp
  show ?case
  proof (cases "n < 10")
    case True
    then show ?thesis using d [of n] by (subst nat_text.simps) simp
  next
    case False
    then show ?thesis using 1 d [of "n mod 10"] by (subst nat_text.simps) simp
  qed
qed

end
