(* ===== verification/Http_Client.thy ===== *)
theory Http_Client
  imports Number_Text Zend
begin

text \<open>
  The HTTP client of \<^verbatim>\<open>src/extension/src/http_client/http_client.c\<close>: the callbacks that collect a
  response, the parser of the collected header lines, the table of userland options and the
  request function.  libcurl is a parameter: a transfer is what it hands to the callbacks.
\<close>

section \<open>Collecting a response\<close>

text \<open>A \<^verbatim>\<open>smart_str\<close>: no string is allocated before the first append.\<close>

type_synonym smart_str = "string option"

definition smart_str_appendl :: "smart_str \<Rightarrow> string \<Rightarrow> smart_str" where
  "smart_str_appendl b s = Some ((case b of None \<Rightarrow> [] | Some t \<Rightarrow> t) @ s)"

record header_data_t =
  headers_buf :: smart_str
  first_line_parsed :: bool

definition write_callback :: "string \<Rightarrow> smart_str \<Rightarrow> smart_str \<times> nat" where
  "write_callback contents buf = (smart_str_appendl buf contents, length contents)"

definition header_callback :: "string \<Rightarrow> header_data_t \<Rightarrow> header_data_t \<times> nat" where
  "header_callback buffer h =
     (if \<not> first_line_parsed h then
        (if buffer \<noteq> [] \<and> take 5 buffer = ''HTTP/'' then h\<lparr>first_line_parsed := True\<rparr> else h,
         length buffer)
      else if buffer = [] \<or> buffer = [CHR 0x0D, CHR 0x0A] then (h, length buffer)
      else (h\<lparr>headers_buf := smart_str_appendl (headers_buf h) buffer\<rparr>, length buffer))"

text \<open>\<^verbatim>\<open>strstr\<close> for the line end: what is before it and what is after it.\<close>

fun split_crlf :: "string \<Rightarrow> (string \<times> string) option" where
  "split_crlf (a # b # s) =
     (if a = CHR 0x0D \<and> b = CHR 0x0A then Some ([], s)
      else map_option (apfst (Cons a)) (split_crlf (b # s)))"
| "split_crlf s = None"

lemma split_crlf_shorter: "split_crlf s = Some (l, r) \<Longrightarrow> length r < length s"
  by (induction s arbitrary: l rule: split_crlf.induct) (auto split: if_splits simp: less_Suc_eq)

definition header_blank :: "char \<Rightarrow> bool" where
  "header_blank c \<longleftrightarrow> c = CHR '' '' \<or> c = CHR 0x09"

text \<open>One header line: the name up to the first colon, the value after the blanks behind it.\<close>

definition add_header_line :: "string \<Rightarrow> php_array \<Rightarrow> php_array" where
  "add_header_line line arr =
     (if CHR '':'' \<notin> set line then arr
      else
        (let name = map tolower (takeWhile (\<lambda>c. c \<noteq> CHR '':'') line);
             v = dropWhile header_blank (drop 1 (dropWhile (\<lambda>c. c \<noteq> CHR '':'') line))
         in case ht_find arr (HStr name) of
              Some (Z_String old) \<Rightarrow> ht_update arr (HStr name) (Z_String (old @ '', '' @ v))
            | _ \<Rightarrow> ht_update arr (symtable_key name) (Z_String v)))"

function header_lines_loop :: "string \<Rightarrow> php_array \<Rightarrow> php_array" where
  "header_lines_loop s arr =
     (case split_crlf s of
        None \<Rightarrow> arr
      | Some (line, rest) \<Rightarrow>
          if line = [] then arr else header_lines_loop rest (add_header_line line arr))"
  by pat_completeness auto
termination by (relation "measure (\<lambda>(s, arr). length s)") (auto simp: split_crlf_shorter)

declare header_lines_loop.simps [simp del]

text \<open>
  The parser scans with \<^verbatim>\<open>strstr\<close>, and nothing terminates the collected string: \<^verbatim>\<open>beyond\<close> is the
  memory that follows its last byte, up to a NUL byte that the scan meets sooner or later.
\<close>

definition parse_raw_headers_to_assoc_array :: "smart_str \<Rightarrow> string \<Rightarrow> php_array \<Rightarrow> php_array" where
  "parse_raw_headers_to_assoc_array raw beyond arr =
     (case raw of
        None \<Rightarrow> arr
      | Some s \<Rightarrow> if s = [] then arr else header_lines_loop (cstr (s @ beyond)) arr)"

section \<open>Options\<close>

datatype curl_val = CL_Long zend_long | CL_Const string | CL_Str string | CL_List "string list"
  | CL_Data string | CL_Callback string

type_synonym curl_call = "string \<times> curl_val"

datatype option_rule =
    Opt_Long string  \<comment> \<open>an integer is passed on\<close>
  | Opt_String string  \<comment> \<open>a string is passed on\<close>
  | Opt_True string  \<comment> \<open>a true value sets one\<close>
  | Opt_False string  \<comment> \<open>a false value sets zero\<close>
  | Opt_List string  \<comment> \<open>a string becomes a list of one entry\<close>
  | Opt_Choice "(string \<times> curl_call list) list" "curl_call list"

text \<open>
  The options in the order of the code.  The blocks that depend on \<^verbatim>\<open>#ifdef CURLOPT_...\<close> are
  absent: libcurl declares its options as enumerators, which the preprocessor does not see.
\<close>

definition transfer_options :: "(string \<times> option_rule) list" where
  "transfer_options =
    [(''timeout_ms'', Opt_Long ''CURLOPT_TIMEOUT_MS''),
     (''connect_timeout_ms'', Opt_Long ''CURLOPT_CONNECTTIMEOUT_MS''),
     (''follow_redirects'', Opt_True ''CURLOPT_FOLLOWLOCATION''),
     (''max_redirects'', Opt_Long ''CURLOPT_MAXREDIRS''),
     (''http_version'', Opt_Choice
        [(''2.0'', [(''CURLOPT_HTTP_VERSION'', CL_Const ''CURL_HTTP_VERSION_2_0''),
                    (''CURLOPT_PIPEWAIT'', CL_Long 1)]),
         (''1.1'', [(''CURLOPT_HTTP_VERSION'', CL_Const ''CURL_HTTP_VERSION_1_1'')]),
         (''3.0'', [(''CURLOPT_HTTP_VERSION'', CL_Const ''CURL_HTTP_VERSION_3'')])]
        [(''CURLOPT_HTTP_VERSION'', CL_Const ''CURL_HTTP_VERSION_NONE'')]),
     (''verbose'', Opt_True ''CURLOPT_VERBOSE''),
     (''tcp_nodelay'', Opt_True ''CURLOPT_TCP_NODELAY''),
     (''interface'', Opt_String ''CURLOPT_INTERFACE'')]"

definition tls_dns_options :: "(string \<times> option_rule) list" where
  "tls_dns_options =
    [(''verify_peer'', Opt_False ''CURLOPT_SSL_VERIFYPEER''),
     (''verify_host'', Opt_False ''CURLOPT_SSL_VERIFYHOST''),
     (''ca_info'', Opt_String ''CURLOPT_CAINFO''),
     (''cert_file'', Opt_String ''CURLOPT_SSLCERT''),
     (''key_file'', Opt_String ''CURLOPT_SSLKEY''),
     (''key_passwd'', Opt_String ''CURLOPT_KEYPASSWD''),
     (''resolve_host'', Opt_List ''CURLOPT_RESOLVE''),
     (''dns_cache_timeout'', Opt_Long ''CURLOPT_DNS_CACHE_TIMEOUT''),
     (''dns_use_global_cache'', Opt_True ''CURLOPT_DNS_USE_GLOBAL_CACHE''),
     (''dns_servers'', Opt_String ''CURLOPT_DNS_SERVERS''),
     (''ip_resolve'', Opt_Choice
        [(''ipv4'', [(''CURLOPT_IPRESOLVE'', CL_Const ''CURL_IPRESOLVE_V4'')]),
         (''ipv6'', [(''CURLOPT_IPRESOLVE'', CL_Const ''CURL_IPRESOLVE_V6'')])]
        [(''CURLOPT_IPRESOLVE'', CL_Const ''CURL_IPRESOLVE_WHATEVER'')]),
     (''happy_eyeballs_timeout_ms'', Opt_Long ''CURLOPT_HAPPY_EYEBALLS_TIMEOUT_MS'')]"

definition proxy_misc_options :: "(string \<times> option_rule) list" where
  "proxy_misc_options =
    [(''proxy'', Opt_String ''CURLOPT_PROXY''),
     (''proxy_userpwd'', Opt_String ''CURLOPT_PROXYUSERPWD''),
     (''proxy_type'', Opt_Choice
        [(''http'', [(''CURLOPT_PROXYTYPE'', CL_Const ''CURLPROXY_HTTP'')]),
         (''socks4'', [(''CURLOPT_PROXYTYPE'', CL_Const ''CURLPROXY_SOCKS4'')]),
         (''socks5'', [(''CURLOPT_PROXYTYPE'', CL_Const ''CURLPROXY_SOCKS5'')])] []),
     (''no_proxy'', Opt_String ''CURLOPT_NOPROXY''),
     (''http_auth'', Opt_Long ''CURLOPT_HTTPAUTH''),
     (''user_pwd'', Opt_String ''CURLOPT_USERPWD''),
     (''fresh_connect'', Opt_True ''CURLOPT_FRESH_CONNECT''),
     (''dns_use_global_cache'', Opt_True ''CURLOPT_DNS_USE_GLOBAL_CACHE''),
     (''max_file_size'', Opt_Long ''CURLOPT_MAXFILESIZE''),
     (''accept_encoding'', Opt_String ''CURLOPT_ACCEPT_ENCODING''),
     (''cookie'', Opt_String ''CURLOPT_COOKIE''),
     (''cookie_file'', Opt_String ''CURLOPT_COOKIEFILE''),
     (''cookie_jar'', Opt_String ''CURLOPT_COOKIEJAR''),
     (''referer'', Opt_String ''CURLOPT_REFERER''),
     (''user_agent'', Opt_String ''CURLOPT_USERAGENT''),
     (''crlf'', Opt_True ''CURLOPT_CRLF''),
     (''buffer_size'', Opt_Long ''CURLOPT_BUFFERSIZE''),
     (''http_proxy_tunnel'', Opt_True ''CURLOPT_HTTPPROXYTUNNEL''),
     (''transfer_text'', Opt_True ''CURLOPT_TRANSFERTEXT''),
     (''unrestricted_auth'', Opt_True ''CURLOPT_UNRESTRICTED_AUTH''),
     (''put'', Opt_True ''CURLOPT_PUT''),
     (''post'', Opt_True ''CURLOPT_POST''),
     (''ssl_cipher_list'', Opt_String ''CURLOPT_SSL_CIPHER_LIST''),
     (''ssl_max_conn'', Opt_Long ''CURLOPT_SSL_MAXCONN''),
     (''suppress_connect_headers'', Opt_True ''CURLOPT_SUPPRESS_CONNECT_HEADERS'')]"

definition http_options :: "(string \<times> option_rule) list" where
  "http_options = transfer_options @ tls_dns_options @ proxy_misc_options"

fun option_calls :: "zend_api \<Rightarrow> option_rule \<Rightarrow> zval \<Rightarrow> curl_call list" where
  "option_calls Z (Opt_Long o1) v = (case v of Z_Long n \<Rightarrow> [(o1, CL_Long n)] | _ \<Rightarrow> [])"
| "option_calls Z (Opt_String o1) v = (case v of Z_String s \<Rightarrow> [(o1, CL_Str (cstr s))] | _ \<Rightarrow> [])"
| "option_calls Z (Opt_True o1) v = (if zend_is_true Z v then [(o1, CL_Long 1)] else [])"
| "option_calls Z (Opt_False o1) v = (if zend_is_true Z v then [] else [(o1, CL_Long 0)])"
| "option_calls Z (Opt_List o1) v = (case v of Z_String s \<Rightarrow> [(o1, CL_List [cstr s])] | _ \<Rightarrow> [])"
| "option_calls Z (Opt_Choice cs d) v =
     (case v of
        Z_String s \<Rightarrow> (case map_of cs s of Some calls \<Rightarrow> calls | None \<Rightarrow> d)
      | _ \<Rightarrow> [])"

definition options_calls :: "zend_api \<Rightarrow> php_array \<Rightarrow> curl_call list" where
  "options_calls Z opts =
     concat (map (\<lambda>(k, r). case arr_find opts k of None \<Rightarrow> [] | Some v \<Rightarrow> option_calls Z r v)
               http_options)"

section \<open>A request\<close>

record curl_run =
  run_headers :: "string list"  \<comment> \<open>the lines given to the header callback\<close>
  run_body :: "string list"  \<comment> \<open>the chunks given to the write callback\<close>
  run_code :: zend_long  \<comment> \<open>\<^verbatim>\<open>CURLINFO_RESPONSE_CODE\<close>\<close>
  run_error :: "string option"  \<comment> \<open>the text of a result other than \<^verbatim>\<open>CURLE_OK\<close>\<close>

record curl_api =
  curl_easy_init :: bool
  curl_easy_perform :: "curl_call list \<Rightarrow> curl_run"

definition request_headers :: "php_array \<Rightarrow> string list" where
  "request_headers arr =
     concat (map (\<lambda>(k, v). case (k, v) of
         (HStr key, Z_String s) \<Rightarrow> [cstr (key @ '': '' @ s)]
       | _ \<Rightarrow> []) arr)"

definition base_calls :: "string \<Rightarrow> string \<Rightarrow> curl_call list" where
  "base_calls url meth =
     [(''CURLOPT_URL'', CL_Str (cstr url)),
      (''CURLOPT_CUSTOMREQUEST'', CL_Str (cstr meth)),
      (''CURLOPT_WRITEFUNCTION'', CL_Callback ''write_callback''),
      (''CURLOPT_WRITEDATA'', CL_Callback ''response_body''),
      (''CURLOPT_HEADERFUNCTION'', CL_Callback ''header_callback''),
      (''CURLOPT_HEADERDATA'', CL_Callback ''header_data''),
      (''CURLOPT_TCP_KEEPALIVE'', CL_Long 1),
      (''CURLOPT_TCP_KEEPIDLE'', CL_Long 60),
      (''CURLOPT_TCP_KEEPINTVL'', CL_Long 30),
      (''CURLOPT_FORBID_REUSE'', CL_Long 0)]"

definition body_calls :: "string \<Rightarrow> string option \<Rightarrow> curl_call list" where
  "body_calls meth body =
     (case body of
        None \<Rightarrow> []
      | Some b \<Rightarrow>
          if b \<noteq> [] \<and> (cstr meth = ''POST'' \<or> cstr meth = ''PUT'' \<or> cstr meth = ''PATCH'')
          then [(''CURLOPT_POSTFIELDS'', CL_Data b),
                (''CURLOPT_POSTFIELDSIZE'', CL_Long (of_nat (length b)))]
          else [])"

text \<open>Every call on the handle up to the transfer.\<close>

definition request_calls ::
    "zend_api \<Rightarrow> string \<Rightarrow> string \<Rightarrow> php_array option \<Rightarrow> string option \<Rightarrow> php_array option
      \<Rightarrow> curl_call list" where
  "request_calls Z url meth headers body opts =
     base_calls url meth
     @ (case headers of
          None \<Rightarrow> []
        | Some arr \<Rightarrow>
            if request_headers arr = [] then []
            else [(''CURLOPT_HTTPHEADER'', CL_List (request_headers arr))])
     @ body_calls meth body
     @ (case opts of None \<Rightarrow> [] | Some arr \<Rightarrow> options_calls Z arr)"

definition collect_headers :: "string list \<Rightarrow> smart_str" where
  "collect_headers ls =
     headers_buf (fold (\<lambda>l h. fst (header_callback l h)) ls
       \<lparr>headers_buf = None, first_line_parsed = False\<rparr>)"

definition collect_body :: "string list \<Rightarrow> smart_str" where
  "collect_body cs = fold (\<lambda>c b. fst (write_callback c b)) cs None"

text \<open>
  What a request leaves behind: the return value, the exception and the lists given to the
  handle that nothing has freed.  The body is put into the returned array without a reference
  of its own, and the cleanup then releases the only one.
\<close>

record http_reply =
  reply_value :: zval
  reply_exception :: "string option"
  reply_lists :: "curl_call list"

definition slists :: "curl_call list \<Rightarrow> curl_call list" where
  "slists cs = filter (\<lambda>(o1, v). case v of CL_List l \<Rightarrow> True | _ \<Rightarrow> False) cs"

definition http_finish :: "string \<Rightarrow> curl_call list \<Rightarrow> curl_run \<Rightarrow> http_reply" where
  "http_finish beyond calls run =
     (let left = filter (\<lambda>(o1, v). o1 \<noteq> ''CURLOPT_HTTPHEADER'') (slists calls) in
      case run_error run of
        Some e \<Rightarrow>
          \<lparr>reply_value = Z_False, reply_exception = Some (''cURL request failed: '' @ e),
           reply_lists = left\<rparr>
      | None \<Rightarrow>
          \<lparr>reply_value = Z_Array
             [(HStr ''status'', Z_Long (run_code run)),
              (HStr ''body'',
                 case collect_body (run_body run) of None \<Rightarrow> Z_String [] | Some s \<Rightarrow> Z_Freed),
              (HStr ''headers'',
                 Z_Array (parse_raw_headers_to_assoc_array
                   (collect_headers (run_headers run)) beyond []))],
           reply_exception = None, reply_lists = left\<rparr>)"

definition quicpro_http_request_send ::
    "zend_api \<Rightarrow> curl_api \<Rightarrow> string \<Rightarrow> string \<Rightarrow> string \<Rightarrow> php_array option \<Rightarrow> string option
      \<Rightarrow> php_array option \<Rightarrow> http_reply" where
  "quicpro_http_request_send Z C beyond url meth headers body opts =
     (if \<not> curl_easy_init C then
        \<lparr>reply_value = Z_False,
         reply_exception = Some ''Failed to initialize cURL handle for HTTP request.'',
         reply_lists = []\<rparr>
      else
        (let calls = request_calls Z url meth headers body opts
         in http_finish beyond calls (curl_easy_perform C calls)))"

section \<open>Lines\<close>

definition crlf :: string where
  "crlf = [CHR 0x0D, CHR 0x0A]"

lemma split_crlf_line [simp]: "CHR 0x0D \<notin> set l \<Longrightarrow> split_crlf (l @ crlf @ r) = Some (l, r)"
  by (induction l rule: induct_list012) (auto simp: crlf_def)

lemma header_lines_step:
  "CHR 0x0D \<notin> set l \<Longrightarrow> l \<noteq> [] \<Longrightarrow>
     header_lines_loop (l @ crlf @ r) arr = header_lines_loop r (add_header_line l arr)"
  by (subst header_lines_loop.simps) simp

lemma header_lines_all:
  "list_all (\<lambda>l. CHR 0x0D \<notin> set l \<and> l \<noteq> []) ls \<Longrightarrow>
     header_lines_loop (concat (map (\<lambda>l. l @ crlf) ls) @ r) arr
     = header_lines_loop r (fold add_header_line ls arr)"
  by (induction ls arbitrary: arr) (simp_all add: header_lines_step)

lemma header_lines_end: "split_crlf s = None \<Longrightarrow> header_lines_loop s arr = arr"
  by (subst header_lines_loop.simps) simp

text \<open>Once a status line has been seen, every line with contents is kept.\<close>

lemma collect_more:
  "first_line_parsed h \<Longrightarrow>
     fold (\<lambda>l h. fst (header_callback l h)) ls h
     = (if filter (\<lambda>l. l \<noteq> [] \<and> l \<noteq> crlf) ls = [] then h
        else h\<lparr>headers_buf := smart_str_appendl (headers_buf h)
                 (concat (filter (\<lambda>l. l \<noteq> [] \<and> l \<noteq> crlf) ls))\<rparr>)"
  by (induction ls arbitrary: h)
    (auto simp: header_callback_def crlf_def smart_str_appendl_def split: option.splits)

lemma collect_headers_status:
  assumes "take 5 st = ''HTTP/''"
  shows "collect_headers (st # ls)
           = (if filter (\<lambda>l. l \<noteq> [] \<and> l \<noteq> crlf) ls = [] then None
              else Some (concat (filter (\<lambda>l. l \<noteq> [] \<and> l \<noteq> crlf) ls)))"
proof -
  have "st \<noteq> []" using assms by auto
  with assms have "fst (header_callback st \<lparr>headers_buf = None, first_line_parsed = False\<rparr>)
      = \<lparr>headers_buf = None, first_line_parsed = True\<rparr>"
    by (simp add: header_callback_def)
  then show ?thesis by (simp add: collect_headers_def collect_more smart_str_appendl_def)
qed

section \<open>The headers of a response\<close>

text \<open>
  A transfer delivers one group of lines for every response it receives, a redirect included:
  a status line, the header lines and an empty line.
\<close>

type_synonym hop = "string \<times> (string \<times> string) list"

definition header_line :: "string \<times> string \<Rightarrow> string" where
  "header_line h = fst h @ '': '' @ snd h"

definition hop_lines :: "hop \<Rightarrow> string list" where
  "hop_lines h = map (\<lambda>l. l @ crlf) (fst h # map header_line (snd h)) @ [crlf]"

definition plain_text :: "string \<Rightarrow> bool" where
  "plain_text s \<longleftrightarrow> CHR 0x00 \<notin> set s \<and> CHR 0x0D \<notin> set s"

definition header_wf :: "string \<times> string \<Rightarrow> bool" where
  "header_wf h \<longleftrightarrow>
     plain_text (fst h) \<and> plain_text (snd h) \<and> CHR '':'' \<notin> set (fst h)
     \<and> (snd h \<noteq> [] \<longrightarrow> \<not> header_blank (List.hd (snd h)))
     \<and> symtable_key (map tolower (fst h)) = HStr (map tolower (fst h))"

definition hop_wf :: "hop \<Rightarrow> bool" where
  "hop_wf h \<longleftrightarrow>
     take 5 (fst h) = ''HTTP/'' \<and> plain_text (fst h) \<and> CHR '':'' \<notin> set (fst h)
     \<and> list_all header_wf (snd h)"

definition header_values :: "string \<Rightarrow> (string \<times> string) list \<Rightarrow> string list" where
  "header_values k hs = map snd (filter (\<lambda>h. map tolower (fst h) = k) hs)"

fun join_values :: "string list \<Rightarrow> string" where
  "join_values [] = []"
| "join_values [v] = v"
| "join_values (v # w # vs) = v @ '', '' @ join_values (w # vs)"

lemma join_values_snoc: "vs \<noteq> [] \<Longrightarrow> join_values (vs @ [v]) = join_values vs @ '', '' @ v"
  by (induction vs rule: join_values.induct) auto

lemma add_header_line_parts:
  assumes "header_wf h"
  shows "add_header_line (header_line h) arr =
           (let name = map tolower (fst h) in
            case ht_find arr (HStr name) of
              Some (Z_String old) \<Rightarrow> ht_update arr (HStr name) (Z_String (old @ '', '' @ snd h))
            | _ \<Rightarrow> ht_update arr (HStr name) (Z_String (snd h)))"
proof -
  have no: "\<forall>c \<in> set (fst h). c \<noteq> CHR '':''" and sy: "symtable_key (map tolower (fst h)) = HStr (map tolower (fst h))"
    using assms by (auto simp: header_wf_def)
  have d: "dropWhile header_blank (CHR '' '' # snd h) = snd h"
    using assms by (cases "snd h") (auto simp: header_wf_def header_blank_def)
  have l: "header_line h = fst h @ CHR '':'' # CHR '' '' # snd h" by (simp add: header_line_def)
  have t: "takeWhile (\<lambda>c. c \<noteq> CHR '':'') (header_line h) = fst h"
    unfolding l using no by (subst takeWhile_append2) auto
  have r: "drop 1 (dropWhile (\<lambda>c. c \<noteq> CHR '':'') (header_line h)) = CHR '' '' # snd h"
    unfolding l using no by (subst dropWhile_append2) auto
  have m: "CHR '':'' \<in> set (header_line h)" by (simp add: l)
  show ?thesis unfolding add_header_line_def t r d Let_def sy using m by simp
qed

definition headers_table :: "(string \<times> string) list \<Rightarrow> php_array" where
  "headers_table hs = fold (\<lambda>h. add_header_line (header_line h)) hs []"

lemma headers_table_find:
  "list_all header_wf hs \<Longrightarrow>
     ht_find (headers_table hs) (HStr k)
       = (if header_values k hs = [] then None
          else Some (Z_String (join_values (header_values k hs))))
     \<and> ht_find (headers_table hs) (HIdx i) = None"
proof (induction hs arbitrary: k rule: rev_induct)
  case Nil
  show ?case by (simp add: headers_table_def header_values_def)
next
  case (snoc h hs)
  have wf: "header_wf h" "list_all header_wf hs" using snoc.prems by auto
  have t: "headers_table (hs @ [h]) = add_header_line (header_line h) (headers_table hs)"
    by (simp add: headers_table_def)
  show ?case
    using snoc.IH [OF wf(2)] snoc.IH [OF wf(2), of "map tolower (fst h)"]
    unfolding t add_header_line_parts [OF wf(1)] Let_def
    by (auto simp: table_simps header_values_def join_values_snoc)
qed

lemma add_status_line: "CHR '':'' \<notin> set l \<Longrightarrow> add_header_line l arr = arr"
  by (simp add: add_header_line_def)

text \<open>The lines of later responses, in the buffer and in the table.\<close>

definition more_lines :: "hop list \<Rightarrow> string list" where
  "more_lines hops = concat (map (\<lambda>h. fst h # map header_line (snd h)) hops)"

lemma fold_more_lines:
  "list_all hop_wf hops \<Longrightarrow>
     fold add_header_line (more_lines hops) arr
     = fold (\<lambda>h. add_header_line (header_line h)) (concat (map snd hops)) arr"
  by (induction hops arbitrary: arr)
    (simp_all add: more_lines_def hop_wf_def add_status_line fold_map comp_def)

lemma header_line_plain:
  "header_wf h \<Longrightarrow> plain_text (header_line h) \<and> header_line h \<noteq> []"
  by (simp add: header_wf_def header_line_def plain_text_def)

lemma hop_status: "hop_wf h \<Longrightarrow> plain_text (fst h) \<and> fst h \<noteq> []"
  by (auto simp: hop_wf_def)

lemma more_lines_plain:
  "list_all hop_wf hops \<Longrightarrow> list_all (\<lambda>l. plain_text l \<and> l \<noteq> []) (more_lines hops)"
  by (induction hops)
    (auto simp: more_lines_def list_all_iff hop_status, (fastforce simp: hop_wf_def list_all_iff header_line_plain)+)

lemma kept_lines:
  "list_all (\<lambda>l. plain_text l \<and> l \<noteq> []) ls \<Longrightarrow>
     filter (\<lambda>l. l \<noteq> [] \<and> l \<noteq> crlf) (map (\<lambda>l. l @ crlf) ls @ [crlf]) = map (\<lambda>l. l @ crlf) ls"
  by (induction ls) (auto simp: crlf_def)

lemma hop_lines_more: "hop_lines h = map (\<lambda>l. l @ crlf) (more_lines [h]) @ [crlf]"
  by (simp add: hop_lines_def more_lines_def)

lemma more_lines_Cons: "more_lines (h # hops) = more_lines [h] @ more_lines hops"
  by (simp add: more_lines_def)

lemma kept_hops:
  "list_all hop_wf hops \<Longrightarrow>
     filter (\<lambda>l. l \<noteq> [] \<and> l \<noteq> crlf) (concat (map hop_lines hops))
     = map (\<lambda>l. l @ crlf) (more_lines hops)"
proof (induction hops)
  case (Cons h hops)
  have "list_all (\<lambda>l. plain_text l \<and> l \<noteq> []) (more_lines [h])"
    using Cons.prems by (intro more_lines_plain) simp
  note kept = kept_lines [OF this]
  have "filter (\<lambda>l. l \<noteq> [] \<and> l \<noteq> crlf) (concat (map hop_lines hops))
      = map (\<lambda>l. l @ crlf) (more_lines hops)" using Cons by simp
  with kept show ?case
    unfolding list.map concat.simps filter_append hop_lines_more more_lines_Cons [of h hops] map_append
    by simp
qed (simp add: more_lines_def)

lemma cstr_prefix: "CHR 0x00 \<notin> set s \<Longrightarrow> cstr (s @ t) = s @ cstr t"
  unfolding cstr_def by (subst takeWhile_append2) auto

lemma take_http_prefix: "take 5 s = ''HTTP/'' \<Longrightarrow> take 5 (s @ t) = ''HTTP/''"
  by (cases "length s < 5") auto

lemma lines_no_nul:
  "list_all (\<lambda>l. plain_text l \<and> l \<noteq> []) ls \<Longrightarrow> CHR 0x00 \<notin> set (concat (map (\<lambda>l. l @ crlf) ls))"
  by (induction ls) (simp_all add: plain_text_def crlf_def)

text \<open>The parsed table, whatever text follows the buffer up to the first NUL byte.\<close>

lemma parse_hops:
  assumes wf: "list_all hop_wf (h # hops)" and ne: "snd h \<noteq> [] \<or> hops \<noteq> []"
  shows "parse_raw_headers_to_assoc_array
           (collect_headers (concat (map hop_lines (h # hops)))) beyond []
         = header_lines_loop (cstr beyond) (headers_table (concat (map snd (h # hops))))"
proof -
  let ?ls = "map header_line (snd h) @ more_lines hops"
  have mf: "more_lines (h # hops) = fst h # ?ls" by (simp add: more_lines_def)
  have pl: "list_all (\<lambda>l. plain_text l \<and> l \<noteq> []) ?ls"
    using more_lines_plain [OF wf] by (simp add: mf)
  have st: "take 5 (fst h @ crlf) = ''HTTP/''"
    using wf by (intro take_http_prefix) (simp add: hop_wf_def)
  have co: "CHR '':'' \<notin> set (fst h)" using wf by (simp add: hop_wf_def)
  let ?rest = "map (\<lambda>l. l @ crlf) (map header_line (snd h)) @ [crlf] @ concat (map hop_lines hops)"
  have all: "concat (map hop_lines (h # hops)) = (fst h @ crlf) # ?rest"
    by (simp add: hop_lines_def)
  have "fst h @ crlf \<noteq> [] \<and> fst h @ crlf \<noteq> crlf" using hop_status [of h] wf by simp
  then have k: "filter (\<lambda>l. l \<noteq> [] \<and> l \<noteq> crlf) ?rest = map (\<lambda>l. l @ crlf) ?ls"
    using kept_hops [OF wf] unfolding all mf filter.simps by simp
  have ls: "?ls \<noteq> []" using ne by (cases hops) (auto simp: more_lines_def)
  have c: "collect_headers (concat (map hop_lines (h # hops)))
      = Some (concat (map (\<lambda>l. l @ crlf) ?ls))"
    unfolding all collect_headers_status [OF st] k using ls by simp
  have nul: "CHR 0x00 \<notin> set (concat (map (\<lambda>l. l @ crlf) ?ls))"
    by (rule lines_no_nul [OF pl])
  have "fold add_header_line ?ls [] = fold add_header_line (more_lines (h # hops)) []"
    by (simp add: mf add_status_line co)
  with fold_more_lines [OF wf] have
    "fold add_header_line ?ls [] = headers_table (concat (map snd (h # hops)))"
    by (simp add: headers_table_def)
  moreover have "list_all (\<lambda>l. CHR 0x0D \<notin> set l \<and> l \<noteq> []) ?ls"
    using pl by (rule list.pred_mono_strong) (simp add: plain_text_def)
  ultimately have "header_lines_loop (concat (map (\<lambda>l. l @ crlf) ?ls) @ cstr beyond) []
      = header_lines_loop (cstr beyond) (headers_table (concat (map snd (h # hops))))"
    using header_lines_all [of ?ls "cstr beyond" "[]"] by simp
  moreover have "concat (map (\<lambda>l. l @ crlf) ?ls) \<noteq> []" using ls by (cases ?ls) (auto simp: crlf_def)
  ultimately show ?thesis
    unfolding c parse_raw_headers_to_assoc_array_def option.case cstr_prefix [OF nul]
    by (simp only: if_False)
qed

lemma no_headers:
  assumes "list_all hop_wf hops" "hops = [] \<or> (\<exists>h. hops = [h] \<and> snd h = [])"
  shows "collect_headers (concat (map hop_lines hops)) = None"
proof (cases hops)
  case (Cons h r)
  then have "concat (map hop_lines hops) = (fst h @ crlf) # [crlf]"
    using assms(2) by (auto simp: hop_lines_def)
  moreover have "take 5 (fst h @ crlf) = ''HTTP/''"
    using assms(1) Cons by (intro take_http_prefix) (simp add: hop_wf_def)
  ultimately show ?thesis using collect_headers_status [of "fst h @ crlf" "[crlf]"] by simp
qed (simp add: collect_headers_def)



text \<open>
  The buffer is not terminated: a line in the memory behind it is read as a header of the
  response.
\<close>

theorem headers_read_beyond:
  assumes "list_all hop_wf (h # hops)" "snd h \<noteq> [] \<or> hops \<noteq> []" "header_wf x"
  shows "\<exists>v. ht_find (parse_raw_headers_to_assoc_array
               (collect_headers (concat (map hop_lines (h # hops))))
               (header_line x @ crlf @ CHR 0x00 # rest) []) (HStr (map tolower (fst x)))
             = Some (Z_String (v @ snd x))"
proof -
  have pl: "plain_text (header_line x)" "header_line x \<noteq> []" using header_line_plain [OF assms(3)] by auto
  then have nul: "CHR 0x00 \<notin> set (header_line x @ crlf)" by (simp add: plain_text_def crlf_def)
  have c: "cstr (header_line x @ crlf @ CHR 0x00 # rest) = header_line x @ crlf @ []"
    using cstr_prefix [OF nul, of "CHR 0x00 # rest"] by (simp add: cstr_def)
  have "header_lines_loop (header_line x @ crlf @ []) t = add_header_line (header_line x) t" for t
    using pl by (subst header_lines_step) (auto simp: plain_text_def header_lines_end)
  then show ?thesis
    unfolding parse_hops [OF assms(1,2)] c add_header_line_parts [OF assms(3)] Let_def
    by (auto simp: table_simps split: option.splits zval.splits)
qed

section \<open>The request\<close>

fun rule_options :: "option_rule \<Rightarrow> string list" where
  "rule_options (Opt_Choice cs d) = map fst (concat (map snd cs) @ d)"
| "rule_options (Opt_Long o1) = [o1]"
| "rule_options (Opt_String o1) = [o1]"
| "rule_options (Opt_True o1) = [o1]"
| "rule_options (Opt_False o1) = [o1]"
| "rule_options (Opt_List o1) = [o1]"

lemma option_calls_name:
  assumes "(o1, x) \<in> set (option_calls Z r v)"
  shows "o1 \<in> set (rule_options r)"
proof (cases r)
  case (Opt_Choice cs d)
  then obtain s where v: "v = Z_String s" using assms by (cases v) simp_all
  show ?thesis
  proof (cases "map_of cs s")
    case (Some calls)
    then have "(s, calls) \<in> set cs" "(o1, x) \<in> set calls"
      using assms Opt_Choice v by (simp_all add: map_of_SomeD)
    then show ?thesis using Opt_Choice by force
  next
    case None
    then have "(o1, x) \<in> set d" using assms Opt_Choice v by simp
    then show ?thesis using Opt_Choice by force
  qed
qed (use assms in \<open>cases v; simp split: if_splits\<close>)+

lemma only_rule:
  assumes "list_all (\<lambda>(k, r). o1 \<in> set (rule_options r) \<longrightarrow> (k, r) = (key, rule)) http_options"
    and "(key, rule) \<in> set http_options"
  shows "(o1, x) \<in> set (options_calls Z arr) \<longleftrightarrow>
     (\<exists>v. arr_find arr key = Some v \<and> (o1, x) \<in> set (option_calls Z rule v))"
proof
  assume "(o1, x) \<in> set (options_calls Z arr)"
  then obtain k r where kr: "(k, r) \<in> set http_options"
      "(o1, x) \<in> set (case arr_find arr k of None \<Rightarrow> [] | Some v \<Rightarrow> option_calls Z r v)"
    by (auto simp: options_calls_def)
  then obtain v where v: "arr_find arr k = Some v" "(o1, x) \<in> set (option_calls Z r v)"
    by (cases "arr_find arr k") simp_all
  have "(k, r) = (key, rule)" using assms(1) kr(1) option_calls_name [OF v(2)] by (auto simp: list_all_iff)
  with v show "\<exists>v. arr_find arr key = Some v \<and> (o1, x) \<in> set (option_calls Z rule v)" by auto
qed (use assms(2) in \<open>force simp: options_calls_def\<close>)

lemma verify_rules:
  "list_all (\<lambda>(k, r). ''CURLOPT_SSL_VERIFYPEER'' \<in> set (rule_options r) \<longrightarrow>
     (k, r) = (''verify_peer'', Opt_False ''CURLOPT_SSL_VERIFYPEER'')) http_options"
  "list_all (\<lambda>(k, r). ''CURLOPT_SSL_VERIFYHOST'' \<in> set (rule_options r) \<longrightarrow>
     (k, r) = (''verify_host'', Opt_False ''CURLOPT_SSL_VERIFYHOST'')) http_options"
  "(''verify_peer'', Opt_False ''CURLOPT_SSL_VERIFYPEER'') \<in> set http_options"
  "(''verify_host'', Opt_False ''CURLOPT_SSL_VERIFYHOST'') \<in> set http_options"
  by code_simp+


lemma collect_body_fold: "fold (\<lambda>c b. fst (write_callback c b)) cs (Some s) = Some (s @ concat cs)"
  by (induction cs arbitrary: s) (simp_all add: write_callback_def smart_str_appendl_def)

lemma collect_body_chunks: "collect_body cs = (if cs = [] then None else Some (concat cs))"
proof (cases cs)
  case (Cons c r)
  have "fst (write_callback c None) = Some c" by (simp add: write_callback_def smart_str_appendl_def)
  then show ?thesis by (simp add: collect_body_def collect_body_fold Cons)
qed (simp add: collect_body_def)

text \<open>
  A transfer that succeeds and delivers a body returns an array whose body has been
  released: the cleanup drops the only reference to the collected string.
\<close>

theorem response_body_released:
  assumes "curl_easy_init C"
    and "run_error (curl_easy_perform C (request_calls Z url meth headers body opts)) = None"
    and "run_body (curl_easy_perform C (request_calls Z url meth headers body opts)) \<noteq> []"
  shows "\<exists>arr. reply_value (quicpro_http_request_send Z C beyond url meth headers body opts) = Z_Array arr
           \<and> arr_find arr ''body'' = Some Z_Freed"
  using assms
  by (simp add: quicpro_http_request_send_def http_finish_def Let_def collect_body_chunks arr_find_def)

definition example_curl :: curl_api where
  "example_curl = \<lparr>curl_easy_init = True, curl_easy_perform = (\<lambda>calls.
     \<lparr>run_headers = [''HTTP/1.1 200 OK'' @ crlf], run_body = [''he'', ''llo''], run_code = 200,
      run_error = None\<rparr>)\<rparr>"

theorem response_body_released_witness:
  "\<forall>Z. \<exists>arr. reply_value (quicpro_http_request_send Z example_curl [] ''http://h/'' ''GET'' None None None)
     = Z_Array arr \<and> arr_find arr ''body'' = Some Z_Freed"
  using response_body_released [of example_curl _ "''http://h/''" "''GET''" None None None "[]"]
  by (simp add: example_curl_def)

text \<open>A list given with \<^verbatim>\<open>resolve_host\<close> is never freed.\<close>

theorem resolve_list_left:
  assumes "curl_easy_init C" "arr_find opts ''resolve_host'' = Some (Z_String s)"
  shows "(''CURLOPT_RESOLVE'', CL_List [cstr s]) \<in>
     set (reply_lists (quicpro_http_request_send Z C beyond url meth headers body (Some opts)))"
proof -
  have "(''resolve_host'', Opt_List ''CURLOPT_RESOLVE'') \<in> set http_options"
    by code_simp
  then have "(''CURLOPT_RESOLVE'', CL_List [cstr s]) \<in> set (options_calls Z opts)"
    using assms(2) by (force simp: options_calls_def)
  then show ?thesis using assms(1)
    by (simp add: quicpro_http_request_send_def http_finish_def Let_def slists_def request_calls_def split: option.split)
qed

end
