(* ===== verification/Ledger.thy ===== *)
theory Ledger
  imports Prelude "HOL-Library.Multiset"
begin

text \<open>
  Ownership of what C code allocates and opens.  A run of a function leaves a list of events; the
  ledger of the events says what is still held at the end, and is None when something is released
  that is not held: a double free or a second close.  The lemmas serve the functions that
  establish connections.
\<close>

datatype 'r event = Acquire 'r | Release 'r

fun ledger :: "'r event list \<Rightarrow> 'r multiset \<Rightarrow> 'r multiset option" where
  "ledger [] m = Some m"
| "ledger (Acquire r # es) m = ledger es (add_mset r m)"
| "ledger (Release r # es) m = (if r \<in># m then ledger es (m - {#r#}) else None)"

lemma ledger_append:
  "ledger (es @ fs) m = (case ledger es m of None \<Rightarrow> None | Some m' \<Rightarrow> ledger fs m')"
  by (induction es m rule: ledger.induct) simp_all

text \<open>What is held besides is not touched by a run that succeeds.\<close>

lemma ledger_frame: "ledger es m = Some m' \<Longrightarrow> ledger es (m + f) = Some (m' + f)"
proof (induction es m rule: ledger.induct)
  case (3 r es m)
  have r: "r \<in># m" using "3.prems" by (cases "r \<in># m") simp_all
  then obtain k where k: "m = add_mset r k" by (rule mset_add)
  have "ledger es (k + f) = Some (m' + f)" using "3.IH" [OF r] "3.prems" r by (simp add: k)
  then show ?case by (simp add: k)
qed simp_all

text \<open>Acquiring what is released again at once changes nothing.\<close>

lemma ledger_touch: "ledger (Acquire r # Release r # es) m = ledger es m"
  by simp

end
