(* ===== verification/Address_Search.thy ===== *)
theory Address_Search
  imports Number_Text Ledger
begin

text \<open>
  The search for an address that accepts a UDP socket, which \<^verbatim>\<open>src/extension/src/client/session.c\<close>,
  \<^verbatim>\<open>src/extension/src/connect/connect.c\<close> and \<^verbatim>\<open>src/extension/src/server/session.c\<close> share: the
  resources of a connection, the loops over the resolved addresses, the choice between the two
  families, and the port as text.  What the system calls return for an address is part of the
  list that the resolver yields.
\<close>

section \<open>Resources\<close>

datatype resource =
    Session_Mem | Addr_List | Socket int | Quic_Conn | H3_Config | H3_Conn | Quiche_Config nat

datatype family = AF_INET | AF_INET6 | AF_Other int

record candidate =
  ai_family :: family
  ai_addr :: string
  cand_socket :: int  \<comment> \<open>what \<^verbatim>\<open>socket\<close> returns\<close>
  cand_bind :: bool  \<comment> \<open>whether the socket can be bound to the interface\<close>
  cand_connect :: bool  \<comment> \<open>whether \<^verbatim>\<open>connect\<close> succeeds\<close>

section \<open>The loops\<close>

text \<open>
  The loop over the addresses of one family.  \<open>se\<close> and \<open>be\<close> are the exceptions that the helpers
  throw when a socket cannot be created or bound, before the loop goes on.
\<close>

fun try_family ::
    "'e list \<Rightarrow> 'e list \<Rightarrow> family \<Rightarrow> bool \<Rightarrow> candidate list
      \<Rightarrow> resource event list \<times> 'e list \<times> candidate option" where
  "try_family se be fam iface [] = ([], [], None)"
| "try_family se be fam iface (c # cs) =
     (let (ev, er, r) = try_family se be fam iface cs;
          fd = cand_socket c
      in if ai_family c \<noteq> fam then (ev, er, r)
         else if fd < 0 then (ev, se @ er, r)
         else if iface \<and> \<not> cand_bind c then (Acquire (Socket fd) # Release (Socket fd) # ev, be @ er, r)
         else if cand_connect c then ([Acquire (Socket fd)], [], Some c)
         else (Acquire (Socket fd) # Release (Socket fd) # ev, er, r))"

text \<open>The loop of \<^verbatim>\<open>server/session.c\<close>, over all addresses.\<close>

fun try_any :: "candidate list \<Rightarrow> resource event list \<times> 'e list \<times> candidate option" where
  "try_any [] = ([], [], None)"
| "try_any (c # cs) =
     (let (ev, er, r) = try_any cs; fd = cand_socket c
      in if fd < 0 then (ev, er, r)
         else if cand_connect c then ([Acquire (Socket fd)], [], Some c)
         else (Acquire (Socket fd) # Release (Socket fd) # ev, er, r))"

text \<open>IPv6 first when it is allowed, then IPv4 when it is allowed and nothing was found.\<close>

definition try_both ::
    "'e list \<Rightarrow> 'e list \<Rightarrow> bool \<Rightarrow> bool \<Rightarrow> bool \<Rightarrow> candidate list
      \<Rightarrow> resource event list \<times> 'e list \<times> candidate option" where
  "try_both se be try6 try4 iface cs =
     (let (ev6, er6, r6) = (if try6 then try_family se be AF_INET6 iface cs else ([], [], None));
          (ev4, er4, r4) = (if r6 = None \<and> try4 then try_family se be AF_INET iface cs
                            else ([], [], None))
      in (ev6 @ ev4, er6 @ er4, if r6 = None then r4 else r6))"

section \<open>The port\<close>

text \<open>\<^verbatim>\<open>snprintf\<close> with \<^verbatim>\<open>%ld\<close> into six bytes, the last of which is the terminator.\<close>

definition port_text :: "zend_long \<Rightarrow> string" where
  "port_text port = take 5 (long_text port)"

section \<open>What a search promises\<close>

text \<open>
  A search over addresses finds the first usable one, and holds nothing at the end but the
  socket of what it found.
\<close>

definition socket_of :: "candidate option \<Rightarrow> resource multiset" where
  "socket_of r = (case r of None \<Rightarrow> {#} | Some c \<Rightarrow> {#Socket (cand_socket c)#})"

locale address_search =
  fixes search :: "candidate list \<Rightarrow> resource event list \<times> 'e list \<times> candidate option"
    and usable :: "candidate \<Rightarrow> bool"
  assumes found: "snd (snd (search cs)) = find usable cs"
    and holds: "ledger (fst (search cs)) {#} = Some (socket_of (snd (snd (search cs))))"
    and opened: "usable c \<Longrightarrow> 0 \<le> cand_socket c"
begin

lemma search_frame:
  "search cs = (ev, er, r) \<Longrightarrow> ledger ev m = Some (m + socket_of r)"
  using ledger_frame [OF holds [of cs], of m] by (simp add: union_commute)

lemma search_found: "search cs = (ev, er, Some c) \<Longrightarrow> c \<in> set cs \<and> usable c \<and> 0 \<le> cand_socket c"
proof -
  assume "search cs = (ev, er, Some c)"
  then have "find usable cs = Some c" using found [of cs] by simp
  then show ?thesis using opened by (auto simp: find_Some_iff)
qed

lemma search_none: "search cs = (ev, er, None) \<Longrightarrow> c \<in> set cs \<Longrightarrow> \<not> usable c"
  using found [of cs] find_None_iff [of usable cs] by simp

end

definition usable :: "family \<Rightarrow> bool \<Rightarrow> candidate \<Rightarrow> bool" where
  "usable fam iface c \<longleftrightarrow>
     ai_family c = fam \<and> 0 \<le> cand_socket c \<and> (iface \<longrightarrow> cand_bind c) \<and> cand_connect c"

definition usable_any :: "candidate \<Rightarrow> bool" where
  "usable_any c \<longleftrightarrow> 0 \<le> cand_socket c \<and> cand_connect c"

interpretation fam: address_search "try_family se be f iface" "usable f iface"
  for se be f iface
proof
  fix cs
  show f: "snd (snd (try_family se be f iface cs)) = find (usable f iface) cs"
    by (induction cs) (auto simp: usable_def Let_def split: prod.splits)
  show "ledger (fst (try_family se be f iface cs)) {#}
      = Some (socket_of (snd (snd (try_family se be f iface cs))))"
    by (induction cs) (auto simp: socket_of_def Let_def split: prod.splits)
qed (simp add: usable_def)

interpretation any: address_search try_any usable_any
proof
  fix cs
  show "snd (snd (try_any cs)) = find usable_any cs"
    by (induction cs) (auto simp: usable_any_def Let_def split: prod.splits)
  show "ledger (fst (try_any cs)) {#} = Some (socket_of (snd (snd (try_any cs))))"
    by (induction cs) (auto simp: socket_of_def Let_def split: prod.splits)
qed (simp add: usable_any_def)

section \<open>The choice between the families\<close>

definition preferred :: "bool \<Rightarrow> bool \<Rightarrow> bool \<Rightarrow> candidate list \<Rightarrow> candidate option" where
  "preferred try6 try4 iface cs =
     (case if try6 then find (usable AF_INET6 iface) cs else None of
        Some c \<Rightarrow> Some c
      | None \<Rightarrow> if try4 then find (usable AF_INET iface) cs else None)"

lemma try_both_found: "snd (snd (try_both se be try6 try4 iface cs)) = preferred try6 try4 iface cs"
  using fam.found [of se be AF_INET iface cs] fam.found [of se be AF_INET6 iface cs]
  by (auto simp: try_both_def preferred_def split: prod.splits option.splits)

lemma try_both_ledger:
  assumes "try_both se be try6 try4 iface cs = (ev, er, r)"
  shows "ledger ev m = Some (m + socket_of r)"
proof (cases "try_family se be AF_INET6 iface cs")
  case (fields ev6 er6 r6)
  obtain ev4 er4 r4 where f4: "try_family se be AF_INET iface cs = (ev4, er4, r4)"
    by (cases "try_family se be AF_INET iface cs")
  note fr6 = fam.search_frame [OF fields, of m] and fr4 = fam.search_frame [OF f4]
  show ?thesis
    using assms fr6 fr4 [of m] fr4 [of "m + socket_of r6"]
    by (auto simp: try_both_def fields f4 Let_def ledger_append socket_of_def split: if_splits)
qed

lemma preferred_socket: "preferred try6 try4 iface cs = Some c \<Longrightarrow> 0 \<le> cand_socket c"
  by (auto simp: preferred_def find_Some_iff usable_def split: option.splits if_splits)

section \<open>The text of the port\<close>

text \<open>A port keeps its value in the buffer exactly when it has at most five digits.\<close>

lemma port_text_value:
  assumes "0 \<le> sint port"
  shows "decimal_value (port_text port) = sint port \<longleftrightarrow> sint port < 100000"
proof -
  let ?n = "nat (sint port)"
  have t: "port_text port = take 5 (nat_text ?n)" using assms by (simp add: port_text_def long_text_def)
  have len: "length (nat_text ?n) \<le> 5 \<longleftrightarrow> ?n < 100000" using nat_text_length [of ?n 4] by simp
  show ?thesis
  proof (cases "?n < 100000")
    case True
    then show ?thesis using len assms by (simp add: t decimal_value_text)
  next
    case False
    with len obtain j where "take 5 (nat_text ?n) = nat_text (?n div 10 ^ Suc j)"
      using nat_text_take [of 5 ?n] by auto
    moreover have "?n div 10 ^ Suc j < ?n" using False one_less_power [of "10::nat" "Suc j"] by (intro div_less_dividend) simp_all
    then have "int (?n div 10 ^ Suc j) \<noteq> sint port" using assms by linarith
    ultimately show ?thesis using False assms by (simp add: t decimal_value_text del: power_Suc)
  qed
qed

end
