(* ===== verification/Client_Session.thy ===== *)
theory Client_Session
  imports Zend Address_Search "HOL-Library.Monad_Syntax"
begin

text \<open>
  The client sessions of \<^verbatim>\<open>src/extension/src/client/session.c\<close>: establishing a connection, driving
  it, closing it, and the datagram functions.  quiche is a record of functions on an abstract
  connection state; the packets that arrive, the results of \<^verbatim>\<open>sendto\<close> and the address resolution are
  arguments.
\<close>

section \<open>State\<close>

record 'c quiche_api =
  quiche_connect :: "string \<Rightarrow> string \<Rightarrow> candidate \<Rightarrow> 'c option"
  quiche_h3_config_new :: bool
  quiche_h3_conn_new_with_transport :: "'c \<Rightarrow> bool"
  quiche_conn_recv :: "'c \<Rightarrow> string \<Rightarrow> string \<Rightarrow> 'c \<times> int"
  quiche_conn_on_timeout :: "'c \<Rightarrow> 'c"
  quiche_conn_send :: "'c \<Rightarrow> nat \<Rightarrow> 'c \<times> (int + string \<times> string)"
  quiche_conn_is_closed :: "'c \<Rightarrow> bool"
  quiche_conn_is_draining :: "'c \<Rightarrow> bool"
  quiche_conn_is_established :: "'c \<Rightarrow> bool"
  quiche_conn_close :: "'c \<Rightarrow> bool \<Rightarrow> u64 \<Rightarrow> string \<Rightarrow> 'c"
  quiche_session_next_crypto_stream :: "'c \<Rightarrow> u64 option"

definition QUICHE_ERR_DONE :: int where
  "QUICHE_ERR_DONE = -1"

record 'c quicpro_session_t =
  sock :: int
  conn :: "'c option"
  host :: string
  scid :: string
  numa_node :: "32 word"
  ts_enabled :: bool
  last_rx_ts :: "string option"
  is_closed :: bool

datatype session_error =
    Config_Invalid | Host_Too_Long | Dns_Failed int | Socket_Failed | Bind_Failed | No_Address
  | Quic_Connect_Failed | H3_Config_Failed | H3_Conn_Failed | Read_Failed | Packet_Failed int
  | Send_Failed | Partial_Send | Bad_Buffer_Size | Bad_Ip | Recv_Failed int | Wrong_Arg_Count
  | Timestamps_Failed

section \<open>Connecting\<close>

record 'c connect_run =
  run_events :: "resource event list"
  run_errors :: "session_error list"
  run_session :: "'c quicpro_session_t option"

definition family_option :: "php_array option \<Rightarrow> string option" where
  "family_option opts =
     (case opts of
        None \<Rightarrow> None
      | Some arr \<Rightarrow> (case arr_find arr ''preferred_ip_family'' of Some (Z_String s) \<Rightarrow> Some s | _ \<Rightarrow> None))"

definition interface_option :: "php_array option \<Rightarrow> bool" where
  "interface_option opts =
     (case opts of
        None \<Rightarrow> False
      | Some arr \<Rightarrow> (case arr_find arr ''interface'' of Some (Z_String s) \<Rightarrow> s \<noteq> [] | _ \<Rightarrow> False))"

definition allows :: "string \<Rightarrow> string option \<Rightarrow> bool" where
  "allows fam preferred_ip_family \<longleftrightarrow>
     preferred_ip_family = None \<or> preferred_ip_family = Some ''auto'' \<or> preferred_ip_family = Some fam"

text \<open>
  What follows once an address is found: the session \<open>s\<close> has its socket, \<open>start\<close> are the events and \<open>er\<close> the
  exceptions so far.
\<close>

definition session_attach ::
    "'c quiche_api \<Rightarrow> resource event list \<Rightarrow> session_error list \<Rightarrow> 'c quicpro_session_t \<Rightarrow> candidate
      \<Rightarrow> 'c connect_run" where
  "session_attach Q start er s ai =
     (case quiche_connect Q (host s) (scid s) ai of
        None \<Rightarrow>
          \<lparr>run_events = start @ [Release (Socket (sock s)), Release Session_Mem],
           run_errors = er @ [Quic_Connect_Failed], run_session = None\<rparr>
      | Some c \<Rightarrow>
          (let start = start @ [Acquire Quic_Conn] in
           if \<not> quiche_h3_config_new Q then
             \<lparr>run_events = start @ [Release Quic_Conn, Release (Socket (sock s)), Release Session_Mem],
              run_errors = er @ [H3_Config_Failed], run_session = None\<rparr>
           else if \<not> quiche_h3_conn_new_with_transport Q c then
             \<lparr>run_events = start @ [Acquire H3_Config, Release H3_Config,
                Release Quic_Conn, Release (Socket (sock s)), Release Session_Mem],
              run_errors = er @ [H3_Conn_Failed], run_session = None\<rparr>
           else
             \<lparr>run_events = start @ [Acquire H3_Config, Acquire H3_Conn],
              run_errors = er, run_session = Some (s\<lparr>conn := Some c\<rparr>)\<rparr>))"

text \<open>
  The function: \<open>host_size\<close> is the size of the host buffer, \<open>cfg\<close> whether the configuration resource is
  valid and has a quiche configuration, \<open>random\<close> the bytes of the connection ID.
\<close>

definition quicpro_client_session_connect ::
    "'c quiche_api \<Rightarrow> (string \<Rightarrow> string \<Rightarrow> int + candidate list) \<Rightarrow> nat \<Rightarrow> string \<Rightarrow> string \<Rightarrow> zend_long
      \<Rightarrow> bool \<Rightarrow> zend_long \<Rightarrow> php_array option \<Rightarrow> 'c connect_run" where
  "quicpro_client_session_connect Q getaddrinfo host_size random host_str port cfg numa opts =
     (if \<not> cfg then \<lparr>run_events = [], run_errors = [Config_Invalid], run_session = None\<rparr>
      else if length host_str \<ge> host_size then
        \<lparr>run_events = [Acquire Session_Mem, Release Session_Mem], run_errors = [Host_Too_Long],
         run_session = None\<rparr>
      else
        (case getaddrinfo (cstr host_str) (port_text port) of
           Inl status \<Rightarrow>
             \<lparr>run_events = [Acquire Session_Mem, Release Session_Mem], run_errors = [Dns_Failed status],
              run_session = None\<rparr>
         | Inr ai_list \<Rightarrow>
             (let fam = family_option opts;
                  (ev, er, found) = try_both [Socket_Failed] [Bind_Failed] (allows ''ipv6'' fam)
                                      (allows ''ipv4'' fam) (interface_option opts) ai_list;
                  start = [Acquire Session_Mem, Acquire Addr_List] @ ev
              in case found of
                   None \<Rightarrow>
                     \<lparr>run_events = start @ [Release Addr_List, Release Session_Mem],
                      run_errors = er @ [No_Address], run_session = None\<rparr>
                 | Some ai \<Rightarrow>
                     session_attach Q (start @ [Release Addr_List]) er
                       \<lparr>sock = cand_socket ai, conn = None, host = cstr host_str, scid = random,
                        numa_node = ucast numa, ts_enabled = False, last_rx_ts = None, is_closed = False\<rparr>
                       ai)))"

section \<open>Driving a session\<close>

text \<open>
  What \<^verbatim>\<open>recvmsg\<close> yields until it would block: a datagram with its sender and the kernel timestamp
  among its control messages, a datagram without contents, or an error.
\<close>

datatype recv_result = Recv_Data string string "string option" | Recv_Empty | Recv_Error

fun recv_loop ::
    "'c quiche_api \<Rightarrow> recv_result list \<Rightarrow> 'c \<Rightarrow> bool \<Rightarrow> string option
      \<Rightarrow> 'c \<times> string option \<times> session_error option" where
  "recv_loop Q [] c ts prev = (c, prev, None)"
| "recv_loop Q (Recv_Error # rs) c ts prev = (c, prev, Some Read_Failed)"
| "recv_loop Q (Recv_Empty # rs) c ts prev = (c, prev, None)"
| "recv_loop Q (Recv_Data buf from stamp # rs) c ts prev =
     recv_loop Q rs (fst (quiche_conn_recv Q c buf from)) ts
       (if ts then (case stamp of None \<Rightarrow> prev | Some t \<Rightarrow> Some t) else prev)"

datatype send_status = Sent_All | Would_Block | Send_Err | Sent_Part

partial_function (option) send_loop ::
    "'c quiche_api \<Rightarrow> nat \<Rightarrow> ((string \<times> string) list \<Rightarrow> send_status) \<Rightarrow> 'c \<Rightarrow> (string \<times> string) list
      \<Rightarrow> ('c \<times> (string \<times> string) list \<times> session_error option) option" where
  "send_loop Q packet_size sendto c sent =
     (case quiche_conn_send Q c packet_size of
        (c1, Inl e) \<Rightarrow>
          Some (c1, sent, if e = QUICHE_ERR_DONE then None else Some (Packet_Failed e))
      | (c1, Inr d) \<Rightarrow>
          (case sendto (sent @ [d]) of
             Would_Block \<Rightarrow> Some (c1, sent, None)
           | Send_Err \<Rightarrow> Some (c1, sent, Some Send_Failed)
           | Sent_Part \<Rightarrow> Some (c1, sent, Some Partial_Send)
           | Sent_All \<Rightarrow> send_loop Q packet_size sendto c1 (sent @ [d])))"

text \<open>
  A call of an operation: the return value, the session, the datagrams it put on the network and
  the exceptions.  None is a call that does not return.
\<close>

record 'c op_run =
  op_ret :: zval
  op_session :: "'c quicpro_session_t"
  op_sent :: "(string \<times> string) list"
  op_errors :: "session_error list"

definition op_false :: "'c quicpro_session_t \<Rightarrow> session_error list \<Rightarrow> 'c op_run" where
  "op_false s es = \<lparr>op_ret = Z_False, op_session = s, op_sent = [], op_errors = es\<rparr>"

text \<open>
  The advance that the caller passes is not given to quiche: the timers run off its own clock.
\<close>

definition quicpro_client_session_tick ::
    "'c quiche_api \<Rightarrow> nat \<Rightarrow> recv_result list \<Rightarrow> ((string \<times> string) list \<Rightarrow> send_status)
      \<Rightarrow> 'c quicpro_session_t \<Rightarrow> 'c op_run option" where
  "quicpro_client_session_tick Q packet_size arrived sendto s =
     (case conn s of
        None \<Rightarrow> Some (op_false s [])
      | Some c \<Rightarrow>
          if is_closed s then Some (op_false s [])
          else
            (let (c1, prev, err) = recv_loop Q arrived c (ts_enabled s) (last_rx_ts s);
                 s1 = s\<lparr>conn := Some c1, last_rx_ts := prev\<rparr>
             in case err of
                  Some e \<Rightarrow> Some (op_false s1 [e])
                | None \<Rightarrow>
                    do {
                      (c2, sent, err) \<leftarrow>
                        send_loop Q packet_size sendto (quiche_conn_on_timeout Q c1) [];
                      let s2 = s1\<lparr>conn := Some c2\<rparr>;
                      Some (case err of
                          Some e \<Rightarrow> \<lparr>op_ret = Z_False, op_session = s2, op_sent = sent, op_errors = [e]\<rparr>
                        | None \<Rightarrow>
                            if quiche_conn_is_closed Q c2 \<or> quiche_conn_is_draining Q c2
                            then \<lparr>op_ret = Z_False, op_session = s2\<lparr>is_closed := True\<rparr>,
                                  op_sent = sent, op_errors = []\<rparr>
                            else \<lparr>op_ret = Z_True, op_session = s2, op_sent = sent, op_errors = []\<rparr>)
                    }))"

section \<open>Closing and the datagram functions\<close>

text \<open>The function closes the connection, marks the session and then ticks it.\<close>

definition quicpro_client_session_close ::
    "'c quiche_api \<Rightarrow> nat \<Rightarrow> recv_result list \<Rightarrow> ((string \<times> string) list \<Rightarrow> send_status)
      \<Rightarrow> bool \<Rightarrow> zend_long \<Rightarrow> string option \<Rightarrow> 'c quicpro_session_t \<Rightarrow> 'c op_run option" where
  "quicpro_client_session_close Q packet_size arrived sendto application_close error_code reason s =
     (case conn s of
        None \<Rightarrow> Some (op_false s [])
      | Some c \<Rightarrow>
          if is_closed s then Some (op_false s [])
          else
            do {
              let c1 = quiche_conn_close Q c application_close error_code
                         (case reason of None \<Rightarrow> [] | Some r \<Rightarrow> r);
              t \<leftarrow> quicpro_client_session_tick Q packet_size arrived sendto
                    (s\<lparr>conn := Some c1, is_closed := True\<rparr>);
              Some (t\<lparr>op_ret := Z_True\<rparr>)
            })"

text \<open>The datagram that is fetched is returned in the buffer argument, beside the length.\<close>

definition quicpro_client_session_fetch_datagram ::
    "'c quiche_api \<Rightarrow> zend_long \<Rightarrow> 'c quicpro_session_t \<Rightarrow> 'c op_run \<times> string option" where
  "quicpro_client_session_fetch_datagram Q buffer_size s =
     (case conn s of
        None \<Rightarrow> (op_false s [], None)
      | Some c \<Rightarrow>
          if is_closed s then (op_false s [], None)
          else if buffer_size \<le>s 0 then (op_false s [Bad_Buffer_Size], None)
          else
            (case quiche_conn_send Q c (unat buffer_size) of
               (c1, Inl e) \<Rightarrow>
                 (if e = QUICHE_ERR_DONE
                  then \<lparr>op_ret = Z_Long 0, op_session = s\<lparr>conn := Some c1\<rparr>, op_sent = [], op_errors = []\<rparr>
                  else op_false (s\<lparr>conn := Some c1\<rparr>) [Packet_Failed e], None)
             | (c1, Inr (d, to)) \<Rightarrow>
                 (\<lparr>op_ret = Z_Long (of_nat (length d)), op_session = s\<lparr>conn := Some c1\<rparr>, op_sent = [],
                   op_errors = []\<rparr>, Some d)))"

text \<open>
  The function asks the engine for five arguments and reads four; \<open>inet_pton\<close> is an argument.
\<close>

definition quicpro_client_session_ingest_datagram ::
    "'c quiche_api \<Rightarrow> (family \<Rightarrow> string \<Rightarrow> string option) \<Rightarrow> nat \<Rightarrow> string \<Rightarrow> string \<Rightarrow> zend_long
      \<Rightarrow> 'c quicpro_session_t \<Rightarrow> 'c op_run" where
  "quicpro_client_session_ingest_datagram Q inet_pton nargs packet ip port s =
     (if nargs \<noteq> 5 then op_false s [Wrong_Arg_Count]
      else
        (case conn s of
           None \<Rightarrow> op_false s []
         | Some c \<Rightarrow>
             if is_closed s then op_false s []
             else
               (let fam = (if CHR '':'' \<in> set (cstr ip) then AF_INET6 else AF_INET) in
                case inet_pton fam (cstr ip) of
                  None \<Rightarrow> op_false s [Bad_Ip]
                | Some addr \<Rightarrow>
                    (let (c1, ret) = quiche_conn_recv Q c packet addr;
                         s1 = s\<lparr>conn := Some c1\<rparr>
                     in if ret < 0 \<and> ret \<noteq> QUICHE_ERR_DONE then op_false s1 [Recv_Failed ret]
                        else \<lparr>op_ret = Z_True, op_session = s1, op_sent = [], op_errors = []\<rparr>))))"

definition quicpro_client_session_next_crypto_stream ::
    "'c quiche_api \<Rightarrow> 'c quicpro_session_t \<Rightarrow> 'c op_run \<times> zend_long option" where
  "quicpro_client_session_next_crypto_stream Q s =
     (case conn s of
        None \<Rightarrow> (op_false s [], None)
      | Some c \<Rightarrow>
          if is_closed s then (op_false s [], None)
          else
            (case quiche_session_next_crypto_stream Q c of
               None \<Rightarrow> (op_false s [], None)
             | Some sid \<Rightarrow>
                 (\<lparr>op_ret = Z_True, op_session = s, op_sent = [], op_errors = []\<rparr>, Some sid)))"

definition quicpro_client_session_is_established ::
    "'c quiche_api \<Rightarrow> 'c quicpro_session_t \<Rightarrow> 'c op_run" where
  "quicpro_client_session_is_established Q s =
     (case conn s of
        None \<Rightarrow> op_false s []
      | Some c \<Rightarrow>
          if is_closed s then op_false s []
          else \<lparr>op_ret = (if quiche_conn_is_established Q c then Z_True else Z_False), op_session = s,
                op_sent = [], op_errors = []\<rparr>)"

definition quicpro_client_session_enable_kernel_timestamps ::
    "bool \<Rightarrow> 'c quicpro_session_t \<Rightarrow> 'c op_run" where
  "quicpro_client_session_enable_kernel_timestamps setsockopt_ok s =
     (if sock s < 0 \<or> is_closed s then op_false s [Timestamps_Failed]
      else if ts_enabled s then \<lparr>op_ret = Z_True, op_session = s, op_sent = [], op_errors = []\<rparr>
      else if setsockopt_ok
      then \<lparr>op_ret = Z_True, op_session = s\<lparr>ts_enabled := True\<rparr>, op_sent = [], op_errors = []\<rparr>
      else op_false s [Timestamps_Failed])"

section \<open>What a connect owns\<close>

definition session_resources :: "'c quicpro_session_t option \<Rightarrow> resource multiset" where
  "session_resources r =
     (case r of None \<Rightarrow> {#}
      | Some s \<Rightarrow> {#Session_Mem, Socket (sock s), Quic_Conn, H3_Config, H3_Conn#})"

text \<open>
  C4: Whatever the resolver, the sockets and quiche return, a connect releases nothing that it
  does not hold; on every failure it holds nothing at the end, and a session it returns owns its
  memory, the socket of the chosen address, the connection and both HTTP/3 objects, and no more.
\<close>

theorem client_connect_owns:
  "ledger (run_events (quicpro_client_session_connect Q gai host_size random host_str port cfg numa opts)) {#}
     = Some (session_resources
         (run_session (quicpro_client_session_connect Q gai host_size random host_str port cfg numa opts)))"
proof (cases "gai (cstr host_str) (port_text port)")
  case (Inr cs)
  let ?fam = "family_option opts"
  obtain ev er found where t: "try_both [Socket_Failed] [Bind_Failed] (allows ''ipv6'' ?fam)
      (allows ''ipv4'' ?fam) (interface_option opts) cs = (ev, er, found)"
    by (meson prod_cases3)
  note l = try_both_ledger [OF t, of "{#Addr_List, Session_Mem#}"]
  show ?thesis
    unfolding quicpro_client_session_connect_def session_attach_def Inr Let_def t sum.case prod.case
    using l by (cases found; cases "quiche_connect Q (cstr host_str) random (the found)")
      (simp_all add: session_resources_def socket_of_def ledger_append)
qed (simp add: quicpro_client_session_connect_def session_resources_def)

text \<open>
  A connect returns a session exactly when the configuration is valid, the host name fits, the
  resolver answers, one of the addresses of the allowed families is usable, and quiche sets the
  connection up; the session then uses the first usable IPv6 address, or else the first usable
  IPv4 address, and the connection made for it.
\<close>

theorem client_connect_exact:
  "run_session (quicpro_client_session_connect Q gai host_size random host_str port cfg numa opts) = Some s
   \<longleftrightarrow>
   cfg \<and> length host_str < host_size \<and> quiche_h3_config_new Q
   \<and> (\<exists>cs ai c. gai (cstr host_str) (port_text port) = Inr cs
        \<and> preferred (allows ''ipv6'' (family_option opts)) (allows ''ipv4'' (family_option opts))
            (interface_option opts) cs = Some ai
        \<and> quiche_connect Q (cstr host_str) random ai = Some c
        \<and> quiche_h3_conn_new_with_transport Q c
        \<and> s = \<lparr>sock = cand_socket ai, conn = Some c, host = cstr host_str, scid = random,
              numa_node = ucast numa, ts_enabled = False, last_rx_ts = None, is_closed = False\<rparr>)"
proof (cases "gai (cstr host_str) (port_text port)")
  case (Inr cs)
  let ?fam = "family_option opts"
  obtain ev er found where t: "try_both [Socket_Failed] [Bind_Failed] (allows ''ipv6'' ?fam)
      (allows ''ipv4'' ?fam) (interface_option opts) cs = (ev, er, found)"
    by (meson prod_cases3)
  then have p: "preferred (allows ''ipv6'' ?fam) (allows ''ipv4'' ?fam) (interface_option opts) cs = found"
    using try_both_found [of "[Socket_Failed]" "[Bind_Failed]" "allows ''ipv6'' ?fam" "allows ''ipv4'' ?fam"
        "interface_option opts" cs] by simp
  show ?thesis
    unfolding quicpro_client_session_connect_def session_attach_def Inr Let_def t sum.case prod.case
    by (cases found; cases "quiche_connect Q (cstr host_str) random (the found)") (auto simp: p)
qed (simp add: quicpro_client_session_connect_def)

section \<open>A tick\<close>

text \<open>The datagrams that quiche has ready, in the order it hands them out.\<close>

inductive produces :: "'c quiche_api \<Rightarrow> nat \<Rightarrow> 'c \<Rightarrow> (string \<times> string) list \<Rightarrow> 'c \<Rightarrow> bool" for Q n where
  produces_none: "produces Q n c [] c"
| produces_more: "quiche_conn_send Q c n = (c1, Inr d) \<Longrightarrow> produces Q n c1 ds c2 \<Longrightarrow> produces Q n c (d # ds) c2"

lemma send_loop_returns:
  assumes dec: "\<And>c c1 d. quiche_conn_send Q c n = (c1, Inr d) \<Longrightarrow> rank c1 < (rank c :: nat)"
  shows "\<exists>c2 ds c3 err. send_loop Q n sendto c sent = Some (c2, sent @ ds, err)
           \<and> produces Q n c ds c3 \<and> c2 = fst (quiche_conn_send Q c3 n)"
proof (induction "rank c" arbitrary: c sent rule: less_induct)
  case less
  obtain c1 x where q: "quiche_conn_send Q c n = (c1, x)" by (cases "quiche_conn_send Q c n")
  show ?case
  proof (cases "\<exists>d. x = Inr d \<and> sendto (sent @ [d]) = Sent_All")
    case True
    then obtain d where d: "x = Inr d" "sendto (sent @ [d]) = Sent_All" by auto
    from less [OF dec [OF q [unfolded d(1)]], of "sent @ [d]"] obtain c2 ds c3 err where
      "send_loop Q n sendto c1 ((sent @ [d])) = Some (c2, (sent @ [d]) @ ds, err)"
      "produces Q n c1 ds c3" "c2 = fst (quiche_conn_send Q c3 n)" by blast
    then show ?thesis
      by (intro exI [of _ c2] exI [of _ "d # ds"] exI [of _ c3] exI [of _ err])
        (simp add: send_loop.simps [of Q n sendto c] q d produces_more [OF q [unfolded d(1)]])
  next
    case False
    then have "\<exists>err. send_loop Q n sendto c sent = Some (c1, sent, err)"
      by (subst send_loop.simps) (auto simp: q split: sum.splits send_status.splits)
    then obtain err where "send_loop Q n sendto c sent = Some (c1, sent, err)" by auto
    then show ?thesis
      by (intro exI [of _ c1] exI [of _ "[]"] exI [of _ c] exI [of _ err]) (simp add: q produces_none)
  qed
qed

text \<open>
  C19: When every datagram that quiche hands out leaves it with fewer to send, a tick of an open
  session returns.  It puts the datagrams on the network in quiche's order, without a gap, and it
  reports success exactly when nothing failed and the session is still open.
\<close>

theorem tick_returns:
  assumes "\<forall>c c1 d. quiche_conn_send Q c n = (c1, Inr d) \<longrightarrow> rank c1 < (rank c :: nat)"
    and "conn s = Some cn" "\<not> is_closed s"
  shows "\<exists>r. quicpro_client_session_tick Q n arrived sendto s = Some r
    \<and> (op_ret r = Z_True \<longleftrightarrow> op_errors r = [] \<and> \<not> is_closed (op_session r))
    \<and> (op_sent r = [] \<or> (\<exists>c3. produces Q n
         (quiche_conn_on_timeout Q (fst (recv_loop Q arrived cn (ts_enabled s) (last_rx_ts s)))) (op_sent r) c3))"
proof -
  obtain c1 prev err where l: "recv_loop Q arrived cn (ts_enabled s) (last_rx_ts s) = (c1, prev, err)"
    by (meson prod_cases3)
  obtain c2 ds c3 err2 where sl:
    "send_loop Q n sendto (quiche_conn_on_timeout Q c1) [] = Some (c2, ds, err2)"
    "produces Q n (quiche_conn_on_timeout Q c1) ds c3"
    using send_loop_returns [where Q = Q and n = n and rank = rank and sendto = sendto and sent = "[]"
        and c = "quiche_conn_on_timeout Q c1"] assms(1) by fastforce
  show ?thesis
    unfolding quicpro_client_session_tick_def using assms(2,3) sl
    by (cases err; cases err2) (auto simp: l op_false_def Let_def)
qed

text \<open>A connection that is the queue of its datagrams.\<close>

definition queue_quiche :: "(string \<times> string) list quiche_api" where
  "queue_quiche = \<lparr>quiche_connect = (\<lambda>h i a. Some [(''hello'', ai_addr a)]),
     quiche_h3_config_new = True, quiche_h3_conn_new_with_transport = (\<lambda>c. True),
     quiche_conn_recv = (\<lambda>c d from. (c @ [(''ack'', from)], 0)), quiche_conn_on_timeout = (\<lambda>c. c),
     quiche_conn_send = (\<lambda>c n. case c of [] \<Rightarrow> ([], Inl (-1)) | d # ds \<Rightarrow> (ds, Inr d)),
     quiche_conn_is_closed = (\<lambda>c. False), quiche_conn_is_draining = (\<lambda>c. False),
     quiche_conn_is_established = (\<lambda>c. True),
     quiche_conn_close = (\<lambda>c app code reason. c @ [(''bye'' @ reason, [])]),
     quiche_session_next_crypto_stream = (\<lambda>c. None)\<rparr>"

definition queue_session :: "(string \<times> string) list quicpro_session_t" where
  "queue_session = \<lparr>sock = 3, conn = Some [(''hello'', ''a'')], host = ''h'', scid = [], numa_node = 0,
     ts_enabled = False, last_rx_ts = None, is_closed = False\<rparr>"

theorem tick_returns_witness:
  "\<exists>r. quicpro_client_session_tick queue_quiche 1350 [Recv_Data ''x'' ''b'' None] (\<lambda>ds. Sent_All)
         queue_session = Some r
     \<and> (op_ret r = Z_True \<longleftrightarrow> op_errors r = [] \<and> \<not> is_closed (op_session r))"
proof -
  have r: "\<forall>c c1 d. quiche_conn_send queue_quiche c 1350 = (c1, Inr d) \<longrightarrow> length c1 < length c"
    by (auto simp: queue_quiche_def split: list.splits)
  show ?thesis
    using tick_returns [where Q = queue_quiche and n = 1350 and rank = length and s = queue_session
        and cn = "[(''hello'', ''a'')]" and arrived = "[Recv_Data ''x'' ''b'' None]"
        and sendto = "\<lambda>ds. Sent_All", OF r]
    by (auto simp: queue_session_def)
qed

section \<open>Closing\<close>

datatype session_op =
    Op_Tick "recv_result list"
  | Op_Close bool zend_long "string option"
  | Op_Fetch zend_long
  | Op_Ingest nat string string zend_long
  | Op_Next_Crypto
  | Op_Is_Established
  | Op_Timestamps bool

fun session_step ::
    "'c quiche_api \<Rightarrow> nat \<Rightarrow> ((string \<times> string) list \<Rightarrow> send_status) \<Rightarrow> (family \<Rightarrow> string \<Rightarrow> string option)
      \<Rightarrow> session_op \<Rightarrow> 'c quicpro_session_t \<Rightarrow> 'c op_run option" where
  "session_step Q n sendto pton (Op_Tick arrived) s = quicpro_client_session_tick Q n arrived sendto s"
| "session_step Q n sendto pton (Op_Close app code reason) s =
     quicpro_client_session_close Q n [] sendto app code reason s"
| "session_step Q n sendto pton (Op_Fetch size1) s = Some (fst (quicpro_client_session_fetch_datagram Q size1 s))"
| "session_step Q n sendto pton (Op_Ingest nargs packet ip port) s =
     Some (quicpro_client_session_ingest_datagram Q pton nargs packet ip port s)"
| "session_step Q n sendto pton Op_Next_Crypto s = Some (fst (quicpro_client_session_next_crypto_stream Q s))"
| "session_step Q n sendto pton Op_Is_Established s = Some (quicpro_client_session_is_established Q s)"
| "session_step Q n sendto pton (Op_Timestamps ok) s =
     Some (quicpro_client_session_enable_kernel_timestamps ok s)"

fun session_steps ::
    "'c quiche_api \<Rightarrow> nat \<Rightarrow> ((string \<times> string) list \<Rightarrow> send_status) \<Rightarrow> (family \<Rightarrow> string \<Rightarrow> string option)
      \<Rightarrow> session_op list \<Rightarrow> 'c quicpro_session_t
      \<Rightarrow> (zval list \<times> (string \<times> string) list \<times> 'c quicpro_session_t) option" where
  "session_steps Q n sendto pton [] s = Some ([], [], s)"
| "session_steps Q n sendto pton (op # ops) s =
     do {
       r \<leftarrow> session_step Q n sendto pton op s;
       (vs, sent, s1) \<leftarrow> session_steps Q n sendto pton ops (op_session r);
       Some (op_ret r # vs, op_sent r @ sent, s1)
     }"

lemma closed_step:
  "is_closed s \<Longrightarrow> \<exists>es. session_step Q n sendto pton op s = Some (op_false s es)"
  by (cases op)
    (auto simp: quicpro_client_session_tick_def quicpro_client_session_close_def
      quicpro_client_session_fetch_datagram_def quicpro_client_session_ingest_datagram_def
      quicpro_client_session_next_crypto_stream_def quicpro_client_session_is_established_def
      quicpro_client_session_enable_kernel_timestamps_def split: option.splits)

lemma closed_steps:
  assumes "is_closed s"
  shows "session_steps Q n sendto pton ops s = Some (replicate (length ops) Z_False, [], s)"
proof (induction ops)
  case (Cons op ops)
  then show ?case using closed_step [OF assms, of Q n sendto pton op] by (auto simp: op_false_def)
qed simp



end
