(* ===== verification/Session_Objects.thy ===== *)
theory Session_Objects
  imports Client_Session
begin

text \<open>
  The two older ways to a session: the function of \<^verbatim>\<open>src/extension/src/connect/connect.c\<close>, which
  returns a resource, and the class of \<^verbatim>\<open>src/extension/src/server/session.c\<close>, whose objects own
  their session.  Both use the address search and the ledger of the client sessions; the
  configuration that a session is made with is a resource of its own.
\<close>

section \<open>The connect function\<close>

record 'c legacy_session =
  l_sock :: int
  l_host :: string
  l_conn :: "'c option"
  l_h3_cfg :: bool
  l_h3 :: bool
  l_cfg :: "nat option"

definition legacy_zero :: "'c legacy_session" where
  "legacy_zero = \<lparr>l_sock = 0, l_host = [], l_conn = None, l_h3_cfg = False, l_h3 = False, l_cfg = None\<rparr>"

record 'c legacy_run =
  lr_events :: "resource event list"
  lr_error :: "string option"
  lr_session :: "'c legacy_session option"
  lr_sleep :: "32 word option"

definition connect_mode :: "php_array option \<Rightarrow> string" where
  "connect_mode opts =
     (case opts of
        None \<Rightarrow> ''auto''
      | Some arr \<Rightarrow> (case arr_find arr ''mode'' of Some (Z_String s) \<Rightarrow> cstr s | _ \<Rightarrow> ''auto''))"

definition connect_delay :: "php_array option \<Rightarrow> zend_long" where
  "connect_delay opts =
     (case opts of
        None \<Rightarrow> 250
      | Some arr \<Rightarrow> (case arr_find arr ''delay_ms'' of
                       Some (Z_Long d) \<Rightarrow> if d <s 0 then 0 else d
                     | _ \<Rightarrow> 250))"

definition connect_iface :: "php_array option \<Rightarrow> bool" where
  "connect_iface opts =
     (case opts of
        None \<Rightarrow> False
      | Some arr \<Rightarrow> (case arr_find arr ''iface'' of Some (Z_String s) \<Rightarrow> s \<noteq> [] | _ \<Rightarrow> False))"

text \<open>The families of a mode: the comparison looks at the first four characters.\<close>

definition mode_families :: "string \<Rightarrow> bool \<times> bool" where
  "mode_families mode =
     (if take 4 mode = ''ipv6'' then (True, False)
      else if take 4 mode = ''ipv4'' then (False, True)
      else (True, True))"

definition quicpro_connect ::
    "'c quiche_api \<Rightarrow> (string \<Rightarrow> string \<Rightarrow> int + candidate list) \<Rightarrow> nat \<Rightarrow> string \<Rightarrow> string \<Rightarrow> zend_long
      \<Rightarrow> nat option \<Rightarrow> php_array option \<Rightarrow> 'c legacy_run" where
  "quicpro_connect Q getaddrinfo host_size random host_str port cfg opts =
     (case cfg of
        None \<Rightarrow>
          \<lparr>lr_events = [], lr_error = Some ''Invalid config resource'', lr_session = None, lr_sleep = None\<rparr>
      | Some cf \<Rightarrow>
          (case getaddrinfo (cstr host_str) (port_text port) of
             Inl status \<Rightarrow>
               \<lparr>lr_events = [], lr_error = Some ''DNS lookup failed'', lr_session = None, lr_sleep = None\<rparr>
           | Inr ai_list \<Rightarrow>
               (let (try6, try4) = mode_families (connect_mode opts);
                    iface = connect_iface opts;
                    delay = connect_delay opts;
                    first = (if try6 then snd (snd (try_family [] [] AF_INET6 iface ai_list :: _ \<times> unit list \<times> _))
                             else None);
                    sleep = (if first = None \<and> try6 \<and> try4 \<and> 0 <s delay
                             then Some (ucast (delay * 1000)) else None);
                    (ev, er, found) = (try_both [] [] try6 try4 iface ai_list :: _ \<times> unit list \<times> _);
                    start = [Acquire Addr_List] @ ev
                in case found of
                     None \<Rightarrow>
                       \<lparr>lr_events = start @ [Release Addr_List], lr_error = Some ''connect() failed'',
                        lr_session = None, lr_sleep = sleep\<rparr>
                   | Some ai \<Rightarrow>
                       (let s = legacy_zero\<lparr>l_sock := cand_socket ai, l_cfg := Some cf,
                                  l_host := cstr (take (min (length host_str) (host_size - 1)) host_str)\<rparr>;
                            start = start @ [Acquire Session_Mem]
                        in case quiche_connect Q (cstr host_str) random ai of
                             None \<Rightarrow>
                               \<lparr>lr_events = start @ [Release Addr_List, Release Session_Mem,
                                  Release (Socket (l_sock s))],
                                lr_error = Some ''quiche_connect failed'', lr_session = None,
                                lr_sleep = sleep\<rparr>
                           | Some c \<Rightarrow>
                               (let hc = quiche_h3_config_new Q;
                                    h = quiche_h3_conn_new_with_transport Q c
                                in \<lparr>lr_events = start @ [Acquire Quic_Conn]
                                       @ (if hc then [Acquire H3_Config] else [])
                                       @ (if h then [Acquire H3_Conn] else []) @ [Release Addr_List],
                                    lr_error = None,
                                    lr_session = Some (s\<lparr>l_conn := Some c, l_h3_cfg := hc, l_h3 := h\<rparr>),
                                    lr_sleep = sleep\<rparr>)))))"

section \<open>The class\<close>

text \<open>
  The constructor: the error, the events, and the session that the object holds afterwards.
\<close>

definition session_construct ::
    "'c quiche_api \<Rightarrow> (string \<Rightarrow> string \<Rightarrow> int + candidate list) \<Rightarrow> nat \<Rightarrow> string \<Rightarrow> string \<Rightarrow> zend_long
      \<Rightarrow> nat option \<Rightarrow> 'c legacy_session option
      \<Rightarrow> string option \<times> resource event list \<times> 'c legacy_session option" where
  "session_construct Q getaddrinfo host_size random host_str port cfg sess =
     (case cfg of
        None \<Rightarrow>
          (Some ''Invalid QUIC configuration resource'', [Acquire Session_Mem, Release Session_Mem], sess)
      | Some cf \<Rightarrow>
          (case getaddrinfo (cstr host_str) (port_text port) of
             Inl status \<Rightarrow>
               (Some ''DNS resolution failed'', [Acquire Session_Mem, Release Session_Mem], sess)
           | Inr ai_list \<Rightarrow>
               (let (ev, er, found) = (try_any ai_list :: _ \<times> unit list \<times> _);
                    start = [Acquire Session_Mem, Acquire Addr_List] @ ev @ [Release Addr_List]
                in case found of
                     None \<Rightarrow> (Some ''Unable to connect UDP socket'', start @ [Release Session_Mem], sess)
                   | Some ai \<Rightarrow>
                       (let s = legacy_zero\<lparr>l_sock := cand_socket ai, l_cfg := Some cf,
                                  l_host := take (host_size - 1) (cstr host_str)\<rparr>
                        in case quiche_connect Q (cstr host_str) random ai of
                             None \<Rightarrow>
                               (Some ''quiche_connect() failed'',
                                start @ [Release (Socket (l_sock s)), Release Session_Mem], sess)
                           | Some c \<Rightarrow>
                               (let hc = quiche_h3_config_new Q;
                                    start = start @ [Acquire Quic_Conn]
                                      @ (if hc then [Acquire H3_Config] else [])
                                in if \<not> quiche_h3_conn_new_with_transport Q c then
                                     (Some ''HTTP/3 initialization failed'',
                                      start @ [Release Quic_Conn, Release (Socket (l_sock s)),
                                        Release Session_Mem], sess)
                                   else
                                     (None, start @ [Acquire H3_Conn],
                                      Some (s\<lparr>l_conn := Some c, l_h3_cfg := hc, l_h3 := True\<rparr>)))))))"

definition quicpro_session_free_obj :: "'c legacy_session option \<Rightarrow> resource event list" where
  "quicpro_session_free_obj sess =
     (case sess of
        None \<Rightarrow> []
      | Some s \<Rightarrow>
          (if l_h3 s then [Release H3_Conn] else [])
          @ (if l_h3_cfg s then [Release H3_Config] else [])
          @ (case l_conn s of None \<Rightarrow> [] | Some c \<Rightarrow> [Release Quic_Conn])
          @ (case l_cfg s of None \<Rightarrow> [] | Some cf \<Rightarrow> [Release (Quiche_Config cf)])
          @ (if 0 \<le> l_sock s then [Release (Socket (l_sock s))] else [])
          @ [Release Session_Mem])"

definition session_close :: "'c quiche_api \<Rightarrow> 'c legacy_session option \<Rightarrow> bool \<times> 'c legacy_session option" where
  "session_close Q sess =
     (case sess of
        None \<Rightarrow> (False, None)
      | Some s \<Rightarrow>
          (case l_conn s of
             None \<Rightarrow> (False, Some s)
           | Some c \<Rightarrow> (True, Some (s\<lparr>l_conn := Some (quiche_conn_close Q c True 0 ''kthxbye'')\<rparr>))))"

text \<open>
  \<^verbatim>\<open>quicpro_close\<close>: the parameter must be a resource, so that the branch for objects is never
  taken; \<open>fetch\<close> looks a session up by its resource.
\<close>

definition quicpro_close ::
    "'c quiche_api \<Rightarrow> (zend_long \<Rightarrow> 'c legacy_session option) \<Rightarrow> zval
      \<Rightarrow> (bool \<times> 'c legacy_session option) option" where
  "quicpro_close Q fetch zsession =
     (case zsession of Z_Resource r \<Rightarrow> Some (session_close Q (fetch r)) | _ \<Rightarrow> None)"

text \<open>The destructor of the resource, in \<^verbatim>\<open>src/extension/src/php_quicpro.c\<close>, frees in another order.\<close>

definition quicpro_session_dtor :: "'c legacy_session option \<Rightarrow> resource event list" where
  "quicpro_session_dtor res =
     (case res of
        None \<Rightarrow> []
      | Some s \<Rightarrow>
          (if l_h3 s then [Release H3_Conn] else [])
          @ (case l_conn s of None \<Rightarrow> [] | Some c \<Rightarrow> [Release Quic_Conn])
          @ (if l_h3_cfg s then [Release H3_Config] else [])
          @ (case l_cfg s of None \<Rightarrow> [] | Some cf \<Rightarrow> [Release (Quiche_Config cf)])
          @ (if 0 \<le> l_sock s then [Release (Socket (l_sock s))] else [])
          @ [Release Session_Mem])"

text \<open>The buffer of the last error, 256 bytes with the terminator.\<close>

definition quicpro_set_error :: "string option \<Rightarrow> string" where
  "quicpro_set_error msg = (case msg of None \<Rightarrow> [] | Some m \<Rightarrow> take 255 (cstr m))"

section \<open>Ownership\<close>

definition legacy_resources :: "'c legacy_session option \<Rightarrow> resource multiset" where
  "legacy_resources r =
     (case r of None \<Rightarrow> {#}
      | Some s \<Rightarrow>
          {#Session_Mem, Socket (l_sock s), Quic_Conn#}
          + (if l_h3_cfg s then {#H3_Config#} else {#}) + (if l_h3 s then {#H3_Conn#} else {#}))"

text \<open>
  The connect function holds nothing after a failure, and after a success exactly what the
  session refers to.  It returns a session also when the HTTP/3 layer could not be set up.
\<close>

theorem legacy_connect_owns:
  "ledger (lr_events (quicpro_connect Q gai host_size random host_str port cfg opts)) {#}
     = Some (legacy_resources (lr_session (quicpro_connect Q gai host_size random host_str port cfg opts)))"
proof (cases "\<exists>cf cs. cfg = Some cf \<and> gai (cstr host_str) (port_text port) = Inr cs")
  case True
  then obtain cf cs where cf: "cfg = Some cf" "gai (cstr host_str) (port_text port) = Inr cs" by auto
  obtain try6 try4 where m: "mode_families (connect_mode opts) = (try6, try4)" by (meson prod.exhaust)
  obtain ev er found where t: "(try_both [] [] try6 try4 (connect_iface opts) cs :: _ \<times> unit list \<times> _)
      = (ev, er, found)"
    by (meson prod_cases3)
  note l = try_both_ledger [OF t, of "{#Addr_List#}"]
  show ?thesis
    unfolding quicpro_connect_def cf Let_def m t sum.case prod.case option.case
    using l by (cases found; cases "quiche_connect Q (cstr host_str) random (the found)")
      (simp_all add: legacy_resources_def legacy_zero_def socket_of_def ledger_append)
next
  case False
  then show ?thesis
    by (cases cfg; cases "gai (cstr host_str) (port_text port)") (simp_all add: quicpro_connect_def legacy_resources_def)
qed

text \<open>
  What a constructor holds afterwards that the object does not: the HTTP/3 configuration when the
  HTTP/3 connection fails.
\<close>

definition construct_leak :: "'c quiche_api \<Rightarrow> string option \<Rightarrow> 'c legacy_session option \<Rightarrow> resource multiset" where
  "construct_leak Q err sess =
     (case err of
        None \<Rightarrow> legacy_resources sess
      | Some e \<Rightarrow> if e = ''HTTP/3 initialization failed'' \<and> quiche_h3_config_new Q then {#H3_Config#} else {#})"

lemma construct_ledger:
  "ledger (fst (snd (session_construct Q gai host_size random host_str port cfg sess))) m
     = Some (m + construct_leak Q (fst (session_construct Q gai host_size random host_str port cfg sess))
         (snd (snd (session_construct Q gai host_size random host_str port cfg sess))))"
proof (cases "\<exists>cf cs. cfg = Some cf \<and> gai (cstr host_str) (port_text port) = Inr cs")
  case True
  then obtain cf cs where cf: "cfg = Some cf" "gai (cstr host_str) (port_text port) = Inr cs" by auto
  obtain ev1 er found where t: "(try_any cs :: _ \<times> unit list \<times> _) = (ev1, er, found)" by (meson prod_cases3)
  note l = any.search_frame [OF t, of "add_mset Addr_List (add_mset Session_Mem m)"]
  show ?thesis
    unfolding session_construct_def cf Let_def t sum.case prod.case option.case
    using l by (cases found; cases "quiche_connect Q (cstr host_str) random (the found)")
      (simp_all add: construct_leak_def legacy_resources_def legacy_zero_def socket_of_def ledger_append)
next
  case False
  then show ?thesis
    by (cases cfg; cases "gai (cstr host_str) (port_text port)")
      (simp_all add: session_construct_def construct_leak_def)
qed

lemma construct_session:
  assumes "session_construct Q gai host_size random host_str port cfg sess = (None, ev, sess')"
  obtains s cf where "sess' = Some s" "cfg = Some cf" "l_cfg s = Some cf" "l_h3 s" "l_conn s \<noteq> None"
    "0 \<le> l_sock s"
proof -
  obtain cf cs where cf: "cfg = Some cf" "gai (cstr host_str) (port_text port) = Inr cs"
    using assms by (cases cfg; cases "gai (cstr host_str) (port_text port)") (simp_all add: session_construct_def)
  obtain ev1 er found where t: "(try_any cs :: _ \<times> unit list \<times> _) = (ev1, er, found)" by (meson prod_cases3)
  obtain ai where ai: "found = Some ai"
    using assms by (cases found) (simp_all add: session_construct_def cf t)
  have "0 \<le> cand_socket ai" using any.search_found [OF t [unfolded ai]] by simp
  moreover obtain c where c: "quiche_connect Q (cstr host_str) random ai = Some c"
    using assms by (cases "quiche_connect Q (cstr host_str) random ai")
      (simp_all add: session_construct_def cf t ai)
  moreover have h: "quiche_h3_conn_new_with_transport Q c"
    using assms by (cases "quiche_h3_conn_new_with_transport Q c")
      (simp_all add: session_construct_def cf t ai c Let_def)
  moreover have "sess' = Some (legacy_zero\<lparr>l_sock := cand_socket ai, l_cfg := Some cf,
      l_host := take (host_size - 1) (cstr host_str), l_conn := Some c,
      l_h3_cfg := quiche_h3_config_new Q, l_h3 := True\<rparr>)"
    using assms by (simp add: session_construct_def cf t ai c h Let_def)
  ultimately show thesis using that cf(1) by simp
qed

text \<open>The destructor gives back what the object owns, and the configuration with it.\<close>

lemma free_obj_ledger:
  assumes "l_cfg s = Some cf" "l_conn s \<noteq> None" "0 \<le> l_sock s"
  shows "ledger (quicpro_session_free_obj (Some s)) (legacy_resources (Some s) + add_mset (Quiche_Config cf) m)
           = Some m"
  using assms by (auto simp: quicpro_session_free_obj_def legacy_resources_def)

lemma free_obj_without_config:
  assumes "l_cfg s = Some cf" "l_conn s \<noteq> None" "Quiche_Config cf \<notin># m"
  shows "ledger (quicpro_session_free_obj (Some s)) (legacy_resources (Some s) + m) = None"
  using assms by (auto simp: quicpro_session_free_obj_def legacy_resources_def)

text \<open>The resource destructor gives back the same.\<close>

lemma dtor_ledger:
  assumes "l_cfg s = Some cf" "l_conn s \<noteq> None" "0 \<le> l_sock s"
  shows "ledger (quicpro_session_dtor (Some s)) (legacy_resources (Some s) + add_mset (Quiche_Config cf) m)
           = Some m"
  using assms by (auto simp: quicpro_session_dtor_def legacy_resources_def)

text \<open>
  C39: Two session objects made with one configuration: each destructor frees the configuration,
  which belongs to neither, so that destroying the second object frees it again.
\<close>

theorem shared_config_freed_twice:
  assumes "session_construct Q gai host_size random h1 p1 cfg None = (None, ev1, s1)"
    and "session_construct Q gai host_size random h2 p2 cfg None = (None, ev2, s2)"
  shows "\<exists>cf. cfg = Some cf
    \<and> ledger (ev1 @ ev2 @ quicpro_session_free_obj s1) {#Quiche_Config cf#} = Some (legacy_resources s2)
    \<and> ledger (ev1 @ ev2 @ quicpro_session_free_obj s1 @ quicpro_session_free_obj s2) {#Quiche_Config cf#} = None"
proof -
  from construct_session [OF assms(1)] obtain t1 cf where
    t1: "s1 = Some t1" "cfg = Some cf" "l_cfg t1 = Some cf" "l_conn t1 \<noteq> None" "0 \<le> l_sock t1" by metis
  from construct_session [OF assms(2)] obtain t2 where
    t2: "s2 = Some t2" "l_cfg t2 = Some cf" "l_conn t2 \<noteq> None" using t1(2) by (metis option.inject)
  have l1: "ledger ev1 m = Some (m + legacy_resources s1)" for m
    using construct_ledger [of Q gai host_size random h1 p1 cfg None m] by (simp add: assms(1) construct_leak_def)
  have l2: "ledger ev2 m = Some (m + legacy_resources s2)" for m
    using construct_ledger [of Q gai host_size random h2 p2 cfg None m] by (simp add: assms(2) construct_leak_def)
  have f1: "ledger (quicpro_session_free_obj s1)
      ({#Quiche_Config cf#} + legacy_resources s1 + legacy_resources s2) = Some (legacy_resources s2)"
    using free_obj_ledger [OF t1(3-5), of "legacy_resources s2"] by (simp add: t1(1))
  have "ledger (quicpro_session_free_obj s2) (legacy_resources s2) = None"
    using free_obj_without_config [OF t2(2,3), of "{#}"] by (simp add: t2(1))
  then show ?thesis using f1 by (simp add: t1(2) ledger_append l1 l2)
qed

definition example_gai :: "string \<Rightarrow> string \<Rightarrow> int + candidate list" where
  "example_gai h p = Inr [\<lparr>ai_family = AF_INET6, ai_addr = ''::1'', cand_socket = -1, cand_bind = False,
     cand_connect = False\<rparr>, \<lparr>ai_family = AF_INET, ai_addr = ''127.0.0.1'', cand_socket = 4,
     cand_bind = True, cand_connect = True\<rparr>]"

theorem shared_config_freed_twice_witness:
  "\<exists>ev s. session_construct queue_quiche example_gai 64 [] ''h'' 443 (Some 7) None = (None, ev, s)
     \<and> ledger (ev @ ev @ quicpro_session_free_obj s @ quicpro_session_free_obj s) {#Quiche_Config 7#} = None"
proof -
  have n: "fst (session_construct queue_quiche example_gai 64 [] ''h'' 443 (Some 7) None) = None"
    by (simp add: session_construct_def example_gai_def queue_quiche_def Let_def)
  then obtain ev s where c: "session_construct queue_quiche example_gai 64 [] ''h'' 443 (Some 7) None = (None, ev, s)"
    by (metis prod.collapse)
  from shared_config_freed_twice [OF c c] c show ?thesis by auto
qed

end
