(* ===== verification/Poll.thy ===== *)
theory Poll
  imports Client_Session
begin

text \<open>
  The event loop of \<^verbatim>\<open>src/extension/src/poll/poll.c\<close> and the session tickets of
  \<^verbatim>\<open>src/extension/src/client/tls.c\<close> and \<^verbatim>\<open>src/extension/src/server/tls.c\<close>.  What the socket, the clock and the
  kernel's busy-poll setting yield are arguments.  quiche is a library of functions, not of macros,
  so that both shims of the file are in force: a connection is inactive when it is draining, and
  the ticket of a connection is read as an empty one.
\<close>

section \<open>The busy-poll budget\<close>

text \<open>
  The cached value, minus one before the first call; \<open>file\<close> is the text that a read of the kernel's
  setting returns, None when it cannot be opened or read; \<open>atoi\<close> is the value of that text.
\<close>

definition quicpro_busy_budget_us :: "(string \<Rightarrow> int) \<Rightarrow> string option \<Rightarrow> int \<Rightarrow> int \<times> int" where
  "quicpro_busy_budget_us atoi file cached =
     (if cached \<ge> 0 then (cached, cached)
      else
        (case file of
           None \<Rightarrow> (0, 0)
         | Some buf \<Rightarrow> if buf = [] then (0, 0) else (atoi (take 31 buf), atoi (take 31 buf))))"

definition quicpro_yield_if_needed :: "bool \<Rightarrow> int \<Rightarrow> bool" where
  "quicpro_yield_if_needed fiber_active budget_us \<longleftrightarrow> budget_us \<le> 0 \<and> fiber_active"

section \<open>The loop\<close>

record 'c poll_env =
  poll_recv :: "nat \<Rightarrow> recv_result option"  \<comment> \<open>what \<^verbatim>\<open>recvmsg\<close> yields in a round, None for nothing\<close>
  poll_send_ok :: "(string \<times> string) list \<Rightarrow> bool"
  poll_elapsed :: "nat \<Rightarrow> int"  \<comment> \<open>microseconds since the start, read in a round\<close>
  poll_timeout :: "'c \<Rightarrow> int"  \<comment> \<open>\<^verbatim>\<open>quiche_conn_timeout_as_millis\<close>\<close>
  poll_fiber :: bool

record 'c poll_state =
  ps_conn :: 'c
  ps_last_rx_ts :: "string option"
  ps_sent :: "(string \<times> string) list"
  ps_warnings :: "string list"
  ps_rounds :: nat
  ps_yielded :: bool

definition poll_receive :: "'c quiche_api \<Rightarrow> recv_result option \<Rightarrow> 'c poll_state \<Rightarrow> 'c poll_state" where
  "poll_receive Q r s =
     (case r of
        Some (Recv_Data buf from stamp) \<Rightarrow>
          s\<lparr>ps_conn := fst (quiche_conn_recv Q (ps_conn s) buf from),
            ps_last_rx_ts := (case stamp of None \<Rightarrow> ps_last_rx_ts s | Some t \<Rightarrow> Some t)\<rparr>
      | Some Recv_Error \<Rightarrow> s\<lparr>ps_warnings := ps_warnings s @ [''recvmsg'']\<rparr>
      | _ \<Rightarrow> s)"

partial_function (option) poll_send ::
    "'c quiche_api \<Rightarrow> ((string \<times> string) list \<Rightarrow> bool) \<Rightarrow> 'c poll_state \<Rightarrow> 'c poll_state option" where
  "poll_send Q ok s =
     (case quiche_conn_send Q (ps_conn s) 1350 of
        (c1, Inl e) \<Rightarrow> Some (s\<lparr>ps_conn := c1\<rparr>)
      | (c1, Inr d) \<Rightarrow>
          if fst d = [] then Some (s\<lparr>ps_conn := c1\<rparr>)
          else if ok (ps_sent s @ [d]) then poll_send Q ok (s\<lparr>ps_conn := c1, ps_sent := ps_sent s @ [d]\<rparr>)
          else Some (s\<lparr>ps_conn := c1, ps_warnings := ps_warnings s @ [''sendto'']\<rparr>))"

text \<open>The elapsed time is kept in an \<^verbatim>\<open>int\<close>.\<close>

definition c_elapsed :: "int \<Rightarrow> int" where
  "c_elapsed us = sint (word_of_int us :: 32 word)"

partial_function (option) poll_loop ::
    "'c quiche_api \<Rightarrow> 'c poll_env \<Rightarrow> int \<Rightarrow> 'c poll_state \<Rightarrow> 'c poll_state option" where
  "poll_loop Q E budget s =
     do {
       s1 \<leftarrow> poll_send Q (poll_send_ok E) (poll_receive Q (poll_recv E (ps_rounds s)) s);
       let s2 = s1\<lparr>ps_rounds := ps_rounds s + 1\<rparr>;
       if quiche_conn_is_draining Q (ps_conn s2) then Some s2
       else
         (let s3 = (if poll_timeout E (ps_conn s2) = 0
                    then s2\<lparr>ps_conn := quiche_conn_on_timeout Q (ps_conn s2)\<rparr> else s2);
              elapsed = c_elapsed (poll_elapsed E (ps_rounds s))
          in if elapsed \<ge> budget
             then Some (s3\<lparr>ps_yielded := quicpro_yield_if_needed (poll_fiber E) (elapsed - budget)\<rparr>)
             else poll_loop Q E budget s3)
     }"

text \<open>
  The function on a valid session, with the ticket the session holds.  The time limit that the
  caller gives is lowered to quiche's deadline and not used again.
\<close>

record 'c polled =
  po_session :: "'c quicpro_session_t"
  po_ticket :: string
  po_state :: "'c poll_state"

definition quicpro_poll ::
    "'c quiche_api \<Rightarrow> 'c poll_env \<Rightarrow> int \<Rightarrow> bool \<Rightarrow> zend_long \<Rightarrow> 'c quicpro_session_t \<Rightarrow> 'c \<Rightarrow> string
      \<Rightarrow> 'c polled option" where
  "quicpro_poll Q E budget setsockopt_ok timeout_ms s c ticket =
     do {
       let quic_deadline = poll_timeout E c;
       let limit = (if quic_deadline \<ge> 0 \<and> (timeout_ms <s 0 \<or> quic_deadline < sint timeout_ms)
                    then quic_deadline else sint timeout_ms);
       let s1 = s\<lparr>ts_enabled := ts_enabled s \<or> setsockopt_ok\<rparr>;
       st \<leftarrow> poll_loop Q E budget \<lparr>ps_conn = c, ps_last_rx_ts = last_rx_ts s, ps_sent = [],
              ps_warnings = [], ps_rounds = 0, ps_yielded = False\<rparr>;
       Some \<lparr>po_session = s1\<lparr>conn := Some (ps_conn st), last_rx_ts := ps_last_rx_ts st\<rparr>,
             po_ticket = [], po_state = st\<rparr>
     }"

section \<open>Session tickets\<close>

text \<open>The functions of \<^verbatim>\<open>client/tls.c\<close>; a ticket of length zero is none.\<close>

definition quicpro_client_tls_export_session_ticket ::
    "'c quicpro_session_t option \<Rightarrow> string \<Rightarrow> string option \<times> bool" where
  "quicpro_client_tls_export_session_ticket s ticket =
     (case s of
        None \<Rightarrow> (None, True)
      | Some t \<Rightarrow> if conn t = None then (None, True) else (Some ticket, False))"

definition quicpro_client_tls_import_session_ticket ::
    "('c \<Rightarrow> string \<Rightarrow> 'c \<times> int) \<Rightarrow> nat \<Rightarrow> string \<Rightarrow> 'c quicpro_session_t option \<Rightarrow> string
      \<Rightarrow> bool \<times> 'c quicpro_session_t option \<times> string" where
  "quicpro_client_tls_import_session_ticket set_session ticket_size blob s ticket =
     (case s of
        None \<Rightarrow> (False, None, ticket)
      | Some t \<Rightarrow>
          (case conn t of
             None \<Rightarrow> (False, s, ticket)
           | Some c \<Rightarrow>
               if length blob = 0 \<or> length blob > ticket_size then (False, s, ticket)
               else
                 (let (c1, rc) = set_session c blob; s1 = Some (t\<lparr>conn := Some c1\<rparr>) in
                  if rc < 0 then (False, s1, ticket) else (True, s1, blob))))"

text \<open>
  The functions of \<^verbatim>\<open>server/tls.c\<close> also put the ticket into a ring of recent tickets; here a session
  has a connection.
\<close>

definition quicpro_export_session_ticket :: "string \<Rightarrow> string list \<Rightarrow> string \<times> string list" where
  "quicpro_export_session_ticket ticket ring =
     (if ticket = [] then ([], ring) else (ticket, ring @ [ticket]))"

definition quicpro_import_session_ticket ::
    "('c \<Rightarrow> string \<Rightarrow> 'c \<times> int) \<Rightarrow> nat \<Rightarrow> string \<Rightarrow> 'c \<Rightarrow> string \<Rightarrow> string list
      \<Rightarrow> bool \<times> 'c \<times> string \<times> string list" where
  "quicpro_import_session_ticket set_session ticket_size blob c ticket ring =
     (if length blob = 0 \<or> length blob > ticket_size then (False, c, ticket, ring)
      else
        (let (c1, rc) = set_session c blob in
         if rc < 0 then (False, c1, ticket, ring) else (True, c1, blob, ring @ [blob])))"

section \<open>Other functions of the TLS files\<close>

text \<open>
  The process-wide paths of \<^verbatim>\<open>server/tls.c\<close> are copies in the memory of the request that set them, which
  the engine reclaims when the request ends; a path is kept with the number of that request.
  Freeing a copy of an earlier request is an error; freeing no copy is not.
\<close>

record tls_paths =
  g_ca_file :: "(nat \<times> string) option"
  g_cert_file :: "(nat \<times> string) option"
  g_key_file :: "(nat \<times> string) option"

datatype tls_error = Stale_Free

definition efree_path :: "nat \<Rightarrow> (nat \<times> string) option \<Rightarrow> (tls_error, unit) outcome" where
  "efree_path req p = (case p of None \<Rightarrow> Ok () | Some (r, s) \<Rightarrow> if r = req then Ok () else Fail Stale_Free)"

definition quicpro_set_ca_file :: "nat \<Rightarrow> string \<Rightarrow> tls_paths \<Rightarrow> (tls_error, tls_paths) outcome" where
  "quicpro_set_ca_file req path p =
     obind (efree_path req (g_ca_file p)) (\<lambda>u. Ok (p\<lparr>g_ca_file := Some (req, path)\<rparr>))"

definition quicpro_set_client_cert ::
    "nat \<Rightarrow> string \<Rightarrow> string \<Rightarrow> tls_paths \<Rightarrow> (tls_error, tls_paths) outcome" where
  "quicpro_set_client_cert req cert key p =
     obind (efree_path req (g_cert_file p)) (\<lambda>u.
     obind (efree_path req (g_key_file p)) (\<lambda>u.
     Ok (p\<lparr>g_cert_file := Some (req, cert), g_key_file := Some (req, key)\<rparr>)))"

record quic_stats =
  st_recv :: u64
  st_sent :: u64
  st_lost :: u64
  st_rtt :: u64
  st_cwnd :: u64

definition quicpro_get_stats :: "quic_stats \<Rightarrow> zval" where
  "quicpro_get_stats q = Z_Array
     [(HStr ''pkt_rx'', Z_Long (st_recv q)), (HStr ''pkt_tx'', Z_Long (st_sent q)),
      (HStr ''lost'', Z_Long (st_lost q)), (HStr ''rtt_ns'', Z_Long (st_rtt q)),
      (HStr ''cwnd'', Z_Long (st_cwnd q))]"

text \<open>The setters of \<^verbatim>\<open>client/tls.c\<close>, over the function that applies one configuration entry.\<close>

definition quicpro_client_tls_set_ca_file ::
    "(string \<Rightarrow> string \<Rightarrow> 'g \<Rightarrow> bool \<times> 'g) \<Rightarrow> string \<Rightarrow> 'g \<Rightarrow> bool \<times> 'g" where
  "quicpro_client_tls_set_ca_file apply_entry path g = apply_entry ''tls_default_ca_file'' path g"

definition quicpro_client_tls_set_client_cert ::
    "(string \<Rightarrow> string \<Rightarrow> 'g \<Rightarrow> bool \<times> 'g) \<Rightarrow> string \<Rightarrow> string \<Rightarrow> 'g \<Rightarrow> bool \<times> 'g" where
  "quicpro_client_tls_set_client_cert apply_entry cert key g =
     (case apply_entry ''tls_default_cert_file'' cert g of
        (False, g1) \<Rightarrow> (False, g1)
      | (True, g1) \<Rightarrow> apply_entry ''tls_default_key_file'' key g1)"

section \<open>Polling\<close>

lemma poll_send_returns:
  assumes "\<forall>c c1 d. quiche_conn_send Q c 1350 = (c1, Inr d) \<longrightarrow> rank c1 < (rank c :: nat)"
  shows "\<exists>s1. poll_send Q ok s = Some s1"
proof (induction "rank (ps_conn s)" arbitrary: s rule: less_induct)
  case less
  obtain c1 x where q: "quiche_conn_send Q (ps_conn s) 1350 = (c1, x)" by (cases "quiche_conn_send Q (ps_conn s) 1350")
  show ?case
  proof (cases "\<exists>d. x = Inr d \<and> fst d \<noteq> [] \<and> ok (ps_sent s @ [d])")
    case True
    then obtain d where d: "x = Inr d" "fst d \<noteq> []" "ok (ps_sent s @ [d])" by auto
    have "rank c1 < rank (ps_conn s)" using assms q d(1) by blast
    then have "\<exists>s1. poll_send Q ok (s\<lparr>ps_conn := c1, ps_sent := ps_sent s @ [d]\<rparr>) = Some s1"
      by (intro less) simp
    then show ?thesis by (subst poll_send.simps) (simp add: q d)
  next
    case False
    then show ?thesis by (subst poll_send.simps) (auto simp: q split: sum.splits)
  qed
qed

text \<open>
  A poll returns when every datagram that quiche hands out leaves it with fewer to send and the
  clock reaches the busy-poll budget in some round.
\<close>

theorem poll_returns:
  assumes "\<forall>c c1 d. quiche_conn_send Q c 1350 = (c1, Inr d) \<longrightarrow> rank c1 < (rank c :: nat)"
    and "c_elapsed (poll_elapsed E n) \<ge> budget"
  shows "\<exists>r. quicpro_poll Q E budget setsockopt_ok timeout_ms s c ticket = Some r
           \<and> ps_rounds (po_state r) \<le> n + 1"
proof -
  have "\<exists>s1. poll_loop Q E budget st = Some s1 \<and> ps_rounds s1 \<le> n + 1" if "ps_rounds st \<le> n" for st
    using that
  proof (induction "n - ps_rounds st" arbitrary: st)
    case (0 st)
    then have n: "ps_rounds st = n" by simp
    obtain s1 where s1: "poll_send Q (poll_send_ok E) (poll_receive Q (poll_recv E (ps_rounds st)) st) = Some s1"
      using poll_send_returns [OF assms(1)] by blast
    show ?case using assms(2) by (subst poll_loop.simps) (simp add: n s1 [unfolded n] Let_def)
  next
    case (Suc k st)
    obtain s1 where s1: "poll_send Q (poll_send_ok E) (poll_receive Q (poll_recv E (ps_rounds st)) st) = Some s1"
      using poll_send_returns [OF assms(1)] by blast
    have "\<exists>s2. poll_loop Q E budget t = Some s2 \<and> ps_rounds s2 \<le> n + 1" if "ps_rounds t = ps_rounds st + 1" for t
    proof -
      have "k = n - ps_rounds t" "ps_rounds t \<le> n" using Suc.hyps(2) that by simp_all
      from Suc.hyps(1) [OF this] show ?thesis .
    qed
    then show ?case using Suc.prems
      by (subst poll_loop.simps) (simp add: s1 Let_def)
  qed
  then obtain s1 where "poll_loop Q E budget \<lparr>ps_conn = c, ps_last_rx_ts = last_rx_ts s, ps_sent = [],
      ps_warnings = [], ps_rounds = 0, ps_yielded = False\<rparr> = Some s1" "ps_rounds s1 \<le> n + 1"
    by (metis poll_state.select_convs(5) zero_le)
  then show ?thesis by (simp add: quicpro_poll_def Let_def)
qed

lemma poll_loop_once:
  assumes "budget \<le> c_elapsed (poll_elapsed E 0)" "ps_rounds st = 0"
  shows "poll_loop Q E budget st =
     map_option (\<lambda>s1.
        (let s2 = s1\<lparr>ps_rounds := 1\<rparr> in
         if quiche_conn_is_draining Q (ps_conn s2) then s2
         else (if poll_timeout E (ps_conn s2) = 0
               then s2\<lparr>ps_conn := quiche_conn_on_timeout Q (ps_conn s2)\<rparr> else s2)
              \<lparr>ps_yielded := quicpro_yield_if_needed (poll_fiber E) (c_elapsed (poll_elapsed E 0) - budget)\<rparr>))
       (poll_send Q (poll_send_ok E) (poll_receive Q (poll_recv E 0) st))"
  using assms by (subst poll_loop.simps) (simp add: map_option_case Let_def split: option.split)

text \<open>
  Without a busy-poll budget a poll runs one round: it takes at most one datagram from the
  socket.  The datagrams that wait behind it and the time limit of the caller make no difference.
\<close>

theorem poll_takes_one_datagram:
  assumes "0 \<le> c_elapsed (poll_elapsed E 0)"
    and "quicpro_poll Q E 0 setsockopt_ok timeout_ms s c ticket = Some r"
  shows "ps_rounds (po_state r) = 1
    \<and> quicpro_poll Q (E\<lparr>poll_recv := \<lambda>i. if i = 0 then poll_recv E 0 else later i\<rparr>) 0 setsockopt_ok
        other_timeout s c ticket = Some r"
  using assms
  by (auto simp: quicpro_poll_def Let_def poll_loop_once bind_eq_Some_conv split: if_splits)

text \<open>
  A ticket that a session has imported comes back from an export, but not after a poll: every
  poll sets the length of the ticket to zero.
\<close>

theorem poll_drops_ticket:
  assumes "quicpro_client_tls_import_session_ticket set_session size1 blob (Some s) ticket = (True, Some s1, t1)"
    and "conn s1 = Some c"
    and "quicpro_poll Q E budget setsockopt_ok timeout_ms s1 c t1 = Some r"
  shows "quicpro_client_tls_export_session_ticket (Some s1) t1 = (Some blob, False)
    \<and> quicpro_client_tls_export_session_ticket (Some (po_session r)) (po_ticket r) = (Some [], False)"
proof -
  have "t1 = blob"
    using assms(1) by (auto simp: quicpro_client_tls_import_session_ticket_def Let_def
        split: option.splits if_splits prod.splits)
  moreover have "po_ticket r = [] \<and> conn (po_session r) \<noteq> None"
    using assms(3) by (auto simp: quicpro_poll_def Let_def bind_eq_Some_conv)
  ultimately show ?thesis using assms(2) by (simp add: quicpro_client_tls_export_session_ticket_def)
qed

text \<open>A path that one request set cannot be replaced in a later request.\<close>

theorem path_replaced_in_later_request:
  assumes "quicpro_set_ca_file r1 path p = Ok p1" "r1 \<noteq> r2"
  shows "quicpro_set_ca_file r2 path2 p1 = Fail Stale_Free"
  using assms by (auto simp: quicpro_set_ca_file_def efree_path_def obind_eq_Ok)

text \<open>An import keeps a ticket exactly when it fits the buffer and quiche accepts it.\<close>

lemma import_exact:
  "fst (quicpro_import_session_ticket set_session size1 blob c ticket ring) \<longleftrightarrow>
     blob \<noteq> [] \<and> length blob \<le> size1 \<and> 0 \<le> snd (set_session c blob)"
  by (auto simp: quicpro_import_session_ticket_def Let_def split: prod.splits)

section \<open>Witnesses\<close>

definition example_env :: "(string \<times> string) list poll_env" where
  "example_env = \<lparr>poll_recv = (\<lambda>i. if i < 2 then Some (Recv_Data ''p'' ''peer'' None) else None),
     poll_send_ok = (\<lambda>ds. True), poll_elapsed = (\<lambda>i. 40 * int (i + 1)), poll_timeout = (\<lambda>c. 5),
     poll_fiber = True\<rparr>"

lemma queue_rank: "\<forall>c c1 d. quiche_conn_send queue_quiche c 1350 = (c1, Inr d) \<longrightarrow> length c1 < length c"
  by (auto simp: queue_quiche_def split: list.splits)

theorem poll_returns_witness:
  "\<exists>r. quicpro_poll queue_quiche example_env 100 True 1000 queue_session [] [] = Some r
     \<and> ps_rounds (po_state r) \<le> 3"
  using poll_returns [OF queue_rank, where E = example_env and n = 2 and budget = 100 and setsockopt_ok = True
      and timeout_ms = 1000 and s = queue_session and c = "[]" and ticket = "[]"]
  by (simp add: example_env_def c_elapsed_def)

theorem poll_takes_one_datagram_witness:
  "\<exists>r. quicpro_poll queue_quiche example_env 0 True 1000 queue_session [] [] = Some r
     \<and> ps_rounds (po_state r) = 1"
proof -
  obtain r where r: "quicpro_poll queue_quiche example_env 0 True 1000 queue_session [] [] = Some r"
    by (simp add: quicpro_poll_def Let_def poll_loop_once example_env_def c_elapsed_def poll_receive_def
        poll_send.simps queue_quiche_def)
  from poll_takes_one_datagram [OF _ r] show ?thesis using r by (simp add: example_env_def c_elapsed_def)
qed

theorem poll_drops_ticket_witness:
  "\<exists>r :: (string \<times> string) list polled.
     quicpro_client_tls_export_session_ticket (Some queue_session) ''tk'' = (Some ''tk'', False)
     \<and> quicpro_client_tls_export_session_ticket (Some (po_session r)) (po_ticket r) = (Some [], False)"
proof -
  let ?s1 = "queue_session\<lparr>conn := Some []\<rparr>"
  have i: "quicpro_client_tls_import_session_ticket (\<lambda>c b. ([], 0)) 512 ''tk'' (Some queue_session) []
      = (True, Some ?s1, ''tk'')"
    by (simp add: quicpro_client_tls_import_session_ticket_def queue_session_def)
  have "\<exists>r. quicpro_poll queue_quiche example_env 0 True 1000 ?s1 [] ''tk'' = Some r"
    by (simp add: quicpro_poll_def Let_def poll_loop_once example_env_def c_elapsed_def poll_receive_def
        poll_send.simps queue_quiche_def)
  then obtain r where r: "quicpro_poll queue_quiche example_env 0 True 1000 ?s1 [] ''tk'' = Some r" by blast
  have "quicpro_client_tls_export_session_ticket (Some queue_session) ''tk'' = (Some ''tk'', False)"
    by (simp add: quicpro_client_tls_export_session_ticket_def queue_session_def)
  moreover have "conn ?s1 = Some []" by simp
  ultimately show ?thesis using poll_drops_ticket [OF i _ r] by blast
qed

end
