(* ===== verification/Http1_Server.thy ===== *)
theory Http1_Server
  imports Number_Text Zend Ledger "HOL-Library.Sublist"
begin

text \<open>
  The connections of the HTTP/1.1 server of \<^verbatim>\<open>src/extension/src/server/http1.c\<close>: the choice of a certificate by
  server name, accepting, the handler of an event with its four states, and closing.  What
  OpenSSL returns in an event and the PHP handler are arguments; a connection is shown to be
  written out completely and in order, and what it owns is given back.
\<close>

section \<open>State\<close>

datatype conn_state = STATE_HANDSHAKING | STATE_READING | STATE_WRITING | STATE_CLOSING

definition READ_BUFFER_SIZE :: nat where
  "READ_BUFFER_SIZE = 8192"

text \<open>
  The read buffer is what has been received; the rest of its bytes are zero, and behind a full
  buffer lies the count 8192, whose first byte is zero as well.
\<close>

record http1_conn =
  read_buffer :: string
  write_buffer :: "string option"
  write_buffer_sent :: nat
  state :: conn_state

definition new_conn :: http1_conn where
  "new_conn = \<lparr>read_buffer = [], write_buffer = None, write_buffer_sent = 0, state = STATE_HANDSHAKING\<rparr>"

text \<open>The results of the calls of OpenSSL that an event may lead to.\<close>

datatype ssl_result = SSL_Done nat | SSL_Want | SSL_Fail

record http1_event =
  ev_in :: bool
  ev_out :: bool
  ev_sni :: "string option"  \<comment> \<open>the server name of the client, which reaches the callback in \<^verbatim>\<open>SSL_accept\<close>\<close>
  ev_accept :: ssl_result
  ev_read :: "string option"  \<comment> \<open>None: no byte was read, for whatever reason\<close>
  ev_write :: ssl_result

datatype conn_resource = Conn_Mem | Conn_Ssl | Conn_Fd | Write_Mem

section \<open>Server names\<close>

datatype http1_error = Type_Confusion | Null_Table

text \<open>
  The contexts of the virtual hosts are looked up in a table, None when its pointer is null.  The
  result is the context in use afterwards.
\<close>

definition sni_callback :: "(string, nat) htable option \<Rightarrow> string option \<Rightarrow> nat \<Rightarrow> (http1_error, nat) outcome" where
  "sni_callback vhost_contexts servername default_ctx =
     (case servername of
        None \<Rightarrow> Ok default_ctx
      | Some n \<Rightarrow>
          (case vhost_contexts of
             None \<Rightarrow> Fail Null_Table
           | Some t \<Rightarrow> Ok (case ht_find t (cstr n) of None \<Rightarrow> default_ctx | Some ctx \<Rightarrow> ctx)))"

text \<open>The table of a server that listens: its record is zeroed and the table never allocated.\<close>

definition server_vhost_contexts :: "(string, nat) htable option" where
  "server_vhost_contexts = None"

section \<open>A request\<close>

text \<open>\<^verbatim>\<open>strstr\<close> for the end of the headers.\<close>

fun has_header_end :: "string \<Rightarrow> bool" where
  "has_header_end [] = False"
| "has_header_end (c # s) \<longleftrightarrow>
     take 4 (c # s) = [CHR 0x0D, CHR 0x0A, CHR 0x0D, CHR 0x0A] \<or> has_header_end s"

text \<open>
  The text of a response.  The length is that of the PHP string; the body is printed as a C
  string.  None is a body that is not a string, which the code reads as one all the same.
\<close>

definition http1_response :: "zend_long \<Rightarrow> string \<Rightarrow> string" where
  "http1_response status body =
     ''HTTP/1.1 '' @ long_text status @ '' OK'' @ [CHR 0x0D, CHR 0x0A]
     @ ''Content-Length: '' @ nat_text (length body) @ [CHR 0x0D, CHR 0x0A]
     @ ''Connection: close'' @ [CHR 0x0D, CHR 0x0A, CHR 0x0D, CHR 0x0A] @ cstr body"

definition handler_response :: "zend_api \<Rightarrow> php_array \<Rightarrow> string option" where
  "handler_response Z retval =
     (let status = (case arr_find retval ''status'' of None \<Rightarrow> 200 | Some v \<Rightarrow> zval_get_long Z v) in
      case arr_find retval ''body'' of
        None \<Rightarrow> Some (http1_response status [])
      | Some (Z_String b) \<Rightarrow> Some (http1_response status b)
      | Some v \<Rightarrow> None)"

definition http1_request :: zval where
  "http1_request = Z_Array [(HStr ''method'', Z_String ''GET''), (HStr ''uri'', Z_String ''/'')]"

section \<open>Events\<close>

text \<open>
  The outcome of an event: the connection, None when it was closed, the bytes written and the
  resources that the event acquired or released.  \<^term>\<open>Fail\<close> is a value of the handler that is read
  with the wrong type.
\<close>

definition close_client_connection :: "http1_conn \<Rightarrow> conn_resource event list" where
  "close_client_connection c =
     [Release Conn_Ssl, Release Conn_Fd]
     @ (if write_buffer c = None then [] else [Release Write_Mem]) @ [Release Conn_Mem]"

type_synonym http1_result = "http1_conn option \<times> string \<times> conn_resource event list"

definition handshake_part :: "http1_event \<Rightarrow> http1_conn \<Rightarrow> http1_conn option" where
  "handshake_part e c =
     (if state c \<noteq> STATE_HANDSHAKING then Some c
      else
        (case ev_accept e of
           SSL_Done n \<Rightarrow> if n = 1 then Some (c\<lparr>state := STATE_READING\<rparr>) else None
         | SSL_Want \<Rightarrow> Some c
         | SSL_Fail \<Rightarrow> None))"

text \<open>
  Reading: None when the connection is closed, because no byte could be read.  The handler of the
  server is called on every complete header, and only an array that it returns is answered.
\<close>

definition read_part ::
    "zend_api \<Rightarrow> (zval \<Rightarrow> zval option) \<Rightarrow> http1_event \<Rightarrow> http1_conn
      \<Rightarrow> (http1_error, (http1_conn \<times> conn_resource event list) option) outcome" where
  "read_part Z handler e c =
     (if \<not> (ev_in e \<and> state c = STATE_READING) then Ok (Some (c, []))
      else
        (case ev_read e of
           None \<Rightarrow> Ok None
         | Some bytes \<Rightarrow>
             (let got = take (READ_BUFFER_SIZE - length (read_buffer c)) bytes;
                  c1 = c\<lparr>read_buffer := read_buffer c @ got\<rparr>
              in if got = [] then Ok None
                 else if \<not> has_header_end (cstr (read_buffer c1)) then Ok (Some (c1, []))
                 else
                   (case handler http1_request of
                      Some (Z_Array retval) \<Rightarrow>
                        (case handler_response Z retval of
                           None \<Rightarrow> Fail Type_Confusion
                         | Some r \<Rightarrow>
                             Ok (Some (c1\<lparr>write_buffer := Some r, state := STATE_WRITING,
                                         write_buffer_sent := 0\<rparr>, [Acquire Write_Mem])))
                    | _ \<Rightarrow> Ok (Some (c1, []))))))"

text \<open>Writing: the connection, None when it is closed, and the bytes that went out.\<close>

definition write_part :: "http1_event \<Rightarrow> http1_conn \<Rightarrow> http1_conn option \<times> string" where
  "write_part e c =
     (case write_buffer c of
        None \<Rightarrow> (Some c, [])
      | Some buf \<Rightarrow>
          if \<not> (ev_out e \<and> state c = STATE_WRITING) then (Some c, [])
          else
            (let rest = drop (write_buffer_sent c) buf in
             case ev_write e of
               SSL_Done n \<Rightarrow>
                 if n = 0 then (None, [])
                 else (let out = take n rest; sent = write_buffer_sent c + length out;
                      c1 = c\<lparr>write_buffer_sent := sent\<rparr>
                  in (if sent \<ge> length buf then None else Some c1, out))
             | SSL_Want \<Rightarrow> (if write_buffer_sent c \<ge> length buf then None else Some c, [])
             | SSL_Fail \<Rightarrow> (None, [])))"

definition event_parts ::
    "zend_api \<Rightarrow> (zval \<Rightarrow> zval option) \<Rightarrow> http1_event \<Rightarrow> http1_conn \<Rightarrow> (http1_error, http1_result) outcome" where
  "event_parts Z handler e c =
     (case handshake_part e c of
        None \<Rightarrow> Ok (None, [], close_client_connection c)
      | Some c1 \<Rightarrow>
          obind (read_part Z handler e c1) (\<lambda>r. Ok
            (case r of
               None \<Rightarrow> (None, [], close_client_connection c1)
             | Some (c2, ev) \<Rightarrow>
                 (case write_part e c2 of
                    (None, out) \<Rightarrow> (None, out, ev @ close_client_connection c2)
                  | (Some c3, out) \<Rightarrow> (Some c3, out, ev)))))"

text \<open>The whole handler; a pending handshake first calls back for the name that the client sent.\<close>

definition handle_client_event ::
    "zend_api \<Rightarrow> (zval \<Rightarrow> zval option) \<Rightarrow> http1_event \<Rightarrow> http1_conn \<Rightarrow> (http1_error, http1_result) outcome" where
  "handle_client_event Z handler e c =
     (if state c = STATE_HANDSHAKING
      then obind (sni_callback server_vhost_contexts (ev_sni e) 0) (\<lambda>_. event_parts Z handler e c)
      else event_parts Z handler e c)"

lemma handle_eventD: "handle_client_event Z handler e c = Ok r \<Longrightarrow> event_parts Z handler e c = Ok r"
  by (auto simp: handle_client_event_def obind_eq_Ok split: if_splits)

section \<open>A connection over time\<close>

text \<open>
  The connection, what it has written since it was accepted, and what it holds.
\<close>

record http1_life =
  life_conn :: "http1_conn option"
  life_out :: string
  life_held :: "conn_resource multiset option"

definition life_start :: http1_life where
  "life_start = \<lparr>life_conn = Some new_conn, life_out = [],
     life_held = ledger [Acquire Conn_Mem, Acquire Conn_Ssl, Acquire Conn_Fd] {#}\<rparr>"

inductive http1_step :: "zend_api \<Rightarrow> (zval \<Rightarrow> zval option) \<Rightarrow> http1_life \<Rightarrow> http1_life \<Rightarrow> bool" for Z handler where
  http1_event:
    "life_conn s = Some c \<Longrightarrow> handle_client_event Z handler e c = Ok (c1, out, evs) \<Longrightarrow>
     http1_step Z handler s
       \<lparr>life_conn = c1, life_out = life_out s @ out,
        life_held = (case life_held s of None \<Rightarrow> None | Some m \<Rightarrow> ledger evs m)\<rparr>"

inductive_cases http1_stepE: "http1_step Z handler s t"

definition conn_held :: "http1_conn \<Rightarrow> conn_resource multiset" where
  "conn_held c = {#Conn_Mem, Conn_Ssl, Conn_Fd#} + (if write_buffer c = None then {#} else {#Write_Mem#})"

definition conn_ok :: "string \<Rightarrow> http1_conn \<Rightarrow> bool" where
  "conn_ok out c \<longleftrightarrow>
     length (read_buffer c) \<le> READ_BUFFER_SIZE
     \<and> (case write_buffer c of
          None \<Rightarrow> (state c = STATE_HANDSHAKING \<or> state c = STATE_READING) \<and> out = []
        | Some buf \<Rightarrow> state c = STATE_WRITING \<and> write_buffer_sent c < length buf
                      \<and> out = take (write_buffer_sent c) buf)"

text \<open>The responses that the handler can give rise to.\<close>

definition is_response :: "zend_api \<Rightarrow> string \<Rightarrow> bool" where
  "is_response Z r \<longleftrightarrow> (\<exists>status body. r = http1_response status body)"

definition life_inv :: "zend_api \<Rightarrow> http1_life \<Rightarrow> bool" where
  "life_inv Z s \<longleftrightarrow>
     (case life_conn s of
        Some c \<Rightarrow> conn_ok (life_out s) c \<and> life_held s = Some (conn_held c)
                  \<and> (\<forall>buf. write_buffer c = Some buf \<longrightarrow> is_response Z buf)
      | None \<Rightarrow> life_held s = Some {#}
                \<and> (life_out s = [] \<or> (\<exists>r. is_response Z r \<and> prefix (life_out s) r)))"

lemma close_ledger: "ledger (close_client_connection c) (conn_held c) = Some {#}"
  by (simp add: close_client_connection_def conn_held_def)

lemma response_nonempty: "http1_response st b \<noteq> []"
  by (simp add: http1_response_def)

lemma handler_response_is: "handler_response Z t = Some r \<Longrightarrow> is_response Z r"
  by (auto simp: handler_response_def is_response_def Let_def split: option.splits zval.splits)

text \<open>The three parts of an event keep what is known of a connection.\<close>

lemma handshake_ok:
  "handshake_part e c = Some c1 \<Longrightarrow> conn_ok out c \<Longrightarrow>
     conn_ok out c1 \<and> write_buffer c1 = write_buffer c"
  by (auto simp: handshake_part_def conn_ok_def split: if_splits ssl_result.splits option.splits)

lemma read_ok:
  assumes "read_part Z handler e c = Ok (Some (c1, evs))" "conn_ok out c"
    "\<forall>buf. write_buffer c = Some buf \<longrightarrow> is_response Z buf"
  shows "conn_ok out c1 \<and> ledger evs (conn_held c) = Some (conn_held c1)
    \<and> (\<forall>buf. write_buffer c1 = Some buf \<longrightarrow> is_response Z buf)"
proof (cases "ev_in e \<and> state c = STATE_READING")
  case True
  then have w: "write_buffer c = None" "out = []" "length (read_buffer c) \<le> READ_BUFFER_SIZE"
    using assms(2) by (auto simp: conn_ok_def split: option.splits)
  obtain bytes where b: "ev_read e = Some bytes" using assms(1) True by (cases "ev_read e") (auto simp: read_part_def)
  let ?got = "take (READ_BUFFER_SIZE - length (read_buffer c)) bytes"
  let ?c = "c\<lparr>read_buffer := read_buffer c @ ?got\<rparr>"
  have len: "length (read_buffer c @ ?got) \<le> READ_BUFFER_SIZE" using w(3) by simp
  consider "c1 = ?c" "evs = []"
    | r where "c1 = ?c\<lparr>write_buffer := Some r, state := STATE_WRITING, write_buffer_sent := 0\<rparr>"
        "evs = [Acquire Write_Mem]" "is_response Z r"
    using assms(1) True b handler_response_is
    by (auto simp: read_part_def Let_def split: if_splits option.splits zval.splits)
  then show ?thesis
  proof cases
    case 1
    then show ?thesis using len w True by (simp add: conn_ok_def conn_held_def)
  next
    case 2
    then show ?thesis using len w response_nonempty
      by (auto simp: conn_ok_def conn_held_def is_response_def)
  qed
next
  case False
  then show ?thesis using assms by (auto simp: read_part_def)
qed

lemma write_ok:
  assumes "write_part e c = (c1, o1)" "conn_ok out c"
    "\<forall>buf. write_buffer c = Some buf \<longrightarrow> is_response Z buf"
  shows "(case c1 of
            Some d \<Rightarrow> conn_ok (out @ o1) d \<and> write_buffer d = write_buffer c
          | None \<Rightarrow> \<exists>r. is_response Z r \<and> prefix (out @ o1) r)"
proof (cases "write_buffer c")
  case None
  then show ?thesis using assms by (auto simp: write_part_def)
next
  case (Some buf)
  then have b: "state c = STATE_WRITING" "write_buffer_sent c < length buf" "out = take (write_buffer_sent c) buf"
    "is_response Z buf" using assms(2,3) by (auto simp: conn_ok_def)
  have t: "out @ take n (drop (write_buffer_sent c) buf)
      = take (write_buffer_sent c + length (take n (drop (write_buffer_sent c) buf))) buf" for n
    using b(3) by (simp add: take_add min_def)
  have pr: "\<exists>r. is_response Z r \<and> prefix (take k buf) r" for k
    using b(4) take_is_prefix [of k buf] by blast
  show ?thesis
  proof (cases "ev_out e")
    case False
    then show ?thesis using assms(1,2) Some by (auto simp: write_part_def)
  next
    case True
    let ?out = "\<lambda>n. take n (drop (write_buffer_sent c) buf)"
    show ?thesis
    proof (cases "\<exists>n. ev_write e = SSL_Done n \<and> n \<noteq> 0")
      case True
      then obtain n where n: "ev_write e = SSL_Done n" "n \<noteq> 0" by auto
      have e: "o1 = ?out n" "c1 = (if write_buffer_sent c + length (?out n) \<ge> length buf then None
          else Some (c\<lparr>write_buffer_sent := write_buffer_sent c + length (?out n)\<rparr>))"
        using assms(1) Some b(1) \<open>ev_out e\<close> n by (auto simp: write_part_def Let_def simp del: length_take)
      show ?thesis
      proof (cases "write_buffer_sent c + length (?out n) \<ge> length buf")
        case True
        then show ?thesis using e pr [of "length buf"] t [of n] by (simp del: length_take)
      next
        case False
        then show ?thesis using b assms(2) Some e t [of n] by (simp add: conn_ok_def del: length_take)
      qed
    next
      case False
      then have "c1 = None \<and> o1 = [] \<or> c1 = Some c \<and> o1 = []"
        using assms(1) Some b(1,2) \<open>ev_out e\<close> by (cases "ev_write e") (auto simp: write_part_def)
      then show ?thesis using assms(2) b(3) pr by auto
    qed
  qed
qed

lemma step_keeps: "life_inv Z s \<Longrightarrow> http1_step Z handler s t \<Longrightarrow> life_inv Z t"
proof (elim http1_stepE)
  fix c e c1 out evs
  assume inv: "life_inv Z s" and c: "life_conn s = Some c"
    and h: "handle_client_event Z handler e c = Ok (c1, out, evs)"
    and t: "t = \<lparr>life_conn = c1, life_out = life_out s @ out,
        life_held = (case life_held s of None \<Rightarrow> None | Some m \<Rightarrow> ledger evs m)\<rparr>"
  have ok: "conn_ok (life_out s) c" "life_held s = Some (conn_held c)"
    "\<forall>buf. write_buffer c = Some buf \<longrightarrow> is_response Z buf"
    using inv c by (auto simp: life_inv_def)
  note h1 = handle_eventD [OF h]
  have part: "life_out s = [] \<or> (\<exists>r. is_response Z r \<and> prefix (life_out s) r)"
    using ok by (auto simp: conn_ok_def take_is_prefix split: option.splits)
  show "life_inv Z t"
  proof (cases "handshake_part e c")
    case None
    then show ?thesis using h1 ok(2) part by (auto simp: event_parts_def t life_inv_def close_ledger)
  next
    case (Some d)
    then have d: "conn_ok (life_out s) d" "write_buffer d = write_buffer c" using handshake_ok ok(1) by auto
    then have hd: "conn_held d = conn_held c" by (simp add: conn_held_def)
    obtain r where r: "read_part Z handler e d = Ok r"
      using h1 Some by (cases "read_part Z handler e d") (auto simp: event_parts_def)
    show ?thesis
    proof (cases r)
      case None
      then show ?thesis using h1 Some r ok(2) part hd close_ledger [of d]
        by (auto simp: event_parts_def t life_inv_def)
    next
      case r1: (Some p)
      obtain c2 ev where p: "p = (c2, ev)" by (cases p)
      have k: "conn_ok (life_out s) c2" "ledger ev (conn_held d) = Some (conn_held c2)"
        "\<forall>buf. write_buffer c2 = Some buf \<longrightarrow> is_response Z buf"
        using read_ok [OF r [unfolded r1 p] d(1)] d(2) ok(3) by auto
      obtain c3 o3 where w: "write_part e c2 = (c3, o3)" by (cases "write_part e c2")
      note wk = write_ok [OF w k(1,3)]
      show ?thesis
      proof (cases c3)
        case None
        then show ?thesis using h1 Some r r1 p w wk ok(2) k(2) hd close_ledger [of c2]
          by (auto simp: event_parts_def t life_inv_def ledger_append)
      next
        case s3: (Some c4)
        then have "conn_held c4 = conn_held c2" using wk by (simp add: conn_held_def)
        then show ?thesis using h1 Some r r1 p w wk s3 ok(2) k hd
          by (auto simp: event_parts_def t life_inv_def)
      qed
    qed
  qed
qed

interpretation http1: step_system "\<lambda>s. s = life_start" "http1_step Z handler" "life_inv Z" for Z handler
proof
  show "life_inv Z s" if "s = life_start" for s
    using that by (simp add: life_inv_def life_start_def new_conn_def conn_ok_def conn_held_def READ_BUFFER_SIZE_def add_mset_commute)
qed (rule step_keeps)

text \<open>
  C5: Whatever events a connection sees: the read buffer never overflows, what has been written is
  a prefix of one response without gap or repetition, an open connection owns its memory, TLS
  state and descriptor, and a closed one has given everything back exactly once.
\<close>

theorem http1_connection_safe:
  assumes "(http1_step Z handler)\<^sup>*\<^sup>* life_start s"
  shows "(\<exists>status body. prefix (life_out s) (http1_response status body))
    \<and> (case life_conn s of
         None \<Rightarrow> life_held s = Some {#}
       | Some c \<Rightarrow> length (read_buffer c) \<le> READ_BUFFER_SIZE
           \<and> life_held s = Some ({#Conn_Mem, Conn_Ssl, Conn_Fd#} + (if write_buffer c = None then {#} else {#Write_Mem#}))
           \<and> (\<forall>buf. write_buffer c = Some buf \<longrightarrow> life_out s = take (write_buffer_sent c) buf))"
proof -
  have inv: "life_inv Z s" using http1.reachable_inv [OF refl assms] .
  then have "life_out s = [] \<or> (\<exists>r. is_response Z r \<and> prefix (life_out s) r)"
    by (cases "life_conn s") (auto simp: life_inv_def conn_ok_def take_is_prefix split: option.splits)
  moreover have "prefix [] r" for r :: string by simp
  ultimately show ?thesis using inv
    by (auto simp: life_inv_def conn_ok_def conn_held_def is_response_def split: option.splits)
qed

text \<open>
  The announced length is that of the body that follows exactly when the body has no NUL byte;
  otherwise fewer bytes follow.
\<close>

theorem http1_content_length:
  "\<exists>head. http1_response status body
       = head @ ''Content-Length: '' @ nat_text (length body) @ [CHR 0x0D, CHR 0x0A]
         @ ''Connection: close'' @ [CHR 0x0D, CHR 0x0A, CHR 0x0D, CHR 0x0A] @ cstr body
     \<and> length (cstr body) \<le> length body
     \<and> (length (cstr body) = length body \<longleftrightarrow> CHR 0x00 \<notin> set body)"
proof -
  have "length (cstr body) \<le> length body" by (simp add: cstr_def length_takeWhile_le)
  moreover have "length (cstr body) = length body \<longleftrightarrow> CHR 0x00 \<notin> set body"
    using cstr_id [of body] cstr_no_nul [of body]
    by (metis append_take_drop_id cstr_def length_takeWhile_le takeWhile_eq_take take_all_iff le_refl)
  ultimately show ?thesis by (auto simp: http1_response_def)
qed

text \<open>
  A connection whose handshake is completed by an event that also reports input is closed at
  once when the first request has not arrived yet.
\<close>

theorem http1_closed_after_handshake:
  assumes "state c = STATE_HANDSHAKING" "ev_sni e = None" "ev_accept e = SSL_Done 1" "ev_in e" "ev_read e = None"
  shows "handle_client_event Z handler e c = Ok (None, [], close_client_connection (c\<lparr>state := STATE_READING\<rparr>))"
  using assms by (simp add: handle_client_event_def sni_callback_def event_parts_def handshake_part_def read_part_def)


text \<open>A write that closes the connection, and did not fail, was the last of the response.\<close>

lemma write_completes:
  assumes "write_part e c = (None, o1)" "ev_write e = SSL_Done n" "n \<noteq> 0"
    and "conn_ok out c" "write_buffer c = Some buf"
  shows "out @ o1 = buf"
proof -
  have b: "out = take (write_buffer_sent c) buf" using assms(4,5) by (simp add: conn_ok_def)
  have "o1 = take n (drop (write_buffer_sent c) buf)"
    "length buf \<le> write_buffer_sent c + length (take n (drop (write_buffer_sent c) buf))"
    using assms by (auto simp: write_part_def Let_def simp del: length_take split: if_splits)
  then show ?thesis unfolding b by (metis append_take_drop_id length_drop take_all_iff add.commute le_diff_conv
        length_take min.cobounded2 min_def)
qed

section \<open>Witnesses\<close>

definition example_event :: http1_event where
  "example_event = \<lparr>ev_in = True, ev_out = True, ev_sni = None, ev_accept = SSL_Done 1,
     ev_read = Some (''GET / HTTP/1.1'' @ [CHR 0x0D, CHR 0x0A, CHR 0x0D, CHR 0x0A]), ev_write = SSL_Want\<rparr>"

definition example_handler :: "zval \<Rightarrow> zval option" where
  "example_handler r = Some (Z_Array [(HStr ''body'', Z_String ''hi'')])"

theorem http1_connection_safe_witness:
  "\<forall>Z. \<exists>s. (http1_step Z example_handler)\<^sup>*\<^sup>* life_start s
     \<and> (\<exists>c. life_conn s = Some c \<and> length (read_buffer c) \<le> READ_BUFFER_SIZE
          \<and> write_buffer c = Some (http1_response 200 ''hi''))"
proof
  fix Z
  have h: "has_header_end (cstr (''GET / HTTP/1.1'' @ [CHR 0x0D, CHR 0x0A, CHR 0x0D, CHR 0x0A]))"
    by code_simp
  let ?c = "\<lparr>read_buffer = ''GET / HTTP/1.1'' @ [CHR 0x0D, CHR 0x0A, CHR 0x0D, CHR 0x0A],
      write_buffer = Some (http1_response 200 ''hi''), write_buffer_sent = 0, state = STATE_WRITING\<rparr>"
  have e: "handle_client_event Z example_handler example_event new_conn = Ok (Some ?c, [], [Acquire Write_Mem])"
    using h response_nonempty
    by (simp add: handle_client_event_def sni_callback_def event_parts_def handshake_part_def read_part_def write_part_def new_conn_def
        example_event_def example_handler_def handler_response_def arr_find_def READ_BUFFER_SIZE_def)
  define s where "s = \<lparr>life_conn = Some ?c, life_out = life_out life_start @ [],
      life_held = (case life_held life_start of None \<Rightarrow> None | Some m \<Rightarrow> ledger [Acquire Write_Mem] m)\<rparr>"
  have "http1_step Z example_handler life_start s"
    unfolding s_def by (rule http1_event [OF _ e]) (simp add: life_start_def)
  then have r: "(http1_step Z example_handler)\<^sup>*\<^sup>* life_start s" by (rule r_into_rtranclp)
  have "life_conn s = Some ?c" by (simp add: s_def)
  with http1_connection_safe [OF r] r show "\<exists>s. (http1_step Z example_handler)\<^sup>*\<^sup>* life_start s
     \<and> (\<exists>c. life_conn s = Some c \<and> length (read_buffer c) \<le> READ_BUFFER_SIZE
          \<and> write_buffer c = Some (http1_response 200 ''hi''))" by auto
qed

theorem http1_closed_after_handshake_witness:
  "\<forall>Z. handle_client_event Z example_handler (example_event\<lparr>ev_read := None\<rparr>) new_conn
     = Ok (None, [], [Release Conn_Ssl, Release Conn_Fd, Release Conn_Mem])"
  using http1_closed_after_handshake [of new_conn "example_event\<lparr>ev_read := None\<rparr>"]
  by (simp add: new_conn_def example_event_def close_client_connection_def)


end
