(* ===== verification/Http2_Server.thy ===== *)
theory Http2_Server
  imports Number_Text Zend Ledger
begin

text \<open>
  The sessions of the HTTP/2 server of \<^verbatim>\<open>src/extension/src/server/http2.c\<close>: the callbacks that nghttp2
  invokes while it reads, the source of a response body, sending, the handler of an event and
  closing.  nghttp2 turns received bytes into a sequence of callbacks, which is an argument, as
  are the results of OpenSSL and the PHP handler.
\<close>

section \<open>Streams\<close>

text \<open>
  The source of a response body: its pointer and length, or the same after the string it points
  into has been released.
\<close>

datatype body_source = No_Body | Body string | Released_Body nat

record http2_stream_t =
  request_headers :: php_array
  request_body :: "string option"
  response_body :: body_source
  response_offset :: nat

record h2_frame =
  is_headers :: bool
  is_request :: bool
  end_stream :: bool
  frame_stream :: int

datatype http2_error = Null_Session | Use_After_Free

type_synonym h2_streams = "(int, http2_stream_t) htable"

definition on_begin_headers_callback :: "h2_frame \<Rightarrow> h2_streams \<Rightarrow> h2_streams" where
  "on_begin_headers_callback f ss =
     (if \<not> is_headers f \<or> \<not> is_request f then ss
      else ht_update ss (frame_stream f)
             \<lparr>request_headers = [], request_body = None, response_body = No_Body, response_offset = 0\<rparr>)"

definition on_header_callback :: "h2_frame \<Rightarrow> string \<Rightarrow> string \<Rightarrow> h2_streams \<Rightarrow> h2_streams" where
  "on_header_callback f name v ss =
     (if \<not> is_headers f \<or> \<not> is_request f then ss
      else
        (case ht_find ss (frame_stream f) of
           None \<Rightarrow> ss
         | Some st \<Rightarrow>
             ht_update ss (frame_stream f)
               (st\<lparr>request_headers := ht_update (request_headers st) (symtable_key (cstr name)) (Z_String v)\<rparr>)))"

definition on_data_chunk_recv_callback :: "int \<Rightarrow> string \<Rightarrow> h2_streams \<Rightarrow> h2_streams" where
  "on_data_chunk_recv_callback sid d ss =
     (case ht_find ss sid of
        None \<Rightarrow> ss
      | Some st \<Rightarrow>
          ht_update ss sid
            (st\<lparr>request_body := Some ((case request_body st of None \<Rightarrow> [] | Some b \<Rightarrow> b) @ d)\<rparr>))"

definition on_stream_close_callback :: "int \<Rightarrow> h2_streams \<Rightarrow> h2_streams" where
  "on_stream_close_callback sid ss = filter (\<lambda>(k, st). k \<noteq> sid) ss"

section \<open>Responses\<close>

record h2_response =
  resp_stream :: int
  resp_status :: string
  resp_has_body :: bool

text \<open>
  The handler is called when the headers of a stream end it.  It returns a value and whether
  something else keeps the body alive once that value is released, as the callback does before
  it returns.
\<close>

definition on_frame_recv_callback ::
    "zend_api \<Rightarrow> (zval \<Rightarrow> (zval \<times> bool) option) \<Rightarrow> h2_frame \<Rightarrow> h2_streams \<Rightarrow> h2_streams \<times> h2_response list" where
  "on_frame_recv_callback Z handler f ss =
     (if \<not> is_headers f \<or> \<not> end_stream f then (ss, [])
      else
        (case ht_find ss (frame_stream f) of
           None \<Rightarrow> (ss, [])
         | Some st \<Rightarrow>
             (let req = (case request_body st of
                           None \<Rightarrow> request_headers st
                         | Some b \<Rightarrow> ht_update (request_headers st) (HStr ''body'') (Z_String b));
                  st1 = st\<lparr>request_headers := req\<rparr>
              in case handler (Z_Array req) of
                   Some (Z_Array retval, kept) \<Rightarrow>
                     (let status = (case arr_find retval ''status'' of None \<Rightarrow> 200 | Some v \<Rightarrow> zval_get_long Z v);
                          status_str = take 3 (long_text status)
                      in case arr_find retval ''body'' of
                           Some (Z_String b) \<Rightarrow>
                             (ht_update ss (frame_stream f)
                                (st1\<lparr>response_body := (if kept then Body b else Released_Body (length b)),
                                     response_offset := 0\<rparr>),
                              [\<lparr>resp_stream = frame_stream f, resp_status = status_str, resp_has_body = True\<rparr>])
                         | _ \<Rightarrow>
                             (ht_update ss (frame_stream f) st1,
                              [\<lparr>resp_stream = frame_stream f, resp_status = status_str, resp_has_body = False\<rparr>]))
                 | _ \<Rightarrow> (ht_update ss (frame_stream f) st1, []))))"

text \<open>The callback that fills a buffer of the given length: the bytes, the end flag, the stream.\<close>

definition response_read_callback ::
    "nat \<Rightarrow> http2_stream_t \<Rightarrow> (http2_error, string \<times> bool \<times> http2_stream_t) outcome" where
  "response_read_callback len st =
     (case response_body st of
        No_Body \<Rightarrow> Ok ([], True, st)
      | Body b \<Rightarrow>
          (let to_copy = min len (length b - response_offset st);
               out = take to_copy (drop (response_offset st) b);
               off = response_offset st + to_copy
           in Ok (out, off = length b, st\<lparr>response_offset := off\<rparr>))
      | Released_Body n \<Rightarrow>
          if min len (n - response_offset st) > 0 then Fail Use_After_Free
          else Ok ([], response_offset st = n, st))"

datatype send_result = Send_Bytes nat | NGHTTP2_ERR_WOULDBLOCK | NGHTTP2_ERR_CALLBACK_FAILURE

definition send_callback :: "(nat + bool) \<Rightarrow> send_result" where
  "send_callback written =
     (case written of
        Inl n \<Rightarrow> if n > 0 then Send_Bytes n else NGHTTP2_ERR_CALLBACK_FAILURE
      | Inr want_write \<Rightarrow> if want_write then NGHTTP2_ERR_WOULDBLOCK else NGHTTP2_ERR_CALLBACK_FAILURE)"

section \<open>Events\<close>

datatype h2_callback =
    Begin_Headers h2_frame
  | Header h2_frame string string
  | Data_Chunk int string
  | Frame_Recv h2_frame
  | Stream_Close int

fun run_callbacks ::
    "zend_api \<Rightarrow> (zval \<Rightarrow> (zval \<times> bool) option) \<Rightarrow> h2_callback list \<Rightarrow> h2_streams
      \<Rightarrow> h2_streams \<times> h2_response list" where
  "run_callbacks Z handler [] ss = (ss, [])"
| "run_callbacks Z handler (cb # cbs) ss =
     (let (ss1, rs1) =
            (case cb of
               Begin_Headers f \<Rightarrow> (on_begin_headers_callback f ss, [])
             | Header f n v \<Rightarrow> (on_header_callback f n v ss, [])
             | Data_Chunk sid d \<Rightarrow> (on_data_chunk_recv_callback sid d ss, [])
             | Frame_Recv f \<Rightarrow> on_frame_recv_callback Z handler f ss
             | Stream_Close sid \<Rightarrow> (on_stream_close_callback sid ss, []));
          (ss2, rs2) = run_callbacks Z handler cbs ss1
      in (ss2, rs1 @ rs2))"

record http2_session =
  ngh2_session :: bool
  h2_streams :: h2_streams

datatype accept_result = Accept_Done | Accept_Want | Accept_Fail

datatype read_result = Read_Bytes "h2_callback list" bool | Read_Want | Read_End

record h2_event =
  h2_in :: bool
  h2_out :: bool
  h2_accept :: accept_result
  h2_read :: read_result  \<comment> \<open>the callbacks of the bytes, and whether nghttp2 took all of them\<close>
  h2_send_ok :: bool

datatype h2_resource = H2_Mem | H2_Ssl | H2_Fd | H2_Ngh2 | H2_Stream

definition close_http2_session :: "http2_session \<Rightarrow> h2_resource event list" where
  "close_http2_session s =
     (if ngh2_session s then [Release H2_Ngh2] else []) @ [Release H2_Ssl, Release H2_Fd, Release H2_Mem]"

text \<open>
  The result of an event: the session, None when it was closed, and the responses submitted.
  Reading or sending without a session of nghttp2 dereferences a null pointer.
\<close>

definition h2_read_part ::
    "zend_api \<Rightarrow> (zval \<Rightarrow> (zval \<times> bool) option) \<Rightarrow> h2_event \<Rightarrow> http2_session
      \<Rightarrow> (http2_error, http2_session option \<times> h2_response list) outcome" where
  "h2_read_part Z handler e s =
     (if \<not> h2_in e then Ok (Some s, [])
      else
        (case h2_read e of
           Read_Want \<Rightarrow> Ok (Some s, [])
         | Read_End \<Rightarrow> Ok (None, [])
         | Read_Bytes cbs all_taken \<Rightarrow>
             if \<not> ngh2_session s then Fail Null_Session
             else
               (let (ss, rs) = run_callbacks Z handler cbs (h2_streams s) in
                Ok (if all_taken then Some (s\<lparr>h2_streams := ss\<rparr>) else None, rs))))"

definition handle_http2_event ::
    "zend_api \<Rightarrow> (zval \<Rightarrow> (zval \<times> bool) option) \<Rightarrow> h2_event \<Rightarrow> http2_session
      \<Rightarrow> (http2_error, http2_session option \<times> h2_response list) outcome" where
  "handle_http2_event Z handler e s =
     (if \<not> ngh2_session s \<and> h2_accept e = Accept_Fail then Ok (None, [])
      else
        obind (h2_read_part Z handler e
                 (if \<not> ngh2_session s \<and> h2_accept e = Accept_Done then s\<lparr>ngh2_session := True\<rparr> else s))
          (\<lambda>(r, rs).
             case r of
               None \<Rightarrow> Ok (None, rs)
             | Some s1 \<Rightarrow>
                 if \<not> h2_out e then Ok (Some s1, rs)
                 else if \<not> ngh2_session s1 then Fail Null_Session
                 else Ok (if h2_send_ok e then Some s1 else None, rs)))"

section \<open>Starting the server\<close>

datatype listen_resource = Ssl_Ctx | Listen_Fd

definition http2_listen_setup ::
    "zval \<Rightarrow> (string \<Rightarrow> bool) \<Rightarrow> (string \<Rightarrow> bool) \<Rightarrow> bool \<Rightarrow> string option \<times> listen_resource event list" where
  "http2_listen_setup options cert_ok key_ok bind_ok =
     (let opt = (\<lambda>k. case options of
                   Z_Array t \<Rightarrow> (case arr_find t k of Some (Z_String s) \<Rightarrow> Some (cstr s) | _ \<Rightarrow> None)
                 | _ \<Rightarrow> None)
      in case (opt ''cert_file'', opt ''key_file'') of
           (Some cert, Some key) \<Rightarrow>
             if \<not> cert_ok cert \<or> \<not> key_ok key
             then (Some ''Failed to load TLS certificate/key.'', [Acquire Ssl_Ctx, Release Ssl_Ctx])
             else if \<not> bind_ok
             then (Some ''HTTP/2 server failed to bind/listen'',
                   [Acquire Ssl_Ctx, Acquire Listen_Fd, Release Listen_Fd, Release Ssl_Ctx])
             else (None, [Acquire Ssl_Ctx, Acquire Listen_Fd])
         | _ \<Rightarrow> (Some ''HTTP/2 server requires 'cert_file' and 'key_file' in configuration.'', []))"

section \<open>Delivering a body\<close>

text \<open>nghttp2 asks for the body with one buffer after another until the end flag is set.\<close>

fun read_all :: "nat list \<Rightarrow> http2_stream_t \<Rightarrow> (http2_error, string \<times> bool) outcome" where
  "read_all [] st = Ok ([], False)"
| "read_all (n # ns) st =
     obind (response_read_callback n st) (\<lambda>(out, eof, st1).
       if eof then Ok (out, True)
       else obind (read_all ns st1) (\<lambda>(rest, e). Ok (out @ rest, e)))"

lemma read_all_body:
  assumes "response_body st = Body b" "response_offset st \<le> length b"
  shows "read_all ns st = Ok (take (sum_list ns) (drop (response_offset st) b),
           ns \<noteq> [] \<and> length b - response_offset st \<le> sum_list ns)"
  using assms
proof (induction ns arbitrary: st)
  case (Cons n ns)
  let ?k = "min n (length b - response_offset st)"
  have r: "response_read_callback n st = Ok (take ?k (drop (response_offset st) b),
      response_offset st + ?k = length b, st\<lparr>response_offset := response_offset st + ?k\<rparr>)"
    using Cons.prems by (simp add: response_read_callback_def Let_def)
  show ?case
  proof (cases "response_offset st + ?k = length b")
    case True
    then have "length b - response_offset st \<le> n" using Cons.prems by linarith
    then show ?thesis using True by (simp add: r)
  next
    case False
    then have k: "?k = n" "n < length b - response_offset st" using Cons.prems by linarith+
    have "read_all ns (st\<lparr>response_offset := response_offset st + n\<rparr>)
        = Ok (take (sum_list ns) (drop (response_offset st + n) b),
              ns \<noteq> [] \<and> length b - (response_offset st + n) \<le> sum_list ns)"
      using Cons.IH [of "st\<lparr>response_offset := response_offset st + n\<rparr>"] Cons.prems k by simp
    then show ?thesis using False k by (auto simp: r take_add add.commute)
  qed
qed simp

text \<open>
  C18: A response body whose string stays alive is handed to nghttp2 completely and in order,
  whatever buffer sizes it asks with, and the end is flagged exactly when all of it has been
  handed over.
\<close>

theorem http2_body_delivered:
  assumes "handler (Z_Array (case request_body st of None \<Rightarrow> request_headers st
               | Some b \<Rightarrow> ht_update (request_headers st) (HStr ''body'') (Z_String b)))
             = Some (Z_Array retval, True)"
    and "arr_find retval ''body'' = Some (Z_String body)"
    and "is_headers f" "end_stream f" "ht_find ss (frame_stream f) = Some st"
  shows "\<exists>st1. ht_find (fst (on_frame_recv_callback Z handler f ss)) (frame_stream f) = Some st1
           \<and> read_all ns st1 = Ok (take (sum_list ns) body, ns \<noteq> [] \<and> length body \<le> sum_list ns)"
proof -
  obtain st1 where st1: "ht_find (fst (on_frame_recv_callback Z handler f ss)) (frame_stream f) = Some st1"
    "response_body st1 = Body body" "response_offset st1 = 0"
    using assms by (auto simp: on_frame_recv_callback_def Let_def table_simps)
  then show ?thesis using read_all_body [of st1 body ns] by simp
qed

text \<open>
  A response body that nothing else refers to is released before the callback returns, and
  the first attempt to send a byte of it reads released memory.
\<close>

theorem http2_body_released:
  assumes "handler (Z_Array (case request_body st of None \<Rightarrow> request_headers st
               | Some b \<Rightarrow> ht_update (request_headers st) (HStr ''body'') (Z_String b)))
             = Some (Z_Array retval, False)"
    and "arr_find retval ''body'' = Some (Z_String body)" "body \<noteq> []" "0 < n"
    and "is_headers f" "end_stream f" "ht_find ss (frame_stream f) = Some st"
  shows "\<exists>st1. ht_find (fst (on_frame_recv_callback Z handler f ss)) (frame_stream f) = Some st1
           \<and> read_all (n # ns) st1 = Fail Use_After_Free"
  using assms
  by (auto simp: on_frame_recv_callback_def Let_def table_simps response_read_callback_def)

text \<open>
  An event that finds the handshake unfinished and the socket writable, as the first event of
  a connection does, dereferences the session of nghttp2 that does not exist yet.
\<close>

theorem http2_pending_handshake_crash:
  assumes "\<not> ngh2_session s" "h2_accept e = Accept_Want" "h2_out e" "\<not> h2_in e \<or> h2_read e = Read_Want"
  shows "handle_http2_event Z handler e s = Fail Null_Session"
  using assms by (auto simp: handle_http2_event_def h2_read_part_def)

text \<open>A session that has finished its handshake never fails so, and keeps its session.\<close>

lemma http2_ready_safe:
  assumes "ngh2_session s"
  shows "\<exists>r rs. handle_http2_event Z handler e s = Ok (r, rs) \<and> (\<forall>s1. r = Some s1 \<longrightarrow> ngh2_session s1)"
  using assms
  by (auto simp: handle_http2_event_def h2_read_part_def Let_def split: read_result.splits prod.splits)

text \<open>
  A request whose body follows its headers is never given to the handler: only headers that end
  the stream are.
\<close>

theorem http2_bodies_ignored:
  "list_all (\<lambda>cb. case cb of Frame_Recv f \<Rightarrow> \<not> (is_headers f \<and> end_stream f) | _ \<Rightarrow> True) cbs \<Longrightarrow>
     snd (run_callbacks Z handler cbs ss) = []"
proof (induction cbs arbitrary: ss)
  case (Cons cb cbs)
  then show ?case
    by (cases cb) (auto simp: Let_def on_frame_recv_callback_def split: prod.splits) 
qed simp

text \<open>The chunks of a body are put together in order.\<close>

lemma chunks_assembled:
  "ht_find ss sid = Some st \<Longrightarrow>
     ht_find (fst (run_callbacks Z handler (map (Data_Chunk sid) (d # ds)) ss)) sid
     = Some (st\<lparr>request_body := Some ((case request_body st of None \<Rightarrow> [] | Some b \<Rightarrow> b) @ concat (d # ds))\<rparr>)"
proof (induction ds arbitrary: ss st d)
  case Nil
  then show ?case by (simp add: on_data_chunk_recv_callback_def table_simps)
next
  case (Cons d2 ds)
  let ?st = "st\<lparr>request_body := Some ((case request_body st of None \<Rightarrow> [] | Some b \<Rightarrow> b) @ d)\<rparr>"
  have "ht_find (on_data_chunk_recv_callback sid d ss) sid = Some ?st"
    using Cons.prems by (simp add: on_data_chunk_recv_callback_def table_simps)
  from Cons.IH [OF this, of d2] show ?case by (simp add: Let_def split: prod.splits)
qed

text \<open>Closing a session leaves the memory of the streams that are still open.\<close>

lemma close_leaves_streams:
  assumes "ngh2_session s"
  shows "ledger (close_http2_session s)
           ({#H2_Mem, H2_Ssl, H2_Fd, H2_Ngh2#} + replicate_mset (length (h2_streams s)) H2_Stream)
         = Some (replicate_mset (length (h2_streams s)) H2_Stream)"
  using assms by (simp add: close_http2_session_def)

text \<open>A failed start holds nothing.\<close>

lemma http2_setup_ledger:
  "ledger (snd (http2_listen_setup options cert_ok key_ok bind_ok)) {#}
     = Some (if fst (http2_listen_setup options cert_ok key_ok bind_ok) = None then {#Ssl_Ctx, Listen_Fd#} else {#})"
  by (auto simp: http2_listen_setup_def Let_def add_mset_commute split: option.splits zval.splits)

section \<open>Witnesses\<close>

definition example_frame :: h2_frame where
  "example_frame = \<lparr>is_headers = True, is_request = True, end_stream = True, frame_stream = 1\<rparr>"

definition example_streams :: h2_streams where
  "example_streams = on_header_callback example_frame '':path'' ''/'' (on_begin_headers_callback example_frame [])"

definition example_handler2 :: "bool \<Rightarrow> zval \<Rightarrow> (zval \<times> bool) option" where
  "example_handler2 kept r = Some (Z_Array [(HStr ''body'', Z_String ''hello'')], kept)"

theorem http2_body_delivered_witness:
  "\<forall>Z. \<exists>st1. ht_find (fst (on_frame_recv_callback Z (example_handler2 True) example_frame example_streams)) 1
       = Some st1 \<and> read_all [2, 2, 2] st1 = Ok (''hello'', True)"
proof
  fix Z
  obtain st where st: "ht_find example_streams (frame_stream example_frame) = Some st"
    by (simp add: example_streams_def on_header_callback_def on_begin_headers_callback_def example_frame_def)
  from http2_body_delivered [where handler = "example_handler2 True" and f = example_frame and ss = example_streams
      and body = "''hello''" and retval = "[(HStr ''body'', Z_String ''hello'')]" and Z = Z and ns = "[2, 2, 2]", OF _ _ _ _ st]
  show "\<exists>st1. ht_find (fst (on_frame_recv_callback Z (example_handler2 True) example_frame example_streams)) 1
       = Some st1 \<and> read_all [2, 2, 2] st1 = Ok (''hello'', True)"
    by (simp add: example_handler2_def example_frame_def arr_find_def)
qed

theorem http2_body_released_witness:
  "\<forall>Z. \<exists>st1. ht_find (fst (on_frame_recv_callback Z (example_handler2 False) example_frame example_streams)) 1
       = Some st1 \<and> read_all [2] st1 = Fail Use_After_Free"
proof
  fix Z
  obtain st where st: "ht_find example_streams (frame_stream example_frame) = Some st"
    by (simp add: example_streams_def on_header_callback_def on_begin_headers_callback_def example_frame_def)
  from http2_body_released [where handler = "example_handler2 False" and f = example_frame and ss = example_streams
      and body = "''hello''" and retval = "[(HStr ''body'', Z_String ''hello'')]" and Z = Z and n = 2 and ns = "[]",
      OF _ _ _ _ _ _ st]
  show "\<exists>st1. ht_find (fst (on_frame_recv_callback Z (example_handler2 False) example_frame example_streams)) 1
       = Some st1 \<and> read_all [2] st1 = Fail Use_After_Free"
    by (simp add: example_handler2_def example_frame_def arr_find_def)
qed

theorem http2_pending_handshake_crash_witness:
  "\<forall>Z. handle_http2_event Z (example_handler2 True)
     \<lparr>h2_in = False, h2_out = True, h2_accept = Accept_Want, h2_read = Read_Want, h2_send_ok = True\<rparr>
     \<lparr>ngh2_session = False, h2_streams = []\<rparr> = Fail Null_Session"
  using http2_pending_handshake_crash [of "\<lparr>ngh2_session = False, h2_streams = []\<rparr>"
      "\<lparr>h2_in = False, h2_out = True, h2_accept = Accept_Want, h2_read = Read_Want, h2_send_ok = True\<rparr>"]
  by simp

end
