(* ===== verification/Quic_Server.thy ===== *)
theory Quic_Server
  imports Client_Session
begin

text \<open>
  The QUIC servers of \<^verbatim>\<open>src/extension/src/server/index.c\<close> and \<^verbatim>\<open>src/extension/src/server/http3.c\<close>: creating and closing
  a server, applying a configuration object, and the event loop that both files have: routing a
  datagram to a session, and the round over all sessions that sends, calls the PHP handler and
  removes what is closed.  System calls and quiche are arguments.
\<close>

section \<open>Configuration\<close>

datatype config_call = Call_Str string string | Call_Long string zend_long

text \<open>The loop over the options, in the order of the array.\<close>

definition config_entry :: "hkey \<times> zval \<Rightarrow> config_call list" where
  "config_entry kv =
     (case kv of
        (HStr key, Z_String s) \<Rightarrow>
          if key = ''application_protos'' then [Call_Str ''set_application_protos'' s]
          else if key = ''cert_file'' then [Call_Str ''load_cert_chain_from_pem_file'' (cstr s)]
          else if key = ''key_file'' then [Call_Str ''load_priv_key_from_pem_file'' (cstr s)]
          else []
      | (HStr key, Z_Long n) \<Rightarrow>
          if key \<in> set [''max_idle_timeout'', ''max_recv_udp_payload_size'', ''max_send_udp_payload_size'',
               ''initial_max_data'', ''initial_max_stream_data_bidi_local'',
               ''initial_max_stream_data_bidi_remote'', ''initial_max_stream_data_uni'',
               ''initial_max_streams_bidi'', ''initial_max_streams_uni'']
          then [Call_Long (''set_'' @ key) n]
          else []
      | _ \<Rightarrow> [])"

definition apply_php_config_to_quiche :: "zend_api \<Rightarrow> zval \<Rightarrow> config_call list" where
  "apply_php_config_to_quiche Z config_obj =
     (case zend_read_property Z config_obj ''options'' of
        Z_Array t \<Rightarrow> concat (map config_entry t)
      | _ \<Rightarrow> [])"

text \<open>The HTTP/3 server looks two options up.\<close>

definition apply_config_to_quiche :: "zend_api \<Rightarrow> zval \<Rightarrow> config_call list" where
  "apply_config_to_quiche Z config_obj =
     (case zend_read_property Z config_obj ''options'' of
        Z_Array t \<Rightarrow>
          (case arr_find t ''cert_file'' of
             Some (Z_String s) \<Rightarrow> [Call_Str ''load_cert_chain_from_pem_file'' (cstr s)] | _ \<Rightarrow> [])
          @ (case arr_find t ''key_file'' of
               Some (Z_String s) \<Rightarrow> [Call_Str ''load_priv_key_from_pem_file'' (cstr s)] | _ \<Rightarrow> [])
      | _ \<Rightarrow> [])"

section \<open>Creating a server\<close>

datatype server_resource = Server_Mem | Server_Fd | Server_Config | Session_Table

record create_env =
  ce_socket :: bool
  ce_reuseport :: bool
  ce_v6only :: bool
  ce_pton6 :: "string \<Rightarrow> u8 list option"
  ce_pton4 :: "string \<Rightarrow> u8 list option"
  ce_bind :: "u8 list \<Rightarrow> 16 word \<Rightarrow> bool"
  ce_config :: bool

datatype create_error =
    Socket_Error | Reuseport_Error | V6only_Error | Bad_Host | Bind_Error | Quiche_Config_Error

text \<open>The address to bind: an IPv4 address is mapped into IPv6.\<close>

definition bind_address :: "create_env \<Rightarrow> string \<Rightarrow> u8 list option" where
  "bind_address E host_str =
     (case ce_pton6 E (cstr host_str) of
        Some a \<Rightarrow> Some a
      | None \<Rightarrow>
          (case ce_pton4 E (cstr host_str) of
             Some a \<Rightarrow> Some (replicate 10 0 @ [0xFF, 0xFF] @ a)
           | None \<Rightarrow> None))"

text \<open>The result: the error or the calls that configured quiche, and the events.\<close>

definition quicpro_server_create ::
    "zend_api \<Rightarrow> create_env \<Rightarrow> string \<Rightarrow> zend_long \<Rightarrow> zval
      \<Rightarrow> (create_error + config_call list) \<times> server_resource event list" where
  "quicpro_server_create Z E host_str port config_obj =
     (if \<not> ce_socket E then (Inl Socket_Error, [Acquire Server_Mem, Release Server_Mem])
      else
        (let start = [Acquire Server_Mem, Acquire Server_Fd]; undo = [Release Server_Fd, Release Server_Mem] in
         if \<not> ce_reuseport E then (Inl Reuseport_Error, start @ undo)
         else if \<not> ce_v6only E then (Inl V6only_Error, start @ undo)
         else
           (case bind_address E host_str of
              None \<Rightarrow> (Inl Bad_Host, start @ undo)
            | Some addr \<Rightarrow>
                if \<not> ce_bind E addr (ucast port) then (Inl Bind_Error, start @ undo)
                else if \<not> ce_config E then (Inl Quiche_Config_Error, start @ undo)
                else (Inr (apply_php_config_to_quiche Z config_obj),
                      start @ [Acquire Server_Config, Acquire Session_Table]))))"

text \<open>
  The HTTP/3 server of \<^verbatim>\<open>http3.c\<close> reports a failed socket or bind only, and keeps the zeroed address when the
  host is not an IPv6 address.  The HTTP/2 server of \<^verbatim>\<open>http2.c\<close> builds its address the same way.
\<close>

definition plain_bind_address :: "create_env \<Rightarrow> string \<Rightarrow> u8 list" where
  "plain_bind_address E host_str =
     (case ce_pton6 E (cstr host_str) of Some a \<Rightarrow> a | None \<Rightarrow> replicate 16 0)"

definition http3_listen_setup ::
    "zend_api \<Rightarrow> create_env \<Rightarrow> string \<Rightarrow> zend_long \<Rightarrow> zval
      \<Rightarrow> (create_error + (u8 list \<times> 16 word) \<times> config_call list) \<times> server_resource event list" where
  "http3_listen_setup Z E host_str port config_obj =
     (if \<not> ce_socket E then (Inl Socket_Error, [])
      else
        (let addr = plain_bind_address E host_str in
         if \<not> ce_bind E addr (ucast port) then (Inl Bind_Error, [Acquire Server_Fd, Release Server_Fd])
         else (Inr ((addr, ucast port), apply_config_to_quiche Z config_obj),
               [Acquire Server_Fd, Acquire Server_Config, Acquire Session_Table])))"

definition http3_listen_end :: "server_resource event list" where
  "http3_listen_end = [Release Server_Fd, Release Session_Table, Release Server_Config]"

section \<open>Sessions\<close>

record 'c server_conn =
  sc_conn :: 'c
  sc_peer :: string

type_synonym 'c session_table = "(string, 'c server_conn) htable"

record 'c listen_env =
  le_header_info :: "string \<Rightarrow> string option"  \<comment> \<open>the destination connection ID of a packet\<close>
  le_accept :: "string \<Rightarrow> string \<Rightarrow> 'c option"
  le_readable :: "'c \<Rightarrow> u64 list"

text \<open>
  A datagram, its sender and what the generator of connection IDs yields for it.
\<close>

type_synonym datagram = "string \<times> string \<times> string option"

definition on_datagram ::
    "'c quiche_api \<Rightarrow> 'c listen_env \<Rightarrow> datagram \<Rightarrow> 'c session_table \<Rightarrow> 'c session_table" where
  "on_datagram Q E dg tbl =
     (let (buf, peer, cid) = dg in
        case le_header_info E buf of
          None \<Rightarrow> tbl
        | Some dcid \<Rightarrow>
            (case ht_find tbl dcid of
               Some s \<Rightarrow> ht_update tbl dcid (s\<lparr>sc_conn := fst (quiche_conn_recv Q (sc_conn s) buf peer)\<rparr>)
             | None \<Rightarrow>
                 (case cid of
                    None \<Rightarrow> tbl
                  | Some new_id \<Rightarrow>
                      (case le_accept E new_id peer of
                         None \<Rightarrow> tbl
                       | Some c \<Rightarrow>
                           (case ht_add tbl new_id
                                   \<lparr>sc_conn = fst (quiche_conn_recv Q c buf peer), sc_peer = peer\<rparr> of
                              None \<Rightarrow> tbl
                            | Some tbl1 \<Rightarrow> tbl1)))))"

partial_function (option) flush_session ::
    "'c quiche_api \<Rightarrow> string \<Rightarrow> 'c \<Rightarrow> (string \<times> string) list \<Rightarrow> ('c \<times> (string \<times> string) list) option" where
  "flush_session Q peer c sent =
     (case quiche_conn_send Q c 2048 of
        (c1, Inl e) \<Rightarrow> Some (c1, sent)
      | (c1, Inr d) \<Rightarrow> flush_session Q peer c1 (sent @ [(fst d, peer)]))"

datatype server_error = Session_Freed

text \<open>
  One session in a round: the session, None when it is removed from the table, what was sent and
  the streams for which the handler was called.  The handler tells whether it closed the server,
  which frees every session, while the loop goes on with this one.
\<close>

definition serve_session ::
    "'c quiche_api \<Rightarrow> 'c listen_env \<Rightarrow> (string \<Rightarrow> u64 \<Rightarrow> bool) \<Rightarrow> string \<Rightarrow> 'c server_conn
      \<Rightarrow> (server_error, 'c server_conn option \<times> (string \<times> string) list \<times> u64 list) outcome" where
  "serve_session Q E handler key s =
     (case flush_session Q (sc_peer s) (quiche_conn_on_timeout Q (sc_conn s)) [] of
        None \<Rightarrow> Diverge
      | Some (c, sent) \<Rightarrow>
          (let calls = (if quiche_conn_is_established Q c then le_readable E c else []) in
           if list_ex (handler key) calls then Fail Session_Freed
           else Ok (if quiche_conn_is_closed Q c then None else Some (s\<lparr>sc_conn := c\<rparr>), sent, calls)))"

fun server_round ::
    "'c quiche_api \<Rightarrow> 'c listen_env \<Rightarrow> (string \<Rightarrow> u64 \<Rightarrow> bool) \<Rightarrow> 'c session_table
      \<Rightarrow> (server_error, 'c session_table \<times> (string \<times> string) list \<times> (string \<times> u64) list) outcome" where
  "server_round Q E handler [] = Ok ([], [], [])"
| "server_round Q E handler ((key, s) # tbl) =
     obind (serve_session Q E handler key s) (\<lambda>(r, sent, calls).
     obind (server_round Q E handler tbl) (\<lambda>(tbl1, sent1, calls1).
       Ok ((case r of None \<Rightarrow> tbl1 | Some s1 \<Rightarrow> (key, s1) # tbl1), sent @ sent1,
           map (Pair key) calls @ calls1)))"

text \<open>
  The loop, over what \<^verbatim>\<open>epoll_wait\<close> returns: an interrupted wait, an error, or datagrams, None for one
  that could not be read.  Some is the return of the function, None a loop that goes on.
\<close>

datatype wait_result = Wait_Interrupted | Wait_Error | Wait_Events "datagram option list"

fun listen_loop ::
    "'c quiche_api \<Rightarrow> 'c listen_env \<Rightarrow> (string \<Rightarrow> u64 \<Rightarrow> bool) \<Rightarrow> wait_result list \<Rightarrow> 'c session_table
      \<Rightarrow> (server_error, 'c session_table option) outcome" where
  "listen_loop Q E handler [] tbl = Ok None"
| "listen_loop Q E handler (Wait_Interrupted # ws) tbl = listen_loop Q E handler ws tbl"
| "listen_loop Q E handler (Wait_Error # ws) tbl = Ok (Some tbl)"
| "listen_loop Q E handler (Wait_Events ds # ws) tbl =
     obind (server_round Q E handler
              (fold (\<lambda>d t. case d of None \<Rightarrow> t | Some dg \<Rightarrow> on_datagram Q E dg t) ds tbl))
       (\<lambda>(tbl1, sent, calls). listen_loop Q E handler ws tbl1)"

section \<open>Closing\<close>

text \<open>What a server holds, and the function that closes it.\<close>

record server_state =
  sv_listening :: bool
  sv_sessions :: bool
  sv_fd :: int
  sv_config :: bool

definition quicpro_server_close :: "server_state \<Rightarrow> server_state \<times> server_resource event list" where
  "quicpro_server_close s =
     (\<lparr>sv_listening = False, sv_sessions = False, sv_fd = (if 0 \<le> sv_fd s then - 1 else sv_fd s),
       sv_config = False\<rparr>,
      (if sv_sessions s then [Release Session_Table] else [])
      @ (if 0 \<le> sv_fd s then [Release Server_Fd] else [])
      @ (if sv_config s then [Release Server_Config] else []))"

section \<open>Creating and closing\<close>

definition created_server :: "int \<Rightarrow> server_state" where
  "created_server fd = \<lparr>sv_listening = False, sv_sessions = True, sv_fd = fd, sv_config = True\<rparr>"


text \<open>
  A host that is not an IPv6 address, such as an IPv4 address, makes the HTTP/3 server bind to
  the address of all zeroes, which is every interface, where the QUIC server maps the IPv4 address.
\<close>

theorem ipv4_host_binds_everywhere:
  assumes "ce_pton6 E (cstr host_str) = None" "ce_pton4 E (cstr host_str) = Some a4"
    and "ce_socket E" "ce_bind E (replicate 16 0) (ucast port)"
  shows "fst (fst (projr (fst (http3_listen_setup Z E host_str port config_obj)))) = replicate 16 0
    \<and> bind_address E host_str = Some (replicate 10 0 @ [0xFF, 0xFF] @ a4)"
  using assms by (simp add: http3_listen_setup_def plain_bind_address_def bind_address_def)

lemma http3_setup_ledger:
  "ledger (snd (http3_listen_setup Z E host_str port config_obj)
       @ (if isl (fst (http3_listen_setup Z E host_str port config_obj)) then [] else http3_listen_end)) {#} = Some {#}"
  by (simp add: http3_listen_setup_def http3_listen_end_def Let_def)

section \<open>Routing\<close>

text \<open>What a datagram does to the table, in its three cases.\<close>

lemma on_datagram_known:
  "le_header_info E buf = Some dcid \<Longrightarrow> ht_find tbl dcid = Some s \<Longrightarrow>
     on_datagram Q E (buf, peer, cid) tbl
     = ht_update tbl dcid (s\<lparr>sc_conn := fst (quiche_conn_recv Q (sc_conn s) buf peer)\<rparr>)"
  by (simp add: on_datagram_def)

lemma on_datagram_new:
  "le_header_info E buf = Some dcid \<Longrightarrow> ht_find tbl dcid = None \<Longrightarrow> le_accept E i peer = Some c \<Longrightarrow>
   ht_find tbl i = None \<Longrightarrow>
     on_datagram Q E (buf, peer, Some i) tbl
     = tbl @ [(i, \<lparr>sc_conn = fst (quiche_conn_recv Q c buf peer), sc_peer = peer\<rparr>)]"
  by (simp add: on_datagram_def ht_add_def ht_exists_def)

lemma on_datagram_dropped:
  "le_header_info E buf = None \<or>
   (\<exists>dcid. le_header_info E buf = Some dcid \<and> ht_find tbl dcid = None
      \<and> (cid = None \<or> (\<exists>i. cid = Some i \<and> (le_accept E i peer = None \<or> ht_find tbl i \<noteq> None)))) \<Longrightarrow>
     on_datagram Q E (buf, peer, cid) tbl = tbl"
  by (auto simp: on_datagram_def ht_add_def ht_exists_def split: option.split)

lemma on_datagram_cases:
  obtains (known) dcid s where "le_header_info E buf = Some dcid" "ht_find tbl dcid = Some s"
  | (fresh) dcid i c where "le_header_info E buf = Some dcid" "ht_find tbl dcid = None" "cid = Some i"
      "le_accept E i peer = Some c" "ht_find tbl i = None"
  | (dropped) "le_header_info E buf = None \<or>
      (\<exists>dcid. le_header_info E buf = Some dcid \<and> ht_find tbl dcid = None
        \<and> (cid = None \<or> (\<exists>i. cid = Some i \<and> (le_accept E i peer = None \<or> ht_find tbl i \<noteq> None))))"
  by (metis not_None_eq)

text \<open>
  C13: A datagram reaches the session that its connection ID names and no other; a new session is
  made exactly when the ID names none, under the generated ID, and no session is ever replaced.
\<close>

theorem datagram_routing:
  "ht_find (on_datagram Q E (buf, peer, cid) tbl) k =
     (case ht_find tbl k of
        Some s \<Rightarrow>
          Some (if le_header_info E buf = Some k
                then s\<lparr>sc_conn := fst (quiche_conn_recv Q (sc_conn s) buf peer)\<rparr> else s)
      | None \<Rightarrow>
          if cid = Some k \<and> (\<exists>dcid. le_header_info E buf = Some dcid \<and> ht_find tbl dcid = None)
          then map_option (\<lambda>c. \<lparr>sc_conn = fst (quiche_conn_recv Q c buf peer), sc_peer = peer\<rparr>) (le_accept E k peer)
          else None)"
proof (cases rule: on_datagram_cases [where E = E and buf = buf and tbl = tbl and cid = cid and peer = peer])
  case (known dcid s)
  then show ?thesis
    by (cases "ht_find tbl k") (auto simp: on_datagram_known [OF known] table_simps)
next
  case (fresh dcid i c)
  then show ?thesis
    by (cases "ht_find tbl k") (auto simp: on_datagram_new [OF fresh(1,2,4,5)] ht_find_append)
next
  case dropped
  then show ?thesis
    by (cases "ht_find tbl k") (auto simp: on_datagram_dropped [OF dropped])
qed

lemma on_datagram_distinct:
  assumes "distinct (map fst tbl)"
  shows "distinct (map fst (on_datagram Q E (buf, peer, cid) tbl))"
proof (cases rule: on_datagram_cases [where E = E and buf = buf and tbl = tbl and cid = cid and peer = peer])
  case (known dcid s)
  then show ?thesis using assms by (simp add: on_datagram_known [OF known] table_simps)
next
  case (fresh dcid i c)
  then show ?thesis using assms by (simp add: on_datagram_new [OF fresh(1,2,4,5)] ht_find_None_iff)
next
  case dropped
  then show ?thesis using assms by (simp add: on_datagram_dropped [OF dropped])
qed

lemma server_round_keys:
  "server_round Q E handler tbl = Ok (tbl1, sent, calls) \<Longrightarrow>
     set (map fst tbl1) \<subseteq> set (map fst tbl) \<and> (distinct (map fst tbl) \<longrightarrow> distinct (map fst tbl1))"
proof (induction tbl arbitrary: tbl1 sent calls)
  case (Cons e tbl)
  obtain key s where e: "e = (key, s)" by (cases e)
  from Cons.prems obtain r sent0 calls0 tbl2 sent2 calls2 where
    r: "server_round Q E handler tbl = Ok (tbl2, sent2, calls2)"
      "tbl1 = (case r of None \<Rightarrow> tbl2 | Some s1 \<Rightarrow> (key, s1) # tbl2)"
    by (auto simp: e obind_eq_Ok)
  from Cons.IH [OF r(1)] show ?case by (cases r) (auto simp: r(2) e)
qed simp

text \<open>
  A client that sends its first packet again, before it has seen an answer, gets a second session:
  nothing maps the ID the client chose to the session that was made for it.
\<close>

theorem first_packet_repeated:
  assumes "le_header_info E buf = Some dcid" "ht_find tbl dcid = None"
    and "le_accept E id1 peer = Some c1" "le_accept E id2 peer = Some c2"
    and "ht_find tbl id1 = None" "ht_find tbl id2 = None" "id1 \<noteq> id2" "id1 \<noteq> dcid"
  shows "\<exists>s1 s2. ht_find (on_datagram Q E (buf, peer, Some id2) (on_datagram Q E (buf, peer, Some id1) tbl)) id1 = Some s1
     \<and> ht_find (on_datagram Q E (buf, peer, Some id2) (on_datagram Q E (buf, peer, Some id1) tbl)) id2 = Some s2
     \<and> sc_peer s1 = sc_peer s2"
  using assms(5-8)
  by (simp add: on_datagram_new [OF assms(1,2,3,5)] on_datagram_new [OF assms(1) _ assms(4)] ht_find_append assms(2))

section \<open>Stopping\<close>

lemma listen_returns_error: "listen_loop Q E handler ws tbl = Ok (Some t) \<Longrightarrow> Wait_Error \<in> set ws"
  by (induction Q E handler ws tbl rule: listen_loop.induct) (auto simp: obind_eq_Ok)

text \<open>
  Whatever arrives, the listening function returns only after the wait has failed.  A handler
  that closes the server, the only other way to stop it, makes it use a session that has been freed.
\<close>

theorem closing_frees_served_session:
  assumes "flush_session Q (sc_peer s) (quiche_conn_on_timeout Q (sc_conn s)) [] = Some (c, sent)"
    and "quiche_conn_is_established Q c" "sid \<in> set (le_readable E c)" "handler key sid"
  shows "listen_loop Q E handler (Wait_Events [] # ws) ((key, s) # tbl) = Fail Session_Freed
    \<and> (\<forall>ws1 t. listen_loop Q E handler ws1 tbl = Ok (Some t) \<longrightarrow> Wait_Error \<in> set ws1)"
proof -
  have "list_ex (handler key) (le_readable E c)" using assms(3,4) by (auto simp: list_ex_iff)
  then have "serve_session Q E handler key s = Fail Session_Freed"
    using assms(1,2) by (simp add: serve_session_def Let_def)
  then show ?thesis using listen_returns_error by auto
qed

section \<open>Witnesses\<close>

definition example_create :: create_env where
  "example_create = \<lparr>ce_socket = True, ce_reuseport = True, ce_v6only = True, ce_pton6 = (\<lambda>h. None),
     ce_pton4 = (\<lambda>h. if h = ''127.0.0.1'' then Some [127, 0, 0, 1] else None), ce_bind = (\<lambda>a p. True),
     ce_config = True\<rparr>"

theorem ipv4_host_binds_everywhere_witness:
  "\<forall>Z o1. fst (fst (projr (fst (http3_listen_setup Z example_create ''127.0.0.1'' 443 o1)))) = replicate 16 0
     \<and> bind_address example_create ''127.0.0.1'' = Some [0, 0, 0, 0, 0, 0, 0, 0, 0, 0, 0xFF, 0xFF, 127, 0, 0, 1]"
proof (intro allI)
  fix Z o1
  have "cstr ''127.0.0.1'' = ''127.0.0.1''" by code_simp
  then show "fst (fst (projr (fst (http3_listen_setup Z example_create ''127.0.0.1'' 443 o1)))) = replicate 16 0
     \<and> bind_address example_create ''127.0.0.1'' = Some [0, 0, 0, 0, 0, 0, 0, 0, 0, 0, 0xFF, 0xFF, 127, 0, 0, 1]"
    using ipv4_host_binds_everywhere [of example_create "''127.0.0.1''" "[127, 0, 0, 1]" 443 Z o1]
    by (simp add: example_create_def numeral_eq_Suc)
qed

definition example_listen :: "(string \<times> string) list listen_env" where
  "example_listen = \<lparr>le_header_info = (\<lambda>b. Some b), le_accept = (\<lambda>i p. Some []), le_readable = (\<lambda>c. [4])\<rparr>"

theorem closing_frees_served_session_witness:
  "listen_loop queue_quiche example_listen (\<lambda>k sid. True) [Wait_Events []]
     [(''id'', \<lparr>sc_conn = [], sc_peer = ''p''\<rparr>)] = Fail Session_Freed"
proof -
  have f: "flush_session queue_quiche ''p'' [] [] = Some ([], [])"
    by (subst flush_session.simps) (simp add: queue_quiche_def)
  show ?thesis
    using closing_frees_served_session [where Q = queue_quiche and E = example_listen and s = "\<lparr>sc_conn = [], sc_peer = ''p''\<rparr>"
        and c = "[]" and sent = "[]" and sid = 4 and handler = "\<lambda>k sid. True" and key = "''id''" and ws = "[]" and tbl = "[]"] f
    by (simp add: queue_quiche_def example_listen_def)
qed

end
