(* ===== verification/Admin_Api.thy ===== *)
theory Admin_Api
  imports Quic_Server
begin

text \<open>
  The administration interface of \<^verbatim>\<open>src/extension/src/server/admin_api.c\<close>: starting its thread with a TLS
  context that demands client certificates, and the thread itself.  The results of OpenSSL, of the
  sockets and of the thread library are arguments.
\<close>

section \<open>Starting the interface\<close>

datatype admin_resource = Admin_Ctx | Admin_Args | Admin_Host | Admin_Fd | Client_Ssl | Client_Fd

datatype ssl_call = Use_Certificate string | Use_Private_Key string | Set_Verify bool bool | Load_Verify string

datatype admin_error = Files_Missing | Ctx_Failed | Key_Failed | Ca_Failed | Args_Failed | Thread_Failed

record admin_env =
  ae_ctx :: bool
  ae_ssl :: "ssl_call \<Rightarrow> bool"
  ae_malloc :: bool
  ae_thread :: bool

text \<open>The arguments of the thread; \<^verbatim>\<open>long port\<close> becomes an \<^verbatim>\<open>int\<close>.\<close>

record admin_thread_args =
  ta_host :: string
  ta_port :: "32 word"

definition admin_string :: "zval \<Rightarrow> string \<Rightarrow> string option" where
  "admin_string options k =
     (case options of
        Z_Array t \<Rightarrow> (case arr_find t k of Some (Z_String s) \<Rightarrow> Some (cstr s) | _ \<Rightarrow> None)
      | _ \<Rightarrow> None)"

definition admin_host :: "zval \<Rightarrow> string" where
  "admin_host options = (case admin_string options ''host'' of None \<Rightarrow> ''127.0.0.1'' | Some h \<Rightarrow> h)"

definition admin_port :: "zval \<Rightarrow> zend_long" where
  "admin_port options =
     (case options of
        Z_Array t \<Rightarrow> (case arr_find t ''port'' of Some (Z_Long n) \<Rightarrow> n | _ \<Rightarrow> 2019)
      | _ \<Rightarrow> 2019)"

text \<open>The error or what the thread is started with and how its context was set up; the events.\<close>

definition quicpro_admin_api_listen ::
    "zend_api \<Rightarrow> admin_env \<Rightarrow> zval
      \<Rightarrow> (admin_error + admin_thread_args \<times> ssl_call list) \<times> admin_resource event list" where
  "quicpro_admin_api_listen Z E config_obj =
     (let options = zend_read_property Z config_obj ''options'' in
      case (admin_string options ''cert_file'', admin_string options ''key_file'', admin_string options ''ca_file'') of
        (Some cert_file, Some key_file, Some ca_file) \<Rightarrow>
          if \<not> ae_ctx E then (Inl Ctx_Failed, [])
          else if \<not> ae_ssl E (Use_Certificate cert_file) \<or> \<not> ae_ssl E (Use_Private_Key key_file)
          then (Inl Key_Failed, [Acquire Admin_Ctx, Release Admin_Ctx])
          else if \<not> ae_ssl E (Load_Verify ca_file)
          then (Inl Ca_Failed, [Acquire Admin_Ctx, Release Admin_Ctx])
          else if \<not> ae_malloc E then (Inl Args_Failed, [Acquire Admin_Ctx, Release Admin_Ctx])
          else if \<not> ae_thread E
          then (Inl Thread_Failed,
                [Acquire Admin_Ctx, Acquire Admin_Args, Acquire Admin_Host,
                 Release Admin_Ctx, Release Admin_Host, Release Admin_Args])
          else (Inr (\<lparr>ta_host = admin_host options, ta_port = ucast (admin_port options)\<rparr>,
                     [Use_Certificate cert_file, Use_Private_Key key_file, Set_Verify True True, Load_Verify ca_file]),
                [Acquire Admin_Ctx, Acquire Admin_Args, Acquire Admin_Host])
      | _ \<Rightarrow> (Inl Files_Missing, []))"

section \<open>The thread\<close>

text \<open>A client: whether its handshake succeeded, and what \<^verbatim>\<open>SSL_read\<close> has for it.\<close>

record admin_client =
  ac_handshake :: bool
  ac_data :: string

definition admin_response :: string where
  "admin_response = ''HTTP/1.1 202 Accepted'' @ [CHR 0x0D, CHR 0x0A] @ ''Content-Length: 9''
     @ [CHR 0x0D, CHR 0x0A, CHR 0x0D, CHR 0x0A] @ ''Accepted'' @ [CHR 0x0A]"

text \<open>What a client is sent, and the text that is printed as its update.\<close>

definition admin_serve :: "admin_client \<Rightarrow> (string \<times> string) option" where
  "admin_serve c =
     (if ac_handshake c \<and> ac_data c \<noteq> [] then Some (admin_response, cstr (take 4095 (ac_data c))) else None)"

definition client_events :: "admin_resource event list" where
  "client_events = [Acquire Client_Fd, Acquire Client_Ssl, Release Client_Ssl, Release Client_Fd]"

text \<open>
  The loop, over whether the server listens at the test and what \<^verbatim>\<open>accept\<close> returns afterwards: what the
  clients were sent, the events, and whether the loop has ended with the inputs given.
\<close>

fun admin_loop ::
    "(bool \<times> admin_client option) list \<Rightarrow> (admin_client \<times> (string \<times> string) option) list \<times> admin_resource event list \<times> bool" where
  "admin_loop [] = ([], [], False)"
| "admin_loop ((listening, acc) # xs) =
     (if \<not> listening then ([], [], True)
      else
        (let (served, evs, ended) = admin_loop xs in
         case acc of
           None \<Rightarrow> (served, evs, ended)
         | Some c \<Rightarrow> ((c, admin_serve c) # served, client_events @ evs, ended)))"

definition admin_cleanup :: "bool \<Rightarrow> admin_resource event list" where
  "admin_cleanup fd =
     (if fd then [Release Admin_Fd] else []) @ [Release Admin_Ctx, Release Admin_Host, Release Admin_Args]"

record admin_sockets =
  as_env :: create_env
  as_listen :: bool

text \<open>
  The address that was bound, None when the loop was not reached; the clients; the events; whether
  the thread has ended.
\<close>

definition admin_api_thread_func ::
    "admin_sockets \<Rightarrow> admin_thread_args \<Rightarrow> (bool \<times> admin_client option) list
      \<Rightarrow> (u8 list \<times> 16 word) option \<times> (admin_client \<times> (string \<times> string) option) list
         \<times> admin_resource event list \<times> bool" where
  "admin_api_thread_func S a xs =
     (if \<not> ce_socket (as_env S) then (None, [], admin_cleanup False, True)
      else
        (let addr = plain_bind_address (as_env S) (ta_host a); port = ucast (ta_port a) in
         if \<not> ce_bind (as_env S) addr port \<or> \<not> as_listen S
         then (None, [], [Acquire Admin_Fd] @ admin_cleanup True, True)
         else
           (let (served, evs, ended) = admin_loop xs in
            (Some (addr, port), served, [Acquire Admin_Fd] @ evs @ (if ended then admin_cleanup True else []), ended))))"

section \<open>Properties\<close>

lemma client_events_neutral: "ledger (client_events @ evs) m = ledger evs m"
  by (simp add: client_events_def)

lemma admin_loop_ledger: "ledger (fst (snd (admin_loop xs)) @ evs) m = ledger evs m"
proof (induction xs rule: admin_loop.induct)
  case (2 listening acc xs)
  then show ?case
    by (cases "admin_loop xs"; cases acc) (simp_all add: client_events_neutral)
qed simp

lemma admin_loop_serves: "(c, r) \<in> set (fst (admin_loop xs)) \<Longrightarrow> r = admin_serve c"
proof (induction xs rule: admin_loop.induct)
  case (2 listening acc xs)
  then show ?case
    by (cases "admin_loop xs"; cases acc) (auto split: if_splits)
qed simp

text \<open>
  C12: The administration interface only runs with mutual TLS: when its thread starts, certificate,
  key and CA file were all given and loaded into a context that demands and verifies a client
  certificate, and the thread answers only clients whose handshake with it succeeded.
\<close>

theorem admin_mutual_tls:
  assumes "fst (quicpro_admin_api_listen Z E config_obj) = Inr (a, calls)"
    and "(c, Some reply) \<in> set (fst (snd (admin_api_thread_func S a xs)))"
  shows "(\<exists>cert_file key_file ca_file.
      calls = [Use_Certificate cert_file, Use_Private_Key key_file, Set_Verify True True, Load_Verify ca_file]
      \<and> ae_ssl E (Use_Certificate cert_file) \<and> ae_ssl E (Use_Private_Key key_file) \<and> ae_ssl E (Load_Verify ca_file))
    \<and> ac_handshake c \<and> fst reply = admin_response"
proof -
  have "(c, Some reply) \<in> set (fst (admin_loop xs))"
    using assms(2) by (cases "admin_loop xs") (auto simp: admin_api_thread_func_def Let_def split: if_splits)
  then have "Some reply = admin_serve c" by (rule admin_loop_serves)
  then have "ac_handshake c \<and> fst reply = admin_response" by (auto simp: admin_serve_def split: if_splits)
  then show ?thesis
    using assms(1) by (auto simp: quicpro_admin_api_listen_def Let_def split: option.splits if_splits)
qed

text \<open>
  Nothing is leaked or freed twice: a failed start gives everything back, and after a start
  that succeeded the thread has given everything back when it ends, whatever its clients do.
\<close>

theorem admin_resources:
  "case quicpro_admin_api_listen Z E config_obj of
     (Inl e, evs) \<Rightarrow> ledger evs {#} = Some {#}
   | (Inr (a, calls), evs) \<Rightarrow>
       (case admin_api_thread_func S a xs of
          (bound, served, evs1, ended) \<Rightarrow>
            ledger (evs @ evs1) {#}
              = Some (if ended then {#} else {#Admin_Ctx, Admin_Args, Admin_Host, Admin_Fd#}))"
proof (cases "quicpro_admin_api_listen Z E config_obj")
  case (Pair r evs)
  show ?thesis
  proof (cases r)
    case (Inl e)
    then show ?thesis using Pair
      by (auto simp: quicpro_admin_api_listen_def Let_def split: option.splits if_splits)
  next
    case (Inr p)
    obtain a calls where p: "p = (a, calls)" by (cases p)
    have evs: "evs = [Acquire Admin_Ctx, Acquire Admin_Args, Acquire Admin_Host]"
      using Pair Inr by (auto simp: quicpro_admin_api_listen_def Let_def split: option.splits if_splits)
    obtain served levs ended where l: "admin_loop xs = (served, levs, ended)" by (cases "admin_loop xs")
    have n: "ledger (levs @ es) m = ledger es m" for es m using admin_loop_ledger [of xs es m] l by simp
    show ?thesis using Pair Inr p evs l n [of "[]"] n
      by (simp add: admin_api_thread_func_def Let_def admin_cleanup_def add_mset_commute)
  qed
qed

text \<open>
  Before its server listens the interface serves nobody: the thread of a server that was
  created and does not listen yet ends at its first test, whatever clients are waiting.
\<close>

theorem admin_ends_at_once:
  assumes "ce_socket (as_env S)" "as_listen S"
    and "ce_bind (as_env S) (plain_bind_address (as_env S) (ta_host a)) (ucast (ta_port a))"
  shows "admin_api_thread_func S a ((sv_listening (created_server fd), acc) # xs)
    = (Some (plain_bind_address (as_env S) (ta_host a), ucast (ta_port a)), [],
       Acquire Admin_Fd # admin_cleanup True, True)"
  using assms by (simp add: admin_api_thread_func_def created_server_def)

text \<open>
  C38: The default address of the interface is the loopback address of IPv4, which the thread
  cannot parse as an IPv6 address; it then binds to all interfaces.
\<close>

theorem admin_default_binds_everywhere:
  assumes "admin_string options ''host'' = None" and "ta_host a = admin_host options"
    and "ce_pton6 (as_env S) ''127.0.0.1'' = None"
    and "fst (admin_api_thread_func S a xs) = Some (addr, port)"
  shows "addr = replicate 16 0"
proof -
  have "cstr ''127.0.0.1'' = ''127.0.0.1''" by code_simp
  then show ?thesis using assms
    by (cases "admin_loop xs")
      (auto simp: admin_api_thread_func_def admin_host_def plain_bind_address_def Let_def split: if_splits)
qed

section \<open>Witnesses\<close>

definition example_sockets :: admin_sockets where
  "example_sockets = \<lparr>as_env = example_create, as_listen = True\<rparr>"

definition example_admin :: admin_env where
  "example_admin = \<lparr>ae_ctx = True, ae_ssl = (\<lambda>_. True), ae_malloc = True, ae_thread = True\<rparr>"

definition example_admin_options :: zval where
  "example_admin_options = Z_Array [(HStr ''cert_file'', Z_String ''c''), (HStr ''key_file'', Z_String ''k''),
     (HStr ''ca_file'', Z_String ''a'')]"


definition example_client :: admin_client where
  "example_client = \<lparr>ac_handshake = True, ac_data = ''x''\<rparr>"

theorem admin_mutual_tls_witness:
  "\<forall>Z. \<exists>a calls. fst (quicpro_admin_api_listen (Z\<lparr>zend_read_property := \<lambda>o1 k. example_admin_options\<rparr>) example_admin Z_Null)
       = Inr (a, calls)
     \<and> (example_client, Some (admin_response, ''x''))
         \<in> set (fst (snd (admin_api_thread_func example_sockets a [(True, Some example_client)])))
     \<and> Set_Verify True True \<in> set calls"
proof
  fix Z
  have strings: "cstr ''c'' = ''c''" "cstr ''k'' = ''k''" "cstr ''a'' = ''a''" "cstr ''x'' = ''x''" by code_simp+
  let ?a = "\<lparr>ta_host = ''127.0.0.1'', ta_port = ucast (2019 :: zend_long)\<rparr>"
  let ?calls = "[Use_Certificate ''c'', Use_Private_Key ''k'', Set_Verify True True, Load_Verify ''a'']"
  have start: "fst (quicpro_admin_api_listen (Z\<lparr>zend_read_property := \<lambda>o1 k. example_admin_options\<rparr>) example_admin Z_Null)
      = Inr (?a, ?calls)"
    by (simp add: quicpro_admin_api_listen_def example_admin_options_def example_admin_def admin_string_def admin_host_def
        admin_port_def arr_find_def strings)
  have reply: "(example_client, Some (admin_response, ''x''))
      \<in> set (fst (snd (admin_api_thread_func example_sockets ?a [(True, Some example_client)])))"
    by (simp add: admin_api_thread_func_def example_sockets_def example_create_def admin_serve_def
        example_client_def strings)
  show "\<exists>a calls. fst (quicpro_admin_api_listen (Z\<lparr>zend_read_property := \<lambda>o1 k. example_admin_options\<rparr>) example_admin Z_Null)
       = Inr (a, calls)
     \<and> (example_client, Some (admin_response, ''x''))
         \<in> set (fst (snd (admin_api_thread_func example_sockets a [(True, Some example_client)])))
     \<and> Set_Verify True True \<in> set calls"
    using start reply admin_mutual_tls [OF start reply] by (intro exI [of _ ?a] exI [of _ ?calls]) simp
qed

theorem admin_ends_at_once_witness:
  "admin_api_thread_func example_sockets \<lparr>ta_host = ''::1'', ta_port = 2019\<rparr>
     [(sv_listening (created_server 7), Some example_client)]
   = (Some (replicate 16 0, 2019), [], Acquire Admin_Fd # admin_cleanup True, True)"
  using admin_ends_at_once [of example_sockets "\<lparr>ta_host = ''::1'', ta_port = 2019\<rparr>" 7 "Some example_client" "[]"]
  by (simp add: example_sockets_def example_create_def plain_bind_address_def)

theorem admin_default_binds_everywhere_witness:
  "fst (the (fst (admin_api_thread_func example_sockets
      \<lparr>ta_host = ''127.0.0.1'', ta_port = 2019\<rparr> []))) = replicate 16 0"
  using admin_default_binds_everywhere [of Z_Null "\<lparr>ta_host = ''127.0.0.1'', ta_port = 2019\<rparr>" example_sockets "[]"]
  by (simp add: admin_string_def admin_host_def example_sockets_def example_create_def admin_api_thread_func_def)

end
