(* ===== verification/Mcp.thy ===== *)
theory Mcp
  imports C_Strings Zend
begin

text \<open>
  The MCP client of \<^verbatim>\<open>src/extension/src/mcp/mcp.c\<close>: connecting, closing, a request and the loop that waits
  for its response.  quiche is a record of functions on an abstract connection state, which holds
  the HTTP/3 state as well; the clock is a function of the number of rounds of the loop.  The
  streaming functions are placeholders in the source.
\<close>

section \<open>Sessions\<close>

text \<open>
  A pointer of a session: null, an object, or one of the constants that the code stores in place
  of an object.
\<close>

datatype 'c mcp_ptr = Null_Ptr | Object_Ptr 'c | Constant_Ptr u64

record 'c mcp_session =
  mcp_host :: string
  mcp_conn :: "'c mcp_ptr"
  mcp_h3 :: "unit mcp_ptr"

record mcp_cfg =
  has_cfg :: bool
  frozen :: bool

datatype mcp_error =
    Invalid_Config | Invalid_Session | Wild_Pointer | Path_Over_Read | Send_Headers_Failed int
  | Send_Body_Failed int | Recv_Body_Failed int | Timed_Out | Connection_Closed

datatype h3_event_type = Ev_Headers | Ev_Data | Ev_Finished | Ev_Other

record 'c mcp_api =
  h3_send_request :: "'c \<Rightarrow> (string \<times> string) list \<Rightarrow> 'c \<times> u64"
  h3_send_body :: "'c \<Rightarrow> u64 \<Rightarrow> string \<Rightarrow> 'c \<times> int"
  h3_conn_poll :: "'c \<Rightarrow> ('c \<times> u64 \<times> h3_event_type) option"
  h3_recv_body :: "'c \<Rightarrow> u64 \<Rightarrow> nat \<Rightarrow> 'c \<times> (int + string)"
  conn_closed :: "'c \<Rightarrow> bool"
  conn_close :: "'c \<Rightarrow> bool \<Rightarrow> u64 \<Rightarrow> string \<Rightarrow> 'c"

text \<open>The cast to \<^verbatim>\<open>int\<close> of an error code.\<close>

definition quiche_code :: "int \<Rightarrow> int" where
  "quiche_code n = sint (word_of_int n :: 32 word)"

definition quicpro_mcp_connect ::
    "mcp_cfg option \<Rightarrow> string \<Rightarrow> (mcp_error, 'c mcp_session \<times> mcp_cfg) outcome" where
  "quicpro_mcp_connect cfg host_str =
     (case cfg of
        None \<Rightarrow> Fail Invalid_Config
      | Some w \<Rightarrow>
          if \<not> has_cfg w then Fail Invalid_Config
          else Ok (\<lparr>mcp_host = host_str, mcp_conn = Constant_Ptr 0xDEADBEEF, mcp_h3 = Constant_Ptr 0xCAFEBABE\<rparr>,
                   w\<lparr>frozen := True\<rparr>))"

text \<open>
  The returned value and the session that the destructor of the resource is given.
\<close>

definition quicpro_mcp_close ::
    "'c mcp_api \<Rightarrow> 'c mcp_session option \<Rightarrow> (mcp_error, bool \<times> 'c mcp_session option) outcome" where
  "quicpro_mcp_close A s =
     (case s of
        None \<Rightarrow> Ok (False, None)
      | Some t \<Rightarrow>
          (case mcp_conn t of
             Null_Ptr \<Rightarrow> Ok (True, Some t)
           | Object_Ptr c \<Rightarrow> Ok (True, Some (t\<lparr>mcp_conn := Object_Ptr (conn_close A c True 0 ''MCP_CLOSE'')\<rparr>))
           | Constant_Ptr a \<Rightarrow> Fail Wild_Pointer))"

section \<open>Waiting for a response\<close>

text \<open>The inner loop: the connection, the body so far, and the result once there is one.\<close>

partial_function (option) poll_events ::
    "'c mcp_api \<Rightarrow> u64 \<Rightarrow> 'c \<Rightarrow> string \<Rightarrow> ('c \<times> string \<times> (mcp_error, string) outcome option) option" where
  "poll_events A sid c body =
     (case h3_conn_poll A c of
        None \<Rightarrow> Some (c, body, None)
      | Some (c1, i, e) \<Rightarrow>
          if i \<noteq> sid then poll_events A sid c1 body
          else if e = Ev_Data
          then (case h3_recv_body A c1 sid 8192 of
                  (c2, Inl err) \<Rightarrow> Some (c2, body, Some (Fail (Recv_Body_Failed (quiche_code err))))
                | (c2, Inr d) \<Rightarrow> poll_events A sid c2 (body @ d))
          else if e = Ev_Finished then Some (c1, body, Some (Ok body))
          else poll_events A sid c1 body)"

definition timed_out :: "(nat \<Rightarrow> int) \<Rightarrow> zend_long \<Rightarrow> int \<Rightarrow> nat \<Rightarrow> bool" where
  "timed_out clock timeout_ms start_time n \<longleftrightarrow>
     0 < sint timeout_ms \<and> clock n * 1000 - start_time > sint timeout_ms"

text \<open>The outer loop, in its \<open>n\<close>-th round; the clock is in seconds.\<close>

partial_function (option) mcp_poll_loop ::
    "'c mcp_api \<Rightarrow> (nat \<Rightarrow> int) \<Rightarrow> u64 \<Rightarrow> zend_long \<Rightarrow> int \<Rightarrow> nat \<Rightarrow> 'c \<Rightarrow> string
      \<Rightarrow> ('c \<times> (mcp_error, string) outcome) option" where
  "mcp_poll_loop A clock sid timeout_ms start_time n c body =
     (if timed_out clock timeout_ms start_time n then Some (c, Fail Timed_Out)
      else
        Option.bind (poll_events A sid c body) (\<lambda>(c1, body1, r).
          case r of
            Some res \<Rightarrow> Some (c1, res)
          | None \<Rightarrow>
              if conn_closed A c1 then Some (c1, Fail Connection_Closed)
              else mcp_poll_loop A clock sid timeout_ms start_time (n + 1) c1 body1))"

definition mcp_poll_for_response ::
    "'c mcp_api \<Rightarrow> (nat \<Rightarrow> int) \<Rightarrow> u64 \<Rightarrow> zend_long \<Rightarrow> 'c \<Rightarrow> ('c \<times> (mcp_error, string) outcome) option" where
  "mcp_poll_for_response A clock sid timeout_ms c = mcp_poll_loop A clock sid timeout_ms (clock 0 * 1000) 1 c []"

section \<open>A request\<close>

text \<open>
  The path header: \<^verbatim>\<open>snprintf\<close> writes at most 255 characters into the buffer of 256 bytes and returns the
  length of the whole text, which is used as the length of the header.
\<close>

definition request_path :: "string \<Rightarrow> string \<Rightarrow> string" where
  "request_path service meth = ''/'' @ cstr service @ ''/'' @ cstr meth"

definition path_header :: "string \<Rightarrow> string \<Rightarrow> (mcp_error, string) outcome" where
  "path_header service meth =
     (let full = request_path service meth; buf = take 255 full @ [CHR 0x00] in
      if length full > 256 then Fail Path_Over_Read else Ok (take (length full) buf))"

definition mcp_timeout :: "php_array option \<Rightarrow> zend_long" where
  "mcp_timeout opts =
     (case opts of
        None \<Rightarrow> 30000
      | Some t \<Rightarrow> (case arr_find t ''timeout_ms'' of Some (Z_Long n) \<Rightarrow> n | _ \<Rightarrow> 30000))"

definition mcp_headers :: "string \<Rightarrow> string \<Rightarrow> (string \<times> string) list" where
  "mcp_headers path authority =
     [('':method'', ''POST''), ('':scheme'', ''https''), ('':path'', path),
      ('':authority'', cstr authority), (''content-type'', ''application/vnd.quicpro.proto'')]"

text \<open>Once the session is checked; None is a request that never returns.\<close>

definition mcp_exchange ::
    "'c mcp_api \<Rightarrow> (nat \<Rightarrow> int) \<Rightarrow> string \<Rightarrow> string \<Rightarrow> zend_long \<Rightarrow> string \<Rightarrow> 'c
      \<Rightarrow> ('c \<times> (mcp_error, string) outcome) option" where
  "mcp_exchange A clock path authority timeout_ms payload c =
     (case h3_send_request A c (mcp_headers path authority) of
        (c1, sid) \<Rightarrow>
          if sint sid < 0 then Some (c1, Fail (Send_Headers_Failed (quiche_code (sint sid))))
          else
            (case h3_send_body A c1 sid payload of
               (c2, sent) \<Rightarrow>
                 if sent < 0 then Some (c2, Fail (Send_Body_Failed (quiche_code sent)))
                 else mcp_poll_for_response A clock sid timeout_ms c2))"

definition quicpro_mcp_request ::
    "'c mcp_api \<Rightarrow> (nat \<Rightarrow> int) \<Rightarrow> 'c mcp_session option \<Rightarrow> string \<Rightarrow> string \<Rightarrow> string \<Rightarrow> php_array option
      \<Rightarrow> ('c mcp_session option \<times> (mcp_error, string) outcome) option" where
  "quicpro_mcp_request A clock s service meth payload opts =
     (case s of
        None \<Rightarrow> Some (s, Fail Invalid_Session)
      | Some t \<Rightarrow>
          (case (mcp_conn t, mcp_h3 t) of
             (Null_Ptr, _) \<Rightarrow> Some (s, Fail Invalid_Session)
           | (_, Null_Ptr) \<Rightarrow> Some (s, Fail Invalid_Session)
           | (Object_Ptr c, Object_Ptr u) \<Rightarrow>
               (case path_header service meth of
                  Ok path \<Rightarrow>
                    map_option (\<lambda>(c1, r). (Some (t\<lparr>mcp_conn := Object_Ptr c1\<rparr>), r))
                      (mcp_exchange A clock path (mcp_host t) (mcp_timeout opts) payload c)
                | Fail e \<Rightarrow> Some (s, Fail e)
                | Diverge \<Rightarrow> Some (s, Diverge))
           | _ \<Rightarrow> Some (s, Fail Wild_Pointer)))"

section \<open>Responses\<close>

text \<open>
  \<open>received A sid c d c'\<close>: polling and reading takes the connection from \<open>c\<close> to \<open>c'\<close>, and \<open>d\<close> are the bytes read
  from the stream on the way.
\<close>

inductive received :: "'c mcp_api \<Rightarrow> u64 \<Rightarrow> 'c \<Rightarrow> string \<Rightarrow> 'c \<Rightarrow> bool" for A sid where
  received_none: "received A sid c [] c"
| received_other: "\<lbrakk>h3_conn_poll A c = Some (c1, i, e); i \<noteq> sid \<or> e = Ev_Headers \<or> e = Ev_Other; received A sid c1 d c2\<rbrakk>
    \<Longrightarrow> received A sid c d c2"
| received_data: "\<lbrakk>h3_conn_poll A c = Some (c1, sid, Ev_Data); h3_recv_body A c1 sid 8192 = (c2, Inr d);
      received A sid c2 d' c3\<rbrakk> \<Longrightarrow> received A sid c (d @ d') c3"

lemma received_trans: "received A sid c d c1 \<Longrightarrow> received A sid c1 d' c2 \<Longrightarrow> received A sid c (d @ d') c2"
  by (induction rule: received.induct) (auto intro: received.intros)

text \<open>What a run of the inner loop has read, and how it ended.\<close>

definition events_read :: "'c mcp_api \<Rightarrow> u64 \<Rightarrow> 'c \<Rightarrow> string \<Rightarrow> 'c \<times> string \<times> (mcp_error, string) outcome option \<Rightarrow> bool" where
  "events_read A sid c body y \<longleftrightarrow>
     (case y of (c', body', r) \<Rightarrow>
        (r = None \<longrightarrow> (\<exists>d. received A sid c d c' \<and> body' = body @ d))
        \<and> (\<forall>res. r = Some (Ok res) \<longrightarrow>
             (\<exists>d c1. received A sid c d c1 \<and> h3_conn_poll A c1 = Some (c', sid, Ev_Finished) \<and> res = body @ d)))"

lemma events_read_other:
  assumes "h3_conn_poll A c = Some (c1, i, e)" and "i \<noteq> sid \<or> e = Ev_Headers \<or> e = Ev_Other" and "events_read A sid c1 body y"
  shows "events_read A sid c body y"
  using assms(3) received_other [OF assms(1,2)] unfolding events_read_def by (cases y) force

lemma events_read_data:
  assumes "h3_conn_poll A c = Some (c1, sid, Ev_Data)" and "h3_recv_body A c1 sid 8192 = (c2, Inr d)"
    and "events_read A sid c2 (body @ d) y"
  shows "events_read A sid c body y"
  using assms(3) received_data [OF assms(1,2)] unfolding events_read_def by (cases y) force

lemma poll_events_read: "poll_events A sid c body = Some y \<Longrightarrow> events_read A sid c body y"
proof (induction rule: poll_events.raw_induct [rotated, consumes 1, case_names step])
  case (step pe A sid c body y)
  show ?case
  proof (cases "h3_conn_poll A c")
    case None
    then show ?thesis using step(2) received_none by (auto simp: events_read_def)
  next
    case (Some p)
    obtain c1 i e where p: "p = (c1, i, e)" by (cases p)
    have P: "h3_conn_poll A c = Some (c1, i, e)" using Some p by simp
    consider "i \<noteq> sid \<or> e = Ev_Headers \<or> e = Ev_Other" | "i = sid" "e = Ev_Data" | "i = sid" "e = Ev_Finished"
      by (cases e) auto
    then show ?thesis
    proof cases
      case 1
      then have "pe A sid c1 body = Some y" using step(2) P by (auto split: if_splits)
      then show ?thesis using events_read_other [OF P 1] step(1) by blast
    next
      case 2
      obtain c2 r where r: "h3_recv_body A c1 sid 8192 = (c2, r)" by (cases "h3_recv_body A c1 sid 8192")
      show ?thesis
      proof (cases r)
        case (Inl err)
        then show ?thesis using step(2) P r 2 by (auto simp: events_read_def)
      next
        case (Inr d)
        then have "pe A sid c2 (body @ d) = Some y" using step(2) P r 2 by auto
        then show ?thesis using events_read_data [of A c c1 sid c2 d body y] step(1) P r 2 Inr by blast
      qed
    next
      case 3
      then show ?thesis using step(2) P received_none [of A sid c] by (auto simp: events_read_def)
    qed
  qed
qed

lemma poll_loop_exact:
  "mcp_poll_loop A clock sid timeout_ms start n c body = Some (c', r) \<Longrightarrow>
     \<forall>res. r = Ok res \<longrightarrow>
       (\<exists>d c1. received A sid c d c1 \<and> h3_conn_poll A c1 = Some (c', sid, Ev_Finished) \<and> res = body @ d)"
proof (induction "(c', r)" arbitrary: rule: mcp_poll_loop.raw_induct [rotated, consumes 1, case_names step])
  case (step pl A clock sid timeout_ms start n c body)
  show ?case
  proof (cases "timed_out clock timeout_ms start n")
    case True
    then show ?thesis using step(2) by auto
  next
    case False
    then obtain c1 body1 r1 where pe: "poll_events A sid c body = Some (c1, body1, r1)"
      using step(2) by (cases "poll_events A sid c body") auto
    note E = poll_events_read [OF pe, unfolded events_read_def, simplified]
    show ?thesis
    proof (cases r1)
      case (Some res)
      then show ?thesis using step(2) False pe E by auto
    next
      case None
      then obtain d where d: "received A sid c d c1" "body1 = body @ d" using E by auto
      show ?thesis
      proof (cases "conn_closed A c1")
        case True
        then show ?thesis using step(2) False pe None by auto
      next
        case still_open: False
        then have "pl A clock sid timeout_ms start (n + 1) c1 body1 = Some (c', r)"
          using step(2) False pe None by simp
        then have "\<forall>res. r = Ok res \<longrightarrow>
            (\<exists>d c2. received A sid c1 d c2 \<and> h3_conn_poll A c2 = Some (c', sid, Ev_Finished) \<and> res = body1 @ d)"
          by (rule step(1))
        then show ?thesis using received_trans [OF d(1)] d(2) by (metis append.assoc)
      qed
    qed
  qed
qed

section \<open>Properties\<close>

text \<open>A connection that is a queue of the events that have arrived, for the examples.\<close>

definition queue_api :: "(u64 \<times> h3_event_type \<times> string) list mcp_api" where
  "queue_api =
     \<lparr>h3_send_request = (\<lambda>c hs. (c, 4)), h3_send_body = (\<lambda>c sid p. (c, int (length p))),
      h3_conn_poll = (\<lambda>c. case c of [] \<Rightarrow> None
         | (i, e, d) # es \<Rightarrow> Some (if e = Ev_Data then ((i, Ev_Other, d) # es, i, e) else (es, i, e))),
      h3_recv_body = (\<lambda>c sid k. case c of [] \<Rightarrow> (c, Inl (-1)) | (i, e, d) # es \<Rightarrow> (es, Inr (take k d))),
      conn_closed = (\<lambda>c. False), conn_close = (\<lambda>c a code reason. c)\<rparr>"

lemma poll_events_idle: "h3_conn_poll A c = None \<Longrightarrow> poll_events A sid c body = Some (c, body, None)"
  by (subst poll_events.simps) simp

lemma poll_events_step:
  "h3_conn_poll A c = Some (c1, i, e) \<Longrightarrow> poll_events A sid c body =
     (if i \<noteq> sid then poll_events A sid c1 body
      else if e = Ev_Data
      then (case h3_recv_body A c1 sid 8192 of
              (c2, Inl err) \<Rightarrow> Some (c2, body, Some (Fail (Recv_Body_Failed (quiche_code err))))
            | (c2, Inr d) \<Rightarrow> poll_events A sid c2 (body @ d))
      else if e = Ev_Finished then Some (c1, body, Some (Ok body))
      else poll_events A sid c1 body)"
  by (subst poll_events.simps) simp



lemma poll_events_returns:
  assumes fewer: "\<forall>c c1 i e. h3_conn_poll A c = Some (c1, i, e) \<longrightarrow> rank c1 < (rank c :: nat)"
    and reads: "\<forall>c k. rank (fst (h3_recv_body A c sid k)) \<le> rank c"
  shows "\<exists>y. poll_events A sid c body = Some y"
proof (induction "rank c" arbitrary: c body rule: less_induct)
  case less
  show ?case
  proof (cases "h3_conn_poll A c")
    case None
    then show ?thesis by (subst poll_events.simps) simp
  next
    case (Some p)
    obtain c1 i e where p: "p = (c1, i, e)" by (cases p)
    have P: "h3_conn_poll A c = Some (c1, i, e)" using Some p by simp
    have r1: "rank c1 < rank c" using fewer P by blast
    obtain c2 r where r: "h3_recv_body A c1 sid 8192 = (c2, r)" by (cases "h3_recv_body A c1 sid 8192")
    have r2: "rank c2 < rank c" using reads r1 r by (metis fst_conv le_less_trans)
    show ?thesis using P r less [OF r1] less [OF r2]
      by (subst poll_events.simps) (simp split: sum.split)
  qed
qed

lemma poll_loop_returns:
  assumes "\<forall>c c1 i e. h3_conn_poll A c = Some (c1, i, e) \<longrightarrow> rank c1 < (rank c :: nat)"
    and "\<forall>c k. rank (fst (h3_recv_body A c sid k)) \<le> rank c"
    and "timed_out clock timeout_ms start (n + k)"
  shows "\<exists>y. mcp_poll_loop A clock sid timeout_ms start n c body = Some y"
  using assms(3)
proof (induction k arbitrary: n c body)
  case 0
  then show ?case by (subst mcp_poll_loop.simps) simp
next
  case (Suc k)
  obtain c1 body1 r where pe: "poll_events A sid c body = Some (c1, body1, r)"
    using poll_events_returns [OF assms(1,2), of c body] by (metis prod_cases3)
  have "\<exists>y. mcp_poll_loop A clock sid timeout_ms start (n + 1) c1 body1 = Some y"
    using Suc by simp
  then show ?case using pe by (subst mcp_poll_loop.simps) (simp split: option.split)
qed

text \<open>
  C20: A request with a positive time limit returns: when quiche reports finitely many events for
  what has arrived and the clock passes the limit in some round, the wait ends with a result.
\<close>

theorem mcp_wait_returns:
  assumes "\<forall>c c1 i e. h3_conn_poll A c = Some (c1, i, e) \<longrightarrow> rank c1 < (rank c :: nat)"
    and "\<forall>c k. rank (fst (h3_recv_body A c sid k)) \<le> rank c"
    and "0 < sint timeout_ms" and "clock (n + 1) * 1000 - clock 0 * 1000 > sint timeout_ms"
  shows "\<exists>y. mcp_poll_for_response A clock sid timeout_ms c = Some y"
  unfolding mcp_poll_for_response_def
  using assms(3,4) by (intro poll_loop_returns [OF assms(1,2), of clock timeout_ms _ 1 n]) (simp add: timed_out_def)

definition queue_rank :: "(u64 \<times> h3_event_type \<times> string) list \<Rightarrow> nat" where
  "queue_rank c = sum_list (map (\<lambda>(i, e, d). if e = Ev_Data then 2 else 1) c)"

lemma queue_rank_poll: "h3_conn_poll queue_api c = Some (c1, i, e) \<longrightarrow> queue_rank c1 < queue_rank c"
  by (auto simp: queue_api_def queue_rank_def split: list.splits if_splits)

lemma queue_rank_recv: "queue_rank (fst (h3_recv_body queue_api c sid k)) \<le> queue_rank c"
  by (auto simp: queue_api_def queue_rank_def split: list.splits)

theorem mcp_wait_returns_witness:
  "\<exists>y. mcp_poll_for_response queue_api int 4 5000 [(8, Ev_Headers, [])] = Some y"
  using mcp_wait_returns [of queue_api queue_rank 4 5000 int 5 "[(8, Ev_Headers, [])]"]
    queue_rank_poll queue_rank_recv by simp

lemma idle_loop_open:
  "mcp_poll_loop A clock sid timeout_ms start n c body = Some y \<Longrightarrow>
     h3_conn_poll A c = None \<Longrightarrow> \<not> conn_closed A c \<Longrightarrow> 0 < sint timeout_ms \<and> y = (c, Fail Timed_Out)"
proof (induction rule: mcp_poll_loop.raw_induct [rotated, consumes 1, case_names step])
  case (step pl A clock sid timeout_ms start n c body y)
  show ?case
  proof (cases "timed_out clock timeout_ms start n")
    case True
    then show ?thesis using step(2) by (auto simp: timed_out_def)
  next
    case False
    then have "pl A clock sid timeout_ms start (n + 1) c body = Some y"
      using step(2-4) poll_events_idle [of A c sid body] by simp
    then show ?thesis using step(1,3,4) by blast
  qed
qed

text \<open>
  C36: The wait for a response neither sends nor receives packets.  When quiche has no event for
  what has arrived so far and the connection is open, a wait that returns has timed out, and one
  without a positive limit never returns.
\<close>

theorem mcp_wait_without_io:
  assumes "h3_conn_poll A c = None" and "\<not> conn_closed A c"
  shows "mcp_poll_for_response A clock sid timeout_ms c \<in> {None, Some (c, Fail Timed_Out)}
    \<and> (sint timeout_ms \<le> 0 \<longrightarrow> mcp_poll_for_response A clock sid timeout_ms c = None)"
  using idle_loop_open [OF _ assms, of clock sid timeout_ms "clock 0 * 1000" 1 "[]"]
  unfolding mcp_poll_for_response_def
  by (cases "mcp_poll_loop A clock sid timeout_ms (clock 0 * 1000) 1 c []") auto

theorem mcp_wait_without_io_witness:
  "h3_conn_poll queue_api [] = None \<and> mcp_poll_for_response queue_api int 4 0 [] = None"
  using mcp_wait_without_io [of queue_api "[]" int 4 0] by (simp add: queue_api_def)

text \<open>
  Every session that \<^verbatim>\<open>quicpro_mcp_connect\<close> returns holds two constants in place of its connection,
  so that any request on it and closing it use an invalid pointer.
\<close>

theorem mcp_connect_wild:
  assumes "quicpro_mcp_connect cfg h = Ok (s, cfg')"
  shows "quicpro_mcp_request A clock (Some s) service meth payload opts = Some (Some s, Fail Wild_Pointer)
    \<and> quicpro_mcp_close A (Some s) = Fail Wild_Pointer"
  using assms by (auto simp: quicpro_mcp_connect_def quicpro_mcp_request_def quicpro_mcp_close_def
      split: option.splits if_splits)

theorem mcp_connect_wild_witness:
  "\<exists>s cfg'. quicpro_mcp_connect (Some \<lparr>has_cfg = True, frozen = False\<rparr>) ''agent'' = Ok (s, cfg')
     \<and> quicpro_mcp_close queue_api (Some s) = Fail Wild_Pointer"
proof -
  let ?s = "\<lparr>mcp_host = ''agent'', mcp_conn = Constant_Ptr 0xDEADBEEF, mcp_h3 = Constant_Ptr 0xCAFEBABE\<rparr>
    :: (u64 \<times> h3_event_type \<times> string) list mcp_session"
  have s: "quicpro_mcp_connect (Some \<lparr>has_cfg = True, frozen = False\<rparr>) ''agent''
      = Ok (?s, \<lparr>has_cfg = True, frozen = True\<rparr>)"
    by (simp add: quicpro_mcp_connect_def)
  show ?thesis
    using mcp_connect_wild [OF s, of queue_api int "''a''" "''b''" "''c''" None]
    by (intro exI conjI) (rule s, rule conjunct2)
qed

text \<open>
  The path of a request is sent as it is exactly when it has at most 255 characters; one more
  and its last character is sent as a NUL, and beyond that the code reads past its buffer.
\<close>

theorem path_header_exact:
  "(path_header service meth = Ok (request_path service meth) \<longleftrightarrow> length (request_path service meth) \<le> 255)
   \<and> (path_header service meth = Fail Path_Over_Read \<longleftrightarrow> 256 < length (request_path service meth))"
proof -
  have "CHR 0x00 \<notin> set (request_path service meth)"
    by (auto simp: request_path_def cstr_def dest: set_takeWhileD)
  then have "take 255 (request_path service meth) @ [CHR 0x00] \<noteq> request_path service meth"
    by (metis in_set_conv_decomp)
  then show ?thesis
    by (cases "length (request_path service meth) = 256") (auto simp: path_header_def Let_def)
qed

end
