(* ===== verification/Config_Object.thy ===== *)
theory Config_Object
  imports Zend Ledger
begin

text \<open>
  The configuration object of a session, \<^verbatim>\<open>src/extension/src/config/config.c\<close>: its modules, the tiers of values
  that are applied one after the other, the override policy, freezing and releasing.  The functions
  of the modules that this file calls are not part of the sources and are arguments; \<open>'d\<close> is the
  data of a module and \<open>'q\<close> the configuration of quiche.
\<close>

section \<open>Modules\<close>

datatype cfg_module =
    App_Protocols | Bare_Metal | Autoscale | Cluster_Module | Admin_Module | Compute_Ai | Serialization
  | Mcp_Module | Cdn | Storage | Observability | Quic | Router | Security | Smart_Contract | Dns | Ssh
  | State_Module | Tcp | Tls

record ('d, 'q) module_api =
  mod_init :: "cfg_module \<Rightarrow> 'd"
  mod_apply_defaults :: "cfg_module \<Rightarrow> 'd \<Rightarrow> 'd"
  mod_apply_ini :: "cfg_module \<Rightarrow> 'd \<Rightarrow> 'd"
  mod_parse_options :: "cfg_module \<Rightarrow> php_array \<Rightarrow> 'd \<Rightarrow> 'd"
  mod_finalize :: "cfg_module \<Rightarrow> 'd \<Rightarrow> 'q \<Rightarrow> 'q"
  mod_allow_config_override :: "'d \<Rightarrow> bool"
  quiche_config_new :: 'q

record ('d, 'q) quicpro_cfg_t =
  q_cfg :: 'q
  cfg_frozen :: bool
  cfg_modules :: "cfg_module \<Rightarrow> 'd"

datatype cfg_resource = Cfg_Mem | Quiche_Config | Module_Data cfg_module

text \<open>The order in which the lists of calls name the modules.\<close>

definition cfg_order :: "cfg_module list" where
  "cfg_order =
     [App_Protocols, Bare_Metal, Autoscale, Cluster_Module, Admin_Module, Compute_Ai, Serialization,
      Mcp_Module, Cdn, Storage, Observability, Quic, Router, Security, Smart_Contract, Dns, Ssh,
      State_Module, Tcp, Tls]"

definition on_module ::
    "(cfg_module \<Rightarrow> 'd \<Rightarrow> 'd) \<Rightarrow> cfg_module \<Rightarrow> ('d, 'q) quicpro_cfg_t \<Rightarrow> ('d, 'q) quicpro_cfg_t" where
  "on_module f m c = c\<lparr>cfg_modules := (cfg_modules c)(m := f m (cfg_modules c m))\<rparr>"

section \<open>The lists of calls\<close>

definition quicpro_config_init_all_modules ::
    "('d, 'q) module_api \<Rightarrow> ('d, 'q) quicpro_cfg_t \<Rightarrow> ('d, 'q) quicpro_cfg_t" where
  "quicpro_config_init_all_modules A c = fold (on_module (\<lambda>m _. mod_init A m)) cfg_order c"

definition quicpro_config_apply_defaults ::
    "('d, 'q) module_api \<Rightarrow> ('d, 'q) quicpro_cfg_t \<Rightarrow> ('d, 'q) quicpro_cfg_t" where
  "quicpro_config_apply_defaults A c = fold (on_module (mod_apply_defaults A)) cfg_order c"

definition quicpro_config_apply_ini_settings ::
    "('d, 'q) module_api \<Rightarrow> ('d, 'q) quicpro_cfg_t \<Rightarrow> ('d, 'q) quicpro_cfg_t" where
  "quicpro_config_apply_ini_settings A c = fold (on_module (mod_apply_ini A)) cfg_order c"

text \<open>The list of the userland options leaves the security module out.\<close>

definition option_modules :: "cfg_module list" where
  "option_modules =
     [App_Protocols, Bare_Metal, Autoscale, Cluster_Module, Admin_Module, Compute_Ai, Serialization,
      Mcp_Module, Cdn, Storage, Observability, Quic, Router, Smart_Contract, Dns, Ssh,
      State_Module, Tcp, Tls]"

definition quicpro_config_apply_php_options ::
    "('d, 'q) module_api \<Rightarrow> php_array \<Rightarrow> ('d, 'q) quicpro_cfg_t \<Rightarrow> ('d, 'q) quicpro_cfg_t" where
  "quicpro_config_apply_php_options A ht_opts c = fold (on_module (\<lambda>m. mod_parse_options A m ht_opts)) option_modules c"

definition quicpro_config_finalize_and_build ::
    "('d, 'q) module_api \<Rightarrow> ('d, 'q) quicpro_cfg_t \<Rightarrow> ('d, 'q) quicpro_cfg_t" where
  "quicpro_config_finalize_and_build A c =
     fold (\<lambda>m c. c\<lparr>q_cfg := mod_finalize A m (cfg_modules c m) (q_cfg c)\<rparr>) [Tls, Quic, App_Protocols] c"

text \<open>Initialising a module is taken to allocate what its destructor releases.\<close>

definition init_events :: "cfg_resource event list" where
  "init_events = [Acquire Cfg_Mem, Acquire Quiche_Config] @ map (\<lambda>m. Acquire (Module_Data m)) cfg_order"

definition quicpro_config_free :: "('d, 'q) quicpro_cfg_t option \<Rightarrow> cfg_resource event list" where
  "quicpro_config_free cfg =
     (case cfg of
        None \<Rightarrow> []
      | Some c \<Rightarrow> [Release Quiche_Config] @ map (\<lambda>m. Release (Module_Data m)) cfg_order @ [Release Cfg_Mem])"

definition quicpro_config_mark_frozen :: "('d, 'q) quicpro_cfg_t option \<Rightarrow> ('d, 'q) quicpro_cfg_t option" where
  "quicpro_config_mark_frozen cfg = map_option (\<lambda>c. c\<lparr>cfg_frozen := True\<rparr>) cfg"

section \<open>Creating a configuration\<close>

text \<open>The first three tiers.\<close>

definition system_config :: "('d, 'q) module_api \<Rightarrow> ('d, 'q) quicpro_cfg_t" where
  "system_config A =
     quicpro_config_apply_ini_settings A (quicpro_config_apply_defaults A (quicpro_config_init_all_modules A
       \<lparr>q_cfg = quiche_config_new A, cfg_frozen = False, cfg_modules = mod_init A\<rparr>))"

text \<open>None is the exception for a violation of the policy.\<close>

definition quicpro_config_new_from_options ::
    "('d, 'q) module_api \<Rightarrow> zval option \<Rightarrow> ('d, 'q) quicpro_cfg_t option \<times> cfg_resource event list" where
  "quicpro_config_new_from_options A zopts =
     (case zopts of
        Some (Z_Array opts) \<Rightarrow>
          (let c = on_module (\<lambda>m. mod_parse_options A m opts) Security
                     (on_module (mod_apply_ini A) Security (system_config A))
           in if \<not> mod_allow_config_override A (cfg_modules c Security) \<and> opts \<noteq> []
              then (None, init_events @ quicpro_config_free (Some c))
              else (Some (quicpro_config_finalize_and_build A (quicpro_config_apply_php_options A opts c)), init_events))
      | _ \<Rightarrow> (Some (quicpro_config_finalize_and_build A (system_config A)), init_events))"

definition quicpro_new_config ::
    "('d, 'q) module_api \<Rightarrow> php_array option \<Rightarrow> ('d, 'q) quicpro_cfg_t option \<times> cfg_resource event list" where
  "quicpro_new_config A zopts = quicpro_config_new_from_options A (map_option Z_Array zopts)"

section \<open>The tiers of a module\<close>

lemma fold_on_module:
  "distinct ms \<Longrightarrow> cfg_modules (fold (on_module f) ms c) m
     = (if m \<in> set ms then f m (cfg_modules c m) else cfg_modules c m)"
  by (induction ms arbitrary: c) (auto simp: on_module_def)

lemma fold_on_module_rest [simp]:
  "q_cfg (fold (on_module f) ms c) = q_cfg c \<and> cfg_frozen (fold (on_module f) ms c) = cfg_frozen c"
  by (induction ms arbitrary: c) (simp_all add: on_module_def)

lemma cfg_order_all: "distinct cfg_order" "m \<in> set cfg_order"
  by (simp add: cfg_order_def, cases m, simp_all add: cfg_order_def)

lemma option_modules_all: "distinct option_modules" "m \<in> set option_modules \<longleftrightarrow> m \<noteq> Security"
  by (simp add: option_modules_def, cases m, simp_all add: option_modules_def)

lemma finalize_rest:
  "cfg_modules (quicpro_config_finalize_and_build A c) = cfg_modules c"
  "cfg_frozen (quicpro_config_finalize_and_build A c) = cfg_frozen c"
  by (simp_all add: quicpro_config_finalize_and_build_def)

lemma finalize_q:
  "q_cfg (quicpro_config_finalize_and_build A c) = mod_finalize A App_Protocols (cfg_modules c App_Protocols)
     (mod_finalize A Quic (cfg_modules c Quic) (mod_finalize A Tls (cfg_modules c Tls) (q_cfg c)))"
  by (simp add: quicpro_config_finalize_and_build_def)

definition system_tier :: "('d, 'q) module_api \<Rightarrow> cfg_module \<Rightarrow> 'd" where
  "system_tier A m = mod_apply_ini A m (mod_apply_defaults A m (mod_init A m))"

lemma system_config_modules: "cfg_modules (system_config A) m = system_tier A m"
  by (simp add: system_config_def system_tier_def quicpro_config_apply_ini_settings_def
      quicpro_config_apply_defaults_def quicpro_config_init_all_modules_def fold_on_module cfg_order_all)

text \<open>The data of a module once userland options are applied; security has its directives twice.\<close>

definition user_tier :: "('d, 'q) module_api \<Rightarrow> php_array \<Rightarrow> cfg_module \<Rightarrow> 'd" where
  "user_tier A opts m =
     mod_parse_options A m opts (if m = Security then mod_apply_ini A m (system_tier A m) else system_tier A m)"


text \<open>
  Nothing is leaked or freed twice: a refused configuration has been given back, and a created one
  owns its memory until it is released.
\<close>

theorem config_owned:
  "case quicpro_new_config A zopts of
     (None, evs) \<Rightarrow> ledger evs {#} = Some {#}
   | (Some c, evs) \<Rightarrow> ledger (evs @ quicpro_config_free (quicpro_config_mark_frozen (Some c))) {#} = Some {#}"
  by (simp add: quicpro_new_config_def quicpro_config_new_from_options_def quicpro_config_free_def init_events_def
      quicpro_config_mark_frozen_def cfg_order_def Let_def split: option.split)

end
