(* ===== verification/Spec2Isabelle.thy ===== *)
theory Spec2Isabelle
  imports
    IIBIN_Safety
    Config_Properties
    Cluster_Properties
    Pipeline
    Websocket
    Cors
    Server_Streams
    Http_Client
    Session_Objects
    Poll
    Http1_Server
    Http2_Server
    Admin_Api
    Mcp
    Config_Object
begin

text \<open>
  Verification of the quicpro_async extension, a PHP extension in C under \<^verbatim>\<open>src/extension\<close>.  This
  theory imports the whole development; each theory opens with what it holds.

  \<^bold>\<open>The program and its model.\<close>

  \<^item> \<^emph>\<open>Shared vocabulary.\<close>  \<^theory_text>\<open>Prelude\<close> has machine integers as words, outcomes (result, failure,
    non-termination), C strings, the insertion-ordered hash tables of the engine and the locale
    \<^theory_text>\<open>step_system\<close> that turns an invariant kept by every step into one of every reachable state.
    \<^theory_text>\<open>Memory\<close> is the address space of the decoder, \<^theory_text>\<open>Zend\<close> the values of PHP and, as the record
    \<^theory_text>\<open>zend_api\<close>, the functions of the engine the code calls, which every definition using them
    takes as an argument.  \<^theory_text>\<open>C_Strings\<close> has the parts of the C library the validators use.

  \<^item> \<^emph>\<open>IIBIN serializer\<close> (\<^verbatim>\<open>src/iibin\<close>, \<^verbatim>\<open>include/iibin\<close>).  \<^theory_text>\<open>IIBIN_Wire\<close> has the varint, fixed-width and
    zigzag codecs; decoders read from memory and are shown to refine parsers over byte lists,
    which invert the encoders (locale \<^theory_text>\<open>wire_codec\<close>).  \<^theory_text>\<open>IIBIN_Schema\<close> has the registries with schema
    and enum definition, their errors and the invariant of every reachable registry;
    \<^theory_text>\<open>Float_Bits\<close> the conversions between float widths; \<^theory_text>\<open>IIBIN_Encode\<close> and \<^theory_text>\<open>IIBIN_Decode\<close> the two
    directions, the decoder at the level of wrapping pointers.  \<^theory_text>\<open>IIBIN_Roundtrip\<close> shows that the encoder
    terminates and that decoding inverts it, \<^theory_text>\<open>IIBIN_Safety\<close> what decoding does on arbitrary
    bytes, including the inputs on which it loops or leaves its buffer.

  \<^item> \<^emph>\<open>Configuration\<close> (\<^verbatim>\<open>src/config\<close>, \<^verbatim>\<open>src/validation\<close>, \<^verbatim>\<open>src/quicpro_init.c\<close>).  \<^theory_text>\<open>Validators\<close> has every
    parameter validator, with strings as pointers that remember their allocator, so that a wrong
    \<^verbatim>\<open>free\<close> is visible; \<^theory_text>\<open>Validator_Specs\<close> says exactly what the structured ones accept.  \<^theory_text>\<open>Config_Base\<close>
    has the loop over a userland array, the registration of directives and the locale
    \<^theory_text>\<open>config_module\<close>, the contract of a module: defaults, INI handlers and userland keys keep an
    invariant.  Each of the 22 modules has its own theory (structure, defaults, keys, handlers,
    directives, initialisation) and interprets the locale.  \<^theory_text>\<open>Quicpro_Init\<close> composes them in the
    order of the dispatcher and states what holds of every reachable configuration;
    \<^theory_text>\<open>Config_Properties\<close> has the properties of single modules: partial application of refused
    arrays, protection of the policy flags, agreement of both kinds of defaults, ownership of
    strings.

  \<^item> \<^emph>\<open>Process supervisor\<close> (\<^verbatim>\<open>src/cluster\<close>).  \<^theory_text>\<open>Cluster\<close> models options, start, supervision, shutdown and
    the set-up of a worker, with the answers of the system as inputs and what the master does as
    actions; \<^theory_text>\<open>Cluster_Properties\<close> proves the invariant of the pool, that it stays full, that the
    shutdown ends and leaves no worker, the dropping of privileges, and what is wrong with reloads.

  \<^item> \<^emph>\<open>Pipeline orchestrator\<close> (\<^verbatim>\<open>src/pipeline_orchestrator\<close>).  \<^theory_text>\<open>Tool_Registry\<close> parses and keeps tool
    handlers, \<^theory_text>\<open>Pipeline\<close> runs steps against them.

  \<^item> \<^emph>\<open>Server\<close> (\<^verbatim>\<open>src/server\<close>).  \<^theory_text>\<open>Websocket\<close> has the framing and the send function, \<^theory_text>\<open>Cors\<close> the origin
    policy and its connection with the validator that lets a policy into the configuration, and
    \<^theory_text>\<open>Server_Streams\<close> the cancellation handlers with their reference counts and early hints.

  \<^item> \<^emph>\<open>Connections\<close> (\<^verbatim>\<open>src/client\<close>, \<^verbatim>\<open>src/connect\<close>, \<^verbatim>\<open>src/poll\<close>, \<^verbatim>\<open>src/mcp\<close>, \<^verbatim>\<open>src/http_client\<close>).  quiche is the record
    \<^theory_text>\<open>quiche_api\<close> of functions on an abstract connection, which every definition using it takes as an
    argument.  \<^theory_text>\<open>Ledger\<close> turns what a run acquires and releases into what it holds, None for a double
    free, and \<^theory_text>\<open>Address_Search\<close> has the loops over the addresses of a host with a locale for their
    contract.  \<^theory_text>\<open>Client_Session\<close> connects, ticks and closes; \<^theory_text>\<open>Session_Objects\<close> has the older connect
    function and the session objects, \<^theory_text>\<open>Poll\<close> the polling loop, tickets and TLS paths, \<^theory_text>\<open>Mcp\<close> requests
    and the wait for a response, and \<^theory_text>\<open>Http_Client\<close> the requests as calls of libcurl and the parser of
    response headers.  Shown are the ownership of every resource on every path, termination of the
    loops, exactness of what is sent and parsed, and what goes wrong.  \<^theory_text>\<open>Number_Text\<close> has decimal texts.

  \<^item> \<^emph>\<open>Listeners\<close> (\<^verbatim>\<open>src/server\<close>).  \<^theory_text>\<open>Http1_Server\<close> is the state machine of a connection with an invariant of
    every reachable state, \<^theory_text>\<open>Http2_Server\<close> the callbacks of nghttp2 and the delivery of bodies,
    \<^theory_text>\<open>Quic_Server\<close> creation, routing and the event loop of the QUIC and HTTP/3 servers, and \<^theory_text>\<open>Admin_Api\<close> the
    administration interface with its mutual TLS.

  \<^item> \<^emph>\<open>Session configuration\<close> (\<^verbatim>\<open>src/config/config.c\<close>).  \<^theory_text>\<open>Config_Object\<close> has the tiers of a configuration
    object and its override policy, over the functions of the modules as arguments.

  \<^bold>\<open>Bounds and fuel.\<close>  Word types have the widths of the C types.  The varint loops carry their ten
  iterations.  The decoder and the encoder take fuel for their recursion and their field loop, and
  run out of it as \<^theory_text>\<open>Diverge\<close>: the termination theorems show that as much fuel as there are
  defined schemas is enough for the encoder, and more than the input length for the decoder
  where it terminates; the loop theorem shows that no fuel is enough on the bad input.  INI
  handlers that call themselves are partial functions whose value None, never returning, becomes
  \<^theory_text>\<open>Diverge\<close>.  The supervision and shutdown loops run on lists of inputs and give None while these
  end before the loop does; so do the event loops of the servers.  The loops of the client that ask
  quiche for packets or events are partial functions, with None for never returning; they are
  shown to return when every packet or event leaves fewer of them.

  \<^bold>\<open>Not modelled.\<close>  Sockets, epoll, clocks, OpenSSL, libcurl, nghttp2 and quiche are arguments: their
  calls appear with their results, not with their inner workings, and the set-up of the listening
  socket of the HTTP/1.1 server is elided in the source.  The other files of \<^verbatim>\<open>src/client\<close> hold
  declarations only or are empty, as is the telemetry of the server.  The class registration of the
  serializer and the directives of \<^verbatim>\<open>src/config/quicpro_ini.c\<close> are not modelled.  Argument parsing, class registration and module tables of the PHP
  interface, and the mutexes around the registries, are left out.
\<close>

end
